(* ===== verification/Prelude.thy ===== *)
theory Prelude
  imports Main "HOL-Library.Word"
begin

text \<open>
  The vocabulary every component of the development shares: the fixed-width integer types of
  \<^verbatim>\<open>bpf/include/types.h\<close>, the byte order a BPF object is compiled for, the view of a byte list
  as memory (reading and overwriting a range, encoding and decoding an unsigned integer in either
  byte order), and the named collections of facts that carry the component proofs.
\<close>

unbundle bit_operations_syntax

named_theorems bytes_simps \<open>reading and writing ranges of byte lists\<close>
named_theorems const_defs \<open>the numeric constants of the C sources\<close>
named_theorems prog_defs \<open>the definitions of the programs and their helper functions\<close>

section \<open>Fixed-width integers\<close>

text \<open>The typedefs of \<^verbatim>\<open>types.h\<close>; the big-endian and checksum types are plain aliases there too.\<close>

type_synonym u8 = "8 word"
type_synonym u16 = "16 word"
type_synonym u32 = "32 word"
type_synonym u64 = "64 word"
type_synonym be16 = u16
type_synonym be32 = u32
type_synonym byte = u8

text \<open>
  The two targets \<^verbatim>\<open>bpf2go\<close> compiles every program for: \<^verbatim>\<open>bpfel\<close> and \<^verbatim>\<open>bpfeb\<close>
  (\<^verbatim>\<open>__BYTE_ORDER__\<close> of the compiler).
\<close>

datatype byte_order = LE | BE

section \<open>Ranges of lists\<close>

definition read_at :: "nat \<Rightarrow> nat \<Rightarrow> 'a list \<Rightarrow> 'a list" where
  "read_at off n xs = take n (drop off xs)"

definition write_at :: "nat \<Rightarrow> 'a list \<Rightarrow> 'a list \<Rightarrow> 'a list" where
  "write_at off ys xs = take off xs @ ys @ drop (off + length ys) xs"

lemma length_read_at [simp, bytes_simps]: "length (read_at off n xs) = min n (length xs - off)"
  by (simp add: read_at_def)

lemma length_write_at [simp, bytes_simps]:
  "off + length ys \<le> length xs \<Longrightarrow> length (write_at off ys xs) = length xs"
  by (simp add: write_at_def)

lemma nth_write_at:
  "off + length ys \<le> length xs \<Longrightarrow> i < length xs \<Longrightarrow>
   write_at off ys xs ! i = (if off \<le> i \<and> i < off + length ys then ys ! (i - off) else xs ! i)"
  by (auto simp: write_at_def nth_append min_def)

lemma nth_read_at:
  "i < n \<Longrightarrow> off + n \<le> length xs \<Longrightarrow> read_at off n xs ! i = xs ! (off + i)"
  by (simp add: read_at_def)

lemma read_at_byte [simp]: "off < length xs \<Longrightarrow> read_at off (Suc 0) xs ! 0 = xs ! off"
  by (simp add: nth_read_at)

lemma read_at_eqI:
  assumes "off + n \<le> length xs" "off + n \<le> length ys"
    and "\<And>i. off \<le> i \<Longrightarrow> i < off + n \<Longrightarrow> xs ! i = ys ! i"
  shows "read_at off n xs = read_at off n ys"
  using assms by (intro nth_equalityI) (auto simp: nth_read_at)

text \<open>Reading back what was written, and reading beside it.\<close>

lemma read_write_same [simp, bytes_simps]:
  "off + length ys \<le> length xs \<Longrightarrow> n = length ys \<Longrightarrow> read_at off n (write_at off ys xs) = ys"
  by (simp add: read_at_def write_at_def)

lemma read_write_before [simp, bytes_simps]:
  "o1 + n \<le> off \<Longrightarrow> off + length ys \<le> length xs \<Longrightarrow>
   read_at o1 n (write_at off ys xs) = read_at o1 n xs"
  by (rule read_at_eqI) (auto simp: nth_write_at)

lemma read_write_after [simp, bytes_simps]:
  "off + length ys \<le> o1 \<Longrightarrow> o1 + n \<le> length xs \<Longrightarrow> off + length ys \<le> length xs \<Longrightarrow>
   read_at o1 n (write_at off ys xs) = read_at o1 n xs"
  by (rule read_at_eqI) (auto simp: nth_write_at)

lemma read_write_inside:
  assumes "off \<le> o1" "off + length ys \<le> length xs" "o1 + n \<le> off + length ys"
  shows "read_at o1 n (write_at off ys xs) = read_at (o1 - off) n ys"
  using assms by (intro nth_equalityI) (auto simp: nth_read_at nth_write_at)

text \<open>A write inside a range that is then read is a write into what was read.\<close>

lemma read_write_within:
  assumes "o1 \<le> off" "off + length ys \<le> o1 + n" "o1 + n \<le> length xs"
  shows "read_at o1 n (write_at off ys xs) = write_at (off - o1) ys (read_at o1 n xs)"
  using assms by (intro nth_equalityI) (auto simp: nth_read_at nth_write_at add.commute)

lemma read_read [simp]: "o2 + n \<le> m \<Longrightarrow> read_at o2 n (read_at o1 m xs) = read_at (o1 + o2) n xs"
  by (simp add: read_at_def drop_take min_def add.commute)

lemma write_read_id [simp]: "off + n \<le> length xs \<Longrightarrow> write_at off (read_at off n xs) xs = xs"
  by (intro nth_equalityI) (auto simp: nth_write_at nth_read_at)

lemma write_write_same [simp]:
  "length ys = length zs \<Longrightarrow> off + length ys \<le> length xs \<Longrightarrow>
   write_at off zs (write_at off ys xs) = write_at off zs xs"
  by (intro nth_equalityI) (auto simp: nth_write_at)

lemma write_commute:
  assumes "o1 + length ys \<le> o2" "o2 + length zs \<le> length xs"
  shows "write_at o2 zs (write_at o1 ys xs) = write_at o1 ys (write_at o2 zs xs)"
  using assms by (intro nth_equalityI) (auto simp: nth_write_at)

lemma read_at_split:
  "read_at off (m + n) xs = read_at off m xs @ read_at (off + m) n xs"
  by (simp add: read_at_def take_add add.commute)

lemma read_at_all [simp]: "n = length xs \<Longrightarrow> read_at 0 n xs = xs"
  by (simp add: read_at_def)

section \<open>Unsigned integers in memory\<close>

fun le_nat :: "byte list \<Rightarrow> nat" where
  "le_nat [] = 0"
| "le_nat (b # bs) = unat b + 256 * le_nat bs"

fun nat_le :: "nat \<Rightarrow> nat \<Rightarrow> byte list" where
  "nat_le 0 v = []"
| "nat_le (Suc n) v = of_nat (v mod 256) # nat_le n (v div 256)"

definition mem_nat :: "byte_order \<Rightarrow> byte list \<Rightarrow> nat" where
  "mem_nat bo bs = (case bo of LE \<Rightarrow> le_nat bs | BE \<Rightarrow> le_nat (rev bs))"

definition mem_bytes :: "byte_order \<Rightarrow> nat \<Rightarrow> nat \<Rightarrow> byte list" where
  "mem_bytes bo n v = (case bo of LE \<Rightarrow> nat_le n v | BE \<Rightarrow> rev (nat_le n v))"

lemma length_nat_le [simp]: "length (nat_le n v) = n"
  by (induction n arbitrary: v) auto

lemma length_mem_bytes [simp]: "length (mem_bytes bo n v) = n"
  by (simp add: mem_bytes_def split: byte_order.split)

lemma unat_byte_lt [simp]: "unat (b :: byte) < 256"
  using unsigned_less [of b, where 'a = nat] by simp

lemma le_nat_less: "le_nat bs < 256 ^ length bs"
proof (induction bs)
  case (Cons b bs)
  have "unat b < 256" by simp
  moreover have "le_nat bs + 1 \<le> 256 ^ length bs" using Cons.IH by simp
  ultimately have "unat b + 256 * le_nat bs < 256 * 256 ^ length bs" by linarith
  then show ?case by simp
qed simp

lemma mem_nat_less: "mem_nat bo bs < 256 ^ length bs"
  using le_nat_less [of bs] le_nat_less [of "rev bs"]
  by (simp add: mem_nat_def split: byte_order.split)

lemma le_nat_nat_le: "le_nat (nat_le n v) = v mod 256 ^ n"
proof (induction n arbitrary: v)
  case (Suc n)
  have "v mod (256 * 256 ^ n) = v mod 256 + 256 * (v div 256 mod 256 ^ n)"
    by (simp add: mod_mult2_eq)
  with Suc show ?case by (simp add: unat_of_nat)
qed simp

lemma nat_le_le_nat: "n = length bs \<Longrightarrow> nat_le n (le_nat bs) = bs"
proof (induction bs arbitrary: n)
  case (Cons b bs)
  have "(unat b + 256 * le_nat bs) mod 256 = unat b" by (simp add: mod_less)
  moreover have "(unat b + 256 * le_nat bs) div 256 = le_nat bs" by (simp add: div_less)
  ultimately show ?case using Cons by simp
qed simp

lemma mem_nat_mem_bytes: "mem_nat bo (mem_bytes bo n v) = v mod 256 ^ n"
  by (simp add: mem_nat_def mem_bytes_def le_nat_nat_le split: byte_order.split)

lemma mem_bytes_mem_nat: "n = length bs \<Longrightarrow> mem_bytes bo n (mem_nat bo bs) = bs"
  using nat_le_le_nat [of n bs] nat_le_le_nat [of n "rev bs"]
  by (simp add: mem_nat_def mem_bytes_def split: byte_order.split)

lemma le_nat_append: "le_nat (xs @ ys) = le_nat xs + 256 ^ length xs * le_nat ys"
  by (induction xs) (simp_all add: algebra_simps)

text \<open>
  Loading a C object of 2, 4 or 8 bytes from memory and the memory image of one, on a machine of
  the given byte order. A longer buffer keeps the value's width: the types of the C objects bound it.
\<close>

definition load16 :: "byte_order \<Rightarrow> byte list \<Rightarrow> u16" where
  "load16 bo bs = of_nat (mem_nat bo (take 2 bs))"

definition load32 :: "byte_order \<Rightarrow> byte list \<Rightarrow> u32" where
  "load32 bo bs = of_nat (mem_nat bo (take 4 bs))"

definition load64 :: "byte_order \<Rightarrow> byte list \<Rightarrow> u64" where
  "load64 bo bs = of_nat (mem_nat bo (take 8 bs))"

definition store16 :: "byte_order \<Rightarrow> u16 \<Rightarrow> byte list" where
  "store16 bo w = mem_bytes bo 2 (unat w)"

definition store32 :: "byte_order \<Rightarrow> u32 \<Rightarrow> byte list" where
  "store32 bo w = mem_bytes bo 4 (unat w)"

definition store64 :: "byte_order \<Rightarrow> u64 \<Rightarrow> byte list" where
  "store64 bo w = mem_bytes bo 8 (unat w)"

lemma length_store [simp]:
  "length (store16 bo w) = 2" "length (store32 bo v) = 4" "length (store64 bo u) = 8"
  by (simp_all add: store16_def store32_def store64_def)

lemma load16_store16 [simp]: "load16 bo (store16 bo w) = w"
proof -
  have "unat w < 65536" using unsigned_less [of w, where 'a = nat] by simp
  then show ?thesis by (simp add: load16_def store16_def mem_nat_mem_bytes)
qed

lemma load32_store32 [simp]: "load32 bo (store32 bo w) = w"
proof -
  have "unat w < 4294967296" using unsigned_less [of w, where 'a = nat] by simp
  then show ?thesis by (simp add: load32_def store32_def mem_nat_mem_bytes)
qed

lemma load64_store64 [simp]: "load64 bo (store64 bo w) = w"
proof -
  have "unat w < 18446744073709551616" using unsigned_less [of w, where 'a = nat] by simp
  then show ?thesis by (simp add: load64_def store64_def mem_nat_mem_bytes)
qed

lemma unat_load16: "length bs = 2 \<Longrightarrow> unat (load16 bo bs) = mem_nat bo bs"
  using mem_nat_less [of bo bs] by (simp add: load16_def unat_of_nat)

lemma unat_load32: "length bs = 4 \<Longrightarrow> unat (load32 bo bs) = mem_nat bo bs"
  using mem_nat_less [of bo bs] by (simp add: load32_def unat_of_nat)

lemma store16_load16 [simp]: "length bs = 2 \<Longrightarrow> store16 bo (load16 bo bs) = bs"
  by (simp add: store16_def unat_load16 mem_bytes_mem_nat)

lemma store32_load32 [simp]: "length bs = 4 \<Longrightarrow> store32 bo (load32 bo bs) = bs"
  by (simp add: store32_def unat_load32 mem_bytes_mem_nat)

lemma store16_inj [simp]: "store16 bo v = store16 bo w \<longleftrightarrow> v = w"
  by (metis load16_store16)

lemma store32_inj [simp]: "store32 bo v = store32 bo w \<longleftrightarrow> v = w"
  by (metis load32_store32)

lemma load16_inj: "length bs = 2 \<Longrightarrow> length cs = 2 \<Longrightarrow> load16 bo bs = load16 bo cs \<longleftrightarrow> bs = cs"
  by (metis store16_load16)

section \<open>Memory images at the level of bits\<close>

lemma of_nat_le_nat_Cons:
  "(of_nat (le_nat (b # bs)) :: 'a::len word) = ucast b OR push_bit 8 (of_nat (le_nat bs))"
proof -
  have "(of_nat (le_nat (b # bs)) :: 'a word) = ucast b + push_bit 8 (of_nat (le_nat bs))"
    by (simp add: push_bit_eq_mult mult.commute)
  also have "\<dots> = ucast b OR push_bit 8 (of_nat (le_nat bs))"
    by (rule disjunctive_add) (auto simp: bit_simps dest: bit_imp_le_length)
  finally show ?thesis .
qed

lemma of_nat_unat_mod: "(of_nat (unat (w :: 'a::len word) mod 256) :: byte) = ucast w"
proof -
  have "unat w mod 256 = take_bit 8 (unat w)" by (simp add: take_bit_eq_mod)
  then show ?thesis by (simp add: bit_eq_iff bit_simps) 
qed

lemma unat_div_256: "unat (w :: 'a::len word) div 256 = unat (drop_bit 8 w)"
proof -
  have "unat (drop_bit 8 w) = drop_bit 8 (unat w)" by (rule unat_drop_bit_eq)
  then show ?thesis by (simp only: drop_bit_eq_div) simp
qed

lemma nat_le_Suc_unat:
  "nat_le (Suc n) (unat (w :: 'a::len word)) = ucast w # nat_le n (unat (drop_bit 8 w))"
  by (simp only: nat_le.simps of_nat_unat_mod unat_div_256)

lemma nat_le_unat:
  "nat_le (numeral k) (unat (w :: 'a::len word)) = ucast w # nat_le (pred_numeral k) (unat (drop_bit 8 w))"
  "nat_le (Suc 0) (unat w) = [ucast w]"
  by (simp only: numeral_eq_Suc [of k] nat_le_Suc_unat) (simp only: nat_le_Suc_unat nat_le.simps(1))

lemmas image_simps = nat_le_unat of_nat_le_nat_Cons push_bit_or drop_bit_drop_bit

text \<open>Widening and narrowing again.\<close>

lemma ucast_back [simp]:
  "(ucast (ucast (x :: u8) :: u32) :: u8) = x" "(ucast (ucast (y :: u32) :: u64) :: u32) = y"
  by (rule bit_word_eqI; auto simp: bit_simps dest: bit_imp_le_length)+

end
