(* ===== verification/Checksum.thy ===== *)
theory Checksum
  imports Prelude
begin

text \<open>
  The Internet checksum the protocols of the datapath carry, as the specification the programs are
  measured against: the sum of the 16-bit words of a byte sequence, folded with end-around carry, and
  the receiver's test that it is all ones. The lemmas give what the proofs about header rewriting
  need: the checksum of an overwritten sequence, that only the sum modulo $2^{16}-1$ matters, that a
  multi-byte field may be summed as one number, and that the test does not depend on byte order.
\<close>

section \<open>Definitions\<close>

fun csum :: "byte_order \<Rightarrow> byte list \<Rightarrow> nat" where
  "csum bo [] = 0"
| "csum bo [b] = mem_nat bo [b, 0]"
| "csum bo (a # b # bs) = mem_nat bo [a, b] + csum bo bs"

function csum_fold :: "nat \<Rightarrow> nat" where
  "csum_fold s = (if s < 65536 then s else csum_fold (s div 65536 + s mod 65536))"
  by pat_completeness auto
termination
proof (relation "measure id", simp)
  fix s :: nat
  assume "\<not> s < 65536"
  then have "0 < s div 65536" by (simp add: div_greater_zero_iff)
  then have "s div 65536 + s mod 65536 < s" using div_mult_mod_eq [of s 65536] by linarith
  then show "(s div 65536 + s mod 65536, s) \<in> measure id" by simp
qed

declare csum_fold.simps [simp del]

definition csum_ok :: "byte list \<Rightarrow> bool" where
  "csum_ok bs \<longleftrightarrow> csum_fold (csum BE bs) = 65535"

section \<open>Arithmetic modulo 65535\<close>

definition ceq :: "nat \<Rightarrow> nat \<Rightarrow> bool" where
  "ceq a b \<longleftrightarrow> a mod 65535 = b mod 65535"

lemma ceq_refl [simp]: "ceq a a"
  by (simp add: ceq_def)

lemma ceq_sym: "ceq a b \<Longrightarrow> ceq b a"
  by (simp add: ceq_def)

lemma ceq_trans [trans]: "ceq a b \<Longrightarrow> ceq b c \<Longrightarrow> ceq a c"
  by (simp add: ceq_def)

lemma ceq_add: "ceq a b \<Longrightarrow> ceq c d \<Longrightarrow> ceq (a + c) (b + d)"
  unfolding ceq_def by (rule mod_add_cong)

lemma ceq_int: "ceq a b \<longleftrightarrow> 65535 dvd (int a - int b)"
proof -
  have "ceq a b \<longleftrightarrow> int (a mod 65535) = int (b mod 65535)" by (simp add: ceq_def del: of_nat_mod)
  also have "\<dots> \<longleftrightarrow> int a mod 65535 = int b mod 65535" by (simp add: zmod_int)
  finally show ?thesis by (simp add: mod_eq_dvd_iff)
qed

lemma ceq_cancel: "ceq (a + c) (b + c) \<Longrightarrow> ceq a b"
  by (simp add: ceq_int)

text \<open>Exchanging one summand for another, twice.\<close>

lemma ceq_move:
  assumes "ceq (s' + x) (s + y)" "ceq (y + new) (x + old)"
  shows "ceq (s' + new) (s + old)"
proof -
  have "65535 dvd (int (s' + x) - int (s + y)) + (int (y + new) - int (x + old))"
    using assms unfolding ceq_int by (rule dvd_add)
  then show ?thesis unfolding ceq_int by (simp add: algebra_simps)
qed

section \<open>Folding keeps the sum modulo 65535\<close>

lemma split_mod_65535: "(s div 65536 + s mod 65536) mod 65535 = (s :: nat) mod 65535"
proof -
  have "s = s div 65536 * 65535 + (s div 65536 + s mod 65536)"
    using div_mult_mod_eq [of s 65536] by linarith
  then show ?thesis by (metis mod_mult_self3)
qed

lemma csum_fold_mod: "csum_fold s mod 65535 = s mod 65535"
proof (induction s rule: csum_fold.induct)
  case (1 s)
  then show ?case by (subst csum_fold.simps) (simp add: split_mod_65535)
qed

lemma csum_fold_less: "csum_fold s < 65536"
proof (induction s rule: csum_fold.induct)
  case (1 s)
  then show ?case by (subst csum_fold.simps) simp
qed

lemma csum_fold_pos: "0 < s \<Longrightarrow> 0 < csum_fold s"
proof (induction s rule: csum_fold.induct)
  case (1 s)
  have "s \<ge> 65536 \<Longrightarrow> 0 < s div 65536" by (simp add: div_greater_zero_iff)
  with 1 show ?case by (subst csum_fold.simps) auto
qed

lemma csum_fold_all_ones: "csum_fold s = 65535 \<longleftrightarrow> 0 < s \<and> s mod 65535 = 0"
proof
  assume "csum_fold s = 65535"
  then show "0 < s \<and> s mod 65535 = 0"
    using csum_fold_mod [of s] by (cases "s = 0") (auto simp: csum_fold.simps)
next
  assume s: "0 < s \<and> s mod 65535 = 0"
  then have "csum_fold s mod 65535 = 0" "0 < csum_fold s" "csum_fold s < 65536"
    by (simp_all add: csum_fold_mod csum_fold_pos csum_fold_less)
  then show "csum_fold s = 65535" by (auto simp: mod_eq_0_iff_dvd dvd_def)
qed

section \<open>Sums of concatenated and overwritten sequences\<close>

lemma csum_append: "even (length xs) \<Longrightarrow> csum bo (xs @ ys) = csum bo xs + csum bo ys"
  by (induction bo xs rule: csum.induct) auto

lemma csum_parts:
  assumes "even off" "off + n \<le> length xs" "even n"
  shows "csum bo xs = csum bo (take off xs) + csum bo (read_at off n xs) + csum bo (drop (off + n) xs)"
proof -
  have "xs = take off xs @ read_at off n xs @ drop (off + n) xs"
    by (metis append_take_drop_id drop_drop read_at_def add.commute)
  then have "csum bo xs = csum bo (take off xs @ read_at off n xs @ drop (off + n) xs)" by simp
  with assms show ?thesis by (simp add: csum_append)
qed

text \<open>Overwriting an even range exchanges the sum of what was there for the sum of what is new.\<close>

lemma csum_write:
  assumes "even off" "even (length ys)" "off + length ys \<le> length xs"
  shows "csum bo (write_at off ys xs) + csum bo (read_at off (length ys) xs) = csum bo xs + csum bo ys"
proof -
  have "csum bo (write_at off ys xs) =
      csum bo (take off xs) + csum bo ys + csum bo (drop (off + length ys) xs)"
    using assms by (simp add: write_at_def csum_append)
  then show ?thesis using csum_parts [of off "length ys" xs bo] assms by simp
qed

section \<open>Fields as numbers\<close>

lemma pow256_mod: "even n \<Longrightarrow> (256 :: nat) ^ n mod 65535 = 1"
proof -
  assume "even n"
  then obtain k where "n = 2 * k" by (elim evenE)
  moreover have "(65536 :: nat) ^ k mod 65535 = 1"
    by (subst power_mod [symmetric]) simp
  ultimately show ?thesis by (simp add: power_mult)
qed

text \<open>Modulo 65535 an even-length field may be summed word by word or read as one number.\<close>

lemma mem_nat_Cons2:
  assumes "even (length bs)"
  shows "mem_nat bo (a # b # bs) mod 65535 = (mem_nat bo [a, b] + mem_nat bo bs) mod 65535"
proof (cases bo)
  case LE
  have "(unat a + 256 * (unat b + 256 * le_nat bs)) mod 65535 =
      (unat a + 256 * unat b + le_nat bs + le_nat bs * 65535) mod 65535"
    by (simp add: algebra_simps)
  also have "\<dots> = (unat a + 256 * unat b + le_nat bs) mod 65535" by (rule mod_mult_self1)
  finally show ?thesis using LE by (simp add: mem_nat_def)
next
  case BE
  let ?k = "unat b + 256 * unat a"
  have "(le_nat (rev bs) + 256 ^ length bs * ?k) mod 65535 =
      (le_nat (rev bs) + 256 ^ length bs mod 65535 * ?k) mod 65535"
    by (metis mod_add_right_eq mod_mult_left_eq)
  also have "\<dots> = (le_nat (rev bs) + ?k) mod 65535" by (simp only: pow256_mod [OF assms]) simp
  finally show ?thesis using BE by (simp add: mem_nat_def le_nat_append algebra_simps)
qed

lemma csum_mem_nat: "even (length bs) \<Longrightarrow> csum bo bs mod 65535 = mem_nat bo bs mod 65535"
proof (induction bo bs rule: csum.induct)
  case (3 bo a b bs)
  then have "(mem_nat bo [a, b] + csum bo bs) mod 65535 = (mem_nat bo [a, b] + mem_nat bo bs) mod 65535"
    by (metis mod_add_right_eq even_Suc_Suc_iff length_Cons)
  with 3 show ?case by (simp add: mem_nat_Cons2)
qed (simp_all add: mem_nat_def split: byte_order.split)

section \<open>Byte order does not matter\<close>

text \<open>
  Summing in the other byte order multiplies the sum by 256 modulo 65535, which keeps zero: a host
  may maintain checksums in its own order.
\<close>

lemma csum_swap: "(256 * csum LE bs) mod 65535 = csum BE bs mod 65535"
proof (induction LE bs rule: csum.induct)
  case (2 b)
  then show ?case by (simp add: mem_nat_def)
next
  case (3 a b bs)
  have "256 * (unat a + 256 * unat b) mod 65535 = (unat b + 256 * unat a + unat b * 65535) mod 65535"
    by (simp add: algebra_simps)
  also have "\<dots> = (unat b + 256 * unat a) mod 65535" by (rule mod_mult_self1)
  finally have "256 * mem_nat LE [a, b] mod 65535 = mem_nat BE [a, b] mod 65535"
    by (simp add: mem_nat_def)
  with 3 show ?case by (simp add: distrib_left) (metis mod_add_cong)
qed simp

lemma csum_zero_swap: "csum LE bs mod 65535 = 0 \<longleftrightarrow> csum BE bs mod 65535 = 0"
proof
  assume "csum LE bs mod 65535 = 0"
  then have "256 * csum LE bs mod 65535 = 0" by (metis mod_mult_right_eq mult_0_right mod_0)
  then show "csum BE bs mod 65535 = 0" by (simp add: csum_swap)
next
  assume "csum BE bs mod 65535 = 0"
  then have "65535 dvd 256 * csum LE bs" by (simp add: csum_swap mod_eq_0_iff_dvd [symmetric])
  then have "65535 dvd 256 * (256 * csum LE bs)" by (rule dvd_mult)
  then have "65535 dvd csum LE bs + 65535 * csum LE bs" by (simp add: algebra_simps)
  then show "csum LE bs mod 65535 = 0" by (metis dvd_add_left_iff dvd_triv_left mod_eq_0_iff_dvd)
qed

lemma csum_pos_iff: "0 < csum bo bs \<longleftrightarrow> (\<exists>b \<in> set bs. b \<noteq> 0)"
  by (induction bo bs rule: csum.induct) (auto simp: mem_nat_def unat_gt_0 split: byte_order.splits)

lemma csum_ok_iff: "csum_ok bs \<longleftrightarrow> (\<exists>b \<in> set bs. b \<noteq> 0) \<and> csum bo bs mod 65535 = 0"
proof -
  have "csum_ok bs \<longleftrightarrow> 0 < csum BE bs \<and> csum BE bs mod 65535 = 0"
    by (simp add: csum_ok_def csum_fold_all_ones)
  also have "\<dots> \<longleftrightarrow> (\<exists>b \<in> set bs. b \<noteq> 0) \<and> csum bo bs mod 65535 = 0"
    by (cases bo) (simp_all add: csum_pos_iff csum_zero_swap)
  finally show ?thesis .
qed

end
