(* ===== verification/Endian.thy ===== *)
theory Endian
  imports Prelude
begin

text \<open>
  The byte-order macros of \<^verbatim>\<open>bpf/include/bpf/bpf_endian.h\<close>: moving single bytes
  (\<^verbatim>\<open>___bpf_mvb\<close>), the constant byte swaps built from it (\<^verbatim>\<open>___bpf_swab16/32/64\<close>), the
  per-target choice of \<^verbatim>\<open>__bpf_htons\<close> and its relatives, and the public macros
  \<^verbatim>\<open>bpf_htons\<close>, \<^verbatim>\<open>bpf_ntohs\<close>, \<^verbatim>\<open>bpf_htonl\<close>, \<^verbatim>\<open>bpf_ntohl\<close>,
  \<^verbatim>\<open>bpf_cpu_to_be64\<close>, \<^verbatim>\<open>bpf_be64_to_cpu\<close>, which pick the constant variant where the
  compiler knows the argument (the boolean argument here). The lemmas show that both variants
  agree on both targets and that the conversions produce network order in memory.
\<close>

section \<open>Moving and swapping bytes\<close>

text \<open>
  \<^verbatim>\<open>(__u##b)(x) << (b-(n+1)*8) >> (b-8) << (m*8)\<close>. For \<open>b = 16\<close> the cast value is promoted to
  \<^verbatim>\<open>int\<close> before it is shifted, so the computation runs on 32 bits.
\<close>

definition bpf_mvb16 :: "u16 \<Rightarrow> nat \<Rightarrow> nat \<Rightarrow> u32" where
  "bpf_mvb16 x n m = push_bit (m * 8) (drop_bit (16 - 8) (push_bit (16 - (n + 1) * 8) (ucast x)))"

definition bpf_mvb32 :: "u32 \<Rightarrow> nat \<Rightarrow> nat \<Rightarrow> u32" where
  "bpf_mvb32 x n m = push_bit (m * 8) (drop_bit (32 - 8) (push_bit (32 - (n + 1) * 8) x))"

definition bpf_mvb64 :: "u64 \<Rightarrow> nat \<Rightarrow> nat \<Rightarrow> u64" where
  "bpf_mvb64 x n m = push_bit (m * 8) (drop_bit (64 - 8) (push_bit (64 - (n + 1) * 8) x))"

definition bpf_swab16 :: "u16 \<Rightarrow> u16" where
  "bpf_swab16 x = ucast (bpf_mvb16 x 0 1 OR bpf_mvb16 x 1 0)"

definition bpf_swab32 :: "u32 \<Rightarrow> u32" where
  "bpf_swab32 x = bpf_mvb32 x 0 3 OR bpf_mvb32 x 1 2 OR bpf_mvb32 x 2 1 OR bpf_mvb32 x 3 0"

definition bpf_swab64 :: "u64 \<Rightarrow> u64" where
  "bpf_swab64 x = bpf_mvb64 x 0 7 OR bpf_mvb64 x 1 6 OR bpf_mvb64 x 2 5 OR bpf_mvb64 x 3 4 OR
                  bpf_mvb64 x 4 3 OR bpf_mvb64 x 5 2 OR bpf_mvb64 x 6 1 OR bpf_mvb64 x 7 0"

text \<open>The compiler's \<^verbatim>\<open>__builtin_bswap16/32/64\<close> reverse the bytes of their argument.\<close>

definition builtin_bswap16 :: "u16 \<Rightarrow> u16" where
  "builtin_bswap16 x = of_nat (le_nat (rev (nat_le 2 (unat x))))"

definition builtin_bswap32 :: "u32 \<Rightarrow> u32" where
  "builtin_bswap32 x = of_nat (le_nat (rev (nat_le 4 (unat x))))"

definition builtin_bswap64 :: "u64 \<Rightarrow> u64" where
  "builtin_bswap64 x = of_nat (le_nat (rev (nat_le 8 (unat x))))"

section \<open>The macros of the two targets\<close>

definition bpf_raw_ntohs :: "byte_order \<Rightarrow> u16 \<Rightarrow> u16" where
  "bpf_raw_ntohs bo x = (case bo of LE \<Rightarrow> builtin_bswap16 x | BE \<Rightarrow> x)"

definition bpf_raw_htons :: "byte_order \<Rightarrow> u16 \<Rightarrow> u16" where
  "bpf_raw_htons bo x = (case bo of LE \<Rightarrow> builtin_bswap16 x | BE \<Rightarrow> x)"

definition bpf_constant_ntohs :: "byte_order \<Rightarrow> u16 \<Rightarrow> u16" where
  "bpf_constant_ntohs bo x = (case bo of LE \<Rightarrow> bpf_swab16 x | BE \<Rightarrow> x)"

definition bpf_constant_htons :: "byte_order \<Rightarrow> u16 \<Rightarrow> u16" where
  "bpf_constant_htons bo x = (case bo of LE \<Rightarrow> bpf_swab16 x | BE \<Rightarrow> x)"

definition bpf_raw_ntohl :: "byte_order \<Rightarrow> u32 \<Rightarrow> u32" where
  "bpf_raw_ntohl bo x = (case bo of LE \<Rightarrow> builtin_bswap32 x | BE \<Rightarrow> x)"

definition bpf_raw_htonl :: "byte_order \<Rightarrow> u32 \<Rightarrow> u32" where
  "bpf_raw_htonl bo x = (case bo of LE \<Rightarrow> builtin_bswap32 x | BE \<Rightarrow> x)"

definition bpf_constant_ntohl :: "byte_order \<Rightarrow> u32 \<Rightarrow> u32" where
  "bpf_constant_ntohl bo x = (case bo of LE \<Rightarrow> bpf_swab32 x | BE \<Rightarrow> x)"

definition bpf_constant_htonl :: "byte_order \<Rightarrow> u32 \<Rightarrow> u32" where
  "bpf_constant_htonl bo x = (case bo of LE \<Rightarrow> bpf_swab32 x | BE \<Rightarrow> x)"

definition bpf_raw_be64_to_cpu :: "byte_order \<Rightarrow> u64 \<Rightarrow> u64" where
  "bpf_raw_be64_to_cpu bo x = (case bo of LE \<Rightarrow> builtin_bswap64 x | BE \<Rightarrow> x)"

definition bpf_raw_cpu_to_be64 :: "byte_order \<Rightarrow> u64 \<Rightarrow> u64" where
  "bpf_raw_cpu_to_be64 bo x = (case bo of LE \<Rightarrow> builtin_bswap64 x | BE \<Rightarrow> x)"

definition bpf_constant_be64_to_cpu :: "byte_order \<Rightarrow> u64 \<Rightarrow> u64" where
  "bpf_constant_be64_to_cpu bo x = (case bo of LE \<Rightarrow> bpf_swab64 x | BE \<Rightarrow> x)"

definition bpf_constant_cpu_to_be64 :: "byte_order \<Rightarrow> u64 \<Rightarrow> u64" where
  "bpf_constant_cpu_to_be64 bo x = (case bo of LE \<Rightarrow> bpf_swab64 x | BE \<Rightarrow> x)"

text \<open>The public macros; \<open>const_p\<close> is \<^verbatim>\<open>__builtin_constant_p(x)\<close>.\<close>

definition bpf_htons :: "byte_order \<Rightarrow> bool \<Rightarrow> u16 \<Rightarrow> u16" where
  "bpf_htons bo const_p x = (if const_p then bpf_constant_htons bo x else bpf_raw_htons bo x)"

definition bpf_ntohs :: "byte_order \<Rightarrow> bool \<Rightarrow> u16 \<Rightarrow> u16" where
  "bpf_ntohs bo const_p x = (if const_p then bpf_constant_ntohs bo x else bpf_raw_ntohs bo x)"

definition bpf_htonl :: "byte_order \<Rightarrow> bool \<Rightarrow> u32 \<Rightarrow> u32" where
  "bpf_htonl bo const_p x = (if const_p then bpf_constant_htonl bo x else bpf_raw_htonl bo x)"

definition bpf_ntohl :: "byte_order \<Rightarrow> bool \<Rightarrow> u32 \<Rightarrow> u32" where
  "bpf_ntohl bo const_p x = (if const_p then bpf_constant_ntohl bo x else bpf_raw_ntohl bo x)"

definition bpf_cpu_to_be64 :: "byte_order \<Rightarrow> bool \<Rightarrow> u64 \<Rightarrow> u64" where
  "bpf_cpu_to_be64 bo const_p x =
     (if const_p then bpf_constant_cpu_to_be64 bo x else bpf_raw_cpu_to_be64 bo x)"

definition bpf_be64_to_cpu :: "byte_order \<Rightarrow> bool \<Rightarrow> u64 \<Rightarrow> u64" where
  "bpf_be64_to_cpu bo const_p x =
     (if const_p then bpf_constant_be64_to_cpu bo x else bpf_raw_be64_to_cpu bo x)"

section \<open>The swaps reverse bytes\<close>

lemma bswap16_bits:
  "builtin_bswap16 x = ucast (ucast (drop_bit 8 x) :: byte) OR push_bit 8 (ucast (ucast x :: byte))"
  unfolding builtin_bswap16_def
  by (simp add: image_simps del: le_nat.simps(2) nat_le.simps(2))

lemma bswap32_bits:
  "builtin_bswap32 x = ucast (ucast (drop_bit 24 x) :: byte) OR
    push_bit 8 (ucast (ucast (drop_bit 16 x) :: byte)) OR
    push_bit 16 (ucast (ucast (drop_bit 8 x) :: byte)) OR push_bit 24 (ucast (ucast x :: byte))"
  unfolding builtin_bswap32_def
  by (simp add: image_simps del: le_nat.simps(2) nat_le.simps(2))

lemma bswap64_bits:
  "builtin_bswap64 x = ucast (ucast (drop_bit 56 x) :: byte) OR
    push_bit 8 (ucast (ucast (drop_bit 48 x) :: byte)) OR
    push_bit 16 (ucast (ucast (drop_bit 40 x) :: byte)) OR
    push_bit 24 (ucast (ucast (drop_bit 32 x) :: byte)) OR
    push_bit 32 (ucast (ucast (drop_bit 24 x) :: byte)) OR
    push_bit 40 (ucast (ucast (drop_bit 16 x) :: byte)) OR
    push_bit 48 (ucast (ucast (drop_bit 8 x) :: byte)) OR push_bit 56 (ucast (ucast x :: byte))"
  unfolding builtin_bswap64_def
  by (simp add: image_simps del: le_nat.simps(2) nat_le.simps(2))

lemma bpf_mvb32_byte:
  "n < 4 \<Longrightarrow> bpf_mvb32 x n m = push_bit (m * 8) (ucast (ucast (drop_bit (n * 8) x) :: byte))"
  by (rule bit_word_eqI) (auto simp: bpf_mvb32_def bit_simps algebra_simps dest: bit_imp_le_length)

lemma bpf_mvb64_byte:
  "n < 8 \<Longrightarrow> bpf_mvb64 x n m = push_bit (m * 8) (ucast (ucast (drop_bit (n * 8) x) :: byte))"
  by (rule bit_word_eqI) (auto simp: bpf_mvb64_def bit_simps algebra_simps dest: bit_imp_le_length)

lemma bpf_swab16_bswap: "bpf_swab16 x = builtin_bswap16 x"
  by (rule bit_word_eqI)
    (auto simp: bswap16_bits bpf_swab16_def bpf_mvb16_def bit_simps dest: bit_imp_le_length)

lemma bpf_swab32_bswap: "bpf_swab32 x = builtin_bswap32 x"
  unfolding bpf_swab32_def bswap32_bits by (simp add: bpf_mvb32_byte ac_simps)

lemma bpf_swab64_bswap: "bpf_swab64 x = builtin_bswap64 x"
  unfolding bpf_swab64_def bswap64_bits by (simp add: bpf_mvb64_byte ac_simps)

section \<open>One normal form for all conversions\<close>

definition net16 :: "byte_order \<Rightarrow> u16 \<Rightarrow> u16" where
  "net16 bo x = (case bo of LE \<Rightarrow> builtin_bswap16 x | BE \<Rightarrow> x)"

definition net32 :: "byte_order \<Rightarrow> u32 \<Rightarrow> u32" where
  "net32 bo x = (case bo of LE \<Rightarrow> builtin_bswap32 x | BE \<Rightarrow> x)"

definition net64 :: "byte_order \<Rightarrow> u64 \<Rightarrow> u64" where
  "net64 bo x = (case bo of LE \<Rightarrow> builtin_bswap64 x | BE \<Rightarrow> x)"

lemmas endian_defs = bpf_raw_ntohs_def bpf_raw_htons_def bpf_constant_ntohs_def
  bpf_constant_htons_def bpf_raw_ntohl_def bpf_raw_htonl_def bpf_constant_ntohl_def
  bpf_constant_htonl_def bpf_raw_be64_to_cpu_def bpf_raw_cpu_to_be64_def
  bpf_constant_be64_to_cpu_def bpf_constant_cpu_to_be64_def bpf_htons_def bpf_ntohs_def
  bpf_htonl_def bpf_ntohl_def bpf_cpu_to_be64_def bpf_be64_to_cpu_def

lemma endian_net [simp]:
  "bpf_htons bo c x = net16 bo x" "bpf_ntohs bo c x = net16 bo x"
  "bpf_htonl bo c y = net32 bo y" "bpf_ntohl bo c y = net32 bo y"
  "bpf_cpu_to_be64 bo c z = net64 bo z" "bpf_be64_to_cpu bo c z = net64 bo z"
  by (simp_all add: endian_defs net16_def net32_def net64_def bpf_swab16_bswap bpf_swab32_bswap
      bpf_swab64_bswap split: byte_order.split)

lemma store16_net16 [simp]: "store16 bo (net16 bo x) = store16 BE x"
proof -
  have "le_nat (rev (nat_le 2 (unat x))) < 65536" using le_nat_less [of "rev (nat_le 2 (unat x))"] by simp
  then show ?thesis
    by (simp add: net16_def store16_def mem_bytes_def builtin_bswap16_def unat_of_nat nat_le_le_nat
        split: byte_order.split)
qed

lemma store32_net32 [simp]: "store32 bo (net32 bo x) = store32 BE x"
proof -
  have "le_nat (rev (nat_le 4 (unat x))) < 4294967296"
    using le_nat_less [of "rev (nat_le 4 (unat x))"] by simp
  then show ?thesis
    by (simp add: net32_def store32_def mem_bytes_def builtin_bswap32_def unat_of_nat nat_le_le_nat
        split: byte_order.split)
qed

lemma store64_net64 [simp]: "store64 bo (net64 bo x) = store64 BE x"
proof -
  have "le_nat (rev (nat_le 8 (unat x))) < 18446744073709551616"
    using le_nat_less [of "rev (nat_le 8 (unat x))"] by simp
  then show ?thesis
    by (simp add: net64_def store64_def mem_bytes_def builtin_bswap64_def unat_of_nat nat_le_le_nat
        split: byte_order.split)
qed

lemma net16_load16 [simp]:
  assumes "length bs = 2"
  shows "net16 bo (load16 bo bs) = load16 BE bs"
proof (cases bo)
  case LE
  have "unat (load16 LE bs) = le_nat bs" using assms by (simp add: unat_load16 mem_nat_def)
  then have "net16 LE (load16 LE bs) = of_nat (le_nat (rev bs))"
    using assms by (simp add: net16_def builtin_bswap16_def nat_le_le_nat)
  with LE assms show ?thesis by (simp add: load16_def mem_nat_def)
next
  case BE
  then show ?thesis by (simp add: net16_def)
qed

lemma net32_load32 [simp]:
  assumes "length bs = 4"
  shows "net32 bo (load32 bo bs) = load32 BE bs"
proof (cases bo)
  case LE
  have "unat (load32 LE bs) = le_nat bs" using assms by (simp add: unat_load32 mem_nat_def)
  then have "net32 LE (load32 LE bs) = of_nat (le_nat (rev bs))"
    using assms by (simp add: net32_def builtin_bswap32_def nat_le_le_nat)
  with LE assms show ?thesis by (simp add: load32_def mem_nat_def)
next
  case BE
  then show ?thesis by (simp add: net32_def)
qed

lemma net16_net16 [simp]: "net16 bo (net16 bo x) = x"
  by (metis load16_store16 net16_load16 length_store(1) store16_net16)

lemma net32_net32 [simp]: "net32 bo (net32 bo x) = x"
  by (metis load32_store32 net32_load32 length_store(2) store32_net32)

lemma net16_inj [simp]: "net16 bo x = net16 bo y \<longleftrightarrow> x = y"
  by (metis net16_net16)

lemma net32_inj [simp]: "net32 bo x = net32 bo y \<longleftrightarrow> x = y"
  by (metis net32_net32)

lemma net_zero [simp]: "net16 bo x = 0 \<longleftrightarrow> x = 0" "net32 bo y = 0 \<longleftrightarrow> y = 0"
proof -
  have "net16 bo 0 = 0" by (cases bo; hypsubst; code_simp)
  then show "net16 bo x = 0 \<longleftrightarrow> x = 0" by (metis net16_inj)
  have "net32 bo 0 = 0" by (cases bo; hypsubst; code_simp)
  then show "net32 bo y = 0 \<longleftrightarrow> y = 0" by (metis net32_inj)
qed

text \<open>Comparing a value read from a packet with a converted constant compares port numbers.\<close>

lemma load16_eq_net16 [simp]: "length bs = 2 \<Longrightarrow> load16 bo bs = net16 bo x \<longleftrightarrow> load16 BE bs = x"
  by (metis net16_load16 net16_net16)

section \<open>Properties\<close>

text \<open>
  On both targets and whether or not the compiler knows the argument, storing the result of
  \<^verbatim>\<open>bpf_htons\<close>, \<^verbatim>\<open>bpf_htonl\<close> or \<^verbatim>\<open>bpf_cpu_to_be64\<close> to memory writes the argument
  in network (big-endian) order, and the converse macro restores it.
\<close>

theorem endian_wire_order:
  "store16 bo (bpf_htons bo c x) = store16 BE x \<and> store32 bo (bpf_htonl bo c y) = store32 BE y \<and>
   store64 bo (bpf_cpu_to_be64 bo c z) = store64 BE z \<and>
   bpf_ntohs bo c' (bpf_htons bo c x) = x \<and> bpf_ntohl bo c' (bpf_htonl bo c y) = y"
  by simp

end
