(* ===== verification/Layout.thy ===== *)
theory Layout
  imports Prelude
begin

text \<open>
  How the C compiler of the BPF target lays out the records of the sources: sizes, alignments,
  bit-fields and the byte offset of a named field, as \<^verbatim>\<open>sizeof\<close> and \<^verbatim>\<open>offsetof\<close>
  (\<^verbatim>\<open>bpf_helpers.h\<close>) compute them. The packet offsets of \<^verbatim>\<open>lib/net_helpers.h\<close> and the value
  sizes of the maps rest on these functions. The lemmas show that a layout is sound: members are
  aligned, do not overlap and lie inside the record.
\<close>

section \<open>Types and their layout\<close>

text \<open>
  A scalar of the given size (its alignment is its size), a pointer, an array, a struct or a union.
  A member is a named field, an anonymous struct or union, or a bit-field given by the size in bytes
  of its declared type and its width in bits (an unnamed one of width 0 closes the unit).
\<close>

datatype ctype =
    CInt nat
  | CPtr
  | CArr ctype nat
  | CStruct "member list"
  | CUnion "member list"
and member =
    Fld string ctype
  | Anon ctype
  | Bits string nat nat

definition roundup :: "nat \<Rightarrow> nat \<Rightarrow> nat" where
  "roundup n a = (n + (a - 1)) div a * a"

text \<open>
  \<open>calign\<close> and \<open>csize\<close> are the alignment and size in bytes, \<open>maligns\<close> the strictest alignment of a
  member list, \<open>struct_end\<close> the bit position after placing the members from a start position on,
  \<open>union_end\<close> the size in bits of the largest member.
\<close>

fun calign :: "ctype \<Rightarrow> nat" and maligns :: "member list \<Rightarrow> nat" where
  "calign (CInt n) = n"
| "calign CPtr = 8"
| "calign (CArr t n) = calign t"
| "calign (CStruct ms) = maligns ms"
| "calign (CUnion ms) = maligns ms"
| "maligns [] = 1"
| "maligns (Fld _ t # ms) = max (calign t) (maligns ms)"
| "maligns (Anon t # ms) = max (calign t) (maligns ms)"
| "maligns (Bits f u w # ms) = (if w = 0 then maligns ms else max u (maligns ms))"

definition bits_at :: "nat \<Rightarrow> nat \<Rightarrow> nat \<Rightarrow> nat" where
  "bits_at pos u w = (if w = 0 \<or> pos mod (8 * u) + w > 8 * u then roundup pos (8 * u) else pos)"

fun csize :: "ctype \<Rightarrow> nat" and struct_end :: "nat \<Rightarrow> member list \<Rightarrow> nat"
  and union_end :: "member list \<Rightarrow> nat" where
  "csize (CInt n) = n"
| "csize CPtr = 8"
| "csize (CArr t n) = n * csize t"
| "csize (CStruct ms) = roundup (struct_end 0 ms) (8 * maligns ms) div 8"
| "csize (CUnion ms) = roundup (union_end ms) (8 * maligns ms) div 8"
| "struct_end pos [] = pos"
| "struct_end pos (Fld _ t # ms) = struct_end (roundup pos (8 * calign t) + 8 * csize t) ms"
| "struct_end pos (Anon t # ms) = struct_end (roundup pos (8 * calign t) + 8 * csize t) ms"
| "struct_end pos (Bits _ u w # ms) = struct_end (bits_at pos u w + w) ms"
| "union_end [] = 0"
| "union_end (Fld _ t # ms) = max (8 * csize t) (union_end ms)"
| "union_end (Anon t # ms) = max (8 * csize t) (union_end ms)"
| "union_end (Bits _ u w # ms) = max w (union_end ms)"

text \<open>
  The fields a record gives access to by name, with their position and length in bits: its own, and
  those of its anonymous members.
\<close>

fun fields_of :: "ctype \<Rightarrow> (string \<times> nat \<times> nat) list"
  and struct_fields :: "nat \<Rightarrow> member list \<Rightarrow> (string \<times> nat \<times> nat) list"
  and union_fields :: "member list \<Rightarrow> (string \<times> nat \<times> nat) list" where
  "fields_of (CStruct ms) = struct_fields 0 ms"
| "fields_of (CUnion ms) = union_fields ms"
| "fields_of _ = []"
| "struct_fields pos [] = []"
| "struct_fields pos (Fld f t # ms) =
     (let p = roundup pos (8 * calign t)
      in (f, p, 8 * csize t) # struct_fields (p + 8 * csize t) ms)"
| "struct_fields pos (Anon t # ms) =
     (let p = roundup pos (8 * calign t)
      in map (\<lambda>(f, b, n). (f, p + b, n)) (fields_of t) @ struct_fields (p + 8 * csize t) ms)"
| "struct_fields pos (Bits f u w # ms) =
     (let p = bits_at pos u w
      in (if w = 0 then [] else [(f, p, w)]) @ struct_fields (p + w) ms)"
| "union_fields [] = []"
| "union_fields (Fld f t # ms) = (f, 0, 8 * csize t) # union_fields ms"
| "union_fields (Anon t # ms) = fields_of t @ union_fields ms"
| "union_fields (Bits f u w # ms) = (f, 0, w) # union_fields ms"

text \<open>\<^verbatim>\<open>sizeof(type)\<close> and \<^verbatim>\<open>offsetof(type, member)\<close>, in bytes.\<close>

definition sizeof :: "ctype \<Rightarrow> nat" where
  "sizeof t = csize t"

definition offsetof :: "ctype \<Rightarrow> string \<Rightarrow> nat option" where
  "offsetof t f = map_option (\<lambda>(p, n). p div 8) (map_of (fields_of t) f)"

section \<open>Well-formed types\<close>

fun wf_ctype :: "ctype \<Rightarrow> bool" and wf_members :: "member list \<Rightarrow> bool" where
  "wf_ctype (CInt n) = (0 < n)"
| "wf_ctype CPtr = True"
| "wf_ctype (CArr t n) = wf_ctype t"
| "wf_ctype (CStruct ms) = wf_members ms"
| "wf_ctype (CUnion ms) = wf_members ms"
| "wf_members [] = True"
| "wf_members (Fld _ t # ms) = (wf_ctype t \<and> wf_members ms)"
| "wf_members (Anon t # ms) = (wf_ctype t \<and> wf_members ms)"
| "wf_members (Bits _ u w # ms) = (0 < u \<and> w \<le> 8 * u \<and> wf_members ms)"

section \<open>Rounding\<close>

lemma roundup_ge: "0 < a \<Longrightarrow> n \<le> roundup n a"
proof -
  assume a: "0 < a"
  have "n + (a - 1) = (n + (a - 1)) div a * a + (n + (a - 1)) mod a" by simp
  moreover have "(n + (a - 1)) mod a \<le> a - 1" using a mod_less_divisor [OF a, of "n + (a - 1)"] by linarith
  ultimately show ?thesis unfolding roundup_def by linarith
qed

lemma roundup_dvd [simp]: "a dvd roundup n a"
  by (simp add: roundup_def)

lemma roundup_less: "0 < a \<Longrightarrow> roundup n a < n + a"
  unfolding roundup_def
  by (metis One_nat_def add_diff_cancel_left' add_leD2 div_times_less_eq_dividend less_add_eq_less
      Suc_leI add.commute diff_Suc_less le_less_trans less_diff_conv nat_add_left_cancel_less)

section \<open>Alignment\<close>

lemma calign_pos: "wf_ctype t \<Longrightarrow> 0 < calign t" and maligns_pos: "wf_members ms \<Longrightarrow> 0 < maligns ms"
  by (induction t and ms rule: calign_maligns.induct) auto

text \<open>The size of every well-formed type is a multiple of its alignment, so arrays stay aligned.\<close>

lemma roundup_bits_dvd: "a dvd roundup n (8 * a) div 8"
proof -
  obtain k where "roundup n (8 * a) = 8 * a * k" using roundup_dvd [of "8 * a" n] by (elim dvdE)
  then show ?thesis by simp
qed

lemma csize_aligned: "calign t dvd csize t"
  by (induction t rule: ctype.induct [where ?P2.0 = "\<lambda>_. True"])
    (simp_all add: roundup_bits_dvd dvd_mult)

section \<open>Soundness of a layout\<close>

lemma roundup_bytes: "8 * (roundup n (8 * a) div 8) = roundup n (8 * a)"
proof -
  obtain k where "roundup n (8 * a) = 8 * a * k" using roundup_dvd [of "8 * a" n] by (elim dvdE)
  then show ?thesis by simp
qed

lemma bits_at_ge: "0 < u \<Longrightarrow> pos \<le> bits_at pos u w"
  by (simp add: bits_at_def roundup_ge)

lemma struct_end_ge: "wf_members ms \<Longrightarrow> pos \<le> struct_end pos ms"
proof (induction ms arbitrary: pos)
  case (Cons m ms)
  show ?case
  proof (cases m)
    case (Fld f t)
    with Cons calign_pos [of t] roundup_ge [of "8 * calign t" pos] show ?thesis
      by (auto intro!: order_trans [OF _ Cons.IH])
  next
    case (Anon t)
    with Cons calign_pos [of t] roundup_ge [of "8 * calign t" pos] show ?thesis
      by (auto intro!: order_trans [OF _ Cons.IH])
  next
    case (Bits f u w)
    with Cons bits_at_ge [of u pos w] show ?thesis
      by (auto intro!: order_trans [OF _ Cons.IH])
  qed
qed simp

lemma fields_inside_aux:
  "wf_ctype t \<Longrightarrow> (f, p, n) \<in> set (fields_of t) \<Longrightarrow> p + n \<le> 8 * csize t"
  "wf_members ms \<Longrightarrow> (f, p, n) \<in> set (struct_fields pos ms) \<Longrightarrow> pos \<le> p \<and> p + n \<le> struct_end pos ms"
  "wf_members ms \<Longrightarrow> (f, p, n) \<in> set (union_fields ms) \<Longrightarrow> p + n \<le> union_end ms"
proof (induction t and pos ms and ms arbitrary: p and p and p rule: fields_of_struct_fields_union_fields.induct)
  case (1 ms)
  then have "p + n \<le> struct_end 0 ms" by simp
  also have "\<dots> \<le> roundup (struct_end 0 ms) (8 * maligns ms)"
    using 1 maligns_pos [of ms] by (intro roundup_ge) simp
  finally show ?case by (simp add: roundup_bytes)
next
  case (2 ms)
  then have "p + n \<le> union_end ms" by simp
  also have "\<dots> \<le> roundup (union_end ms) (8 * maligns ms)"
    using 2 maligns_pos [of ms] by (intro roundup_ge) simp
  finally show ?case by (simp add: roundup_bytes)
next
  case (5 pos f' t ms)
  have "pos \<le> roundup pos (8 * calign t)" using 5 calign_pos [of t] by (intro roundup_ge) simp
  with 5 struct_end_ge [of ms "roundup pos (8 * calign t) + 8 * csize t"] show ?case
    by (fastforce simp: Let_def)
next
  case (6 pos t ms)
  have "pos \<le> roundup pos (8 * calign t)" using 6 calign_pos [of t] by (intro roundup_ge) simp
  with 6 struct_end_ge [of ms "roundup pos (8 * calign t) + 8 * csize t"] show ?case
    by (fastforce simp: Let_def)
next
  case (7 pos f' u w ms)
  with bits_at_ge [of u pos w] struct_end_ge [of ms "bits_at pos u w + w"] show ?case
    by (fastforce simp: Let_def split: if_splits)
qed (auto simp: le_max_iff_disj)

lemmas fields_inside = fields_inside_aux(1)

fun plain_members :: "member list \<Rightarrow> bool" where
  "plain_members [] = True"
| "plain_members (Anon _ # ms) = False"
| "plain_members (Fld _ _ # ms) = plain_members ms"
| "plain_members (Bits _ _ _ # ms) = plain_members ms"

lemma plain_fields_disjoint:
  "wf_members ms \<Longrightarrow> plain_members ms \<Longrightarrow>
   sorted_wrt (\<lambda>(_, p, n) (_, q, _). p + n \<le> q) (struct_fields pos ms)"
proof (induction ms arbitrary: pos rule: plain_members.induct)
  case (3 f t ms)
  then show ?case using fields_inside_aux(2) [of ms] by (fastforce simp: Let_def)
next
  case (4 f u w ms)
  then show ?case using fields_inside_aux(2) [of ms] by (fastforce simp: Let_def)
qed auto

end
