(* ===== verification/Vmlinux.thy ===== *)
theory Vmlinux
  imports Layout
begin

text \<open>
  The declarations of \<^verbatim>\<open>types.h\<close> and \<^verbatim>\<open>vmlinux.h\<close> the datapath is compiled against: the integer
  typedefs, the protocol headers it parses, the contexts its programs receive, the socket structures
  its iterators read, and the enumerations whose values it uses. Structs are given as layout types, in
  the order and with the bit-fields, unions and anonymous members of the header, so that the offsets
  the programs use are computed and not assumed. Enumerations are tables of their enumerators.
\<close>

named_theorems layout_defs \<open>the layout types of the C declarations\<close>

type_synonym c_enum = "(string \<times> int) list"

section \<open>types.h\<close>

definition t_s8 :: ctype where [layout_defs]: "t_s8 = CInt 1"
definition t_u8 :: ctype where [layout_defs]: "t_u8 = CInt 1"
definition t_s16 :: ctype where [layout_defs]: "t_s16 = CInt 2"
definition t_u16 :: ctype where [layout_defs]: "t_u16 = CInt 2"
definition t_s32 :: ctype where [layout_defs]: "t_s32 = CInt 4"
definition t_u32 :: ctype where [layout_defs]: "t_u32 = CInt 4"
definition t_s64 :: ctype where [layout_defs]: "t_s64 = CInt 8"
definition t_u64 :: ctype where [layout_defs]: "t_u64 = CInt 8"
definition t_le16 :: ctype where [layout_defs]: "t_le16 = t_u16"
definition t_be16 :: ctype where [layout_defs]: "t_be16 = t_u16"
definition t_le32 :: ctype where [layout_defs]: "t_le32 = t_u32"
definition t_be32 :: ctype where [layout_defs]: "t_be32 = t_u32"
definition t_le64 :: ctype where [layout_defs]: "t_le64 = t_u64"
definition t_be64 :: ctype where [layout_defs]: "t_be64 = t_u64"
definition t_sum16 :: ctype where [layout_defs]: "t_sum16 = t_u16"
definition t_wsum :: ctype where [layout_defs]: "t_wsum = t_u32"
definition t_aligned_u64 :: ctype where [layout_defs]: "t_aligned_u64 = t_u64"
definition t_net_cookie :: ctype where [layout_defs]: "t_net_cookie = t_u64"
definition t_sock_cookie :: ctype where [layout_defs]: "t_sock_cookie = t_u64"

definition UINT16_MAX :: nat where "UINT16_MAX = 0xffff"

section \<open>Structures\<close>

definition typedef_atomic_t :: ctype where
  [layout_defs]: "typedef_atomic_t = CStruct [
      Fld ''counter'' (CInt 4)]"

definition typedef_atomic64_t :: ctype where
  [layout_defs]: "typedef_atomic64_t = CStruct [
      Fld ''counter'' t_s64]"

definition typedef_possible_net_t :: ctype where
  [layout_defs]: "typedef_possible_net_t = CStruct [
      Fld ''net'' CPtr]"

definition struct_refcount_struct :: ctype where
  [layout_defs]: "struct_refcount_struct = CStruct [
      Fld ''refs'' typedef_atomic_t]"

definition struct_list_head :: ctype where
  [layout_defs]: "struct_list_head = CStruct [
      Fld ''next'' CPtr, Fld ''prev'' CPtr]"

definition struct_hlist_node :: ctype where
  [layout_defs]: "struct_hlist_node = CStruct [
      Fld ''next'' CPtr, Fld ''pprev'' CPtr]"

definition struct_hlist_nulls_node :: ctype where
  [layout_defs]: "struct_hlist_nulls_node = CStruct [
      Fld ''next'' CPtr, Fld ''pprev'' CPtr]"

definition struct_in6_addr :: ctype where
  [layout_defs]: "struct_in6_addr = CStruct [
      Fld ''in6_u'' (CUnion [Fld ''u6_addr8'' (CArr t_u8 16), Fld ''u6_addr16'' (CArr t_be16 8), Fld ''u6_addr32'' (CArr t_be32 4)])]"

definition struct_in_addr :: ctype where
  [layout_defs]: "struct_in_addr = CStruct [
      Fld ''s_addr'' t_be32]"

definition struct_ethhdr :: ctype where
  [layout_defs]: "struct_ethhdr = CStruct [
      Fld ''h_dest'' (CArr (CInt 1) 6), Fld ''h_source'' (CArr (CInt 1) 6),
      Fld ''h_proto'' t_be16]"

definition struct_arphdr :: ctype where
  [layout_defs]: "struct_arphdr = CStruct [
      Fld ''ar_hrd'' t_be16, Fld ''ar_pro'' t_be16, Fld ''ar_hln'' (CInt 1),
      Fld ''ar_pln'' (CInt 1), Fld ''ar_op'' t_be16]"

definition struct_iphdr :: ctype where
  [layout_defs]: "struct_iphdr = CStruct [
      Bits ''ihl'' 1 4, Bits ''version'' 1 4, Fld ''tos'' t_u8, Fld ''tot_len'' t_be16,
      Fld ''id'' t_be16, Fld ''frag_off'' t_be16, Fld ''ttl'' t_u8, Fld ''protocol'' t_u8,
      Fld ''check'' t_sum16,
      Anon (CUnion [Anon (CStruct [Fld ''saddr'' t_be32, Fld ''daddr'' t_be32]), Fld ''addrs'' (CStruct [Fld ''saddr'' t_be32, Fld ''daddr'' t_be32])])]"

definition struct_tcphdr :: ctype where
  [layout_defs]: "struct_tcphdr = CStruct [
      Fld ''source'' t_be16, Fld ''dest'' t_be16, Fld ''seq'' t_be32, Fld ''ack_seq'' t_be32,
      Bits ''res1'' 2 4, Bits ''doff'' 2 4, Bits ''fin'' 2 1, Bits ''syn'' 2 1,
      Bits ''rst'' 2 1, Bits ''psh'' 2 1, Bits ''ack'' 2 1, Bits ''urg'' 2 1, Bits ''ece'' 2 1,
      Bits ''cwr'' 2 1, Fld ''window'' t_be16, Fld ''check'' t_sum16, Fld ''urg_ptr'' t_be16]"

definition struct_udphdr :: ctype where
  [layout_defs]: "struct_udphdr = CStruct [
      Fld ''source'' t_be16, Fld ''dest'' t_be16, Fld ''len'' t_be16, Fld ''check'' t_sum16]"

definition struct_sockaddr_in :: ctype where
  [layout_defs]: "struct_sockaddr_in = CStruct [
      Fld ''sin_family'' (CInt 2), Fld ''sin_port'' t_be16, Fld ''sin_addr'' struct_in_addr,
      Fld ''__pad'' (CArr (CInt 1) 8)]"

definition struct_sk_buff :: ctype where
  [layout_defs]: "struct_sk_buff = CStruct [
      Fld ''len'' t_u32, Fld ''pkt_type'' t_u32, Fld ''mark'' t_u32,
      Fld ''queue_mapping'' t_u32, Fld ''protocol'' t_u32, Fld ''vlan_present'' t_u32,
      Fld ''vlan_tci'' t_u32, Fld ''vlan_proto'' t_u32, Fld ''priority'' t_u32,
      Fld ''ingress_ifindex'' t_u32, Fld ''ifindex'' t_u32, Fld ''tc_index'' t_u32,
      Fld ''cb'' (CArr t_u32 5), Fld ''hash'' t_u32, Fld ''tc_classid'' t_u32,
      Fld ''data'' t_u32, Fld ''data_end'' t_u32, Fld ''napi_id'' t_u32, Fld ''family'' t_u32,
      Fld ''remote_ip4'' t_u32, Fld ''local_ip4'' t_u32, Fld ''remote_ip6'' (CArr t_u32 4),
      Fld ''local_ip6'' (CArr t_u32 4), Fld ''remote_port'' t_u32, Fld ''local_port'' t_u32,
      Fld ''data_meta'' t_u32, Anon (CUnion [Fld ''flow_keys'' CPtr]), Fld ''tstamp'' t_u64,
      Fld ''wire_len'' t_u32, Fld ''gso_segs'' t_u32, Anon (CUnion [Fld ''sk'' CPtr]),
      Fld ''gso_size'' t_u32, Fld ''tstamp_type'' t_u8, Fld ''hwtstamp'' t_u64]"

definition struct_bpf_sock :: ctype where
  [layout_defs]: "struct_bpf_sock = CStruct [
      Fld ''bound_dev_if'' t_u32, Fld ''family'' t_u32, Fld ''type'' t_u32,
      Fld ''protocol'' t_u32, Fld ''mark'' t_u32, Fld ''priority'' t_u32, Fld ''src_ip4'' t_u32,
      Fld ''src_ip6'' (CArr t_u32 4), Fld ''src_port'' t_u32, Fld ''dst_port'' t_be16,
      Fld ''dst_ip4'' t_u32, Fld ''dst_ip6'' (CArr t_u32 4), Fld ''state'' t_u32,
      Fld ''rx_queue_mapping'' t_s32]"

definition struct_bpf_sock_addr :: ctype where
  [layout_defs]: "struct_bpf_sock_addr = CStruct [
      Fld ''user_family'' t_u32, Fld ''user_ip4'' t_u32, Fld ''user_ip6'' (CArr t_u32 4),
      Fld ''user_port'' t_u32, Fld ''family'' t_u32, Fld ''type'' t_u32, Fld ''protocol'' t_u32,
      Fld ''msg_src_ip4'' t_u32, Fld ''msg_src_ip6'' (CArr t_u32 4),
      Anon (CUnion [Fld ''sk'' CPtr])]"

definition struct_bpf_sockopt :: ctype where
  [layout_defs]: "struct_bpf_sockopt = CStruct [
      Anon (CUnion [Fld ''sk'' CPtr]), Anon (CUnion [Fld ''optval'' CPtr]),
      Anon (CUnion [Fld ''optval_end'' CPtr]), Fld ''level'' t_s32, Fld ''optname'' t_s32,
      Fld ''optlen'' t_s32, Fld ''retval'' t_s32]"

definition struct_bpf_redir_neigh :: ctype where
  [layout_defs]: "struct_bpf_redir_neigh = CStruct [
      Fld ''nh_family'' t_u32,
      Anon (CUnion [Fld ''ipv4_nh'' t_be32, Fld ''ipv6_nh'' (CArr t_u32 4)])]"

definition struct_bpf_iter_meta :: ctype where
  [layout_defs]: "struct_bpf_iter_meta = CStruct [
      Anon (CUnion [Fld ''seq'' CPtr]), Fld ''session_id'' t_u64, Fld ''seq_num'' t_u64]"

definition struct_bpf_iter__tcp :: ctype where
  [layout_defs]: "struct_bpf_iter__tcp = CStruct [
      Anon (CUnion [Fld ''meta'' CPtr]), Anon (CUnion [Fld ''sk_common'' CPtr]),
      Fld ''uid'' (CInt 4)]"

definition struct_bpf_iter__udp :: ctype where
  [layout_defs]: "struct_bpf_iter__udp = CStruct [
      Anon (CUnion [Fld ''meta'' CPtr]), Anon (CUnion [Fld ''udp_sk'' CPtr]),
      Fld ''uid'' (CInt 4), Bits '''' 8 0, Fld ''bucket'' (CInt 4)]"

definition struct_sock_common :: ctype where
  [layout_defs]: "struct_sock_common = CStruct [
      Anon (CUnion [Fld ''skc_addrpair'' t_u64, Anon (CStruct [Fld ''skc_daddr'' t_be32, Fld ''skc_rcv_saddr'' t_be32])]),
      Anon (CUnion [Fld ''skc_hash'' (CInt 4), Fld ''skc_u16hashes'' (CArr t_u16 2)]),
      Anon (CUnion [Fld ''skc_portpair'' t_u32, Anon (CStruct [Fld ''skc_dport'' t_be16, Fld ''skc_num'' t_u16])]),
      Fld ''skc_family'' (CInt 2), Fld ''skc_state'' (CInt 1), Bits ''skc_reuse'' 1 4,
      Bits ''skc_reuseport'' 1 1, Bits ''skc_ipv6only'' 1 1, Bits ''skc_net_refcnt'' 1 1,
      Fld ''skc_bound_dev_if'' (CInt 4),
      Anon (CUnion [Fld ''skc_bind_node'' struct_hlist_node, Fld ''skc_portaddr_node'' struct_hlist_node]),
      Fld ''skc_prot'' CPtr, Fld ''skc_net'' typedef_possible_net_t,
      Fld ''skc_v6_daddr'' struct_in6_addr, Fld ''skc_v6_rcv_saddr'' struct_in6_addr,
      Fld ''skc_cookie'' typedef_atomic64_t,
      Anon (CUnion [Fld ''skc_flags'' (CInt 8), Fld ''skc_listener'' CPtr, Fld ''skc_tw_dr'' CPtr]),
      Fld ''skc_dontcopy_begin'' (CArr (CInt 4) 0),
      Anon (CUnion [Fld ''skc_node'' struct_hlist_node, Fld ''skc_nulls_node'' struct_hlist_nulls_node]),
      Fld ''skc_tx_queue_mapping'' (CInt 2), Fld ''skc_rx_queue_mapping'' (CInt 2),
      Anon (CUnion [Fld ''skc_incoming_cpu'' (CInt 4), Fld ''skc_rcv_wnd'' t_u32, Fld ''skc_tw_rcv_nxt'' t_u32]),
      Fld ''skc_refcnt'' struct_refcount_struct, Fld ''skc_dontcopy_end'' (CArr (CInt 4) 0),
      Anon (CUnion [Fld ''skc_rxhash'' t_u32, Fld ''skc_window_clamp'' t_u32, Fld ''skc_tw_snd_nxt'' t_u32])]"

definition struct_ns_common :: ctype where
  [layout_defs]: "struct_ns_common = CStruct [
      Fld ''stashed'' typedef_atomic64_t, Fld ''ops'' CPtr, Fld ''inum'' (CInt 4),
      Fld ''count'' struct_refcount_struct]"

definition struct_nsproxy :: ctype where
  [layout_defs]: "struct_nsproxy = CStruct [
      Fld ''count'' struct_refcount_struct, Fld ''uts_ns'' CPtr, Fld ''ipc_ns'' CPtr,
      Fld ''mnt_ns'' CPtr, Fld ''pid_ns_for_children'' CPtr, Fld ''net_ns'' CPtr,
      Fld ''time_ns'' CPtr, Fld ''time_ns_for_children'' CPtr, Fld ''cgroup_ns'' CPtr]"

section \<open>Enumerations\<close>

definition enum_map_update_flags :: c_enum where
  "enum_map_update_flags = [
      (''BPF_ANY'', 0), (''BPF_NOEXIST'', 1), (''BPF_EXIST'', 2), (''BPF_F_LOCK'', 4)]"

definition enum_l4_csum_flags :: c_enum where
  "enum_l4_csum_flags = [
      (''BPF_F_PSEUDO_HDR'', 16), (''BPF_F_MARK_MANGLED_0'', 32), (''BPF_F_MARK_ENFORCE'', 64)]"

definition enum_ipproto :: c_enum where
  "enum_ipproto = [
      (''IPPROTO_IP'', 0), (''IPPROTO_ICMP'', 1), (''IPPROTO_IGMP'', 2), (''IPPROTO_IPIP'', 4),
      (''IPPROTO_TCP'', 6), (''IPPROTO_EGP'', 8), (''IPPROTO_PUP'', 12), (''IPPROTO_UDP'', 17),
      (''IPPROTO_IDP'', 22), (''IPPROTO_TP'', 29), (''IPPROTO_DCCP'', 33),
      (''IPPROTO_IPV6'', 41), (''IPPROTO_RSVP'', 46), (''IPPROTO_GRE'', 47),
      (''IPPROTO_ESP'', 50), (''IPPROTO_AH'', 51), (''IPPROTO_MTP'', 92),
      (''IPPROTO_BEETPH'', 94), (''IPPROTO_ENCAP'', 98), (''IPPROTO_PIM'', 103),
      (''IPPROTO_COMP'', 108), (''IPPROTO_L2TP'', 115), (''IPPROTO_SCTP'', 132),
      (''IPPROTO_UDPLITE'', 136), (''IPPROTO_MPLS'', 137), (''IPPROTO_ETHERNET'', 143),
      (''IPPROTO_RAW'', 255), (''IPPROTO_MPTCP'', 262), (''IPPROTO_MAX'', 263)]"

definition enum_tcp_state :: c_enum where
  "enum_tcp_state = [
      (''TCP_ESTABLISHED'', 1), (''TCP_SYN_SENT'', 2), (''TCP_SYN_RECV'', 3),
      (''TCP_FIN_WAIT1'', 4), (''TCP_FIN_WAIT2'', 5), (''TCP_TIME_WAIT'', 6),
      (''TCP_CLOSE'', 7), (''TCP_CLOSE_WAIT'', 8), (''TCP_LAST_ACK'', 9), (''TCP_LISTEN'', 10),
      (''TCP_CLOSING'', 11), (''TCP_NEW_SYN_RECV'', 12), (''TCP_MAX_STATES'', 13)]"

definition bpf_func_id_lo :: c_enum where
  "bpf_func_id_lo = [
      (''BPF_FUNC_unspec'', 0), (''BPF_FUNC_map_lookup_elem'', 1),
      (''BPF_FUNC_map_update_elem'', 2), (''BPF_FUNC_map_delete_elem'', 3),
      (''BPF_FUNC_probe_read'', 4), (''BPF_FUNC_ktime_get_ns'', 5),
      (''BPF_FUNC_trace_printk'', 6), (''BPF_FUNC_get_prandom_u32'', 7),
      (''BPF_FUNC_get_smp_processor_id'', 8), (''BPF_FUNC_skb_store_bytes'', 9),
      (''BPF_FUNC_l3_csum_replace'', 10), (''BPF_FUNC_l4_csum_replace'', 11),
      (''BPF_FUNC_tail_call'', 12), (''BPF_FUNC_clone_redirect'', 13),
      (''BPF_FUNC_get_current_pid_tgid'', 14), (''BPF_FUNC_get_current_uid_gid'', 15),
      (''BPF_FUNC_get_current_comm'', 16), (''BPF_FUNC_get_cgroup_classid'', 17),
      (''BPF_FUNC_skb_vlan_push'', 18), (''BPF_FUNC_skb_vlan_pop'', 19),
      (''BPF_FUNC_skb_get_tunnel_key'', 20), (''BPF_FUNC_skb_set_tunnel_key'', 21),
      (''BPF_FUNC_perf_event_read'', 22), (''BPF_FUNC_redirect'', 23),
      (''BPF_FUNC_get_route_realm'', 24), (''BPF_FUNC_perf_event_output'', 25),
      (''BPF_FUNC_skb_load_bytes'', 26), (''BPF_FUNC_get_stackid'', 27),
      (''BPF_FUNC_csum_diff'', 28), (''BPF_FUNC_skb_get_tunnel_opt'', 29),
      (''BPF_FUNC_skb_set_tunnel_opt'', 30), (''BPF_FUNC_skb_change_proto'', 31),
      (''BPF_FUNC_skb_change_type'', 32), (''BPF_FUNC_skb_under_cgroup'', 33),
      (''BPF_FUNC_get_hash_recalc'', 34), (''BPF_FUNC_get_current_task'', 35),
      (''BPF_FUNC_probe_write_user'', 36), (''BPF_FUNC_current_task_under_cgroup'', 37),
      (''BPF_FUNC_skb_change_tail'', 38), (''BPF_FUNC_skb_pull_data'', 39),
      (''BPF_FUNC_csum_update'', 40), (''BPF_FUNC_set_hash_invalid'', 41),
      (''BPF_FUNC_get_numa_node_id'', 42), (''BPF_FUNC_skb_change_head'', 43),
      (''BPF_FUNC_xdp_adjust_head'', 44), (''BPF_FUNC_probe_read_str'', 45),
      (''BPF_FUNC_get_socket_cookie'', 46), (''BPF_FUNC_get_socket_uid'', 47),
      (''BPF_FUNC_set_hash'', 48), (''BPF_FUNC_setsockopt'', 49),
      (''BPF_FUNC_skb_adjust_room'', 50), (''BPF_FUNC_redirect_map'', 51),
      (''BPF_FUNC_sk_redirect_map'', 52), (''BPF_FUNC_sock_map_update'', 53),
      (''BPF_FUNC_xdp_adjust_meta'', 54), (''BPF_FUNC_perf_event_read_value'', 55),
      (''BPF_FUNC_perf_prog_read_value'', 56), (''BPF_FUNC_getsockopt'', 57),
      (''BPF_FUNC_override_return'', 58), (''BPF_FUNC_sock_ops_cb_flags_set'', 59),
      (''BPF_FUNC_msg_redirect_map'', 60), (''BPF_FUNC_msg_apply_bytes'', 61),
      (''BPF_FUNC_msg_cork_bytes'', 62), (''BPF_FUNC_msg_pull_data'', 63),
      (''BPF_FUNC_bind'', 64), (''BPF_FUNC_xdp_adjust_tail'', 65),
      (''BPF_FUNC_skb_get_xfrm_state'', 66), (''BPF_FUNC_get_stack'', 67),
      (''BPF_FUNC_skb_load_bytes_relative'', 68), (''BPF_FUNC_fib_lookup'', 69),
      (''BPF_FUNC_sock_hash_update'', 70), (''BPF_FUNC_msg_redirect_hash'', 71),
      (''BPF_FUNC_sk_redirect_hash'', 72), (''BPF_FUNC_lwt_push_encap'', 73),
      (''BPF_FUNC_lwt_seg6_store_bytes'', 74), (''BPF_FUNC_lwt_seg6_adjust_srh'', 75),
      (''BPF_FUNC_lwt_seg6_action'', 76), (''BPF_FUNC_rc_repeat'', 77),
      (''BPF_FUNC_rc_keydown'', 78), (''BPF_FUNC_skb_cgroup_id'', 79),
      (''BPF_FUNC_get_current_cgroup_id'', 80), (''BPF_FUNC_get_local_storage'', 81),
      (''BPF_FUNC_sk_select_reuseport'', 82), (''BPF_FUNC_skb_ancestor_cgroup_id'', 83),
      (''BPF_FUNC_sk_lookup_tcp'', 84), (''BPF_FUNC_sk_lookup_udp'', 85),
      (''BPF_FUNC_sk_release'', 86), (''BPF_FUNC_map_push_elem'', 87),
      (''BPF_FUNC_map_pop_elem'', 88), (''BPF_FUNC_map_peek_elem'', 89),
      (''BPF_FUNC_msg_push_data'', 90), (''BPF_FUNC_msg_pop_data'', 91),
      (''BPF_FUNC_rc_pointer_rel'', 92), (''BPF_FUNC_spin_lock'', 93),
      (''BPF_FUNC_spin_unlock'', 94), (''BPF_FUNC_sk_fullsock'', 95),
      (''BPF_FUNC_tcp_sock'', 96), (''BPF_FUNC_skb_ecn_set_ce'', 97),
      (''BPF_FUNC_get_listener_sock'', 98), (''BPF_FUNC_skc_lookup_tcp'', 99),
      (''BPF_FUNC_tcp_check_syncookie'', 100), (''BPF_FUNC_sysctl_get_name'', 101),
      (''BPF_FUNC_sysctl_get_current_value'', 102), (''BPF_FUNC_sysctl_get_new_value'', 103),
      (''BPF_FUNC_sysctl_set_new_value'', 104), (''BPF_FUNC_strtol'', 105),
      (''BPF_FUNC_strtoul'', 106)]"

definition bpf_func_id_hi :: c_enum where
  "bpf_func_id_hi = [
      (''BPF_FUNC_sk_storage_get'', 107), (''BPF_FUNC_sk_storage_delete'', 108),
      (''BPF_FUNC_send_signal'', 109), (''BPF_FUNC_tcp_gen_syncookie'', 110),
      (''BPF_FUNC_skb_output'', 111), (''BPF_FUNC_probe_read_user'', 112),
      (''BPF_FUNC_probe_read_kernel'', 113), (''BPF_FUNC_probe_read_user_str'', 114),
      (''BPF_FUNC_probe_read_kernel_str'', 115), (''BPF_FUNC_tcp_send_ack'', 116),
      (''BPF_FUNC_send_signal_thread'', 117), (''BPF_FUNC_jiffies64'', 118),
      (''BPF_FUNC_read_branch_records'', 119), (''BPF_FUNC_get_ns_current_pid_tgid'', 120),
      (''BPF_FUNC_xdp_output'', 121), (''BPF_FUNC_get_netns_cookie'', 122),
      (''BPF_FUNC_get_current_ancestor_cgroup_id'', 123), (''BPF_FUNC_sk_assign'', 124),
      (''BPF_FUNC_ktime_get_boot_ns'', 125), (''BPF_FUNC_seq_printf'', 126),
      (''BPF_FUNC_seq_write'', 127), (''BPF_FUNC_sk_cgroup_id'', 128),
      (''BPF_FUNC_sk_ancestor_cgroup_id'', 129), (''BPF_FUNC_ringbuf_output'', 130),
      (''BPF_FUNC_ringbuf_reserve'', 131), (''BPF_FUNC_ringbuf_submit'', 132),
      (''BPF_FUNC_ringbuf_discard'', 133), (''BPF_FUNC_ringbuf_query'', 134),
      (''BPF_FUNC_csum_level'', 135), (''BPF_FUNC_skc_to_tcp6_sock'', 136),
      (''BPF_FUNC_skc_to_tcp_sock'', 137), (''BPF_FUNC_skc_to_tcp_timewait_sock'', 138),
      (''BPF_FUNC_skc_to_tcp_request_sock'', 139), (''BPF_FUNC_skc_to_udp6_sock'', 140),
      (''BPF_FUNC_get_task_stack'', 141), (''BPF_FUNC_load_hdr_opt'', 142),
      (''BPF_FUNC_store_hdr_opt'', 143), (''BPF_FUNC_reserve_hdr_opt'', 144),
      (''BPF_FUNC_inode_storage_get'', 145), (''BPF_FUNC_inode_storage_delete'', 146),
      (''BPF_FUNC_d_path'', 147), (''BPF_FUNC_copy_from_user'', 148),
      (''BPF_FUNC_snprintf_btf'', 149), (''BPF_FUNC_seq_printf_btf'', 150),
      (''BPF_FUNC_skb_cgroup_classid'', 151), (''BPF_FUNC_redirect_neigh'', 152),
      (''BPF_FUNC_per_cpu_ptr'', 153), (''BPF_FUNC_this_cpu_ptr'', 154),
      (''BPF_FUNC_redirect_peer'', 155), (''BPF_FUNC_task_storage_get'', 156),
      (''BPF_FUNC_task_storage_delete'', 157), (''BPF_FUNC_get_current_task_btf'', 158),
      (''BPF_FUNC_bprm_opts_set'', 159), (''BPF_FUNC_ktime_get_coarse_ns'', 160),
      (''BPF_FUNC_ima_inode_hash'', 161), (''BPF_FUNC_sock_from_file'', 162),
      (''BPF_FUNC_check_mtu'', 163), (''BPF_FUNC_for_each_map_elem'', 164),
      (''BPF_FUNC_snprintf'', 165), (''BPF_FUNC_sys_bpf'', 166),
      (''BPF_FUNC_btf_find_by_name_kind'', 167), (''BPF_FUNC_sys_close'', 168),
      (''BPF_FUNC_timer_init'', 169), (''BPF_FUNC_timer_set_callback'', 170),
      (''BPF_FUNC_timer_start'', 171), (''BPF_FUNC_timer_cancel'', 172),
      (''BPF_FUNC_get_func_ip'', 173), (''BPF_FUNC_get_attach_cookie'', 174),
      (''BPF_FUNC_task_pt_regs'', 175), (''BPF_FUNC_get_branch_snapshot'', 176),
      (''BPF_FUNC_trace_vprintk'', 177), (''BPF_FUNC_skc_to_unix_sock'', 178),
      (''BPF_FUNC_kallsyms_lookup_name'', 179), (''BPF_FUNC_find_vma'', 180),
      (''BPF_FUNC_loop'', 181), (''BPF_FUNC_strncmp'', 182), (''BPF_FUNC_get_func_arg'', 183),
      (''BPF_FUNC_get_func_ret'', 184), (''BPF_FUNC_get_func_arg_cnt'', 185),
      (''BPF_FUNC_get_retval'', 186), (''BPF_FUNC_set_retval'', 187),
      (''BPF_FUNC_xdp_get_buff_len'', 188), (''BPF_FUNC_xdp_load_bytes'', 189),
      (''BPF_FUNC_xdp_store_bytes'', 190), (''BPF_FUNC_copy_from_user_task'', 191),
      (''BPF_FUNC_skb_set_tstamp'', 192), (''BPF_FUNC_ima_file_hash'', 193),
      (''BPF_FUNC_kptr_xchg'', 194), (''BPF_FUNC_map_lookup_percpu_elem'', 195),
      (''BPF_FUNC_skc_to_mptcp_sock'', 196), (''BPF_FUNC_dynptr_from_mem'', 197),
      (''BPF_FUNC_ringbuf_reserve_dynptr'', 198), (''BPF_FUNC_ringbuf_submit_dynptr'', 199),
      (''BPF_FUNC_ringbuf_discard_dynptr'', 200), (''BPF_FUNC_dynptr_read'', 201),
      (''BPF_FUNC_dynptr_write'', 202), (''BPF_FUNC_dynptr_data'', 203),
      (''BPF_FUNC_tcp_raw_gen_syncookie_ipv4'', 204),
      (''BPF_FUNC_tcp_raw_gen_syncookie_ipv6'', 205),
      (''BPF_FUNC_tcp_raw_check_syncookie_ipv4'', 206),
      (''BPF_FUNC_tcp_raw_check_syncookie_ipv6'', 207), (''BPF_FUNC_ktime_get_tai_ns'', 208),
      (''BPF_FUNC_user_ringbuf_drain'', 209), (''BPF_FUNC_cgrp_storage_get'', 210),
      (''BPF_FUNC_cgrp_storage_delete'', 211), (''__BPF_FUNC_MAX_ID'', 212)]"

definition enum_bpf_map_type :: c_enum where
  "enum_bpf_map_type = [
      (''BPF_MAP_TYPE_UNSPEC'', 0), (''BPF_MAP_TYPE_HASH'', 1), (''BPF_MAP_TYPE_ARRAY'', 2),
      (''BPF_MAP_TYPE_PROG_ARRAY'', 3), (''BPF_MAP_TYPE_PERF_EVENT_ARRAY'', 4),
      (''BPF_MAP_TYPE_PERCPU_HASH'', 5), (''BPF_MAP_TYPE_PERCPU_ARRAY'', 6),
      (''BPF_MAP_TYPE_STACK_TRACE'', 7), (''BPF_MAP_TYPE_CGROUP_ARRAY'', 8),
      (''BPF_MAP_TYPE_LRU_HASH'', 9), (''BPF_MAP_TYPE_LRU_PERCPU_HASH'', 10),
      (''BPF_MAP_TYPE_LPM_TRIE'', 11), (''BPF_MAP_TYPE_ARRAY_OF_MAPS'', 12),
      (''BPF_MAP_TYPE_HASH_OF_MAPS'', 13), (''BPF_MAP_TYPE_DEVMAP'', 14),
      (''BPF_MAP_TYPE_SOCKMAP'', 15), (''BPF_MAP_TYPE_CPUMAP'', 16),
      (''BPF_MAP_TYPE_XSKMAP'', 17), (''BPF_MAP_TYPE_SOCKHASH'', 18),
      (''BPF_MAP_TYPE_CGROUP_STORAGE_DEPRECATED'', 19), (''BPF_MAP_TYPE_CGROUP_STORAGE'', 19),
      (''BPF_MAP_TYPE_REUSEPORT_SOCKARRAY'', 20), (''BPF_MAP_TYPE_PERCPU_CGROUP_STORAGE'', 21),
      (''BPF_MAP_TYPE_QUEUE'', 22), (''BPF_MAP_TYPE_STACK'', 23),
      (''BPF_MAP_TYPE_SK_STORAGE'', 24), (''BPF_MAP_TYPE_DEVMAP_HASH'', 25),
      (''BPF_MAP_TYPE_STRUCT_OPS'', 26), (''BPF_MAP_TYPE_RINGBUF'', 27),
      (''BPF_MAP_TYPE_INODE_STORAGE'', 28), (''BPF_MAP_TYPE_TASK_STORAGE'', 29),
      (''BPF_MAP_TYPE_BLOOM_FILTER'', 30), (''BPF_MAP_TYPE_USER_RINGBUF'', 31),
      (''BPF_MAP_TYPE_CGRP_STORAGE'', 32)]"

definition enum_bpf_prog_type :: c_enum where
  "enum_bpf_prog_type = [
      (''BPF_PROG_TYPE_UNSPEC'', 0), (''BPF_PROG_TYPE_SOCKET_FILTER'', 1),
      (''BPF_PROG_TYPE_KPROBE'', 2), (''BPF_PROG_TYPE_SCHED_CLS'', 3),
      (''BPF_PROG_TYPE_SCHED_ACT'', 4), (''BPF_PROG_TYPE_TRACEPOINT'', 5),
      (''BPF_PROG_TYPE_XDP'', 6), (''BPF_PROG_TYPE_PERF_EVENT'', 7),
      (''BPF_PROG_TYPE_CGROUP_SKB'', 8), (''BPF_PROG_TYPE_CGROUP_SOCK'', 9),
      (''BPF_PROG_TYPE_LWT_IN'', 10), (''BPF_PROG_TYPE_LWT_OUT'', 11),
      (''BPF_PROG_TYPE_LWT_XMIT'', 12), (''BPF_PROG_TYPE_SOCK_OPS'', 13),
      (''BPF_PROG_TYPE_SK_SKB'', 14), (''BPF_PROG_TYPE_CGROUP_DEVICE'', 15),
      (''BPF_PROG_TYPE_SK_MSG'', 16), (''BPF_PROG_TYPE_RAW_TRACEPOINT'', 17),
      (''BPF_PROG_TYPE_CGROUP_SOCK_ADDR'', 18), (''BPF_PROG_TYPE_LWT_SEG6LOCAL'', 19),
      (''BPF_PROG_TYPE_LIRC_MODE2'', 20), (''BPF_PROG_TYPE_SK_REUSEPORT'', 21),
      (''BPF_PROG_TYPE_FLOW_DISSECTOR'', 22), (''BPF_PROG_TYPE_CGROUP_SYSCTL'', 23),
      (''BPF_PROG_TYPE_RAW_TRACEPOINT_WRITABLE'', 24), (''BPF_PROG_TYPE_CGROUP_SOCKOPT'', 25),
      (''BPF_PROG_TYPE_TRACING'', 26), (''BPF_PROG_TYPE_STRUCT_OPS'', 27),
      (''BPF_PROG_TYPE_EXT'', 28), (''BPF_PROG_TYPE_LSM'', 29),
      (''BPF_PROG_TYPE_SK_LOOKUP'', 30), (''BPF_PROG_TYPE_SYSCALL'', 31),
      (''BPF_PROG_TYPE_NETFILTER'', 32)]"

definition enum_bpf_attach_type :: c_enum where
  "enum_bpf_attach_type = [
      (''BPF_CGROUP_INET_INGRESS'', 0), (''BPF_CGROUP_INET_EGRESS'', 1),
      (''BPF_CGROUP_INET_SOCK_CREATE'', 2), (''BPF_CGROUP_SOCK_OPS'', 3),
      (''BPF_SK_SKB_STREAM_PARSER'', 4), (''BPF_SK_SKB_STREAM_VERDICT'', 5),
      (''BPF_CGROUP_DEVICE'', 6), (''BPF_SK_MSG_VERDICT'', 7), (''BPF_CGROUP_INET4_BIND'', 8),
      (''BPF_CGROUP_INET6_BIND'', 9), (''BPF_CGROUP_INET4_CONNECT'', 10),
      (''BPF_CGROUP_INET6_CONNECT'', 11), (''BPF_CGROUP_INET4_POST_BIND'', 12),
      (''BPF_CGROUP_INET6_POST_BIND'', 13), (''BPF_CGROUP_UDP4_SENDMSG'', 14),
      (''BPF_CGROUP_UDP6_SENDMSG'', 15), (''BPF_LIRC_MODE2'', 16), (''BPF_FLOW_DISSECTOR'', 17),
      (''BPF_CGROUP_SYSCTL'', 18), (''BPF_CGROUP_UDP4_RECVMSG'', 19),
      (''BPF_CGROUP_UDP6_RECVMSG'', 20), (''BPF_CGROUP_GETSOCKOPT'', 21),
      (''BPF_CGROUP_SETSOCKOPT'', 22), (''BPF_TRACE_RAW_TP'', 23), (''BPF_TRACE_FENTRY'', 24),
      (''BPF_TRACE_FEXIT'', 25), (''BPF_MODIFY_RETURN'', 26), (''BPF_LSM_MAC'', 27),
      (''BPF_TRACE_ITER'', 28), (''BPF_CGROUP_INET4_GETPEERNAME'', 29),
      (''BPF_CGROUP_INET6_GETPEERNAME'', 30), (''BPF_CGROUP_INET4_GETSOCKNAME'', 31),
      (''BPF_CGROUP_INET6_GETSOCKNAME'', 32), (''BPF_XDP_DEVMAP'', 33),
      (''BPF_CGROUP_INET_SOCK_RELEASE'', 34), (''BPF_XDP_CPUMAP'', 35), (''BPF_SK_LOOKUP'', 36),
      (''BPF_XDP'', 37), (''BPF_SK_SKB_VERDICT'', 38), (''BPF_SK_REUSEPORT_SELECT'', 39),
      (''BPF_SK_REUSEPORT_SELECT_OR_MIGRATE'', 40), (''BPF_PERF_EVENT'', 41),
      (''BPF_TRACE_KPROBE_MULTI'', 42), (''BPF_LSM_CGROUP'', 43), (''BPF_STRUCT_OPS'', 44),
      (''BPF_NETFILTER'', 45), (''BPF_TCX_INGRESS'', 46), (''BPF_TCX_EGRESS'', 47),
      (''BPF_TRACE_UPROBE_MULTI'', 48), (''__MAX_BPF_ATTACH_TYPE'', 49)]"

definition enum_bpf_ret_code :: c_enum where
  "enum_bpf_ret_code = [
      (''BPF_OK'', 0), (''BPF_DROP'', 2), (''BPF_REDIRECT'', 7), (''BPF_LWT_REROUTE'', 128),
      (''BPF_FLOW_DISSECTOR_CONTINUE'', 129)]"

definition enum_tcx_action_base :: c_enum where
  "enum_tcx_action_base = [
      (''TCX_NEXT'', -1), (''TCX_PASS'', 0), (''TCX_DROP'', 2), (''TCX_REDIRECT'', 7)]"

definition enum_bpf_func_id :: c_enum where
  "enum_bpf_func_id = bpf_func_id_lo @ bpf_func_id_hi"

text \<open>The value of an enumerator.\<close>

definition enum_val :: "c_enum \<Rightarrow> string \<Rightarrow> int option" where
  "enum_val e n = map_of e n"

end
