(* ===== verification/Skb.thy ===== *)
theory Skb
  imports Checksum Endian Vmlinux
begin

text \<open>
  The packet a tc program works on and the kernel it calls. \<open>skb\<close> holds what the programs read of
  \<^verbatim>\<open>struct __sk_buff\<close>: the packet bytes, how many of them lie in the linear area between
  \<^verbatim>\<open>data\<close> and \<^verbatim>\<open>data_end\<close>, the link-layer protocol and the interface index. Direct packet access is
  bounds-checked: an access outside the linear area is \<open>None\<close>. The four packet helpers are kernel
  code, so they are a parameter, a record of functions; the locale \<open>skb_kernel\<close> states what
  \<^verbatim>\<open>bpf_helper_defs.h\<close> documents about them, and \<open>doc_kernel\<close> is an executable kernel that satisfies
  it.
\<close>

section \<open>The packet\<close>

record skb =
  pkt :: "byte list"
  headlen :: nat
  protocol :: u32
  ifindex :: u32

definition wf_skb :: "skb \<Rightarrow> bool" where
  "wf_skb s \<longleftrightarrow> headlen s \<le> length (pkt s)"

text \<open>Reading and writing through a pointer into the linear area (offsets from \<^verbatim>\<open>data\<close>).\<close>

definition direct_read :: "skb \<Rightarrow> nat \<Rightarrow> nat \<Rightarrow> byte list option" where
  "direct_read s off n = (if off + n \<le> headlen s then Some (read_at off n (pkt s)) else None)"

definition direct_write :: "skb \<Rightarrow> nat \<Rightarrow> byte list \<Rightarrow> skb option" where
  "direct_write s off bs =
     (if off + length bs \<le> headlen s then Some (s\<lparr>pkt := write_at off bs (pkt s)\<rparr>) else None)"

lemma direct_read_ok [simp]:
  "off + n \<le> headlen s \<Longrightarrow> direct_read s off n = Some (read_at off n (pkt s))"
  by (simp add: direct_read_def)

lemma direct_write_ok [simp]:
  "off + length bs \<le> headlen s \<Longrightarrow> direct_write s off bs = Some (s\<lparr>pkt := write_at off bs (pkt s)\<rparr>)"
  by (simp add: direct_write_def)

text \<open>
  What a tc program returns: an action code, or the value of a redirect helper it ends with (target
  interface and flags). \<^verbatim>\<open>bpf_redirect_neigh\<close> is always called without parameters.
\<close>

datatype tc_verdict =
    Act int
  | Redirect u32 u64
  | RedirectNeigh u32 u64
  | RedirectPeer u32 u64

section \<open>The kernel's packet helpers\<close>

text \<open>
  Each takes the packet and its arguments and gives the return value and, for a load, the contents
  of the destination buffer after the call, otherwise the packet after the call.
\<close>

record kernel =
  bpf_skb_load_bytes :: "skb \<Rightarrow> nat \<Rightarrow> nat \<Rightarrow> int \<times> byte list"
  bpf_skb_store_bytes :: "skb \<Rightarrow> nat \<Rightarrow> byte list \<Rightarrow> u64 \<Rightarrow> int \<times> skb"
  bpf_l3_csum_replace :: "skb \<Rightarrow> nat \<Rightarrow> u64 \<Rightarrow> u64 \<Rightarrow> u64 \<Rightarrow> int \<times> skb"
  bpf_l4_csum_replace :: "skb \<Rightarrow> nat \<Rightarrow> u64 \<Rightarrow> u64 \<Rightarrow> u64 \<Rightarrow> int \<times> skb"

text \<open>
  \<open>csum_replaced bo off old new p p'\<close>: the 16-bit checksum at \<open>off\<close> of \<open>p\<close> was updated incrementally
  for a field that changed from \<open>old\<close> to \<open>new\<close>, and nothing else changed. A checksum is the
  complement of a sum, so it moves against the field, modulo 65535.
\<close>

definition csum_replaced ::
  "byte_order \<Rightarrow> nat \<Rightarrow> nat \<Rightarrow> nat \<Rightarrow> byte list \<Rightarrow> byte list \<Rightarrow> bool" where
  "csum_replaced bo off old new p p' \<longleftrightarrow>
     (\<exists>c. length c = 2 \<and> p' = write_at off c p \<and>
       ceq (mem_nat bo c + new) (mem_nat bo (read_at off 2 p) + old))"

text \<open>A helper that only rewrites packet bytes keeps the rest of the context.\<close>

definition same_ctx :: "skb \<Rightarrow> skb \<Rightarrow> bool" where
  "same_ctx s s' \<longleftrightarrow>
     protocol s' = protocol s \<and> ifindex s' = ifindex s \<and> (wf_skb s \<longrightarrow> wf_skb s')"

lemma same_ctx_refl [simp]: "same_ctx s s"
  by (simp add: same_ctx_def)

lemma same_ctx_trans [trans]: "same_ctx s t \<Longrightarrow> same_ctx t u \<Longrightarrow> same_ctx s u"
  by (auto simp: same_ctx_def)

text \<open>
  The contract. A checksum helper needs an even offset below 64 KiB; a call inside the packet is
  taken to succeed (the kernel could also fail to allocate, which no program here handles).
\<close>

locale skb_kernel =
  fixes K :: kernel and bo :: byte_order
  assumes load_ok:
      "off + n \<le> length (pkt s) \<Longrightarrow> bpf_skb_load_bytes K s off n = (0, read_at off n (pkt s))"
    and load_err: "length (pkt s) < off + n \<Longrightarrow> fst (bpf_skb_load_bytes K s off n) < 0"
    and load_length: "length (snd (bpf_skb_load_bytes K s off n)) = n"
    and store_ok:
      "off + length bs \<le> length (pkt s) \<Longrightarrow> bpf_skb_store_bytes K s off bs 0 = (r, s') \<Longrightarrow>
       r = 0 \<and> pkt s' = write_at off bs (pkt s) \<and> same_ctx s s'"
    and store_err:
      "length (pkt s) < off + length bs \<Longrightarrow> bpf_skb_store_bytes K s off bs fl = (r, s') \<Longrightarrow>
       r < 0 \<and> pkt s' = pkt s \<and> same_ctx s s'"
    and l3_ok:
      "even off \<Longrightarrow> off \<le> 65535 \<Longrightarrow> off + 2 \<le> length (pkt s) \<Longrightarrow> sz = 2 \<or> sz = 4 \<Longrightarrow>
       unat old < 256 ^ unat sz \<Longrightarrow> unat new < 256 ^ unat sz \<Longrightarrow>
       bpf_l3_csum_replace K s off old new sz = (r, s') \<Longrightarrow>
       r = 0 \<and> csum_replaced bo off (unat old) (unat new) (pkt s) (pkt s') \<and> same_ctx s s'"
    and l3_err:
      "length (pkt s) < off + 2 \<Longrightarrow> bpf_l3_csum_replace K s off old new sz = (r, s') \<Longrightarrow>
       r < 0 \<and> pkt s' = pkt s \<and> same_ctx s s'"
    and l4_ok:
      "even off \<Longrightarrow> off \<le> 65535 \<Longrightarrow> off + 2 \<le> length (pkt s) \<Longrightarrow>
       fl AND 15 = 2 \<or> fl AND 15 = 4 \<Longrightarrow> fl AND 96 = 0 \<Longrightarrow>
       unat old < 256 ^ unat (fl AND 15) \<Longrightarrow> unat new < 256 ^ unat (fl AND 15) \<Longrightarrow>
       bpf_l4_csum_replace K s off old new fl = (r, s') \<Longrightarrow>
       r = 0 \<and> csum_replaced bo off (unat old) (unat new) (pkt s) (pkt s') \<and> same_ctx s s'"
    and l4_diff:
      "even off \<Longrightarrow> off \<le> 65535 \<Longrightarrow> off + 2 \<le> length (pkt s) \<Longrightarrow> fl AND 15 = 0 \<Longrightarrow> fl AND 96 = 0 \<Longrightarrow> old = 0 \<Longrightarrow>
       bpf_l4_csum_replace K s off old new fl = (r, s') \<Longrightarrow>
       r = 0 \<and> csum_replaced bo off 0 (unat new) (pkt s) (pkt s') \<and> same_ctx s s'"
    and l4_neither:
      "fl AND 15 \<noteq> 2 \<Longrightarrow> fl AND 15 \<noteq> 4 \<Longrightarrow> \<not> (fl AND 15 = 0 \<and> old = 0) \<Longrightarrow>
       bpf_l4_csum_replace K s off old new fl = (r, s') \<Longrightarrow>
       r < 0 \<and> pkt s' = pkt s \<and> same_ctx s s'"
    and l4_err:
      "length (pkt s) < off + 2 \<Longrightarrow> bpf_l4_csum_replace K s off old new fl = (r, s') \<Longrightarrow>
       r < 0 \<and> pkt s' = pkt s \<and> same_ctx s s'"

section \<open>A kernel that does what is documented\<close>

text \<open>
  The incremental update in one's complement: \<open>~(~c + ~old + new)\<close> with end-around carry. A 64-bit
  complement serves fields of every size, since $2^{64}-1$ is a multiple of 65535.
\<close>

definition csum_update :: "byte_order \<Rightarrow> u64 \<Rightarrow> u64 \<Rightarrow> byte list \<Rightarrow> byte list" where
  "csum_update bo old new c =
     mem_bytes bo 2
       (65535 - csum_fold ((65535 - mem_nat bo c) + (18446744073709551615 - unat old) + unat new))"

definition doc_csum_replace ::
  "byte_order \<Rightarrow> u64 \<Rightarrow> skb \<Rightarrow> nat \<Rightarrow> u64 \<Rightarrow> u64 \<Rightarrow> u64 \<Rightarrow> int \<times> skb" where
  "doc_csum_replace bo sz s off old new fl =
     (let c = read_at off 2 (pkt s)
      in if length (pkt s) < off + 2 then (- 14, s)
         else if sz = 2 \<or> sz = 4 \<or> (sz = 0 \<and> old = 0) then
           if fl AND 32 \<noteq> 0 \<and> fl AND 64 = 0 \<and> mem_nat bo c = 0 then (0, s)
           else let c' = csum_update bo old new c;
                    c'' = (if fl AND 32 \<noteq> 0 \<and> mem_nat bo c' = 0 then [255, 255] else c')
                in (0, s\<lparr>pkt := write_at off c'' (pkt s)\<rparr>)
         else (- 22, s))"

definition doc_kernel :: "byte_order \<Rightarrow> kernel" where
  "doc_kernel bo =
     \<lparr>bpf_skb_load_bytes = (\<lambda>s off n.
        if off + n \<le> length (pkt s) then (0, read_at off n (pkt s)) else (- 14, replicate n 0)),
      bpf_skb_store_bytes = (\<lambda>s off bs fl.
        if off + length bs \<le> length (pkt s) then (0, s\<lparr>pkt := write_at off bs (pkt s)\<rparr>)
        else (- 14, s)),
      bpf_l3_csum_replace = (\<lambda>s off old new sz. doc_csum_replace bo sz s off old new 0),
      bpf_l4_csum_replace = (\<lambda>s off old new fl. doc_csum_replace bo (fl AND 15) s off old new fl)\<rparr>"

lemma length_csum_update [simp]: "length (csum_update bo old new c) = 2"
  by (simp add: csum_update_def)

lemma csum_update_cong:
  assumes "length c = 2"
  shows "ceq (mem_nat bo (csum_update bo old new c) + unat new) (mem_nat bo c + unat old)"
proof -
  define a where "a = 65535 - mem_nat bo c"
  define b where "b = 18446744073709551615 - unat old"
  define f where "f = csum_fold (a + b + unat new)"
  define c' where "c' = mem_nat bo (csum_update bo old new c)"
  have a: "mem_nat bo c + a = 65535" using mem_nat_less [of bo c] assms by (simp add: a_def)
  have b: "unat old + b = 18446744073709551615"
    using unsigned_less [of old, where 'a = nat] by (simp add: b_def)
  have "f \<le> 65535" using csum_fold_less [of "a + b + unat new"] by (simp add: f_def)
  then have y: "c' + f = 65535"
    by (simp add: c'_def csum_update_def mem_nat_mem_bytes f_def a_def b_def)
  have "ceq f (a + b + unat new)" by (simp add: ceq_def f_def csum_fold_mod)
  then have "ceq (mem_nat bo c + unat old + f) (mem_nat bo c + unat old + (a + b + unat new))"
    by (intro ceq_add ceq_refl)
  also have "mem_nat bo c + unat old + (a + b + unat new) = unat new + 281479271743490 * 65535"
    using a b by linarith
  also have "ceq \<dots> (unat new)" unfolding ceq_def by (rule mod_mult_self1)
  also have "ceq (unat new) (c' + unat new + f)"
  proof -
    have "c' + unat new + f = unat new + 1 * 65535" using y by linarith
    then show ?thesis unfolding ceq_def by (simp only: mod_mult_self1)
  qed
  finally show ?thesis unfolding c'_def [symmetric] by (rule ceq_sym [OF ceq_cancel])
qed

lemma doc_csum_replace_plain:
  assumes "off + 2 \<le> length (pkt s)" "sz = 2 \<or> sz = 4 \<or> (sz = 0 \<and> old = 0)" "fl AND 32 = 0"
  shows "doc_csum_replace bo sz s off old new fl =
    (0, s\<lparr>pkt := write_at off (csum_update bo old new (read_at off 2 (pkt s))) (pkt s)\<rparr>)"
  using assms by (auto simp: doc_csum_replace_def Let_def)

lemma doc_csum_replaced:
  assumes "off + 2 \<le> length p"
  shows "csum_replaced bo off (unat old) (unat new) p (write_at off (csum_update bo old new (read_at off 2 p)) p)"
  unfolding csum_replaced_def
  using csum_update_cong [of "read_at off 2 p" bo old new] assms
  by (intro exI [of _ "csum_update bo old new (read_at off 2 p)"]) simp

lemma flag_32: "fl AND 96 = 0 \<Longrightarrow> fl AND 32 = (0 :: u64)"
proof -
  assume "fl AND 96 = 0"
  moreover have "fl AND 32 = (fl AND 96) AND 32" by (simp add: and.assoc)
  ultimately show ?thesis by simp
qed

lemma same_ctx_pkt: "length p = length (pkt s) \<Longrightarrow> same_ctx s (s\<lparr>pkt := p\<rparr>)"
  by (simp add: same_ctx_def wf_skb_def)

interpretation doc: skb_kernel "doc_kernel bo" bo for bo
proof (unfold_locales, goal_cases)
  case (6 off s sz old new r s')
  then have "(r, s') = (0, s\<lparr>pkt := write_at off (csum_update bo old new (read_at off 2 (pkt s))) (pkt s)\<rparr>)"
    using doc_csum_replace_plain [of off s sz old 0 bo new] by (auto simp: doc_kernel_def)
  with 6 show ?case using doc_csum_replaced [of off "pkt s"] by (auto simp: same_ctx_pkt)
next
  case (8 off s fl old new r s')
  then have "(r, s') = (0, s\<lparr>pkt := write_at off (csum_update bo old new (read_at off 2 (pkt s))) (pkt s)\<rparr>)"
    using doc_csum_replace_plain [of off s "fl AND 15" old fl bo new] flag_32 [of fl]
    by (auto simp: doc_kernel_def)
  with 8 show ?case using doc_csum_replaced [of off "pkt s"] by (auto simp: same_ctx_pkt)
next
  case (9 off s fl old new r s')
  then have "(r, s') = (0, s\<lparr>pkt := write_at off (csum_update bo 0 new (read_at off 2 (pkt s))) (pkt s)\<rparr>)"
    using doc_csum_replace_plain [of off s "fl AND 15" 0 fl bo new] flag_32 [of fl]
    by (auto simp: doc_kernel_def)
  with 9 show ?case using doc_csum_replaced [of off "pkt s" bo 0 new] by (auto simp: same_ctx_pkt)
qed (auto simp: doc_kernel_def doc_csum_replace_def same_ctx_pkt Let_def split: if_splits)

end
