(* ===== verification/If_Ether.thy ===== *)
theory If_Ether
  imports Vmlinux
begin

text \<open>
  The Ethernet constants of \<^verbatim>\<open>linux/if_ether.h\<close>: frame sizes, and the protocol identifiers as two
  tables, the registered ones and those the header calls non DIX types. The lemmas relate them to the
  layout of \<^verbatim>\<open>struct ethhdr\<close> and to each other.
\<close>

section \<open>Sizes\<close>

definition ETH_ALEN :: nat where [const_defs]: "ETH_ALEN = 6"
definition ETH_TLEN :: nat where [const_defs]: "ETH_TLEN = 2"
definition ETH_HLEN :: nat where [const_defs]: "ETH_HLEN = 14"
definition ETH_ZLEN :: nat where [const_defs]: "ETH_ZLEN = 60"
definition ETH_DATA_LEN :: nat where [const_defs]: "ETH_DATA_LEN = 1500"
definition ETH_FRAME_LEN :: nat where [const_defs]: "ETH_FRAME_LEN = 1514"
definition ETH_FCS_LEN :: nat where [const_defs]: "ETH_FCS_LEN = 4"
definition ETH_MIN_MTU :: nat where [const_defs]: "ETH_MIN_MTU = 68"
definition ETH_MAX_MTU :: nat where [const_defs]: "ETH_MAX_MTU = 65535"

section \<open>Protocol identifiers\<close>

definition eth_p_dix :: c_enum where
  "eth_p_dix = [
      (''ETH_P_LOOP'', 96), (''ETH_P_PUP'', 512), (''ETH_P_PUPAT'', 513), (''ETH_P_TSN'', 8944),
      (''ETH_P_ERSPAN2'', 8939), (''ETH_P_IP'', 2048), (''ETH_P_X25'', 2053),
      (''ETH_P_ARP'', 2054), (''ETH_P_BPQ'', 2303), (''ETH_P_IEEEPUP'', 2560),
      (''ETH_P_IEEEPUPAT'', 2561), (''ETH_P_BATMAN'', 17157), (''ETH_P_DEC'', 24576),
      (''ETH_P_DNA_DL'', 24577), (''ETH_P_DNA_RC'', 24578), (''ETH_P_DNA_RT'', 24579),
      (''ETH_P_LAT'', 24580), (''ETH_P_DIAG'', 24581), (''ETH_P_CUST'', 24582),
      (''ETH_P_SCA'', 24583), (''ETH_P_TEB'', 25944), (''ETH_P_RARP'', 32821),
      (''ETH_P_ATALK'', 32923), (''ETH_P_AARP'', 33011), (''ETH_P_8021Q'', 33024),
      (''ETH_P_ERSPAN'', 35006), (''ETH_P_IPX'', 33079), (''ETH_P_IPV6'', 34525),
      (''ETH_P_PAUSE'', 34824), (''ETH_P_SLOW'', 34825), (''ETH_P_WCCP'', 34878),
      (''ETH_P_MPLS_UC'', 34887), (''ETH_P_MPLS_MC'', 34888), (''ETH_P_ATMMPOA'', 34892),
      (''ETH_P_PPP_DISC'', 34915), (''ETH_P_PPP_SES'', 34916), (''ETH_P_LINK_CTL'', 34924),
      (''ETH_P_ATMFATE'', 34948), (''ETH_P_PAE'', 34958), (''ETH_P_PROFINET'', 34962),
      (''ETH_P_REALTEK'', 34969), (''ETH_P_AOE'', 34978), (''ETH_P_ETHERCAT'', 34980),
      (''ETH_P_8021AD'', 34984), (''ETH_P_802_EX1'', 34997), (''ETH_P_PREAUTH'', 35015),
      (''ETH_P_TIPC'', 35018), (''ETH_P_LLDP'', 35020), (''ETH_P_MRP'', 35043),
      (''ETH_P_MACSEC'', 35045), (''ETH_P_8021AH'', 35047), (''ETH_P_MVRP'', 35061),
      (''ETH_P_1588'', 35063), (''ETH_P_NCSI'', 35064), (''ETH_P_PRP'', 35067),
      (''ETH_P_CFM'', 35074), (''ETH_P_FCOE'', 35078), (''ETH_P_IBOE'', 35093),
      (''ETH_P_TDLS'', 35085), (''ETH_P_FIP'', 35092), (''ETH_P_80221'', 35095),
      (''ETH_P_HSR'', 35119), (''ETH_P_NSH'', 35151), (''ETH_P_LOOPBACK'', 36864),
      (''ETH_P_QINQ1'', 37120), (''ETH_P_QINQ2'', 37376), (''ETH_P_QINQ3'', 37632),
      (''ETH_P_EDSA'', 56026), (''ETH_P_DSA_8021Q'', 56027), (''ETH_P_DSA_A5PSW'', 57345),
      (''ETH_P_IFE'', 60734), (''ETH_P_AF_IUCV'', 64507)]"

definition eth_p_non_dix :: c_enum where
  "eth_p_non_dix = [
      (''ETH_P_802_3'', 1), (''ETH_P_AX25'', 2), (''ETH_P_ALL'', 3), (''ETH_P_802_2'', 4),
      (''ETH_P_SNAP'', 5), (''ETH_P_DDCMP'', 6), (''ETH_P_WAN_PPP'', 7), (''ETH_P_PPP_MP'', 8),
      (''ETH_P_LOCALTALK'', 9), (''ETH_P_CAN'', 12), (''ETH_P_CANFD'', 13),
      (''ETH_P_CANXL'', 14), (''ETH_P_PPPTALK'', 16), (''ETH_P_TR_802_2'', 17),
      (''ETH_P_MOBITEX'', 21), (''ETH_P_CONTROL'', 22), (''ETH_P_IRDA'', 23),
      (''ETH_P_ECONET'', 24), (''ETH_P_HDLC'', 25), (''ETH_P_ARCNET'', 26), (''ETH_P_DSA'', 27),
      (''ETH_P_TRAILER'', 28), (''ETH_P_PHONET'', 245), (''ETH_P_IEEE802154'', 246),
      (''ETH_P_CAIF'', 247), (''ETH_P_XDSA'', 248), (''ETH_P_MAP'', 249), (''ETH_P_MCTP'', 250)]"

definition ETH_P_802_3_MIN :: int where [const_defs]: "ETH_P_802_3_MIN = 1536"

text \<open>The two identifiers the programs compare the link-layer protocol with.\<close>

definition ETH_P_IP :: u16 where [const_defs]: "ETH_P_IP = 2048"
definition ETH_P_ARP :: u16 where [const_defs]: "ETH_P_ARP = 2054"

section \<open>Properties\<close>

lemmas layout_eval = sizeof_def offsetof_def roundup_def bits_at_def layout_defs

text \<open>
  The Ethernet constants fit the structures and each other: \<^verbatim>\<open>ETH_HLEN\<close> is the size of
  \<^verbatim>\<open>struct ethhdr\<close> and splits into two addresses and the type, the largest frame is header plus
  payload, \<^verbatim>\<open>ETH_P_IP\<close> and \<^verbatim>\<open>ETH_P_ARP\<close> are the values of the table, the identifiers of each
  table are pairwise distinct, and every non DIX type lies below \<^verbatim>\<open>ETH_P_802_3_MIN\<close> and is none of
  the registered identifiers.
\<close>

theorem if_ether_consistent:
  "ETH_HLEN = sizeof struct_ethhdr \<and> ETH_HLEN = 2 * ETH_ALEN + ETH_TLEN \<and>
   offsetof struct_ethhdr ''h_source'' = Some ETH_ALEN \<and>
   offsetof struct_ethhdr ''h_proto'' = Some (2 * ETH_ALEN) \<and>
   ETH_FRAME_LEN = ETH_HLEN + ETH_DATA_LEN \<and>
   enum_val eth_p_dix ''ETH_P_IP'' = Some (uint ETH_P_IP) \<and>
   enum_val eth_p_dix ''ETH_P_ARP'' = Some (uint ETH_P_ARP) \<and>
   distinct (map snd eth_p_dix) \<and> distinct (map snd eth_p_non_dix) \<and>
   list_all (\<lambda>(_, v). v < ETH_P_802_3_MIN \<and> v \<notin> snd ` set eth_p_dix) eth_p_non_dix"
  apply (intro conjI)
  apply (simp_all add: layout_eval const_defs)
  apply (simp_all add: enum_val_def eth_p_dix_def eth_p_non_dix_def)
  done

end
