(* ===== verification/Frame.thy ===== *)
theory Frame
  imports Checksum Endian
begin

text \<open>
  The vocabulary in which the properties speak of packets: the fields of an Ethernet frame that
  carries IPv4 without options and TCP or UDP, read in network order, the checksums over the IP
  header and over the transport segment with its pseudo header, and ``nothing changed outside these
  ranges''. It is specification only: the programs never use it. The lemmas tell how overwriting a
  field moves the two sums.
\<close>

section \<open>Fields\<close>

definition eth_dst :: "byte list \<Rightarrow> byte list" where "eth_dst p = read_at 0 6 p"
definition eth_src :: "byte list \<Rightarrow> byte list" where "eth_src p = read_at 6 6 p"
definition ip_proto :: "byte list \<Rightarrow> u8" where "ip_proto p = p ! 23"
definition ip_src :: "byte list \<Rightarrow> u32" where "ip_src p = load32 BE (read_at 26 4 p)"
definition ip_dst :: "byte list \<Rightarrow> u32" where "ip_dst p = load32 BE (read_at 30 4 p)"
definition l4_sport :: "byte list \<Rightarrow> u16" where "l4_sport p = load16 BE (read_at 34 2 p)"
definition l4_dport :: "byte list \<Rightarrow> u16" where "l4_dport p = load16 BE (read_at 36 2 p)"
definition ip_tot_len :: "byte list \<Rightarrow> nat" where "ip_tot_len p = unat (load16 BE (read_at 16 2 p))"
definition l4_len :: "byte list \<Rightarrow> nat" where "l4_len p = ip_tot_len p - 20"

lemmas field_defs = eth_dst_def eth_src_def ip_proto_def ip_src_def ip_dst_def l4_sport_def
  l4_dport_def

text \<open>An IPv4 frame whose header is 20 bytes long and whose total length fits the frame.\<close>

definition ipv4_frame :: "byte list \<Rightarrow> bool" where
  "ipv4_frame p \<longleftrightarrow> p ! 14 = 0x45 \<and> 20 \<le> ip_tot_len p \<and> 14 + ip_tot_len p \<le> length p"

definition tcp_frame :: "byte list \<Rightarrow> bool" where
  "tcp_frame p \<longleftrightarrow> ipv4_frame p \<and> ip_proto p = 6 \<and> 20 \<le> l4_len p"

definition udp_frame :: "byte list \<Rightarrow> bool" where
  "udp_frame p \<longleftrightarrow> ipv4_frame p \<and> ip_proto p = 17 \<and> 8 \<le> l4_len p"

section \<open>Checksums\<close>

definition ip_hdr :: "byte list \<Rightarrow> byte list" where
  "ip_hdr p = read_at 14 20 p"

definition l4_image :: "byte list \<Rightarrow> byte list" where
  "l4_image p = read_at 26 8 p @ [0, ip_proto p] @ store16 BE (of_nat (l4_len p)) @ read_at 34 (l4_len p) p"

definition ip_csum_ok :: "byte list \<Rightarrow> bool" where
  "ip_csum_ok p \<longleftrightarrow> csum_ok (ip_hdr p)"

definition l4_csum_ok :: "byte list \<Rightarrow> bool" where
  "l4_csum_ok p \<longleftrightarrow> csum_ok (l4_image p)"

definition ip_sum :: "byte_order \<Rightarrow> byte list \<Rightarrow> nat" where
  "ip_sum bo p = csum bo (ip_hdr p)"

definition l4_sum :: "byte_order \<Rightarrow> byte list \<Rightarrow> nat" where
  "l4_sum bo p = csum bo (l4_image p)"

text \<open>\<open>same_outside rs p p'\<close>: equally long, and equal at every index outside the ranges \<open>rs\<close>.\<close>

definition same_outside :: "(nat \<times> nat) list \<Rightarrow> byte list \<Rightarrow> byte list \<Rightarrow> bool" where
  "same_outside rs p p' \<longleftrightarrow> length p' = length p \<and>
     (\<forall>i < length p. list_all (\<lambda>(off, n). i < off \<or> off + n \<le> i) rs \<longrightarrow> p' ! i = p ! i)"

section \<open>Frames\<close>

lemma ipv4_frame_length: "ipv4_frame p \<Longrightarrow> 34 + l4_len p \<le> length p \<and> 34 \<le> length p"
  by (auto simp: ipv4_frame_def l4_len_def)

lemma tcp_frame_length: "tcp_frame p \<Longrightarrow> 54 \<le> length p"
  using ipv4_frame_length [of p] by (simp add: tcp_frame_def)

lemma udp_frame_length: "udp_frame p \<Longrightarrow> 42 \<le> length p"
  using ipv4_frame_length [of p] by (simp add: udp_frame_def)

lemma nth_write_at_outside:
  "off + length ys \<le> length p \<Longrightarrow> i < off \<or> off + length ys \<le> i \<Longrightarrow> i < length p \<Longrightarrow>
   write_at off ys p ! i = p ! i"
  by (auto simp: nth_write_at)

lemma ip_csum_ok_iff: "ipv4_frame p \<Longrightarrow> ip_csum_ok p \<longleftrightarrow> ceq (ip_sum bo p) 0"
proof -
  assume f: "ipv4_frame p"
  then have "p ! 14 \<in> set (ip_hdr p)"
    using ipv4_frame_length [OF f]
    by (auto simp: ip_hdr_def in_set_conv_nth nth_read_at intro!: exI [of _ 0])
  then have "\<exists>b \<in> set (ip_hdr p). b \<noteq> 0" using f by (intro bexI [of _ "p ! 14"]) (simp_all add: ipv4_frame_def)
  then show ?thesis by (simp add: ip_csum_ok_def ip_sum_def csum_ok_iff [of _ bo] ceq_def)
qed

lemma l4_csum_ok_iff: "ip_proto p \<noteq> 0 \<Longrightarrow> l4_csum_ok p \<longleftrightarrow> ceq (l4_sum bo p) 0"
proof -
  assume "ip_proto p \<noteq> 0"
  then have "\<exists>b \<in> set (l4_image p). b \<noteq> 0" by (auto simp: l4_image_def)
  then show ?thesis by (simp add: l4_csum_ok_def l4_sum_def csum_ok_iff [of _ bo] ceq_def)
qed

section \<open>How writes move the sums\<close>

text \<open>
  Overwriting bytes inside a summed range: the sum moves by the difference of the field's values.
\<close>

lemma csum_write_at_ceq:
  assumes "even off" "even (length ys)" "off + length ys \<le> length xs"
  shows "ceq (csum bo (write_at off ys xs) + mem_nat bo (read_at off (length ys) xs))
             (csum bo xs + mem_nat bo ys)"
proof -
  have "ceq (csum bo (write_at off ys xs) + csum bo (read_at off (length ys) xs)) (csum bo xs + csum bo ys)"
    using csum_write [OF assms, of bo] by simp
  moreover have "ceq (mem_nat bo (read_at off (length ys) xs)) (csum bo (read_at off (length ys) xs))"
    using assms by (simp add: ceq_def csum_mem_nat)
  moreover have "ceq (csum bo ys) (mem_nat bo ys)" using assms by (simp add: ceq_def csum_mem_nat)
  ultimately show ?thesis by (meson ceq_add ceq_refl ceq_trans)
qed

lemma ip_sum_inside:
  assumes "14 \<le> off" "off + length ys \<le> 34" "even off" "even (length ys)" "34 \<le> length p"
  shows "ceq (ip_sum bo (write_at off ys p) + mem_nat bo (read_at off (length ys) p))
             (ip_sum bo p + mem_nat bo ys)"
proof -
  have "ip_hdr (write_at off ys p) = write_at (off - 14) ys (ip_hdr p)"
    using assms by (simp add: ip_hdr_def read_write_within)
  moreover have "read_at off (length ys) p = read_at (off - 14) (length ys) (ip_hdr p)"
    using assms by (simp add: ip_hdr_def)
  ultimately show ?thesis using assms csum_write_at_ceq [of "off - 14" ys "ip_hdr p" bo]
    by (simp add: ip_sum_def ip_hdr_def)
qed

lemma ip_sum_outside [simp]:
  "off + length ys \<le> 14 \<or> 34 \<le> off \<Longrightarrow> off + length ys \<le> length p \<Longrightarrow> 34 \<le> length p \<Longrightarrow>
   ip_sum bo (write_at off ys p) = ip_sum bo p"
  by (auto simp: ip_sum_def ip_hdr_def)

lemma l4_sum_split:
  "34 \<le> length p \<Longrightarrow> l4_sum bo p = csum bo (read_at 26 8 p) +
     csum bo ([0, ip_proto p] @ store16 BE (of_nat (l4_len p))) + csum bo (read_at 34 (l4_len p) p)"
proof -
  assume "34 \<le> length p"
  then have "even (length (read_at 26 8 p))" "even (length ([0, ip_proto p] @ store16 BE (of_nat (l4_len p))))"
    by simp_all
  moreover have "l4_image p = read_at 26 8 p @ ([0, ip_proto p] @ store16 BE (of_nat (l4_len p))) @ read_at 34 (l4_len p) p"
    by (simp add: l4_image_def)
  ultimately show ?thesis by (simp only: l4_sum_def csum_append)
qed

lemma l4_len_write_at [simp]:
  "18 \<le> off \<or> off + length ys \<le> 16 \<Longrightarrow> off + length ys \<le> length p \<Longrightarrow> 34 \<le> length p \<Longrightarrow>
   l4_len (write_at off ys p) = l4_len p"
  by (auto simp: l4_len_def ip_tot_len_def)

lemma ip_proto_write_at [simp]:
  "24 \<le> off \<or> off + length ys \<le> 23 \<Longrightarrow> off + length ys \<le> length p \<Longrightarrow> 34 \<le> length p \<Longrightarrow>
   ip_proto (write_at off ys p) = ip_proto p"
  by (auto simp: ip_proto_def nth_write_at_outside)

lemma ipv4_frame_write_at:
  assumes "ipv4_frame p" "18 \<le> off \<or> off + length ys \<le> 14" "off + length ys \<le> length p"
  shows "ipv4_frame (write_at off ys p)"
proof -
  have "34 \<le> length p" using ipv4_frame_length [OF assms(1)] by simp
  with assms show ?thesis by (auto simp: ipv4_frame_def nth_write_at_outside ip_tot_len_def)
qed

lemma l4_sum_addr:
  assumes "26 \<le> off" "off + length ys \<le> 34" "even off" "even (length ys)" "ipv4_frame p"
  shows "ceq (l4_sum bo (write_at off ys p) + mem_nat bo (read_at off (length ys) p))
             (l4_sum bo p + mem_nat bo ys)"
proof -
  have len: "34 + l4_len p \<le> length p" "34 \<le> length p" using ipv4_frame_length [OF assms(5)] by auto
  have "read_at 26 8 (write_at off ys p) = write_at (off - 26) ys (read_at 26 8 p)"
    using assms len by (simp add: read_write_within)
  moreover have "read_at off (length ys) p = read_at (off - 26) (length ys) (read_at 26 8 p)"
    using assms by simp
  ultimately have "ceq (csum bo (read_at 26 8 (write_at off ys p)) + mem_nat bo (read_at off (length ys) p))
      (csum bo (read_at 26 8 p) + mem_nat bo ys)"
    using assms len csum_write_at_ceq [of "off - 26" ys "read_at 26 8 p" bo] by simp
  then have "ceq (csum bo (read_at 26 8 (write_at off ys p)) + mem_nat bo (read_at off (length ys) p) +
        (csum bo ([0, ip_proto p] @ store16 BE (of_nat (l4_len p))) + csum bo (read_at 34 (l4_len p) p)))
      (csum bo (read_at 26 8 p) + mem_nat bo ys +
        (csum bo ([0, ip_proto p] @ store16 BE (of_nat (l4_len p))) + csum bo (read_at 34 (l4_len p) p)))"
    by (rule ceq_add [OF _ ceq_refl])
  then show ?thesis using assms len by (simp add: l4_sum_split ac_simps)
qed

lemma l4_sum_seg:
  assumes "34 \<le> off" "off + length ys \<le> 34 + l4_len p" "even off" "even (length ys)" "ipv4_frame p"
  shows "ceq (l4_sum bo (write_at off ys p) + mem_nat bo (read_at off (length ys) p))
             (l4_sum bo p + mem_nat bo ys)"
proof -
  have len: "34 + l4_len p \<le> length p" "34 \<le> length p" using ipv4_frame_length [OF assms(5)] by auto
  have "read_at 34 (l4_len p) (write_at off ys p) = write_at (off - 34) ys (read_at 34 (l4_len p) p)"
    using assms len by (simp add: read_write_within)
  moreover have "read_at off (length ys) p = read_at (off - 34) (length ys) (read_at 34 (l4_len p) p)"
    using assms by simp
  ultimately have "ceq (csum bo (read_at 34 (l4_len p) (write_at off ys p)) + mem_nat bo (read_at off (length ys) p))
      (csum bo (read_at 34 (l4_len p) p) + mem_nat bo ys)"
    using assms len csum_write_at_ceq [of "off - 34" ys "read_at 34 (l4_len p) p" bo] by simp
  then have "ceq (csum bo (read_at 34 (l4_len p) (write_at off ys p)) + mem_nat bo (read_at off (length ys) p) +
        (csum bo ([0, ip_proto p] @ store16 BE (of_nat (l4_len p))) + csum bo (read_at 26 8 p)))
      (csum bo (read_at 34 (l4_len p) p) + mem_nat bo ys +
        (csum bo ([0, ip_proto p] @ store16 BE (of_nat (l4_len p))) + csum bo (read_at 26 8 p)))"
    by (rule ceq_add [OF _ ceq_refl])
  then show ?thesis using assms len by (simp add: l4_sum_split ac_simps)
qed

lemma l4_sum_outside [simp]:
  assumes "off + length ys \<le> 14 \<or> 24 \<le> off \<and> off + length ys \<le> 26" "ipv4_frame p"
  shows "l4_sum bo (write_at off ys p) = l4_sum bo p"
proof -
  have len: "34 + l4_len p \<le> length p" "34 \<le> length p" using ipv4_frame_length [OF assms(2)] by auto
  with assms(1) show ?thesis by (auto simp: l4_sum_split)
qed

section \<open>Ranges\<close>

lemma same_outside_refl [simp]: "same_outside rs p p"
  by (simp add: same_outside_def)

lemma same_outside_write_at:
  "(off, length ys) \<in> set rs \<Longrightarrow> off + length ys \<le> length p \<Longrightarrow> same_outside rs p (write_at off ys p)"
  by (auto simp: same_outside_def list_all_iff nth_write_at)

lemma same_outside_trans:
  "same_outside rs p q \<Longrightarrow> same_outside rs q r \<Longrightarrow> same_outside rs p r"
  by (auto simp: same_outside_def)

lemma same_outside_mono:
  "same_outside rs p q \<Longrightarrow> set rs \<subseteq> set ss \<Longrightarrow> same_outside ss p q"
  by (fastforce simp: same_outside_def list_all_iff)

lemma same_outside_read_at:
  assumes "same_outside rs p q" "off + n \<le> length p"
    and "\<And>o1 m. (o1, m) \<in> set rs \<Longrightarrow> off + n \<le> o1 \<or> o1 + m \<le> off"
  shows "read_at off n q = read_at off n p"
proof (rule read_at_eqI)
  show "off + n \<le> length p" "off + n \<le> length q" using assms by (auto simp: same_outside_def)
next
  fix i assume "off \<le> i" "i < off + n"
  moreover from this have "list_all (\<lambda>(o1, m). i < o1 \<or> o1 + m \<le> i) rs"
    using assms(3) by (fastforce simp: list_all_iff)
  ultimately show "q ! i = p ! i" using assms(1,2) by (auto simp: same_outside_def)
qed

lemma same_outside_field:
  "same_outside rs p q \<Longrightarrow> off + n \<le> length p \<Longrightarrow>
   list_all (\<lambda>(o1, m). off + n \<le> o1 \<or> o1 + m \<le> off) rs \<Longrightarrow> read_at off n q = read_at off n p"
  by (rule same_outside_read_at) (auto simp: list_all_iff)

end
