(* ===== verification/Net_Helpers.thy ===== *)
theory Net_Helpers
  imports Skb If_Ether Frame
begin

text \<open>
  \<^verbatim>\<open>lib/net_helpers.h\<close>: the action codes, packet offsets and addresses the tc programs share, and the
  functions they call: \<^verbatim>\<open>parse_ethhdr\<close>, \<^verbatim>\<open>rewrite_ip_addr\<close>, \<^verbatim>\<open>rewrite_port\<close> and
  \<^verbatim>\<open>get_port\<close>. Offsets are computed from the layouts of \<^verbatim>\<open>vmlinux.h\<close> as the macros do. The lemmas
  give the effect of each function on the packet and on the checksums it carries, for every kernel
  that satisfies the documented contract.
\<close>

section \<open>Constants\<close>

definition TC_ACT_UNSPEC :: int where [const_defs]: "TC_ACT_UNSPEC = - 1"
definition TC_ACT_SHOT :: int where [const_defs]: "TC_ACT_SHOT = 2"
definition TC_ACT_OK :: int where [const_defs]: "TC_ACT_OK = 0"
definition IP_ADDR_LEN :: nat where [const_defs]: "IP_ADDR_LEN = 4"
definition BPF_F_PSEUDO_HDR :: u64 where [const_defs]: "BPF_F_PSEUDO_HDR = 0x10"
definition ARPOP_REQUEST :: u16 where [const_defs]: "ARPOP_REQUEST = 1"
definition ARPOP_REPLY :: u16 where [const_defs]: "ARPOP_REPLY = 2"
definition MC_SERVER_PORT :: u16 where [const_defs]: "MC_SERVER_PORT = 25565"

text \<open>The protocol numbers, from the anonymous enumeration of \<^verbatim>\<open>vmlinux.h\<close>.\<close>

definition IPPROTO_TCP :: u8 where [const_defs]: "IPPROTO_TCP = 6"
definition IPPROTO_UDP :: u8 where [const_defs]: "IPPROTO_UDP = 17"

definition offset_in :: "ctype \<Rightarrow> string \<Rightarrow> nat" where
  "offset_in t f = the (offsetof t f)"

definition IP_CSUM_OFF :: nat where
  "IP_CSUM_OFF = ETH_HLEN + offset_in struct_iphdr ''check''"

definition IP_DST_OFF :: nat where
  "IP_DST_OFF = ETH_HLEN + offset_in struct_iphdr ''daddr''"

definition IP_SRC_OFF :: nat where
  "IP_SRC_OFF = ETH_HLEN + offset_in struct_iphdr ''saddr''"

definition TCP_CSUM_OFF :: nat where
  "TCP_CSUM_OFF = ETH_HLEN + sizeof struct_iphdr + offset_in struct_tcphdr ''check''"

definition TCP_DPORT_OFF :: nat where
  "TCP_DPORT_OFF = ETH_HLEN + sizeof struct_iphdr + offset_in struct_tcphdr ''dest''"

definition TCP_SPORT_OFF :: nat where
  "TCP_SPORT_OFF = ETH_HLEN + sizeof struct_iphdr + offset_in struct_tcphdr ''source''"

definition UDP_CSUM_OFF :: nat where
  "UDP_CSUM_OFF = ETH_HLEN + sizeof struct_iphdr + offset_in struct_udphdr ''check''"

definition UDP_DPORT_OFF :: nat where
  "UDP_DPORT_OFF = ETH_HLEN + sizeof struct_iphdr + offset_in struct_udphdr ''dest''"

definition UDP_SPORT_OFF :: nat where
  "UDP_SPORT_OFF = ETH_HLEN + sizeof struct_iphdr + offset_in struct_udphdr ''source''"

definition host_peer_mac :: "byte list" where
  "host_peer_mac = [126, 144, 196, 237, 223, 208]"

section \<open>Functions\<close>

text \<open>
  \<^verbatim>\<open>parse_ethhdr\<close>: the return value, the advanced data pointer and the header pointer it stores
  (pointers are offsets from the start of the packet).
\<close>

definition parse_ethhdr :: "nat \<Rightarrow> nat \<Rightarrow> int \<times> nat \<times> nat option" where
  "parse_ethhdr data data_end =
     (let len = sizeof struct_ethhdr
      in if data + len > data_end then (- 1, data, None) else (0, data + len, Some data))"

definition rewrite_ip_addr :: "kernel \<Rightarrow> byte_order \<Rightarrow> skb \<Rightarrow> be32 \<Rightarrow> nat \<Rightarrow> u8 \<Rightarrow> skb" where
  "rewrite_ip_addr K bo ctx new offset proto =
     (let prev = load32 bo (snd (bpf_skb_load_bytes K ctx offset IP_ADDR_LEN));
          ctx = snd (bpf_skb_store_bytes K ctx offset (store32 bo new) 0);
          ctx = snd (bpf_l3_csum_replace K ctx IP_CSUM_OFF (ucast prev) (ucast new) 4);
          ctx = (if proto = IPPROTO_TCP
                 then snd (bpf_l4_csum_replace K ctx TCP_CSUM_OFF (ucast prev) (ucast new)
                             (BPF_F_PSEUDO_HDR OR 4))
                 else ctx)
      in if proto = IPPROTO_UDP
         then snd (bpf_l4_csum_replace K ctx UDP_CSUM_OFF (ucast prev) (ucast new)
                     (BPF_F_PSEUDO_HDR OR 4))
         else ctx)"

definition rewrite_port :: "kernel \<Rightarrow> byte_order \<Rightarrow> skb \<Rightarrow> be16 \<Rightarrow> nat \<Rightarrow> u8 \<Rightarrow> skb" where
  "rewrite_port K bo ctx new offset proto =
     (let prev = load16 bo (snd (bpf_skb_load_bytes K ctx offset 2));
          ctx = snd (bpf_skb_store_bytes K ctx offset (store16 bo new) 0)
      in if proto = IPPROTO_TCP
         then snd (bpf_l4_csum_replace K ctx TCP_CSUM_OFF (ucast prev) (ucast new) 0)
         else if proto = IPPROTO_UDP
         then snd (bpf_l4_csum_replace K ctx UDP_CSUM_OFF (ucast prev) (ucast new) 0)
         else ctx)"

definition get_port :: "kernel \<Rightarrow> byte_order \<Rightarrow> skb \<Rightarrow> nat \<Rightarrow> nat \<Rightarrow> u8 \<Rightarrow> be16" where
  "get_port K bo ctx tcp_offset udp_offset proto =
     (if proto = IPPROTO_TCP then load16 bo (snd (bpf_skb_load_bytes K ctx tcp_offset 2))
      else if proto = IPPROTO_UDP then load16 bo (snd (bpf_skb_load_bytes K ctx udp_offset 2))
      else 0)"

section \<open>The offsets\<close>

lemma packet_offsets [simp]:
  "IP_CSUM_OFF = 24" "IP_SRC_OFF = 26" "IP_DST_OFF = 30"
  "TCP_SPORT_OFF = 34" "TCP_DPORT_OFF = 36" "TCP_CSUM_OFF = 50"
  "UDP_SPORT_OFF = 34" "UDP_DPORT_OFF = 36" "UDP_CSUM_OFF = 40"
  by code_simp+

lemma header_sizes [simp]:
  "sizeof struct_ethhdr = 14" "sizeof struct_iphdr = 20" "sizeof struct_tcphdr = 20"
  "sizeof struct_udphdr = 8"
  by code_simp+

lemma iphdr_offsets [simp]:
  "offset_in struct_iphdr ''protocol'' = 9" "offset_in struct_iphdr ''saddr'' = 12"
  "offset_in struct_iphdr ''daddr'' = 16"
  by code_simp+

lemma ethhdr_offsets [simp]:
  "offset_in struct_ethhdr ''h_dest'' = 0" "offset_in struct_ethhdr ''h_source'' = 6"
  by code_simp+

lemma parse_ethhdr_ok:
  "14 \<le> n \<Longrightarrow> parse_ethhdr 0 n = (0, 14, Some 0)" "n < 14 \<Longrightarrow> parse_ethhdr 0 n = (- 1, 0, None)"
  by (simp_all add: parse_ethhdr_def)

section \<open>What the kernel contract gives\<close>

lemma unat_u32_less [simp]: "unat (x :: u32) < 4294967296"
  using unsigned_less [of x, where 'a = nat] by simp

lemma unat_u16_less [simp]: "unat (x :: u16) < 65536"
  using unsigned_less [of x, where 'a = nat] by simp

lemma unat_ucast_u64 [simp]:
  "unat (ucast (x :: u32) :: u64) = unat x" "unat (ucast (y :: u16) :: u64) = unat y"
  by (simp_all add: unsigned_ucast_eq take_bit_nat_eq_self_iff order_less_trans [OF unat_u32_less]
      order_less_trans [OF unat_u16_less])

text \<open>The transport protocols the programs rewrite, with the offset of their checksum.\<close>

definition l4_frame :: "u8 \<Rightarrow> nat \<Rightarrow> byte list \<Rightarrow> bool" where
  "l4_frame proto coff p \<longleftrightarrow>
     proto = 6 \<and> coff = 50 \<and> tcp_frame p \<or> proto = 17 \<and> coff = 40 \<and> udp_frame p"

lemma l4_frameD:
  "l4_frame proto coff p \<Longrightarrow> ipv4_frame p \<and> ip_proto p = proto \<and> proto \<noteq> 0 \<and>
     38 \<le> coff \<and> even coff \<and> coff + 2 \<le> 34 + l4_len p \<and> 34 + l4_len p \<le> length p"
  using ipv4_frame_length [of p] by (auto simp: l4_frame_def tcp_frame_def udp_frame_def)

lemma l4_frame_write_at:
  assumes "l4_frame proto coff p" "24 \<le> off \<or> off + length ys \<le> 14" "off + length ys \<le> length p"
  shows "l4_frame proto coff (write_at off ys p)"
  using assms l4_frameD [OF assms(1)] ipv4_frame_length [of p] ipv4_frame_write_at [of p off ys]
  by (auto simp: l4_frame_def tcp_frame_def udp_frame_def)

text \<open>An incremental checksum update moves the sum over the covered bytes against the field.\<close>

lemma ip_sum_replaced:
  assumes "csum_replaced bo 24 old new p p'" "34 \<le> length p"
  shows "ceq (ip_sum bo p' + new) (ip_sum bo p + old)"
proof -
  obtain c where c: "length c = 2" "p' = write_at 24 c p"
      "ceq (mem_nat bo c + new) (mem_nat bo (read_at 24 2 p) + old)"
    using assms(1) by (auto simp: csum_replaced_def)
  with ip_sum_inside [of 24 c p bo] assms(2) show ?thesis by (auto intro: ceq_move)
qed

lemma l4_sum_replaced:
  assumes "csum_replaced bo coff old new p p'" "l4_frame proto coff p"
  shows "ceq (l4_sum bo p' + new) (l4_sum bo p + old)"
proof -
  obtain c where c: "length c = 2" "p' = write_at coff c p"
      "ceq (mem_nat bo c + new) (mem_nat bo (read_at coff 2 p) + old)"
    using assms(1) by (auto simp: csum_replaced_def)
  with l4_sum_seg [of coff c p bo] l4_frameD [OF assms(2)] show ?thesis by (auto intro: ceq_move)
qed

lemma csum_replaced_outside:
  "csum_replaced bo off old new p p' \<Longrightarrow> off + 2 \<le> length p \<Longrightarrow> (off, 2) \<in> set rs \<Longrightarrow> same_outside rs p p'"
  by (auto simp: csum_replaced_def intro!: same_outside_write_at)

text \<open>
  Writing an address and updating both checksums for it: nothing but the three fields changes, the
  frame stays well-formed, and both sums keep their value modulo 65535.
\<close>

lemma csum_replacedE:
  assumes "csum_replaced bo off old new p p'"
  obtains c where "length c = 2" "p' = write_at off c p"
  using assms by (auto simp: csum_replaced_def)

lemma addr_rewrite:
  assumes f: "l4_frame proto coff p" and off: "off = 26 \<or> off = 30" and ys: "length ys = 4"
    and p1: "p1 = write_at off ys p"
    and p2: "csum_replaced bo 24 (mem_nat bo (read_at off 4 p)) (mem_nat bo ys) p1 p2"
    and p3: "csum_replaced bo coff (mem_nat bo (read_at off 4 p)) (mem_nat bo ys) p2 p3"
  shows "l4_frame proto coff p3" "same_outside [(24, 2), (off, 4), (coff, 2)] p p3"
    "read_at off 4 p3 = ys" "ceq (ip_sum bo p3) (ip_sum bo p)" "ceq (l4_sum bo p3) (l4_sum bo p)"
proof -
  note F = l4_frameD [OF f]
  have len: "34 \<le> length p" "coff + 2 \<le> length p" "38 \<le> coff" using F by auto
  obtain c3 where c3: "length c3 = 2" "p2 = write_at 24 c3 p1" using p2 by (rule csum_replacedE)
  obtain c4 where c4: "length c4 = 2" "p3 = write_at coff c4 p2" using p3 by (rule csum_replacedE)
  have L: "length p1 = length p" "length p2 = length p" "length p3 = length p"
    using off ys len p1 c3 c4 by auto
  have f1: "l4_frame proto coff p1" using l4_frame_write_at [OF f, of off ys] off ys len p1 by auto
  have f2: "l4_frame proto coff p2" using l4_frame_write_at [OF f1, of 24 c3] c3 L len by auto
  show "l4_frame proto coff p3" using l4_frame_write_at [OF f2, of coff c4] c4 L len by auto
  let ?rs = "[(24, 2), (off, 4), (coff, 2)]"
  have "same_outside ?rs p p1" using ys off len unfolding p1 by (intro same_outside_write_at) auto
  moreover have "same_outside ?rs p1 p2" using c3 L len by (simp add: same_outside_write_at)
  moreover have "same_outside ?rs p2 p3" using c4 L len by (simp add: same_outside_write_at)
  ultimately show "same_outside ?rs p p3" by (blast intro: same_outside_trans)
  show "read_at off 4 p3 = ys" using off ys len L c3 c4 p1 by auto
  have "ceq (ip_sum bo p1 + mem_nat bo (read_at off 4 p)) (ip_sum bo p + mem_nat bo ys)"
    using ip_sum_inside [of off ys p bo] off ys len p1 by auto
  moreover have "ceq (ip_sum bo p2 + mem_nat bo ys) (ip_sum bo p1 + mem_nat bo (read_at off 4 p))"
    using ip_sum_replaced [OF p2] L len by simp
  ultimately have "ceq (ip_sum bo p2 + mem_nat bo ys) (ip_sum bo p + mem_nat bo ys)"
    by (metis ceq_trans)
  moreover have "ip_sum bo p3 = ip_sum bo p2" using c4 L len by simp
  ultimately show "ceq (ip_sum bo p3) (ip_sum bo p)" by (simp add: ceq_cancel)
  have "ceq (l4_sum bo p1 + mem_nat bo (read_at off 4 p)) (l4_sum bo p + mem_nat bo ys)"
    using l4_sum_addr [of off ys p bo] off ys F p1 by auto
  moreover have "l4_sum bo p2 = l4_sum bo p1" using c3 l4_frameD [OF f1] by simp
  moreover have "ceq (l4_sum bo p3 + mem_nat bo ys) (l4_sum bo p2 + mem_nat bo (read_at off 4 p))"
    by (rule l4_sum_replaced [OF p3 f2])
  ultimately have "ceq (l4_sum bo p3 + mem_nat bo ys) (l4_sum bo p + mem_nat bo ys)"
    by (metis ceq_trans)
  then show "ceq (l4_sum bo p3) (l4_sum bo p)" by (rule ceq_cancel)
qed

lemma ceq_small_iff: "0 < m \<Longrightarrow> 0 < n \<Longrightarrow> m \<le> 65535 \<Longrightarrow> n \<le> 65535 \<Longrightarrow> ceq m n \<longleftrightarrow> m = n"
  by (cases "m = 65535"; cases "n = 65535") (auto simp: ceq_def)

lemma ceq_shift:
  assumes "ceq x 0" "ceq (y + a) (x + b)"
  shows "ceq y 0 \<longleftrightarrow> ceq a b"
proof -
  define e where "e = int (y + a) - int (x + b)"
  have "65535 dvd e" "65535 dvd int x" using assms by (simp_all add: ceq_int e_def)
  then have "65535 dvd e + int x" by (rule dvd_add)
  then have "65535 dvd (e + int x) + (int b - int a) \<longleftrightarrow> 65535 dvd int b - int a"
    by (rule dvd_add_right_iff)
  moreover have "(e + int x) + (int b - int a) = int y" by (simp add: e_def)
  ultimately show ?thesis by (simp add: ceq_int dvd_diff_commute)
qed

lemma ceq_port_iff:
  assumes "(a :: u16) \<noteq> 0" "b \<noteq> 0"
  shows "ceq (unat a) (unat b) \<longleftrightarrow> a = b"
proof -
  have "unat a \<le> 65535" "unat b \<le> 65535"
    using unat_u16_less [of a] unat_u16_less [of b] by linarith+
  then have "ceq (unat a) (unat b) \<longleftrightarrow> unat a = unat b"
    using assms by (intro ceq_small_iff) (simp_all add: unat_gt_0)
  then show ?thesis by (metis unsigned_word_eqI)
qed

lemma load16_zero_iff: "length bs = 2 \<Longrightarrow> load16 bo bs = 0 \<longleftrightarrow> bs = [0, 0]"
proof -
  assume l: "length bs = 2"
  have z: "store16 bo 0 = [0, 0]" by (cases bo) (simp_all add: store16_def mem_bytes_def numeral_2_eq_2)
  show ?thesis using store16_load16 [OF l, of bo] load16_store16 [of bo 0] z by metis
qed

lemma port_nonzero:
  "l4_sport p \<noteq> 0 \<Longrightarrow> 36 \<le> length p \<Longrightarrow> read_at 34 2 p \<noteq> [0, 0]"
  "l4_dport p \<noteq> 0 \<Longrightarrow> 38 \<le> length p \<Longrightarrow> read_at 36 2 p \<noteq> [0, 0]"
  using load16_zero_iff [of "read_at 34 2 p" BE] load16_zero_iff [of "read_at 36 2 p" BE]
  by (simp_all add: l4_sport_def l4_dport_def)

text \<open>
  Address, then port: the rewrite the NAT programs and the transparent proxy do. The IP checksum
  keeps its validity; the transport sum moves by the change of the port.
\<close>

definition nat_rewritten ::
  "byte_order \<Rightarrow> nat \<Rightarrow> nat \<Rightarrow> be32 \<Rightarrow> nat \<Rightarrow> be16 \<Rightarrow> skb \<Rightarrow> skb \<Rightarrow> bool" where
  "nat_rewritten bo coff aoff addr poff port s s' \<longleftrightarrow>
     same_ctx s s' \<and> same_outside [(24, 2), (aoff, 4), (poff, 2), (coff, 2)] (pkt s) (pkt s') \<and>
     read_at aoff 4 (pkt s') = store32 bo addr \<and> read_at poff 2 (pkt s') = store16 bo port \<and>
     ip_csum_ok (pkt s') = ip_csum_ok (pkt s) \<and>
     ceq (l4_sum bo (pkt s') + unat (load16 bo (read_at poff 2 (pkt s)))) (l4_sum bo (pkt s) + unat port)"

section \<open>The functions under the kernel contract\<close>

text \<open>The constant flag words of the checksum calls.\<close>

lemma pseudo_hdr_flags [simp]: "(BPF_F_PSEUDO_HDR OR 4) AND 15 = 4" "(BPF_F_PSEUDO_HDR OR 4) AND 96 = 0"
  by (simp_all add: BPF_F_PSEUDO_HDR_def)

context skb_kernel
begin

lemma load_bytes [simp]:
  "off + n \<le> length (pkt s) \<Longrightarrow> snd (bpf_skb_load_bytes K s off n) = read_at off n (pkt s)"
  by (simp add: load_ok)

lemma store_bytes:
  "off + length bs \<le> length (pkt s) \<Longrightarrow>
   pkt (snd (bpf_skb_store_bytes K s off bs 0)) = write_at off bs (pkt s)"
  "same_ctx s (snd (bpf_skb_store_bytes K s off bs 0))"
  using store_ok [OF _ prod.collapse [symmetric], of off bs s]
    store_err [OF _ prod.collapse [symmetric], of s off bs 0]
    le_less_linear [of "off + length bs" "length (pkt s)"] by auto

lemma l3_csum:
  "even off \<Longrightarrow> off \<le> 65535 \<Longrightarrow> off + 2 \<le> length (pkt s) \<Longrightarrow> unat old < 4294967296 \<Longrightarrow> unat new < 4294967296 \<Longrightarrow>
   csum_replaced bo off (unat old) (unat new) (pkt s) (pkt (snd (bpf_l3_csum_replace K s off old new 4)))"
  "even off \<Longrightarrow> off \<le> 65535 \<Longrightarrow> unat old < 4294967296 \<Longrightarrow> unat new < 4294967296 \<Longrightarrow>
   same_ctx s (snd (bpf_l3_csum_replace K s off old new 4))"
  using l3_ok [OF _ _ _ _ _ _ prod.collapse [symmetric], of off s 4 old new]
    l3_err [OF _ prod.collapse [symmetric], of s off old new 4]
    le_less_linear [of "off + 2" "length (pkt s)"] by auto

lemma l4_csum_addr:
  "even off \<Longrightarrow> off \<le> 65535 \<Longrightarrow> off + 2 \<le> length (pkt s) \<Longrightarrow> unat old < 4294967296 \<Longrightarrow> unat new < 4294967296 \<Longrightarrow>
   csum_replaced bo off (unat old) (unat new) (pkt s)
     (pkt (snd (bpf_l4_csum_replace K s off old new (BPF_F_PSEUDO_HDR OR 4))))"
  "even off \<Longrightarrow> off \<le> 65535 \<Longrightarrow> unat old < 4294967296 \<Longrightarrow> unat new < 4294967296 \<Longrightarrow>
   same_ctx s (snd (bpf_l4_csum_replace K s off old new (BPF_F_PSEUDO_HDR OR 4)))"
  using l4_ok [OF _ _ _ _ _ _ _ prod.collapse [symmetric], of off s "BPF_F_PSEUDO_HDR OR 4" old new]
    l4_err [OF _ prod.collapse [symmetric], of s off old new "BPF_F_PSEUDO_HDR OR 4"]
    le_less_linear [of "off + 2" "length (pkt s)"] by auto

text \<open>
  Without a field size in the flags the helper takes \<open>new\<close> as a difference, and only if \<open>old\<close> is 0.
\<close>

lemma l4_csum_nosize:
  "old \<noteq> 0 \<Longrightarrow> pkt (snd (bpf_l4_csum_replace K s off old new 0)) = pkt s"
  "even off \<Longrightarrow> off \<le> 65535 \<Longrightarrow> off + 2 \<le> length (pkt s) \<Longrightarrow>
   csum_replaced bo off 0 (unat new) (pkt s) (pkt (snd (bpf_l4_csum_replace K s off 0 new 0)))"
  "even off \<Longrightarrow> off \<le> 65535 \<Longrightarrow> same_ctx s (snd (bpf_l4_csum_replace K s off old new 0))"
proof -
  show "old \<noteq> 0 \<Longrightarrow> pkt (snd (bpf_l4_csum_replace K s off old new 0)) = pkt s"
    using l4_neither [OF _ _ _ prod.collapse [symmetric], of 0 old s off new] by simp
  show "even off \<Longrightarrow> off \<le> 65535 \<Longrightarrow> off + 2 \<le> length (pkt s) \<Longrightarrow>
      csum_replaced bo off 0 (unat new) (pkt s) (pkt (snd (bpf_l4_csum_replace K s off 0 new 0)))"
    using l4_diff [OF _ _ _ _ _ _ prod.collapse [symmetric], of off s 0 0 new] by simp
  show "even off \<Longrightarrow> off \<le> 65535 \<Longrightarrow> same_ctx s (snd (bpf_l4_csum_replace K s off old new 0))"
    using l4_neither [OF _ _ _ prod.collapse [symmetric], of 0 old s off new]
      l4_diff [OF _ _ _ _ _ _ prod.collapse [symmetric], of off s 0 old new]
      l4_err [OF _ prod.collapse [symmetric], of s off old new 0]
    by (cases "old = 0"; cases "off + 2 \<le> length (pkt s)") auto
qed

text \<open>\<^verbatim>\<open>rewrite_ip_addr\<close> on a TCP or UDP frame.\<close>

lemma rewrite_ip_addr_effect:
  assumes f: "l4_frame proto coff (pkt s)" and off: "off = 26 \<or> off = 30"
    and s': "s' = rewrite_ip_addr K bo s new off proto"
  shows "same_ctx s s'" "l4_frame proto coff (pkt s')"
    "same_outside [(24, 2), (off, 4), (coff, 2)] (pkt s) (pkt s')"
    "read_at off 4 (pkt s') = store32 bo new"
    "ceq (ip_sum bo (pkt s')) (ip_sum bo (pkt s))" "ceq (l4_sum bo (pkt s')) (l4_sum bo (pkt s))"
proof -
  note F = l4_frameD [OF f]
  have len: "34 \<le> length (pkt s)" "coff + 2 \<le> length (pkt s)" using F by auto
  have coff: "even coff" "coff \<le> 65535" using f by (auto simp: l4_frame_def)
  define prev where "prev = load32 bo (read_at off 4 (pkt s))"
  define s1 where "s1 = snd (bpf_skb_store_bytes K s off (store32 bo new) 0)"
  define s2 where "s2 = snd (bpf_l3_csum_replace K s1 24 (ucast prev) (ucast new) 4)"
  define s3 where "s3 = snd (bpf_l4_csum_replace K s2 coff (ucast prev) (ucast new) (BPF_F_PSEUDO_HDR OR 4))"
  have eq: "s' = s3"
    using f off len unfolding s' rewrite_ip_addr_def s3_def s2_def s1_def prev_def
    by (auto simp: l4_frame_def Let_def IPPROTO_TCP_def IPPROTO_UDP_def IP_ADDR_LEN_def)
  have prev: "unat prev = mem_nat bo (read_at off 4 (pkt s))"
    using off len by (auto simp: prev_def unat_load32)
  have new: "unat new = mem_nat bo (store32 bo new)"
    using unat_load32 [of "store32 bo new" bo] by simp
  have p1: "pkt s1 = write_at off (store32 bo new) (pkt s)"
    using off len by (auto simp: s1_def store_bytes)
  have L1: "length (pkt s1) = length (pkt s)" using off len by (auto simp: p1)
  have p2: "csum_replaced bo 24 (unat prev) (unat new) (pkt s1) (pkt s2)"
    using l3_csum(1) [of 24 s1 "ucast prev" "ucast new"] L1 len by (simp add: s2_def)
  have L2: "length (pkt s2) = length (pkt s)" using p2 L1 len by (auto elim!: csum_replacedE)
  have p3: "csum_replaced bo coff (unat prev) (unat new) (pkt s2) (pkt s3)"
    using l4_csum_addr(1) [of coff s2 "ucast prev" "ucast new"] coff L2 len by (simp add: s3_def)
  have "same_ctx s s1" "same_ctx s1 s2" "same_ctx s2 s3"
    by (simp_all add: s1_def s2_def s3_def store_bytes l3_csum l4_csum_addr coff)
  then show "same_ctx s s'" unfolding eq by (blast intro: same_ctx_trans)
  note R = addr_rewrite [OF f off length_store(2) p1 p2 [unfolded prev new] p3 [unfolded prev new]]
  show "l4_frame proto coff (pkt s')" "same_outside [(24, 2), (off, 4), (coff, 2)] (pkt s) (pkt s')"
    "read_at off 4 (pkt s') = store32 bo new" "ceq (ip_sum bo (pkt s')) (ip_sum bo (pkt s))"
    "ceq (l4_sum bo (pkt s')) (l4_sum bo (pkt s))"
    unfolding eq by (rule R)+
qed

text \<open>
  \<^verbatim>\<open>rewrite_port\<close> on a TCP or UDP frame. The checksum call carries no field size, so for a port
  that is not 0 the checksum stays as it was and the sum moves with the port.
\<close>

lemma rewrite_port_effect:
  assumes f: "l4_frame proto coff (pkt s)" and off: "off = 34 \<or> off = 36"
    and prev: "read_at off 2 (pkt s) \<noteq> [0, 0]"
    and s': "s' = rewrite_port K bo s new off proto'"
  shows "same_ctx s s'" "l4_frame proto coff (pkt s')" "pkt s' = write_at off (store16 bo new) (pkt s)"
    "ip_sum bo (pkt s') = ip_sum bo (pkt s)"
    "ceq (l4_sum bo (pkt s') + unat (load16 bo (read_at off 2 (pkt s)))) (l4_sum bo (pkt s) + unat new)"
proof -
  note F = l4_frameD [OF f]
  have len: "40 \<le> length (pkt s)" using F by auto
  define old where "old = load16 bo (read_at off 2 (pkt s))"
  define s1 where "s1 = snd (bpf_skb_store_bytes K s off (store16 bo new) 0)"
  have "old \<noteq> 0" using prev off len load16_zero_iff [of "read_at off 2 (pkt s)" bo] by (auto simp: old_def)
  then have "(ucast old :: u64) \<noteq> 0" by (metis unat_ucast_u64(2) unat_eq_zero unsigned_0)
  then have q: "pkt (snd (bpf_l4_csum_replace K s1 c (ucast old) w 0)) = pkt s1" for c w
    by (rule l4_csum_nosize)
  have p1: "pkt s1 = write_at off (store16 bo new) (pkt s)"
    using off len by (auto simp: s1_def store_bytes)
  have c1: "same_ctx s s1" by (simp add: s1_def store_bytes)
  have old: "load16 bo (snd (bpf_skb_load_bytes K s off 2)) = old" using off len by (auto simp: old_def)
  show p': "pkt s' = write_at off (store16 bo new) (pkt s)"
    unfolding s' rewrite_port_def by (simp add: old Let_def q p1 flip: s1_def)
  show "same_ctx s s'"
    unfolding s' rewrite_port_def
    using same_ctx_trans [OF c1 l4_csum_nosize(3)] c1 by (simp add: old Let_def flip: s1_def)
  show "l4_frame proto coff (pkt s')"
    unfolding p' using off len by (intro l4_frame_write_at [OF f]) auto
  show "ip_sum bo (pkt s') = ip_sum bo (pkt s)"
    unfolding p' using off len by (intro ip_sum_outside) auto
  show "ceq (l4_sum bo (pkt s') + unat (load16 bo (read_at off 2 (pkt s)))) (l4_sum bo (pkt s) + unat new)"
    unfolding p' using l4_sum_seg [of off "store16 bo new" "pkt s" bo] off F
      unat_load16 [of "read_at off 2 (pkt s)" bo] unat_load16 [of "store16 bo new" bo]
    by auto
qed

lemma nat_rewrite_effect:
  assumes f: "l4_frame proto coff (pkt s)" and aoff: "aoff = 26 \<or> aoff = 30" and poff: "poff = 34 \<or> poff = 36"
    and prev: "read_at poff 2 (pkt s) \<noteq> [0, 0]"
    and s': "s' = rewrite_port K bo (rewrite_ip_addr K bo s addr aoff proto) port poff proto'"
  shows "nat_rewritten bo coff aoff addr poff port s s'" "l4_frame proto coff (pkt s')"
proof -
  define s1 where "s1 = rewrite_ip_addr K bo s addr aoff proto"
  note A = rewrite_ip_addr_effect [OF f aoff s1_def]
  note F = l4_frameD [OF f]
  have P: "read_at poff 2 (pkt s1) = read_at poff 2 (pkt s)"
    using F aoff poff by (intro same_outside_read_at [OF A(3)]) auto
  note B = rewrite_port_effect [OF A(2) poff prev [folded P], of s' port proto', unfolded s', folded s1_def,
      OF refl, folded s' [folded s1_def]]
  have len: "length (pkt s1) = length (pkt s)" "38 \<le> length (pkt s)" "38 \<le> length (pkt s1)"
    using A(3) F by (auto simp: same_outside_def)
  show f': "l4_frame proto coff (pkt s')" by (rule B(2))
  let ?rs = "[(24, 2), (aoff, 4), (poff, 2), (coff, 2)]"
  have "same_outside ?rs (pkt s) (pkt s1)" by (rule same_outside_mono [OF A(3)]) auto
  moreover have "same_outside ?rs (pkt s1) (pkt s')"
    using poff len unfolding B(3) by (intro same_outside_write_at) auto
  ultimately have "same_outside ?rs (pkt s) (pkt s')" by (rule same_outside_trans)
  moreover have "read_at aoff 4 (pkt s') = store32 bo addr"
    using A(4) aoff poff len by (auto simp: B(3))
  moreover have "read_at poff 2 (pkt s') = store16 bo port" using poff len by (auto simp: B(3))
  moreover have "ceq (ip_sum bo (pkt s')) (ip_sum bo (pkt s))" using A(5) B(4) by simp
  then have "ip_csum_ok (pkt s') = ip_csum_ok (pkt s)"
    using F l4_frameD [OF f'] ip_csum_ok_iff [of "pkt s" bo] ip_csum_ok_iff [of "pkt s'" bo]
    by (metis ceq_sym ceq_trans)
  moreover have "ceq (l4_sum bo (pkt s1) + unat port) (l4_sum bo (pkt s) + unat port)"
    by (rule ceq_add [OF A(6) ceq_refl])
  then have "ceq (l4_sum bo (pkt s') + unat (load16 bo (read_at poff 2 (pkt s)))) (l4_sum bo (pkt s) + unat port)"
    using B(5) unfolding P by (rule ceq_trans [rotated])
  ultimately show "nat_rewritten bo coff aoff addr poff port s s'"
    using same_ctx_trans [OF A(1) B(1)] by (simp add: nat_rewritten_def)
qed

end

text \<open>A valid transport checksum survives the rewrite exactly if the port does not change.\<close>

lemma nat_rewritten_csum:
  assumes "nat_rewritten bo coff aoff addr poff port s s'" "l4_frame proto coff (pkt s)"
    "l4_frame proto coff (pkt s')" "l4_csum_ok (pkt s)" "poff = 34 \<or> poff = 36"
    "read_at poff 2 (pkt s) \<noteq> [0, 0]" "port \<noteq> 0"
  shows "l4_csum_ok (pkt s') \<longleftrightarrow> load16 bo (read_at poff 2 (pkt s)) = port"
proof -
  let ?old = "load16 bo (read_at poff 2 (pkt s))"
  have len: "length (read_at poff 2 (pkt s)) = 2"
    using l4_frameD [OF assms(2)] assms(5) by auto
  have old: "?old \<noteq> 0" using load16_zero_iff [OF len] assms(6) by simp
  have z: "ceq (l4_sum bo (pkt s)) 0"
    using assms(4) l4_frameD [OF assms(2)] l4_csum_ok_iff [of "pkt s" bo] by auto
  have r: "ceq (l4_sum bo (pkt s') + unat ?old) (l4_sum bo (pkt s) + unat port)"
    using assms(1) by (simp add: nat_rewritten_def)
  have "l4_csum_ok (pkt s') \<longleftrightarrow> ceq (l4_sum bo (pkt s')) 0"
    using l4_frameD [OF assms(3)] l4_csum_ok_iff [of "pkt s'" bo] by auto
  also have "\<dots> \<longleftrightarrow> ceq (unat ?old) (unat port)" by (rule ceq_shift [OF z r])
  also have "\<dots> \<longleftrightarrow> ?old = port" using ceq_port_iff [OF old assms(7)] by auto
  finally show ?thesis .
qed

end
