(* ===== verification/Bpf_Maps.thy ===== *)
theory Bpf_Maps
  imports Prelude "HOL-Library.AList"
begin

text \<open>
  BPF maps. They live in the kernel, so their operations are parameters: \<open>bpf_hash\<close> for
  \<^verbatim>\<open>BPF_MAP_TYPE_HASH\<close> as user space and the programs see it, \<open>bpf_lru\<close> for the
  \<^verbatim>\<open>BPF_MAP_TYPE_LRU_HASH\<close> a program writes itself. A locale per kind states the documented
  contract; association lists give an executable map of each kind, on which it is interpreted.
\<close>

section \<open>Hash maps\<close>

datatype map_error = E2BIG | ENOENT

record ('s, 'k, 'v) bpf_hash =
  map_lookup :: "'s \<Rightarrow> 'k \<Rightarrow> 'v option"
  map_update :: "'s \<Rightarrow> 'k \<Rightarrow> 'v \<Rightarrow> map_error + 's"
  map_delete :: "'s \<Rightarrow> 'k \<Rightarrow> map_error + 's"

text \<open>
  An update with \<^verbatim>\<open>BPF_ANY\<close> creates or replaces an entry, and fails only if a new entry does not fit
  \<open>cap\<close>; a delete fails only if there is no entry.
\<close>

locale bpf_hash_map =
  fixes H :: "('s, 'k, 'v) bpf_hash" and cap :: nat and inv :: "'s \<Rightarrow> bool"
  assumes bounded: "inv s \<Longrightarrow> finite (dom (map_lookup H s)) \<and> card (dom (map_lookup H s)) \<le> cap"
    and update_ok:
      "inv s \<Longrightarrow> k \<in> dom (map_lookup H s) \<or> card (dom (map_lookup H s)) < cap \<Longrightarrow>
       \<exists>s'. map_update H s k v = Inr s'"
    and update_full:
      "inv s \<Longrightarrow> k \<notin> dom (map_lookup H s) \<Longrightarrow> card (dom (map_lookup H s)) = cap \<Longrightarrow>
       map_update H s k v = Inl E2BIG"
    and update_lookup:
      "inv s \<Longrightarrow> map_update H s k v = Inr s' \<Longrightarrow> inv s' \<and> map_lookup H s' = (map_lookup H s)(k \<mapsto> v)"
    and delete_ok: "inv s \<Longrightarrow> k \<in> dom (map_lookup H s) \<Longrightarrow> \<exists>s'. map_delete H s k = Inr s'"
    and delete_missing: "inv s \<Longrightarrow> k \<notin> dom (map_lookup H s) \<Longrightarrow> map_delete H s k = Inl ENOENT"
    and delete_lookup:
      "inv s \<Longrightarrow> map_delete H s k = Inr s' \<Longrightarrow> inv s' \<and> map_lookup H s' = (map_lookup H s)(k := None)"
begin

lemma update_iff:
  assumes "inv s"
  shows "(\<exists>s'. map_update H s k v = Inr s') \<longleftrightarrow>
    k \<in> dom (map_lookup H s) \<or> card (dom (map_lookup H s)) < cap"
  using bounded [OF assms] update_ok [OF assms, of k v] update_full [OF assms, of k v]
  by (metis Inl_Inr_False order_le_imp_less_or_eq)

lemma delete_iff:
  assumes "inv s"
  shows "(\<exists>s'. map_delete H s k = Inr s') \<longleftrightarrow> k \<in> dom (map_lookup H s)"
  using delete_ok [OF assms, of k] delete_missing [OF assms, of k] by (metis Inl_Inr_False)

lemma update_err: "inv s \<Longrightarrow> map_update H s k v = Inl e \<Longrightarrow> e = E2BIG"
  by (metis Inl_Inr_False bounded order_le_imp_less_or_eq sum.inject(1) update_full update_ok)

lemma delete_err: "inv s \<Longrightarrow> map_delete H s k = Inl e \<Longrightarrow> e = ENOENT \<and> k \<notin> dom (map_lookup H s)"
  using delete_ok [of s k] delete_missing [of s k] by (metis Inl_Inr_False sum.inject(1))

text \<open>Deleting what was just added to a map without that key restores the map.\<close>

lemma delete_update:
  assumes "inv s" "map_lookup H s k = None" "map_update H s k v = Inr s'"
  shows "\<exists>s''. map_delete H s' k = Inr s'' \<and> inv s'' \<and> map_lookup H s'' = map_lookup H s"
proof -
  have s': "inv s'" "map_lookup H s' = (map_lookup H s)(k \<mapsto> v)"
    using update_lookup [OF assms(1,3)] by auto
  then obtain s'' where d: "map_delete H s' k = Inr s''" using delete_ok [OF s'(1), of k] by auto
  moreover have "(map_lookup H s)(k \<mapsto> v, k := None) = map_lookup H s"
    using assms(2) by (simp add: fun_upd_idem)
  ultimately show ?thesis using delete_lookup [OF s'(1) d] s'(2) by auto
qed

end

definition alist_hash :: "nat \<Rightarrow> (('k \<times> 'v) list, 'k, 'v) bpf_hash" where
  "alist_hash cap =
     \<lparr>map_lookup = map_of,
      map_update = (\<lambda>xs k v.
        if k \<in> fst ` set xs \<or> length xs < cap then Inr (AList.update k v xs) else Inl E2BIG),
      map_delete = (\<lambda>xs k. if k \<in> fst ` set xs then Inr (AList.delete k xs) else Inl ENOENT)\<rparr>"

definition alist_inv :: "nat \<Rightarrow> ('k \<times> 'v) list \<Rightarrow> bool" where
  "alist_inv cap xs \<longleftrightarrow> distinct (map fst xs) \<and> length xs \<le> cap"

lemma card_keys: "distinct (map fst xs) \<Longrightarrow> card (fst ` set xs) = length xs"
  by (metis distinct_card length_map set_map)

lemma length_alist_update:
  "length (AList.update k v xs) = (if k \<in> fst ` set xs then length xs else Suc (length xs))"
  by (induction xs) auto

lemma length_alist_delete: "length (AList.delete k xs) \<le> length xs"
  by (simp add: AList.delete_eq)

interpretation alist: bpf_hash_map "alist_hash cap" cap "alist_inv cap" for cap
proof (unfold_locales, goal_cases)
  case (4 s k v s')
  then have "s' = AList.update k v s" "k \<in> fst ` set s \<or> length s < cap"
    by (auto simp: alist_hash_def split: if_splits)
  with 4(1) show ?case
    by (auto simp: alist_inv_def alist_hash_def update_conv' length_alist_update distinct_update)
next
  case (7 s k s')
  then have "s' = AList.delete k s" by (auto simp: alist_hash_def split: if_splits)
  with 7(1) show ?case
    using length_alist_delete [of k s]
    by (auto simp: alist_inv_def alist_hash_def delete_conv' distinct_delete)
qed (auto simp: alist_inv_def alist_hash_def card_keys dom_map_of_conv_image_fst)

section \<open>LRU hash maps\<close>

record ('s, 'k, 'v) bpf_lru =
  lru_lookup :: "'s \<Rightarrow> 'k \<Rightarrow> 'v option"
  lru_update :: "'s \<Rightarrow> 'k \<Rightarrow> 'v \<Rightarrow> 's"

text \<open>
  An update always finds room, by evicting other entries if it must: the written entry is there
  afterwards, every other entry is as it was or gone.
\<close>

locale bpf_lru_map =
  fixes M :: "('s, 'k, 'v) bpf_lru"
  assumes update_same [simp]: "lru_lookup M (lru_update M s k v) k = Some v"
    and update_other:
      "k' \<noteq> k \<Longrightarrow> lru_lookup M (lru_update M s k v) k' = Some v' \<Longrightarrow> lru_lookup M s k' = Some v'"
begin

lemma update_other_missing:
  "k' \<noteq> k \<Longrightarrow> lru_lookup M s k' = None \<Longrightarrow> lru_lookup M (lru_update M s k v) k' = None"
  using update_other [of k' k s v] by (cases "lru_lookup M (lru_update M s k v) k'") auto

text \<open>Whatever is found after a sequence of updates was written by the last update of that key.\<close>

lemma updates_lookup:
  assumes "lru_lookup M (foldl (\<lambda>s (k, v). lru_update M s k v) s kvs) k = Some v"
  shows "map_of (rev kvs) k = Some v \<or> map_of (rev kvs) k = None \<and> lru_lookup M s k = Some v"
  using assms
proof (induction kvs rule: rev_induct)
  case (snoc kv kvs)
  obtain k1 v1 where kv: "kv = (k1, v1)" by (cases kv)
  show ?case
  proof (cases "k1 = k")
    case True
    then show ?thesis using snoc.prems kv by simp
  next
    case False
    have "lru_lookup M (lru_update M (foldl (\<lambda>s (k, v). lru_update M s k v) s kvs) k1 v1) k = Some v"
      using snoc.prems kv by simp
    then have "lru_lookup M (foldl (\<lambda>s (k, v). lru_update M s k v) s kvs) k = Some v"
      by (rule update_other [OF False [symmetric]])
    then show ?thesis using snoc.IH False kv by simp
  qed
qed simp

end

definition alist_lru :: "nat \<Rightarrow> (('k \<times> 'v) list, 'k, 'v) bpf_lru" where
  "alist_lru n =
     \<lparr>lru_lookup = map_of, lru_update = (\<lambda>xs k v. (k, v) # take n (AList.delete k xs))\<rparr>"

lemma map_of_take: "map_of (take n xs) k = Some v \<Longrightarrow> map_of xs k = Some v"
  by (induction xs arbitrary: n) (auto simp: take_Cons split: nat.splits if_splits)

text \<open>\<open>alist_lru n\<close> holds \<open>n + 1\<close> entries, the most recently written first.\<close>

interpretation alist_lru: bpf_lru_map "alist_lru n" for n
  by unfold_locales (auto simp: alist_lru_def delete_conv' dest!: map_of_take)

end
