(* ===== verification/Net_Data.thy ===== *)
theory Net_Data
  imports Net_Helpers Bpf_Maps
begin

text \<open>
  \<^verbatim>\<open>lib/net_data.h\<close>: what is known about a workload's veth pair, as the record the C programs see, as
  the C layout, and as the bytes user space hands to the kernel (the generated Go types
  \<^verbatim>\<open>dnatNetData\<close> and \<^verbatim>\<open>snatNetData\<close>, whose padding is explicit). The lemma at the end shows
  that the C view of the bytes Go writes is the value Go meant.
\<close>

section \<open>The structures\<close>

record veth_peer =
  if_index :: u32
  if_addr :: be32
  peer_mac :: "byte list"

record net_data =
  pod_peer :: veth_peer
  host_peer :: veth_peer
  host_port :: u16

definition struct_veth_peer :: ctype where
  "struct_veth_peer =
     CStruct [Fld ''if_index'' t_u32, Fld ''if_addr'' t_be32, Fld ''mac_addr'' (CArr t_u8 ETH_ALEN)]"

definition struct_net_data :: ctype where
  "struct_net_data =
     CStruct [Fld ''pod_peer'' struct_veth_peer, Fld ''host_peer'' struct_veth_peer,
       Fld ''host_port'' t_u16]"

text \<open>\<^verbatim>\<open>net_data_map\<close>: the number of entries it can hold.\<close>

definition net_data_max_entries :: nat where
  "net_data_max_entries = 256"

section \<open>Reading the structures from memory\<close>

definition load_veth_peer :: "byte_order \<Rightarrow> byte list \<Rightarrow> veth_peer" where
  "load_veth_peer bo bs =
     \<lparr>if_index = load32 bo (read_at (offset_in struct_veth_peer ''if_index'') 4 bs),
      if_addr = load32 bo (read_at (offset_in struct_veth_peer ''if_addr'') 4 bs),
      peer_mac = read_at (offset_in struct_veth_peer ''mac_addr'') ETH_ALEN bs\<rparr>"

definition load_net_data :: "byte_order \<Rightarrow> byte list \<Rightarrow> net_data" where
  "load_net_data bo bs =
     \<lparr>pod_peer = load_veth_peer bo
        (read_at (offset_in struct_net_data ''pod_peer'') (sizeof struct_veth_peer) bs),
      host_peer = load_veth_peer bo
        (read_at (offset_in struct_net_data ''host_peer'') (sizeof struct_veth_peer) bs),
      host_port = load16 bo (read_at (offset_in struct_net_data ''host_port'') 2 bs)\<rparr>"

section \<open>The bytes of the Go structures\<close>

definition go_veth_peer :: "byte_order \<Rightarrow> veth_peer \<Rightarrow> byte list" where
  "go_veth_peer bo v = store32 bo (if_index v) @ store32 bo (if_addr v) @ peer_mac v @ [0, 0]"

definition go_net_data :: "byte_order \<Rightarrow> net_data \<Rightarrow> byte list" where
  "go_net_data bo d =
     go_veth_peer bo (pod_peer d) @ go_veth_peer bo (host_peer d) @ store16 bo (host_port d) @ [0, 0]"

lemma veth_peer_layout [simp]:
  "sizeof struct_veth_peer = 16" "offset_in struct_veth_peer ''if_index'' = 0"
  "offset_in struct_veth_peer ''if_addr'' = 4" "offset_in struct_veth_peer ''mac_addr'' = 8"
  by code_simp+

lemma net_data_layout [simp]:
  "sizeof struct_net_data = 36" "offset_in struct_net_data ''pod_peer'' = 0"
  "offset_in struct_net_data ''host_peer'' = 16" "offset_in struct_net_data ''host_port'' = 32"
  by code_simp+

lemma length_go_veth_peer [simp]: "length (peer_mac v) = 6 \<Longrightarrow> length (go_veth_peer bo v) = 16"
  by (simp add: go_veth_peer_def)

lemma length_go_net_data [simp]:
  "length (peer_mac (pod_peer d)) = 6 \<Longrightarrow> length (peer_mac (host_peer d)) = 6 \<Longrightarrow>
   length (go_net_data bo d) = 36"
  by (simp add: go_net_data_def)

lemma load_go_veth_peer [simp]:
  "length (peer_mac v) = 6 \<Longrightarrow> load_veth_peer bo (go_veth_peer bo v) = v"
  by (simp add: load_veth_peer_def go_veth_peer_def read_at_def const_defs)

lemma load_go_net_data [simp]:
  "length (peer_mac (pod_peer d)) = 6 \<Longrightarrow> length (peer_mac (host_peer d)) = 6 \<Longrightarrow>
   load_net_data bo (go_net_data bo d) = d"
  by (simp add: load_net_data_def go_net_data_def read_at_def)

end
