(* ===== verification/Samples.thy ===== *)
theory Samples
  imports Frame
begin

text \<open>
  Packets with valid checksums, as inputs on which the properties are instantiated.
\<close>

text \<open>A player's TCP packet from 203.0.113.7:50000 to port 30001 of the host 198.51.100.1.\<close>

definition sample_client :: "byte list" where
  "sample_client = [
    126, 144, 196, 237, 223, 208, 2, 0, 0, 0, 0, 1, 8, 0, 69, 0, 0, 42, 0, 1, 64, 0, 64, 6,
    212, 144, 203, 0, 113, 7, 198, 51, 100, 1, 195, 80, 117, 49, 0, 0, 0, 1, 0, 0, 0, 2, 80,
    24, 1, 0, 167, 159, 0, 0, 104, 105]"

text \<open>A server's TCP packet from 10.0.0.6:25565 to 203.0.113.7:50000.\<close>

definition sample_server :: "byte list" where
  "sample_server = [
    126, 144, 196, 237, 223, 208, 2, 0, 0, 0, 0, 1, 8, 0, 69, 0, 0, 42, 0, 1, 64, 0, 64, 6,
    244, 191, 10, 0, 0, 6, 203, 0, 113, 7, 99, 221, 195, 80, 0, 0, 0, 1, 0, 0, 0, 2, 80, 24,
    1, 0, 217, 34, 0, 0, 104, 105]"

text \<open>A UDP packet from 10.0.0.6:40000 to port 53 of 8.8.8.8.\<close>

definition sample_dns :: "byte list" where
  "sample_dns = [
    126, 144, 196, 237, 223, 208, 2, 0, 0, 0, 0, 1, 8, 0, 69, 0, 0, 30, 0, 1, 64, 0, 64, 17,
    32, 185, 10, 0, 0, 6, 8, 8, 8, 8, 156, 64, 0, 53, 0, 10, 224, 229, 104, 105]"

text \<open>A UDP packet from 10.0.0.6:40000 to port 443 of 8.8.8.8.\<close>

definition sample_quic :: "byte list" where
  "sample_quic = [
    126, 144, 196, 237, 223, 208, 2, 0, 0, 0, 0, 1, 8, 0, 69, 0, 0, 40, 0, 1, 64, 0, 64, 17,
    32, 175, 10, 0, 0, 6, 8, 8, 8, 8, 156, 64, 1, 187, 0, 20, 225, 72, 48, 49, 50, 51, 52,
    53, 54, 55, 56, 57, 97, 98]"

text \<open>A TCP packet from 10.0.0.6:40000 to port 443 of 93.184.216.34.\<close>

definition sample_web :: "byte list" where
  "sample_web = [
    126, 144, 196, 237, 223, 208, 2, 0, 0, 0, 0, 1, 8, 0, 69, 0, 0, 42, 0, 1, 64, 0, 64, 6,
    250, 236, 10, 0, 0, 6, 93, 184, 216, 34, 156, 64, 1, 187, 0, 0, 0, 1, 0, 0, 0, 2, 80,
    24, 1, 0, 104, 130, 0, 0, 104, 105]"

text \<open>The proxy's TCP packet from 10.0.0.5:9111 to 10.0.0.6:40000.\<close>

definition sample_reply :: "byte list" where
  "sample_reply = [
    126, 144, 196, 237, 223, 208, 2, 0, 0, 0, 0, 1, 8, 0, 69, 0, 0, 42, 0, 1, 64, 0, 64, 6,
    38, 195, 10, 0, 0, 5, 10, 0, 0, 6, 35, 151, 156, 64, 0, 0, 0, 1, 0, 0, 0, 2, 80, 24, 1,
    0, 114, 124, 0, 0, 104, 105]"

text \<open>Another workload's UDP packet from 10.0.0.10:40000 to port 53 of 1.1.1.1.\<close>

definition sample_dns2 :: "byte list" where
  "sample_dns2 = [
    126, 144, 196, 237, 223, 208, 2, 0, 0, 0, 0, 1, 8, 0, 69, 0, 0, 30, 0, 1, 64, 0, 64, 17,
    46, 195, 10, 0, 0, 10, 1, 1, 1, 1, 156, 64, 0, 53, 0, 10, 238, 239, 104, 105]"

text \<open>The proxy's UDP packet from 10.0.0.5:9053 to 10.0.0.6:40000.\<close>

definition sample_dns_reply :: "byte list" where
  "sample_dns_reply = [
    126, 144, 196, 237, 223, 208, 2, 0, 0, 0, 0, 1, 8, 0, 69, 0, 0, 30, 0, 1, 64, 0, 64, 17,
    38, 196, 10, 0, 0, 5, 10, 0, 0, 6, 35, 93, 156, 64, 0, 10, 195, 200, 104, 105]"

text \<open>The ARP request of 10.0.0.6 for 10.0.0.5.\<close>

definition sample_arp :: "byte list" where
  "sample_arp = [
    255, 255, 255, 255, 255, 255, 2, 0, 0, 0, 0, 1, 8, 6, 0, 1, 8, 0, 6, 4, 0, 1, 2, 0, 0,
    0, 0, 1, 10, 0, 0, 6, 0, 0, 0, 0, 0, 0, 10, 0, 0, 5]"

lemmas sample_defs = sample_client_def sample_server_def sample_dns_def sample_quic_def sample_web_def
  sample_reply_def sample_dns2_def sample_dns_reply_def sample_arp_def

lemmas frame_eval = tcp_frame_def udp_frame_def ipv4_frame_def ip_proto_def l4_len_def ip_tot_len_def
  read_at_def load16_def mem_nat_def

lemma sample_frames [simp]:
  "tcp_frame sample_client" "tcp_frame sample_server" "udp_frame sample_dns" "udp_frame sample_quic"
  "tcp_frame sample_web" "tcp_frame sample_reply" "udp_frame sample_dns2" "udp_frame sample_dns_reply"
  by (simp_all add: frame_eval sample_defs)

lemma nat_le_2: "nat_le 2 v = [of_nat (v mod 256), of_nat (v div 256 mod 256)]"
  by (simp add: numeral_2_eq_2)

lemma sample_csums [simp]:
  "l4_csum_ok sample_client" "l4_csum_ok sample_server" "l4_csum_ok sample_dns"
  "l4_csum_ok sample_quic" "l4_csum_ok sample_web" "l4_csum_ok sample_reply"
  by (simp_all add: l4_csum_ok_def csum_ok_iff [of _ BE] l4_image_def frame_eval
      store16_def mem_bytes_def nat_le_2 sample_defs)

lemma sample_fields [simp]:
  "l4_sport sample_client = 50000" "l4_dport sample_client = 30001"
  "ip_src sample_client = 3405803783" "ip_dst sample_client = 3325256705"
  "l4_sport sample_server = 25565" "l4_dport sample_server = 50000"
  "ip_src sample_server = 167772166" "ip_dst sample_server = 3405803783"
  "l4_sport sample_dns = 40000" "l4_dport sample_dns = 53"
  "ip_src sample_dns = 167772166" "ip_dst sample_dns = 134744072"
  "l4_sport sample_quic = 40000" "l4_dport sample_quic = 443"
  "ip_src sample_quic = 167772166" "ip_dst sample_quic = 134744072"
  "l4_sport sample_web = 40000" "l4_dport sample_web = 443"
  "ip_src sample_web = 167772166" "ip_dst sample_web = 1572395042"
  "l4_sport sample_reply = 9111" "l4_dport sample_reply = 40000"
  "ip_src sample_reply = 167772165" "ip_dst sample_reply = 167772166"
  "l4_sport sample_dns2 = 40000" "l4_dport sample_dns2 = 53"
  "ip_src sample_dns2 = 167772170" "ip_dst sample_dns2 = 16843009"
  "l4_sport sample_dns_reply = 9053" "l4_dport sample_dns_reply = 40000"
  "ip_src sample_dns_reply = 167772165" "ip_dst sample_dns_reply = 167772166"
  by (simp_all add: field_defs frame_eval load32_def sample_defs)

lemma sample_lengths [simp]:
  "length sample_client = 56" "length sample_server = 56" "length sample_dns = 44"
  "length sample_quic = 54" "length sample_web = 56" "length sample_reply = 56"
  "length sample_dns2 = 44" "length sample_dns_reply = 44" "length sample_arp = 42"
  by (simp_all add: sample_defs)

end
