(* ===== verification/Dnat.thy ===== *)
theory Dnat
  imports Net_Data Samples "HOL-Library.Monad_Syntax"
begin

text \<open>
  \<^verbatim>\<open>dnat.c\<close>: the program on the ingress of the host's network interface. It maps the destination port
  of a packet to a workload and redirects the packet into it, with MAC address, IP address and port
  rewritten.
\<close>

section \<open>The map of targets\<close>

record dnat_target =
  tgt_ip_addr :: u32
  tgt_iface_idx :: u8
  tgt_mac_addr :: "byte list"

definition struct_dnat_target :: ctype where
  "struct_dnat_target =
     CStruct [Fld ''ip_addr'' t_u32, Fld ''iface_idx'' t_u8, Fld ''mac_addr'' (CArr t_u8 ETH_ALEN)]"

definition dnat_targets_max_entries :: nat where
  "dnat_targets_max_entries = 256"

definition load_dnat_target :: "byte_order \<Rightarrow> byte list \<Rightarrow> dnat_target" where
  "load_dnat_target bo bs =
     \<lparr>tgt_ip_addr = load32 bo (read_at (offset_in struct_dnat_target ''ip_addr'') 4 bs),
      tgt_iface_idx = bs ! offset_in struct_dnat_target ''iface_idx'',
      tgt_mac_addr = read_at (offset_in struct_dnat_target ''mac_addr'') ETH_ALEN bs\<rparr>"

text \<open>The bytes of the generated Go type \<^verbatim>\<open>dnatDnatTarget\<close>.\<close>

definition go_dnat_target :: "byte_order \<Rightarrow> dnat_target \<Rightarrow> byte list" where
  "go_dnat_target bo t = store32 bo (tgt_ip_addr t) @ [tgt_iface_idx t] @ tgt_mac_addr t @ [0]"

section \<open>The program\<close>

definition dnat ::
  "kernel \<Rightarrow> byte_order \<Rightarrow> (u16 \<rightharpoonup> dnat_target) \<Rightarrow> skb \<Rightarrow> (tc_verdict \<times> skb) option" where
  "dnat K bo ptp_dnat_targets ctx =
     (let data = 0; data_end = headlen ctx in
      if protocol ctx \<noteq> ucast (bpf_htons bo True ETH_P_IP) then Some (Act TC_ACT_OK, ctx)
      else
        let nport = load16 bo (snd (bpf_skb_load_bytes K ctx TCP_DPORT_OFF 2));
            hport = bpf_ntohs bo False nport
        in case ptp_dnat_targets hport of
             None \<Rightarrow> Some (Act TC_ACT_OK, ctx)
           | Some tgt \<Rightarrow>
               (case parse_ethhdr data data_end of
                  (r, data, ethh) \<Rightarrow>
                    if r \<noteq> 0 then Some (Act TC_ACT_OK, ctx)
                    else do {
                      eth \<leftarrow> ethh;
                      ctx \<leftarrow> direct_write ctx (eth + offset_in struct_ethhdr ''h_dest'') (tgt_mac_addr tgt);
                      let dst = bpf_htonl bo False (tgt_ip_addr tgt);
                      let prev_dst = load32 bo (snd (bpf_skb_load_bytes K ctx IP_DST_OFF IP_ADDR_LEN));
                      let ctx = snd (bpf_skb_store_bytes K ctx IP_DST_OFF (store32 bo dst) 0);
                      let ctx = snd (bpf_l3_csum_replace K ctx IP_CSUM_OFF (ucast prev_dst) (ucast dst) 4);
                      let ctx = snd (bpf_l4_csum_replace K ctx TCP_CSUM_OFF (ucast prev_dst) (ucast dst)
                                       (BPF_F_PSEUDO_HDR OR 4));
                      let ctx = rewrite_port K bo ctx (bpf_htons bo True MC_SERVER_PORT) TCP_DPORT_OFF
                                  IPPROTO_TCP;
                      Some (RedirectPeer (ucast (tgt_iface_idx tgt)) 0, ctx)
                    }))"

section \<open>Lemmas\<close>

lemma dnat_target_layout [simp]:
  "sizeof struct_dnat_target = 12" "offset_in struct_dnat_target ''ip_addr'' = 0"
  "offset_in struct_dnat_target ''iface_idx'' = 4" "offset_in struct_dnat_target ''mac_addr'' = 5"
  by code_simp+

lemma length_go_dnat_target [simp]: "length (tgt_mac_addr t) = 6 \<Longrightarrow> length (go_dnat_target bo t) = 12"
  by (simp add: go_dnat_target_def)

lemma load_go_dnat_target [simp]:
  "length (tgt_mac_addr t) = 6 \<Longrightarrow> load_dnat_target bo (go_dnat_target bo t) = t"
  by (simp add: load_dnat_target_def go_dnat_target_def read_at_def nth_append const_defs)

text \<open>Packets of other protocols and ports without a target pass unchanged.\<close>

lemma dnat_other_protocol:
  "protocol s \<noteq> ucast (bpf_htons bo True ETH_P_IP) \<Longrightarrow> dnat K bo m s = Some (Act TC_ACT_OK, s)"
  by (simp add: dnat_def Let_def)

lemma dnat_total:
  assumes "\<And>t. t \<in> ran m \<Longrightarrow> length (tgt_mac_addr t) = ETH_ALEN"
  shows "dnat K bo m s \<noteq> None"
proof (cases "m (bpf_ntohs bo False (load16 bo (snd (bpf_skb_load_bytes K s TCP_DPORT_OFF 2))))")
  case None
  then show ?thesis by (simp add: dnat_def Let_def)
next
  case (Some tgt)
  then have "length (tgt_mac_addr tgt) = 6" using assms [OF ranI] by (simp add: const_defs)
  with Some show ?thesis by (simp add: dnat_def Let_def parse_ethhdr_def)
qed

context skb_kernel
begin

lemma dnat_no_target:
  assumes "38 \<le> length (pkt s)" "m (l4_dport (pkt s)) = None"
  shows "dnat K bo m s = Some (Act TC_ACT_OK, s)"
  using assms by (simp add: dnat_def Let_def l4_dport_def)

text \<open>With a target, the four inlined calls are \<^verbatim>\<open>rewrite_ip_addr\<close> for TCP.\<close>

lemma dnat_target_found:
  assumes "protocol s = ucast (bpf_htons bo True ETH_P_IP)" "14 \<le> headlen s" "38 \<le> length (pkt s)"
    and "m (l4_dport (pkt s)) = Some tgt" "length (tgt_mac_addr tgt) = 6"
  shows "dnat K bo m s =
    Some (RedirectPeer (ucast (tgt_iface_idx tgt)) 0,
      rewrite_port K bo
        (rewrite_ip_addr K bo (s\<lparr>pkt := write_at 0 (tgt_mac_addr tgt) (pkt s)\<rparr>)
          (bpf_htonl bo False (tgt_ip_addr tgt)) 30 6)
        (bpf_htons bo True MC_SERVER_PORT) 36 6)"
  using assms
  by (simp add: dnat_def Let_def l4_dport_def parse_ethhdr_ok rewrite_ip_addr_def const_defs)

lemma dnat_tcp:
  assumes "protocol s = ucast (bpf_htons bo True ETH_P_IP)" "14 \<le> headlen s" "wf_skb s"
    and f: "tcp_frame (pkt s)" and m: "m (l4_dport (pkt s)) = Some tgt" "length (tgt_mac_addr tgt) = 6"
    and port: "l4_dport (pkt s) \<noteq> 0"
  obtains s1 s' where "s1 = s\<lparr>pkt := write_at 0 (tgt_mac_addr tgt) (pkt s)\<rparr>"
    "dnat K bo m s = Some (RedirectPeer (ucast (tgt_iface_idx tgt)) 0, s')"
    "nat_rewritten bo 50 30 (bpf_htonl bo False (tgt_ip_addr tgt)) 36 (bpf_htons bo True MC_SERVER_PORT) s1 s'"
    "l4_frame 6 50 (pkt s1)" "l4_frame 6 50 (pkt s')" "read_at 36 2 (pkt s1) = read_at 36 2 (pkt s)"
    "read_at 36 2 (pkt s1) \<noteq> [0, 0]"
proof -
  have len: "54 \<le> length (pkt s)" by (rule tcp_frame_length [OF f])
  define s1 where "s1 = s\<lparr>pkt := write_at 0 (tgt_mac_addr tgt) (pkt s)\<rparr>"
  have f1: "l4_frame 6 50 (pkt s1)"
    using l4_frame_write_at [of 6 50 "pkt s" 0 "tgt_mac_addr tgt"] f len m(2)
    by (simp add: s1_def l4_frame_def)
  have r: "read_at 36 2 (pkt s1) = read_at 36 2 (pkt s)" using len m(2) by (simp add: s1_def)
  have nz: "read_at 36 2 (pkt s1) \<noteq> [0, 0]"
    using port_nonzero(2) [OF port] len by (simp add: r)
  show thesis
    by (rule that [OF s1_def dnat_target_found nat_rewrite_effect(1) f1 nat_rewrite_effect(2) r nz])
      (use assms len f1 nz in \<open>auto simp: s1_def\<close>)
qed

end

section \<open>Properties\<close>

text \<open>
  C2. A TCP packet for a port with a target is delivered: \<^verbatim>\<open>dnat\<close> redirects it to the peer of the
  target's interface with the target's MAC address, IP address and the Minecraft server port as
  destination; its IP checksum is valid if it was; and apart from those fields and the two checksums
  no byte of the packet changes. This holds on every kernel that does what is documented.
\<close>

theorem dnat_delivers:
  assumes "skb_kernel K bo" "protocol s = ucast (bpf_htons bo True ETH_P_IP)" "ETH_HLEN \<le> headlen s"
    and "wf_skb s" "tcp_frame (pkt s)" "m (l4_dport (pkt s)) = Some tgt"
    and "length (tgt_mac_addr tgt) = ETH_ALEN" "l4_dport (pkt s) \<noteq> 0"
  shows "\<exists>s'. dnat K bo m s = Some (RedirectPeer (ucast (tgt_iface_idx tgt)) 0, s') \<and>
    eth_dst (pkt s') = tgt_mac_addr tgt \<and> ip_dst (pkt s') = tgt_ip_addr tgt \<and>
    l4_dport (pkt s') = MC_SERVER_PORT \<and> ip_csum_ok (pkt s') = ip_csum_ok (pkt s) \<and>
    same_outside [(0, 6), (24, 2), (30, 4), (36, 2), (50, 2)] (pkt s) (pkt s')"
proof -
  have mac: "length (tgt_mac_addr tgt) = 6" and hl: "14 \<le> headlen s"
    using assms by (simp_all add: const_defs)
  obtain s1 s' where s1: "s1 = s\<lparr>pkt := write_at 0 (tgt_mac_addr tgt) (pkt s)\<rparr>"
    and d: "dnat K bo m s = Some (RedirectPeer (ucast (tgt_iface_idx tgt)) 0, s')"
    and n: "nat_rewritten bo 50 30 (bpf_htonl bo False (tgt_ip_addr tgt)) 36 (bpf_htons bo True MC_SERVER_PORT) s1 s'"
    and f1: "l4_frame 6 50 (pkt s1)"
    by (rule skb_kernel.dnat_tcp [where m = m, OF assms(1,2) hl assms(4-6) mac assms(8)])
  have len: "54 \<le> length (pkt s)" using tcp_frame_length [OF assms(5)] .
  let ?rs = "[(0, 6), (24, 2), (30, 4), (36, 2), (50, 2)]"
  have o: "same_outside [(24, 2), (30, 4), (36, 2), (50, 2)] (pkt s1) (pkt s')"
    using n by (simp add: nat_rewritten_def)
  have "same_outside ?rs (pkt s) (pkt s1)" using mac len by (auto simp: s1 intro: same_outside_write_at)
  then have "same_outside ?rs (pkt s) (pkt s')"
    by (rule same_outside_trans) (rule same_outside_mono [OF o], auto)
  moreover have "eth_dst (pkt s') = tgt_mac_addr tgt"
    using same_outside_field [OF o, of 0 6] mac len by (simp add: eth_dst_def s1)
  moreover have "ip_csum_ok (pkt s') = ip_csum_ok (pkt s1)" using n by (simp add: nat_rewritten_def)
  moreover have "ip_csum_ok (pkt s1) = ip_csum_ok (pkt s)"
    using mac len by (simp add: s1 ip_csum_ok_def ip_hdr_def)
  ultimately show ?thesis using d n by (simp add: nat_rewritten_def ip_dst_def l4_dport_def)
qed

definition sample_target :: dnat_target where
  "sample_target =
     \<lparr>tgt_ip_addr = 0x0A000006, tgt_iface_idx = 7, tgt_mac_addr = [2, 0, 0, 0, 0, 1]\<rparr>"

definition sample_ingress :: skb where
  "sample_ingress = \<lparr>pkt = sample_client, headlen = 54, protocol = 8, ifindex = 2\<rparr>"

lemma sample_ingress_sel [simp]:
  "pkt sample_ingress = sample_client" "headlen sample_ingress = 54"
  "protocol sample_ingress = ucast (bpf_htons LE True ETH_P_IP)" "wf_skb sample_ingress"
proof -
  show "protocol sample_ingress = ucast (bpf_htons LE True ETH_P_IP)" by code_simp
qed (simp_all add: sample_ingress_def wf_skb_def)

theorem dnat_delivers_witness:
  "\<exists>s'. dnat (doc_kernel LE) LE [30001 \<mapsto> sample_target] sample_ingress = Some (RedirectPeer 7 0, s') \<and>
    eth_dst (pkt s') = [2, 0, 0, 0, 0, 1] \<and> ip_dst (pkt s') = 0x0A000006 \<and>
    l4_dport (pkt s') = MC_SERVER_PORT \<and> ip_csum_ok (pkt s') = ip_csum_ok sample_client \<and>
    same_outside [(0, 6), (24, 2), (30, 4), (36, 2), (50, 2)] sample_client (pkt s')"
  using dnat_delivers [OF doc.skb_kernel_axioms, of sample_ingress LE "[30001 \<mapsto> sample_target]" sample_target]
  by (simp add: sample_target_def ETH_ALEN_def ETH_HLEN_def del: endian_net)

text \<open>
  The TCP checksum after \<^verbatim>\<open>dnat\<close>: \<^verbatim>\<open>rewrite_port\<close> calls \<^verbatim>\<open>bpf_l4_csum_replace\<close> with flags 0,
  that is without the size of the field, and the documented helper rejects such a call unless the old
  value is 0. So a packet that arrives with a valid TCP checksum leaves with a valid one exactly if its
  destination port already was the Minecraft server port.
\<close>

theorem dnat_tcp_checksum:
  assumes "skb_kernel K bo" "protocol s = ucast (bpf_htons bo True ETH_P_IP)" "ETH_HLEN \<le> headlen s"
    and "wf_skb s" "tcp_frame (pkt s)" "m (l4_dport (pkt s)) = Some tgt"
    and "length (tgt_mac_addr tgt) = ETH_ALEN" "l4_dport (pkt s) \<noteq> 0"
    and "l4_csum_ok (pkt s)" "dnat K bo m s = Some (v, s')"
  shows "l4_csum_ok (pkt s') \<longleftrightarrow> l4_dport (pkt s) = MC_SERVER_PORT"
proof -
  have mac: "length (tgt_mac_addr tgt) = 6" and hl: "14 \<le> headlen s"
    using assms by (simp_all add: const_defs)
  obtain s1 where s1: "s1 = s\<lparr>pkt := write_at 0 (tgt_mac_addr tgt) (pkt s)\<rparr>"
    and n: "nat_rewritten bo 50 30 (bpf_htonl bo False (tgt_ip_addr tgt)) 36 (bpf_htons bo True MC_SERVER_PORT) s1 s'"
    and f: "l4_frame 6 50 (pkt s1)" "l4_frame 6 50 (pkt s')"
    and r: "read_at 36 2 (pkt s1) = read_at 36 2 (pkt s)" "read_at 36 2 (pkt s1) \<noteq> [0, 0]"
    by (rule skb_kernel.dnat_tcp [where m = m, OF assms(1,2) hl assms(4-6) mac assms(8)]) (use assms(10) in auto)
  have len: "54 \<le> length (pkt s)" using tcp_frame_length [OF assms(5)] .
  have "l4_csum_ok (pkt s1)"
    using l4_csum_ok_iff [of "pkt s" BE] l4_csum_ok_iff [of "pkt s1" BE] assms(5,9) mac l4_frameD [OF f(1)]
    by (simp add: s1 tcp_frame_def)
  then have "l4_csum_ok (pkt s') \<longleftrightarrow> load16 bo (read_at 36 2 (pkt s1)) = bpf_htons bo True MC_SERVER_PORT"
    by (intro nat_rewritten_csum [OF n f] r) (simp_all add: const_defs)
  then show ?thesis using len by (simp add: r l4_dport_def)
qed

theorem dnat_tcp_checksum_witness:
  "\<exists>v s'. dnat (doc_kernel LE) LE [30001 \<mapsto> sample_target] sample_ingress = Some (v, s') \<and>
    \<not> l4_csum_ok (pkt s')"
proof -
  obtain v s' where d: "dnat (doc_kernel LE) LE [30001 \<mapsto> sample_target] sample_ingress = Some (v, s')"
    using dnat_total [of "[30001 \<mapsto> sample_target]" "doc_kernel LE" LE sample_ingress]
    by (auto simp: sample_target_def ETH_ALEN_def)
  then have "l4_csum_ok (pkt s') \<longleftrightarrow> l4_dport (pkt sample_ingress) = MC_SERVER_PORT"
    by (intro dnat_tcp_checksum [OF doc.skb_kernel_axioms, of sample_ingress LE "[30001 \<mapsto> sample_target]" sample_target])
      (simp_all add: sample_target_def ETH_ALEN_def ETH_HLEN_def del: endian_net)
  with d show ?thesis by (simp add: MC_SERVER_PORT_def)
qed

end
