(* ===== verification/Snat.thy ===== *)
theory Snat
  imports Net_Data Samples "HOL-Library.Monad_Syntax"
begin

text \<open>
  \<^verbatim>\<open>snat.c\<close>: the program on the ingress of the host side of a workload's veth pair. It gives the
  packets of a Minecraft server the host's address and the workload's host port as source and sends
  them out through the host's interface.
\<close>

section \<open>The configuration map\<close>

record ptp_snat_entry =
  snat_ip_addr :: u32
  snat_iface_idx :: u8

definition struct_ptp_snat_entry :: ctype where
  "struct_ptp_snat_entry = CStruct [Fld ''ip_addr'' t_u32, Fld ''iface_idx'' t_u8]"

definition snat_config_max_entries :: nat where
  "snat_config_max_entries = 1"

definition load_ptp_snat_entry :: "byte_order \<Rightarrow> byte list \<Rightarrow> ptp_snat_entry" where
  "load_ptp_snat_entry bo bs =
     \<lparr>snat_ip_addr = load32 bo (read_at (offset_in struct_ptp_snat_entry ''ip_addr'') 4 bs),
      snat_iface_idx = bs ! offset_in struct_ptp_snat_entry ''iface_idx''\<rparr>"

text \<open>The bytes of the generated Go type \<^verbatim>\<open>snatPtpSnatEntry\<close>.\<close>

definition go_ptp_snat_entry :: "byte_order \<Rightarrow> ptp_snat_entry \<Rightarrow> byte list" where
  "go_ptp_snat_entry bo e = store32 bo (snat_ip_addr e) @ [snat_iface_idx e] @ [0, 0, 0]"

section \<open>The program\<close>

definition snat ::
  "kernel \<Rightarrow> byte_order \<Rightarrow> (u8 \<rightharpoonup> ptp_snat_entry) \<Rightarrow> (u32 \<rightharpoonup> net_data) \<Rightarrow> skb \<Rightarrow>
   (tc_verdict \<times> skb) option" where
  "snat K bo ptp_snat_config net_data_map ctx =
     (let data = 0; data_end = headlen ctx in
      if protocol ctx \<noteq> ucast (bpf_htons bo True ETH_P_IP) then Some (Act TC_ACT_UNSPEC, ctx)
      else
        let iph = data + ETH_HLEN in
        if data + ETH_HLEN + sizeof struct_iphdr > data_end then Some (Act TC_ACT_SHOT, ctx)
        else do {
          p \<leftarrow> direct_read ctx (iph + offset_in struct_iphdr ''protocol'') 1;
          let proto = p ! 0;
          if proto \<noteq> IPPROTO_TCP then Some (Act TC_ACT_OK, ctx)
          else
            let sport = get_port K bo ctx TCP_SPORT_OFF UDP_SPORT_OFF proto in
            if sport \<noteq> bpf_htons bo True MC_SERVER_PORT then Some (Act TC_ACT_OK, ctx)
            else
              case ptp_snat_config 0 of
                None \<Rightarrow> Some (Act TC_ACT_OK, ctx)
              | Some entry \<Rightarrow> do {
                  saddr \<leftarrow> direct_read ctx (iph + offset_in struct_iphdr ''saddr'') 4;
                  let k = bpf_ntohl bo False (load32 bo saddr);
                  case net_data_map k of
                    None \<Rightarrow> Some (Act TC_ACT_OK, ctx)
                  | Some nd \<Rightarrow>
                      let src = bpf_htonl bo False (snat_ip_addr entry);
                          prev_src = load32 bo (snd (bpf_skb_load_bytes K ctx IP_SRC_OFF IP_ADDR_LEN));
                          ctx = snd (bpf_skb_store_bytes K ctx IP_SRC_OFF (store32 bo src) 0);
                          ctx = snd (bpf_l3_csum_replace K ctx IP_CSUM_OFF (ucast prev_src) (ucast src) 4);
                          ctx = snd (bpf_l4_csum_replace K ctx TCP_CSUM_OFF (ucast prev_src) (ucast src)
                                       (BPF_F_PSEUDO_HDR OR 4));
                          ctx = rewrite_port K bo ctx (bpf_htons bo False (host_port nd)) TCP_SPORT_OFF
                                  IPPROTO_TCP
                      in Some (RedirectNeigh (ucast (snat_iface_idx entry)) 0, ctx)
                }
        })"

section \<open>Sample inputs\<close>

definition sample_entry :: ptp_snat_entry where
  "sample_entry = \<lparr>snat_ip_addr = 0xC6336401, snat_iface_idx = 2\<rparr>"

definition sample_net_data :: net_data where
  "sample_net_data =
     \<lparr>pod_peer = \<lparr>if_index = 8, if_addr = 0x0A000006, peer_mac = [2, 0, 0, 0, 0, 1]\<rparr>,
      host_peer = \<lparr>if_index = 7, if_addr = 0x0A000005, peer_mac = [126, 144, 196, 237, 223, 208]\<rparr>,
      host_port = 30001\<rparr>"

definition sample_egress :: skb where
  "sample_egress = \<lparr>pkt = sample_server, headlen = 54, protocol = 8, ifindex = 7\<rparr>"

lemma sample_egress_sel [simp]:
  "pkt sample_egress = sample_server" "headlen sample_egress = 54"
  "protocol sample_egress = ucast (bpf_htons LE True ETH_P_IP)" "wf_skb sample_egress"
proof -
  show "protocol sample_egress = ucast (bpf_htons LE True ETH_P_IP)" by code_simp
qed (simp_all add: sample_egress_def wf_skb_def)

section \<open>Lemmas\<close>

lemma ptp_snat_entry_layout [simp]:
  "sizeof struct_ptp_snat_entry = 8" "offset_in struct_ptp_snat_entry ''ip_addr'' = 0"
  "offset_in struct_ptp_snat_entry ''iface_idx'' = 4"
  by code_simp+

lemma length_go_ptp_snat_entry [simp]: "length (go_ptp_snat_entry bo e) = 8"
  by (simp add: go_ptp_snat_entry_def)

lemma load_go_ptp_snat_entry [simp]: "load_ptp_snat_entry bo (go_ptp_snat_entry bo e) = e"
  by (simp add: load_ptp_snat_entry_def go_ptp_snat_entry_def read_at_def nth_append)

lemma snat_other_protocol:
  "protocol s \<noteq> ucast (bpf_htons bo True ETH_P_IP) \<Longrightarrow> snat K bo cfg nd s = Some (Act TC_ACT_UNSPEC, s)"
  by (simp add: snat_def Let_def)

lemma snat_total: "snat K bo cfg nd s \<noteq> None"
  by (simp add: snat_def Let_def ETH_HLEN_def split: option.split)

context skb_kernel
begin

lemma snat_other_port:
  assumes "wf_skb s" "34 \<le> headlen s" "38 \<le> length (pkt s)"
    and "protocol s = ucast (bpf_htons bo True ETH_P_IP)"
    and "ip_proto (pkt s) \<noteq> 6 \<or> l4_sport (pkt s) \<noteq> MC_SERVER_PORT"
  shows "snat K bo cfg nd s = Some (Act TC_ACT_OK, s)"
  using assms
  by (auto simp: snat_def Let_def ip_proto_def l4_sport_def get_port_def ETH_HLEN_def
      IPPROTO_TCP_def)

text \<open>With both entries, the four inlined calls are \<^verbatim>\<open>rewrite_ip_addr\<close> for TCP.\<close>

lemma snat_entries_found:
  assumes "wf_skb s" "34 \<le> headlen s" "38 \<le> length (pkt s)"
    and "protocol s = ucast (bpf_htons bo True ETH_P_IP)"
    and "ip_proto (pkt s) = 6" "l4_sport (pkt s) = MC_SERVER_PORT"
    and "cfg 0 = Some entry" "ndm (ip_src (pkt s)) = Some nd"
  shows "snat K bo cfg ndm s =
    Some (RedirectNeigh (ucast (snat_iface_idx entry)) 0,
      rewrite_port K bo (rewrite_ip_addr K bo s (bpf_htonl bo False (snat_ip_addr entry)) 26 6)
        (bpf_htons bo False (host_port nd)) 34 6)"
  using assms
  by (simp add: snat_def Let_def ip_proto_def l4_sport_def ip_src_def get_port_def
      rewrite_ip_addr_def const_defs)

lemma snat_tcp:
  assumes "wf_skb s" "34 \<le> headlen s" "protocol s = ucast (bpf_htons bo True ETH_P_IP)"
    and f: "tcp_frame (pkt s)" and port: "l4_sport (pkt s) = MC_SERVER_PORT"
    and m: "cfg 0 = Some entry" "ndm (ip_src (pkt s)) = Some nd"
  obtains s' where "snat K bo cfg ndm s = Some (RedirectNeigh (ucast (snat_iface_idx entry)) 0, s')"
    "nat_rewritten bo 50 26 (bpf_htonl bo False (snat_ip_addr entry)) 34 (bpf_htons bo False (host_port nd)) s s'"
    "l4_frame 6 50 (pkt s)" "l4_frame 6 50 (pkt s')" "read_at 34 2 (pkt s) \<noteq> [0, 0]"
proof -
  have len: "54 \<le> length (pkt s)" by (rule tcp_frame_length [OF f])
  have f1: "l4_frame 6 50 (pkt s)" and p: "ip_proto (pkt s) = 6"
    using f by (simp_all add: l4_frame_def tcp_frame_def)
  have nz: "read_at 34 2 (pkt s) \<noteq> [0, 0]"
    using port_nonzero(1) [of "pkt s"] port len by (simp add: MC_SERVER_PORT_def)
  show thesis
    by (rule that [OF snat_entries_found nat_rewrite_effect(1) f1 nat_rewrite_effect(2) nz])
      (use assms len f1 nz p in auto)
qed

end

section \<open>Properties\<close>

text \<open>
  C4. A packet of a Minecraft server whose workload is known leaves with the host's address and the
  workload's host port as its source, through the configured interface with neighbour resolution; its
  IP checksum is valid if it was; and apart from source, ports and the two checksums no byte changes.
\<close>

theorem snat_translates:
  assumes "skb_kernel K bo" "wf_skb s" "ETH_HLEN + sizeof struct_iphdr \<le> headlen s"
    and "protocol s = ucast (bpf_htons bo True ETH_P_IP)" "tcp_frame (pkt s)"
    and "l4_sport (pkt s) = MC_SERVER_PORT" "cfg 0 = Some entry" "ndm (ip_src (pkt s)) = Some nd"
  shows "\<exists>s'. snat K bo cfg ndm s = Some (RedirectNeigh (ucast (snat_iface_idx entry)) 0, s') \<and>
    ip_src (pkt s') = snat_ip_addr entry \<and> l4_sport (pkt s') = host_port nd \<and>
    ip_csum_ok (pkt s') = ip_csum_ok (pkt s) \<and>
    same_outside [(24, 2), (26, 4), (34, 2), (50, 2)] (pkt s) (pkt s')"
proof -
  have hl: "34 \<le> headlen s" using assms(3) by (simp add: ETH_HLEN_def)
  obtain s' where "snat K bo cfg ndm s = Some (RedirectNeigh (ucast (snat_iface_idx entry)) 0, s')"
    and "nat_rewritten bo 50 26 (bpf_htonl bo False (snat_ip_addr entry)) 34 (bpf_htons bo False (host_port nd)) s s'"
    by (rule skb_kernel.snat_tcp [where cfg = cfg and ndm = ndm, OF assms(1,2) hl assms(4-8)])
  then show ?thesis by (simp add: nat_rewritten_def ip_src_def l4_sport_def)
qed

theorem snat_translates_witness:
  "\<exists>s'. snat (doc_kernel LE) LE [0 \<mapsto> sample_entry] [0x0A000006 \<mapsto> sample_net_data] sample_egress =
      Some (RedirectNeigh 2 0, s') \<and>
    ip_src (pkt s') = 0xC6336401 \<and> l4_sport (pkt s') = 30001 \<and>
    ip_csum_ok (pkt s') = ip_csum_ok sample_server \<and>
    same_outside [(24, 2), (26, 4), (34, 2), (50, 2)] sample_server (pkt s')"
  using snat_translates [OF doc.skb_kernel_axioms, of sample_egress LE "[0 \<mapsto> sample_entry]" sample_entry
      "[0x0A000006 \<mapsto> sample_net_data]" sample_net_data]
  by (simp add: sample_entry_def sample_net_data_def MC_SERVER_PORT_def ETH_HLEN_def del: endian_net)

text \<open>
  The TCP checksum after \<^verbatim>\<open>snat\<close>: for the same reason as in \<^verbatim>\<open>dnat\<close> a valid checksum stays valid
  exactly if the host port is the Minecraft server port itself, that is if nothing was translated.
\<close>

theorem snat_tcp_checksum:
  assumes "skb_kernel K bo" "wf_skb s" "ETH_HLEN + sizeof struct_iphdr \<le> headlen s"
    and "protocol s = ucast (bpf_htons bo True ETH_P_IP)" "tcp_frame (pkt s)"
    and "l4_sport (pkt s) = MC_SERVER_PORT" "cfg 0 = Some entry" "ndm (ip_src (pkt s)) = Some nd"
    and "host_port nd \<noteq> 0" "l4_csum_ok (pkt s)" "snat K bo cfg ndm s = Some (v, s')"
  shows "l4_csum_ok (pkt s') \<longleftrightarrow> host_port nd = MC_SERVER_PORT"
proof -
  have hl: "34 \<le> headlen s" using assms(3) by (simp add: ETH_HLEN_def)
  have len: "54 \<le> length (pkt s)" using tcp_frame_length [OF assms(5)] .
  have n: "nat_rewritten bo 50 26 (bpf_htonl bo False (snat_ip_addr entry)) 34 (bpf_htons bo False (host_port nd)) s s'"
    and f: "l4_frame 6 50 (pkt s)" "l4_frame 6 50 (pkt s')" "read_at 34 2 (pkt s) \<noteq> [0, 0]"
    by (rule skb_kernel.snat_tcp [where cfg = cfg and ndm = ndm, OF assms(1,2) hl assms(4-8)],
        use assms(11) in simp)+
  have "l4_csum_ok (pkt s') \<longleftrightarrow> load16 bo (read_at 34 2 (pkt s)) = bpf_htons bo False (host_port nd)"
    by (rule nat_rewritten_csum [OF n f(1,2) assms(10) _ f(3)]) (use assms(9) in simp_all)
  then show ?thesis using len assms(6) by (auto simp: l4_sport_def)
qed

theorem snat_tcp_checksum_witness:
  "\<exists>v s'. snat (doc_kernel LE) LE [0 \<mapsto> sample_entry] [0x0A000006 \<mapsto> sample_net_data] sample_egress = Some (v, s') \<and>
    \<not> l4_csum_ok (pkt s')"
proof -
  obtain v s' where d: "snat (doc_kernel LE) LE [0 \<mapsto> sample_entry] [0x0A000006 \<mapsto> sample_net_data] sample_egress = Some (v, s')"
    using snat_total [of "doc_kernel LE" LE "[0 \<mapsto> sample_entry]" "[0x0A000006 \<mapsto> sample_net_data]" sample_egress]
    by auto
  then have "l4_csum_ok (pkt s') \<longleftrightarrow> host_port sample_net_data = MC_SERVER_PORT"
    by (intro snat_tcp_checksum [OF doc.skb_kernel_axioms, of sample_egress LE "[0 \<mapsto> sample_entry]" sample_entry
          "[0x0A000006 \<mapsto> sample_net_data]" sample_net_data])
      (simp_all add: sample_net_data_def MC_SERVER_PORT_def ETH_HLEN_def del: endian_net)
  with d show ?thesis by (simp add: MC_SERVER_PORT_def sample_net_data_def)
qed

end
