(* ===== verification/Arp.thy ===== *)
theory Arp
  imports Net_Helpers Samples "HOL-Library.Monad_Syntax"
begin

text \<open>
  \<^verbatim>\<open>arp.c\<close>: the program that answers the ARP requests of a workload on the host side of its veth
  pair, whatever address they ask for, with the MAC address configured on the host peer.
\<close>

section \<open>The program\<close>

definition ARP_OP_OFF :: nat where [const_defs]: "ARP_OP_OFF = 20"
definition ARP_SHA_OFF :: nat where [const_defs]: "ARP_SHA_OFF = 22"
definition ARP_SIP_OFF :: nat where [const_defs]: "ARP_SIP_OFF = 28"
definition ARP_THA_OFF :: nat where [const_defs]: "ARP_THA_OFF = 32"
definition ARP_TIP_OFF :: nat where [const_defs]: "ARP_TIP_OFF = 38"

definition arp :: "kernel \<Rightarrow> byte_order \<Rightarrow> skb \<Rightarrow> (tc_verdict \<times> skb) option" where
  "arp K bo ctx =
     (let data = 0; data_end = headlen ctx in
      if protocol ctx \<noteq> ucast (bpf_htons bo True ETH_P_ARP) then Some (Act TC_ACT_UNSPEC, ctx)
      else case parse_ethhdr data data_end of
        (r, data, ethh) \<Rightarrow>
          if r \<noteq> 0 then Some (Act TC_ACT_OK, ctx)
          else do {
            eth \<leftarrow> ethh;
            eth_src \<leftarrow> direct_read ctx (eth + offset_in struct_ethhdr ''h_source'') ETH_ALEN;
            ctx \<leftarrow> direct_write ctx (eth + offset_in struct_ethhdr ''h_dest'') eth_src;
            ctx \<leftarrow> direct_write ctx (eth + offset_in struct_ethhdr ''h_source'') host_peer_mac;
            let arp_op = load16 bo (snd (bpf_skb_load_bytes K ctx ARP_OP_OFF 2));
            if bpf_ntohs bo False arp_op \<noteq> ARPOP_REQUEST then Some (Act TC_ACT_OK, ctx)
            else
              let tip = load32 bo (snd (bpf_skb_load_bytes K ctx ARP_TIP_OFF 4));
                  sip = load32 bo (snd (bpf_skb_load_bytes K ctx ARP_SIP_OFF 4));
                  arp_op = bpf_htons bo True ARPOP_REPLY;
                  ctx = snd (bpf_skb_store_bytes K ctx ARP_OP_OFF (store16 bo arp_op) 0);
                  ctx = snd (bpf_skb_store_bytes K ctx ARP_SHA_OFF host_peer_mac 0);
                  ctx = snd (bpf_skb_store_bytes K ctx ARP_THA_OFF eth_src 0);
                  ctx = snd (bpf_skb_store_bytes K ctx ARP_SIP_OFF (store32 bo tip) 0);
                  ctx = snd (bpf_skb_store_bytes K ctx ARP_TIP_OFF (store32 bo sip) 0)
              in Some (Redirect (ifindex ctx) 0, ctx)
          })"

text \<open>The fields of an ARP packet for IPv4 over Ethernet, in network order.\<close>

definition arp_op :: "byte list \<Rightarrow> u16" where "arp_op p = load16 BE (read_at 20 2 p)"
definition arp_sha :: "byte list \<Rightarrow> byte list" where "arp_sha p = read_at 22 6 p"
definition arp_sip :: "byte list \<Rightarrow> byte list" where "arp_sip p = read_at 28 4 p"
definition arp_tha :: "byte list \<Rightarrow> byte list" where "arp_tha p = read_at 32 6 p"
definition arp_tip :: "byte list \<Rightarrow> byte list" where "arp_tip p = read_at 38 4 p"

lemmas arp_fields = arp_op_def arp_sha_def arp_sip_def arp_tha_def arp_tip_def eth_dst_def eth_src_def

definition sample_arp_skb :: skb where
  "sample_arp_skb = \<lparr>pkt = sample_arp, headlen = 42, protocol = 1544, ifindex = 7\<rparr>"

section \<open>Lemmas\<close>

lemma length_host_peer_mac [simp]: "length host_peer_mac = 6"
  by (simp add: host_peer_mac_def)

text \<open>The constants of \<^verbatim>\<open>arp.c\<close> are where the fields are behind \<^verbatim>\<open>struct arphdr\<close>.\<close>

lemma arp_offsets:
  "ARP_OP_OFF = ETH_HLEN + offset_in struct_arphdr ''ar_op''"
  "ARP_SHA_OFF = ETH_HLEN + sizeof struct_arphdr" "ARP_SIP_OFF = ARP_SHA_OFF + ETH_ALEN"
  "ARP_THA_OFF = ARP_SIP_OFF + IP_ADDR_LEN" "ARP_TIP_OFF = ARP_THA_OFF + ETH_ALEN"
  by code_simp+

lemma arp_other_protocol:
  "protocol s \<noteq> ucast (bpf_htons bo True ETH_P_ARP) \<Longrightarrow> arp K bo s = Some (Act TC_ACT_UNSPEC, s)"
  by (simp add: arp_def Let_def)

text \<open>The Ethernet header is turned around before the operation is read.\<close>

definition turned :: "skb \<Rightarrow> skb" where
  "turned s = s\<lparr>pkt := write_at 6 host_peer_mac (write_at 0 (eth_src (pkt s)) (pkt s))\<rparr>"

lemma turned_pkt:
  assumes "14 \<le> length (pkt s)"
  shows "length (pkt (turned s)) = length (pkt s)" "eth_dst (pkt (turned s)) = eth_src (pkt s)"
    "eth_src (pkt (turned s)) = host_peer_mac"
    "14 \<le> off \<Longrightarrow> read_at off n (pkt (turned s)) = read_at off n (pkt s)"
    "same_outside [(0, 6), (6, 6)] (pkt s) (pkt (turned s))" "same_ctx s (turned s)"
proof -
  show L: "length (pkt (turned s)) = length (pkt s)"
    using assms by (simp add: turned_def eth_src_def)
  show "eth_dst (pkt (turned s)) = eth_src (pkt s)" "eth_src (pkt (turned s)) = host_peer_mac"
    using assms by (simp_all add: turned_def eth_src_def eth_dst_def)
  show "14 \<le> off \<Longrightarrow> read_at off n (pkt (turned s)) = read_at off n (pkt s)"
    using assms by (simp add: turned_def eth_src_def read_at_def write_at_def)
  let ?q = "write_at 0 (eth_src (pkt s)) (pkt s)"
  have "same_outside [(0, 6), (6, 6)] (pkt s) ?q"
    using assms by (intro same_outside_write_at) (simp_all add: eth_src_def)
  moreover have t: "pkt (turned s) = write_at 6 host_peer_mac ?q" by (simp add: turned_def)
  have "same_outside [(0, 6), (6, 6)] ?q (pkt (turned s))"
    unfolding t using assms by (intro same_outside_write_at) (simp_all add: eth_src_def)
  ultimately show "same_outside [(0, 6), (6, 6)] (pkt s) (pkt (turned s))" by (rule same_outside_trans)
  show "same_ctx s (turned s)" using L by (simp add: turned_def same_ctx_def wf_skb_def)
qed

lemma arp_total: "arp K bo s \<noteq> None"
  by (cases "headlen s < 14")
    (simp_all add: arp_def Let_def parse_ethhdr_def ETH_ALEN_def direct_write_def min.coboundedI1)

context skb_kernel
begin

lemma store_ctx [simp]:
  "protocol (snd (bpf_skb_store_bytes K s off bs 0)) = protocol s"
  "ifindex (snd (bpf_skb_store_bytes K s off bs 0)) = ifindex s"
  using store_bytes(2) [of s off bs] by (simp_all add: same_ctx_def)

lemma arp_turns:
  assumes "protocol s = ucast (bpf_htons bo True ETH_P_ARP)" "14 \<le> headlen s" "wf_skb s" "22 \<le> length (pkt s)"
    and "arp_op (pkt s) \<noteq> ARPOP_REQUEST"
  shows "arp K bo s = Some (Act TC_ACT_OK, turned s)"
proof -
  have "read_at 20 2 (pkt (turned s)) = read_at 20 2 (pkt s)" using assms(4) by (simp add: turned_pkt)
  then have "read_at 20 2 (write_at 6 host_peer_mac (write_at 0 (eth_src (pkt s)) (pkt s))) = read_at 20 2 (pkt s)"
    by (simp add: turned_def)
  then show ?thesis using assms
    by (simp add: arp_def Let_def parse_ethhdr_ok ARP_OP_OFF_def ETH_ALEN_def arp_op_def turned_def eth_src_def)
qed

lemma arp_request_pkt:
  assumes "protocol s = ucast (bpf_htons bo True ETH_P_ARP)" "14 \<le> headlen s" "wf_skb s" "42 \<le> length (pkt s)"
    and "arp_op (pkt s) = ARPOP_REQUEST"
  shows "\<exists>s'. arp K bo s = Some (Redirect (ifindex s) 0, s') \<and>
    pkt s' = write_at 38 (arp_sip (pkt s)) (write_at 28 (arp_tip (pkt s)) (write_at 32 (eth_src (pkt s))
      (write_at 22 host_peer_mac (write_at 20 (store16 BE ARPOP_REPLY) (pkt (turned s))))))"
proof -
  have t: "turned s = s\<lparr>pkt := write_at 6 host_peer_mac (write_at 0 (read_at 6 6 (pkt s)) (pkt s))\<rparr>"
    by (simp add: turned_def eth_src_def)
  have L: "length (pkt (turned s)) = length (pkt s)" "ifindex (turned s) = ifindex s"
    using assms(4) by (simp_all add: turned_pkt) (simp add: turned_def)
  have r: "read_at 20 2 (pkt (turned s)) = read_at 20 2 (pkt s)"
    "read_at 38 4 (pkt (turned s)) = read_at 38 4 (pkt s)" "read_at 28 4 (pkt (turned s)) = read_at 28 4 (pkt s)"
    using assms(4) by (simp_all add: turned_pkt)
  show ?thesis using assms
    by (simp add: arp_def Let_def parse_ethhdr_ok const_defs arp_op_def flip: t)
      (simp add: L r store_bytes arp_fields load_bytes ARPOP_REPLY_def)
qed

end

lemma sample_arp_fields [simp]:
  "pkt sample_arp_skb = sample_arp" "headlen sample_arp_skb = 42" "wf_skb sample_arp_skb"
  "ifindex sample_arp_skb = 7" "protocol sample_arp_skb = ucast (bpf_htons LE True ETH_P_ARP)"
  "arp_op sample_arp = ARPOP_REQUEST" "eth_src sample_arp = [2, 0, 0, 0, 0, 1]"
  "arp_sip sample_arp = [10, 0, 0, 6]" "arp_tip sample_arp = [10, 0, 0, 5]"
proof -
  show "protocol sample_arp_skb = ucast (bpf_htons LE True ETH_P_ARP)" by code_simp
qed (simp_all add: sample_arp_skb_def wf_skb_def arp_fields frame_eval sample_arp_def ARPOP_REQUEST_def)

section \<open>Properties\<close>

text \<open>
  C18. Every ARP request is answered on the interface it came from, for every address it asks for: the
  reply says that the requested address is at the host peer's MAC address, goes to the Ethernet
  address the request came from and names the requester's IP address as its target. The rest of the
  packet is the request's.
\<close>

theorem arp_answers:
  assumes "skb_kernel K bo" "protocol s = ucast (bpf_htons bo True ETH_P_ARP)" "ETH_HLEN \<le> headlen s"
    and "wf_skb s" "42 \<le> length (pkt s)" "arp_op (pkt s) = ARPOP_REQUEST"
  shows "\<exists>s'. arp K bo s = Some (Redirect (ifindex s) 0, s') \<and> arp_op (pkt s') = ARPOP_REPLY \<and>
    eth_dst (pkt s') = eth_src (pkt s) \<and> eth_src (pkt s') = host_peer_mac \<and>
    arp_sha (pkt s') = host_peer_mac \<and> arp_sip (pkt s') = arp_tip (pkt s) \<and>
    arp_tha (pkt s') = eth_src (pkt s) \<and> arp_tip (pkt s') = arp_sip (pkt s) \<and>
    same_outside [(0, 12), (20, 22)] (pkt s) (pkt s')"
proof -
  let ?q = "pkt (turned s)"
  let ?p = "write_at 38 (arp_sip (pkt s)) (write_at 28 (arp_tip (pkt s)) (write_at 32 (eth_src (pkt s))
      (write_at 22 host_peer_mac (write_at 20 (store16 BE ARPOP_REPLY) ?q))))"
  have hl: "14 \<le> headlen s" using assms(3) by (simp add: ETH_HLEN_def)
  obtain s' where a: "arp K bo s = Some (Redirect (ifindex s) 0, s')" "pkt s' = ?p"
    using skb_kernel.arp_request_pkt [OF assms(1,2) hl assms(4-6)] by auto
  have L: "length ?q = length (pkt s)" "14 \<le> length (pkt s)" "42 \<le> length (pkt s)"
    using assms(5) by (simp_all add: turned_pkt)
  have "eth_dst ?p = eth_dst ?q" "eth_src ?p = eth_src ?q"
    using L by (simp_all add: arp_fields)
  moreover have "arp_op ?p = ARPOP_REPLY" "arp_sha ?p = host_peer_mac" "arp_sip ?p = arp_tip (pkt s)"
    "arp_tha ?p = eth_src (pkt s)" "arp_tip ?p = arp_sip (pkt s)"
    using L by (simp_all add: arp_fields)
  moreover have "same_outside [(0, 12), (20, 22)] (pkt s) ?p"
  proof -
    have "same_outside [(0, 6), (6, 6)] (pkt s) ?q" using L by (simp add: turned_pkt)
    moreover have "length ?p = length ?q" using L by (simp add: arp_fields)
    moreover have "?p ! i = ?q ! i" if "i < 20 \<or> 42 \<le> i" "i < length (pkt s)" for i
      using that L by (auto simp: nth_write_at arp_fields)
    ultimately show ?thesis by (auto simp: same_outside_def)
  qed
  ultimately show ?thesis using a L by (simp add: turned_pkt)
qed

theorem arp_answers_witness:
  "\<exists>s'. arp (doc_kernel LE) LE sample_arp_skb = Some (Redirect 7 0, s') \<and> arp_op (pkt s') = ARPOP_REPLY \<and>
    eth_dst (pkt s') = [2, 0, 0, 0, 0, 1] \<and> eth_src (pkt s') = host_peer_mac \<and>
    arp_sha (pkt s') = host_peer_mac \<and> arp_sip (pkt s') = [10, 0, 0, 5] \<and>
    arp_tha (pkt s') = [2, 0, 0, 0, 0, 1] \<and> arp_tip (pkt s') = [10, 0, 0, 6] \<and>
    same_outside [(0, 12), (20, 22)] sample_arp (pkt s')"
  using arp_answers [OF doc.skb_kernel_axioms, of sample_arp_skb LE]
  by (simp add: ETH_HLEN_def del: endian_net)

text \<open>
  An ARP packet that is not a request is passed to the stack, but not as it arrived: its Ethernet
  header has been turned around already, so its source is the host peer and its destination the
  sender. The ARP part is unchanged.
\<close>

theorem arp_other_operations:
  assumes "skb_kernel K bo" "protocol s = ucast (bpf_htons bo True ETH_P_ARP)" "ETH_HLEN \<le> headlen s"
    and "wf_skb s" "22 \<le> length (pkt s)" "arp_op (pkt s) \<noteq> ARPOP_REQUEST"
  shows "\<exists>s'. arp K bo s = Some (Act TC_ACT_OK, s') \<and> eth_dst (pkt s') = eth_src (pkt s) \<and>
    eth_src (pkt s') = host_peer_mac \<and> same_outside [(0, 6), (6, 6)] (pkt s) (pkt s')"
proof -
  have hl: "14 \<le> headlen s" "14 \<le> length (pkt s)" using assms(3,5) by (simp_all add: ETH_HLEN_def)
  show ?thesis
    using skb_kernel.arp_turns [OF assms(1,2) hl(1) assms(4-6)] turned_pkt [OF hl(2)] by auto
qed

theorem arp_other_operations_witness:
  "\<exists>s'. arp (doc_kernel LE) LE (sample_arp_skb\<lparr>pkt := sample_arp[21 := 2]\<rparr>) = Some (Act TC_ACT_OK, s') \<and>
    eth_dst (pkt s') = eth_src (sample_arp[21 := 2]) \<and>
    eth_src (pkt s') = host_peer_mac \<and> same_outside [(0, 6), (6, 6)] (sample_arp[21 := 2]) (pkt s')"
proof -
  have "arp_op (sample_arp[21 := 2]) \<noteq> ARPOP_REQUEST" by code_simp
  then show ?thesis
    using arp_other_operations [OF doc.skb_kernel_axioms, of "sample_arp_skb\<lparr>pkt := sample_arp[21 := 2]\<rparr>" LE]
    by (simp add: ETH_HLEN_def wf_skb_def del: endian_net)
qed

end
