(* ===== verification/Tproxy.thy ===== *)
theory Tproxy
  imports Net_Helpers Bpf_Maps Samples "HOL-Library.Monad_Syntax"
begin

text \<open>
  \<^verbatim>\<open>tproxy.c\<close>: the transparent proxy. \<^verbatim>\<open>ctr_peer_egress\<close> diverts what a workload sends to the proxy
  on the host peer's address and remembers the original destination in \<^verbatim>\<open>original_dst_map\<close>;
  \<^verbatim>\<open>host_peer_egress\<close> makes the proxy's answers look as if they came from there; and
  \<^verbatim>\<open>getsockopt\<close> tells the proxy where a connection was meant to go.
\<close>

section \<open>Constants and maps\<close>

definition TPROXY_HTTP_PORT :: u16 where [const_defs]: "TPROXY_HTTP_PORT = 9080"
definition TPROXY_DNS_PORT :: u16 where [const_defs]: "TPROXY_DNS_PORT = 9053"
definition TPROXY_TCP_PORT :: u16 where [const_defs]: "TPROXY_TCP_PORT = 9111"
definition DPORT_DNS :: u16 where [const_defs]: "DPORT_DNS = 53"
definition DPORT_HTTP :: u16 where [const_defs]: "DPORT_HTTP = 80"
definition SO_ORIGINAL_DST :: int where [const_defs]: "SO_ORIGINAL_DST = 80"
definition AF_INET :: u32 where [const_defs]: "AF_INET = 2"

record veth_pair =
  host_if_index :: u32
  host_if_addr :: be32

definition struct_veth_pair :: ctype where
  "struct_veth_pair = CStruct [Fld ''host_if_index'' t_u32, Fld ''host_if_addr'' t_be32]"

definition veth_pair_max_entries :: nat where
  "veth_pair_max_entries = 256"

record original_dst_entry =
  odst_ip_addr :: be32
  odst_port :: be16

definition struct_original_dst_entry :: ctype where
  "struct_original_dst_entry = CStruct [Fld ''ip_addr'' t_be32, Fld ''port'' t_be16]"

definition original_dst_max_entries :: nat where
  "original_dst_max_entries = 10000"

definition load_veth_pair :: "byte_order \<Rightarrow> byte list \<Rightarrow> veth_pair" where
  "load_veth_pair bo bs =
     \<lparr>host_if_index = load32 bo (read_at (offset_in struct_veth_pair ''host_if_index'') 4 bs),
      host_if_addr = load32 bo (read_at (offset_in struct_veth_pair ''host_if_addr'') 4 bs)\<rparr>"

text \<open>The bytes of the generated Go type \<^verbatim>\<open>tproxyVethPair\<close>.\<close>

definition go_veth_pair :: "byte_order \<Rightarrow> veth_pair \<Rightarrow> byte list" where
  "go_veth_pair bo v = store32 bo (host_if_index v) @ store32 bo (host_if_addr v)"

text \<open>
  The key of \<^verbatim>\<open>original_dst_map\<close>, \<^verbatim>\<open>(addr << 24) | (port << 8) | proto\<close>: the operands are at most 32 bits
  wide, so C computes it in 32 bits, and it is widened to 64 bits only when it is assigned.
\<close>

definition odst_key :: "be32 \<Rightarrow> be16 \<Rightarrow> u8 \<Rightarrow> u64" where
  "odst_key addr port proto = ucast (push_bit 24 addr OR push_bit 8 (ucast port) OR (ucast proto :: u32))"

section \<open>The programs\<close>

definition ctr_peer_egress ::
  "kernel \<Rightarrow> byte_order \<Rightarrow> (u32 \<rightharpoonup> veth_pair) \<Rightarrow> ('s, u64, original_dst_entry) bpf_lru \<Rightarrow> 's \<Rightarrow> skb \<Rightarrow>
   (tc_verdict \<times> skb \<times> 's) option" where
  "ctr_peer_egress K bo veth_pair_map M original_dst_map ctx =
     (let data = 0; data_end = headlen ctx in
      if protocol ctx \<noteq> ucast (bpf_htons bo True ETH_P_IP) then Some (Act TC_ACT_OK, ctx, original_dst_map)
      else
        let iph = data + ETH_HLEN in
        if data + ETH_HLEN + sizeof struct_iphdr > data_end then Some (Act TC_ACT_OK, ctx, original_dst_map)
        else do {
          p \<leftarrow> direct_read ctx (iph + offset_in struct_iphdr ''protocol'') 1;
          d \<leftarrow> direct_read ctx (iph + offset_in struct_iphdr ''daddr'') 4;
          let proto = p ! 0;
          let daddr = load32 bo d;
          if proto \<noteq> IPPROTO_TCP \<and> proto \<noteq> IPPROTO_UDP then Some (Act TC_ACT_SHOT, ctx, original_dst_map)
          else
            let dport = get_port K bo ctx TCP_DPORT_OFF UDP_DPORT_OFF proto;
                sport = get_port K bo ctx TCP_SPORT_OFF UDP_SPORT_OFF proto
            in if sport = bpf_htons bo True MC_SERVER_PORT then Some (Act TC_ACT_OK, ctx, original_dst_map)
            else
              let if_idx = ifindex ctx in
              case veth_pair_map if_idx of
                None \<Rightarrow> Some (Act TC_ACT_SHOT, ctx, original_dst_map)
              | Some vp \<Rightarrow>
                  let host_peer_addr = bpf_htonl bo False (host_if_addr vp);
                      key = odst_key host_peer_addr sport proto;
                      val = \<lparr>odst_ip_addr = daddr, odst_port = dport\<rparr>;
                      original_dst_map = lru_update M original_dst_map key val;
                      ctx = rewrite_ip_addr K bo ctx host_peer_addr IP_DST_OFF proto
                  in if dport = bpf_htons bo True DPORT_DNS then
                       let ctx = (if proto = IPPROTO_TCP
                                  then rewrite_port K bo ctx (bpf_htons bo True TPROXY_DNS_PORT) TCP_DPORT_OFF IPPROTO_TCP
                                  else ctx);
                           ctx = (if proto = IPPROTO_UDP
                                  then rewrite_port K bo ctx (bpf_htons bo True TPROXY_DNS_PORT) UDP_DPORT_OFF IPPROTO_UDP
                                  else ctx)
                       in Some (Act TC_ACT_OK, ctx, original_dst_map)
                     else if dport = bpf_htons bo True DPORT_HTTP then
                       let ctx = rewrite_port K bo ctx (bpf_htons bo True TPROXY_HTTP_PORT) TCP_DPORT_OFF IPPROTO_TCP
                       in Some (Act TC_ACT_OK, ctx, original_dst_map)
                     else
                       let ctx = rewrite_port K bo ctx (bpf_htons bo True TPROXY_TCP_PORT) TCP_DPORT_OFF IPPROTO_TCP
                       in Some (Act TC_ACT_OK, ctx, original_dst_map)
        })"

text \<open>
  The last call of \<^verbatim>\<open>host_peer_egress\<close> passes \<^verbatim>\<open>UDP_SPORT_OFF\<close> where \<^verbatim>\<open>rewrite_port\<close> takes the
  protocol number.
\<close>

definition host_peer_egress ::
  "kernel \<Rightarrow> byte_order \<Rightarrow> ('s, u64, original_dst_entry) bpf_lru \<Rightarrow> 's \<Rightarrow> skb \<Rightarrow> (tc_verdict \<times> skb) option" where
  "host_peer_egress K bo M original_dst_map ctx =
     (let data = 0; data_end = headlen ctx in
      if protocol ctx \<noteq> ucast (bpf_htons bo True ETH_P_IP) then Some (Act TC_ACT_OK, ctx)
      else
        let iph = data + ETH_HLEN in
        if data + ETH_HLEN + sizeof struct_iphdr > data_end then Some (Act TC_ACT_OK, ctx)
        else do {
          p \<leftarrow> direct_read ctx (iph + offset_in struct_iphdr ''protocol'') 1;
          d \<leftarrow> direct_read ctx (iph + offset_in struct_iphdr ''daddr'') 4;
          let proto = p ! 0;
          let daddr = load32 bo d;
          let dport = get_port K bo ctx TCP_DPORT_OFF UDP_DPORT_OFF proto;
          let key = odst_key daddr dport proto;
          case lru_lookup M original_dst_map key of
            None \<Rightarrow> Some (Act TC_ACT_SHOT, ctx)
          | Some e \<Rightarrow>
              let ctx = rewrite_ip_addr K bo ctx (odst_ip_addr e) IP_SRC_OFF proto;
                  ctx = rewrite_port K bo ctx (odst_port e) TCP_SPORT_OFF (of_nat UDP_SPORT_OFF)
              in Some (Act TC_ACT_OK, ctx)
        })"

text \<open>
  \<^verbatim>\<open>struct bpf_sockopt\<close> with the fields of its socket that are read, and the option buffer between
  \<^verbatim>\<open>optval\<close> and \<^verbatim>\<open>optval_end\<close>.
\<close>

record sockopt_ctx =
  sk_family :: u32
  sk_protocol :: u32
  sk_dst_ip4 :: u32
  sk_dst_port :: be16
  optname :: int
  optval :: "byte list"
  optlen :: int
  retval :: int

definition optval_write :: "sockopt_ctx \<Rightarrow> nat \<Rightarrow> byte list \<Rightarrow> sockopt_ctx option" where
  "optval_write ctx off bs =
     (if off + length bs \<le> length (optval ctx)
      then Some (ctx\<lparr>optval := write_at off bs (optval ctx)\<rparr>) else None)"

definition getsockopt ::
  "byte_order \<Rightarrow> ('s, u64, original_dst_entry) bpf_lru \<Rightarrow> 's \<Rightarrow> sockopt_ctx \<Rightarrow> (int \<times> sockopt_ctx) option" where
  "getsockopt bo M original_dst_map ctx =
     (if optname ctx \<noteq> SO_ORIGINAL_DST then Some (1, ctx)
      else if sk_family ctx \<noteq> AF_INET then Some (1, ctx)
      else
        let client_port = sk_dst_port ctx;
            proto = ucast (sk_protocol ctx);
            key = odst_key (sk_dst_ip4 ctx) client_port proto
        in case lru_lookup M original_dst_map key of
             None \<Rightarrow> Some (0, ctx)
           | Some e \<Rightarrow>
               if sizeof struct_sockaddr_in > length (optval ctx) then Some (1, ctx)
               else do {
                 let ctx = ctx\<lparr>optlen := int (sizeof struct_sockaddr_in)\<rparr>;
                 ctx \<leftarrow> optval_write ctx (offset_in struct_sockaddr_in ''sin_family'')
                          (store16 bo (ucast (sk_family ctx)));
                 ctx \<leftarrow> optval_write ctx (offset_in struct_sockaddr_in ''sin_addr'') (store32 bo (odst_ip_addr e));
                 ctx \<leftarrow> optval_write ctx (offset_in struct_sockaddr_in ''sin_port'') (store16 bo (odst_port e));
                 Some (1, ctx\<lparr>retval := 0\<rparr>)
               })"

section \<open>Lemmas\<close>

lemma tproxy_layouts [simp]:
  "sizeof struct_veth_pair = 8" "offset_in struct_veth_pair ''host_if_index'' = 0"
  "offset_in struct_veth_pair ''host_if_addr'' = 4" "sizeof struct_original_dst_entry = 8"
  "sizeof struct_sockaddr_in = 16" "offset_in struct_sockaddr_in ''sin_family'' = 0"
  "offset_in struct_sockaddr_in ''sin_port'' = 2" "offset_in struct_sockaddr_in ''sin_addr'' = 4"
  by code_simp+

lemma load_go_veth_pair [simp]: "load_veth_pair bo (go_veth_pair bo v) = v"
  by (simp add: load_veth_pair_def go_veth_pair_def read_at_def)

lemma odst_key_parts:
  fixes addr :: u32 and port :: u16 and proto :: u8
  defines "k \<equiv> push_bit 24 addr OR push_bit 8 (ucast port) OR (ucast proto :: u32)"
  shows "ucast k = proto" "ucast (drop_bit 8 k) = port" "drop_bit 24 k = take_bit 8 addr"
  unfolding k_def
  by (rule bit_word_eqI; auto simp: bit_simps dest: bit_imp_le_length)+

lemma odst_key_iff:
  "odst_key a p q = odst_key a' p' q' \<longleftrightarrow> take_bit 8 a = take_bit 8 a' \<and> p = p' \<and> q = q'"
proof
  define k where "k = (\<lambda>a (p :: u16) (q :: u8). push_bit 24 a OR push_bit 8 (ucast p) OR (ucast q :: u32))"
  assume "odst_key a p q = odst_key a' p' q'"
  then have "(ucast (ucast (k a p q) :: u64) :: u32) = ucast (ucast (k a' p' q') :: u64)"
    by (simp add: odst_key_def k_def)
  then have "k a p q = k a' p' q'" by (simp only: ucast_back)
  then show "take_bit 8 a = take_bit 8 a' \<and> p = p' \<and> q = q'"
    using odst_key_parts [of a p q] odst_key_parts [of a' p' q'] by (metis k_def)
next
  assume e: "take_bit 8 a = take_bit 8 a' \<and> p = p' \<and> q = q'"
  have "push_bit 24 a = push_bit 24 (take_bit 8 a)" for a :: u32
    by (rule bit_word_eqI) (auto simp: bit_simps)
  then have "push_bit 24 a = push_bit 24 a'" using e by metis
  with e show "odst_key a p q = odst_key a' p' q'" by (simp add: odst_key_def)
qed

lemma ctr_peer_egress_total: "ctr_peer_egress K bo vpm M m s \<noteq> None"
  by (simp add: ctr_peer_egress_def Let_def ETH_HLEN_def split: option.split)

lemma host_peer_egress_total: "host_peer_egress K bo M m s \<noteq> None"
  by (simp add: host_peer_egress_def Let_def ETH_HLEN_def split: option.split)

lemma getsockopt_total: "getsockopt bo M m ctx \<noteq> None"
  by (simp add: getsockopt_def Let_def optval_write_def split: option.split)

text \<open>The port of the proxy a destination port is diverted to.\<close>

definition proxy_port :: "u16 \<Rightarrow> u16" where
  "proxy_port dport =
     (if dport = DPORT_DNS then TPROXY_DNS_PORT
      else if dport = DPORT_HTTP then TPROXY_HTTP_PORT else TPROXY_TCP_PORT)"

text \<open>The address and the ports as the programs hold them, in network order.\<close>

definition raw_src :: "byte_order \<Rightarrow> byte list \<Rightarrow> be32" where "raw_src bo p = load32 bo (read_at 26 4 p)"
definition raw_dst :: "byte_order \<Rightarrow> byte list \<Rightarrow> be32" where "raw_dst bo p = load32 bo (read_at 30 4 p)"
definition raw_sport :: "byte_order \<Rightarrow> byte list \<Rightarrow> be16" where "raw_sport bo p = load16 bo (read_at 34 2 p)"
definition raw_dport :: "byte_order \<Rightarrow> byte list \<Rightarrow> be16" where "raw_dport bo p = load16 bo (read_at 36 2 p)"

lemmas raw_defs = raw_src_def raw_dst_def raw_sport_def raw_dport_def

text \<open>What a workload's packet is remembered as.\<close>

definition remembered :: "byte_order \<Rightarrow> byte list \<Rightarrow> original_dst_entry" where
  "remembered bo p = \<lparr>odst_ip_addr = raw_dst bo p, odst_port = raw_dport bo p\<rparr>"

lemma l4_frame_len: "l4_frame proto coff p \<Longrightarrow> 42 \<le> length p \<and> p ! 23 = proto \<and> (proto = 6 \<or> proto = 17)"
  using tcp_frame_length [of p] udp_frame_length [of p]
  by (auto simp: l4_frame_def tcp_frame_def udp_frame_def ip_proto_def)

context skb_kernel
begin

lemma get_port_l4:
  "proto = 6 \<or> proto = 17 \<Longrightarrow> off + 2 \<le> length (pkt s) \<Longrightarrow> get_port K bo s off off proto = load16 bo (read_at off 2 (pkt s))"
  by (auto simp: get_port_def IPPROTO_TCP_def IPPROTO_UDP_def)

lemma ctr_peer_egress_result:
  assumes "34 \<le> headlen s" "protocol s = ucast (bpf_htons bo True ETH_P_IP)"
    and f: "l4_frame proto coff (pkt s)"
    and "l4_sport (pkt s) \<noteq> MC_SERVER_PORT" "vpm (ifindex s) = Some vp"
  shows "ctr_peer_egress K bo vpm M m s =
    Some (Act TC_ACT_OK,
      rewrite_port K bo (rewrite_ip_addr K bo s (bpf_htonl bo False (host_if_addr vp)) 30 proto)
        (bpf_htons bo True (proxy_port (l4_dport (pkt s)))) 36
        (if l4_dport (pkt s) = DPORT_DNS then proto else 6),
      lru_update M m (odst_key (bpf_htonl bo False (host_if_addr vp)) (raw_sport bo (pkt s)) proto)
        (remembered bo (pkt s)))"
proof -
  have p: "42 \<le> length (pkt s)" "pkt s ! 23 = proto" "proto = 6 \<or> proto = 17"
    using l4_frame_len [OF f] by auto
  have "get_port K bo s 34 34 proto = raw_sport bo (pkt s)" "get_port K bo s 36 36 proto = raw_dport bo (pkt s)"
    using p by (simp_all add: get_port_l4 raw_defs)
  moreover have "(raw_sport bo (pkt s) = net16 bo x) = (l4_sport (pkt s) = x)"
    "(raw_dport bo (pkt s) = net16 bo x) = (l4_dport (pkt s) = x)" for x
    using p(1) by (simp_all add: raw_defs l4_sport_def l4_dport_def)
  ultimately show ?thesis using assms p
    by (auto simp: ctr_peer_egress_def Let_def ETH_HLEN_def IPPROTO_TCP_def IPPROTO_UDP_def proxy_port_def
        remembered_def raw_dst_def)
qed

lemma host_peer_egress_result:
  assumes "34 \<le> headlen s" "protocol s = ucast (bpf_htons bo True ETH_P_IP)"
    and f: "l4_frame proto coff (pkt s)"
  shows "host_peer_egress K bo M m s =
    (case lru_lookup M m (odst_key (raw_dst bo (pkt s)) (raw_dport bo (pkt s)) proto) of
       None \<Rightarrow> Some (Act TC_ACT_SHOT, s)
     | Some e \<Rightarrow> Some (Act TC_ACT_OK,
         rewrite_port K bo (rewrite_ip_addr K bo s (odst_ip_addr e) 26 proto) (odst_port e) 34 34))"
proof -
  have p: "42 \<le> length (pkt s)" "pkt s ! 23 = proto" "proto = 6 \<or> proto = 17"
    using l4_frame_len [OF f] by auto
  have "get_port K bo s 36 36 proto = raw_dport bo (pkt s)" using p by (simp add: get_port_l4 raw_defs)
  then show ?thesis using assms p
    by (simp add: host_peer_egress_def Let_def ETH_HLEN_def raw_dst_def split: option.split)
qed

end

context skb_kernel
begin

lemma ctr_peer_egress_nat:
  assumes "34 \<le> headlen s" "protocol s = ucast (bpf_htons bo True ETH_P_IP)"
    and f: "l4_frame proto coff (pkt s)"
    and "l4_sport (pkt s) \<noteq> MC_SERVER_PORT" "vpm (ifindex s) = Some vp" and port: "l4_dport (pkt s) \<noteq> 0"
  obtains s' where
    "ctr_peer_egress K bo vpm M m s = Some (Act TC_ACT_OK, s',
       lru_update M m (odst_key (bpf_htonl bo False (host_if_addr vp)) (raw_sport bo (pkt s)) proto) (remembered bo (pkt s)))"
    "nat_rewritten bo coff 30 (bpf_htonl bo False (host_if_addr vp)) 36 (bpf_htons bo True (proxy_port (l4_dport (pkt s)))) s s'"
    "l4_frame proto coff (pkt s')" "read_at 36 2 (pkt s) \<noteq> [0, 0]"
proof -
  have nz: "read_at 36 2 (pkt s) \<noteq> [0, 0]"
    using port_nonzero(2) [OF port] conjunct1 [OF l4_frame_len [OF f]] by simp
  show thesis
    by (rule that [OF ctr_peer_egress_result nat_rewrite_effect(1) nat_rewrite_effect(2) nz]) (use assms nz in auto)
qed

lemma host_peer_egress_nat:
  assumes "34 \<le> headlen s" "protocol s = ucast (bpf_htons bo True ETH_P_IP)"
    and f: "l4_frame proto coff (pkt s)" and port: "l4_sport (pkt s) \<noteq> 0"
    and e: "lru_lookup M m (odst_key (raw_dst bo (pkt s)) (raw_dport bo (pkt s)) proto) = Some e"
  obtains s' where "host_peer_egress K bo M m s = Some (Act TC_ACT_OK, s')"
    "nat_rewritten bo coff 26 (odst_ip_addr e) 34 (odst_port e) s s'"
proof -
  have nz: "read_at 34 2 (pkt s) \<noteq> [0, 0]"
    using port_nonzero(1) [OF port] conjunct1 [OF l4_frame_len [OF f]] by simp
  show thesis
    by (rule that [of "rewrite_port K bo (rewrite_ip_addr K bo s (odst_ip_addr e) 26 proto) (odst_port e) 34 34"])
      (use assms nz host_peer_egress_result [OF assms(1-3), of M m] in \<open>auto intro: nat_rewrite_effect(1)\<close>)
qed

end

section \<open>Sample inputs\<close>

definition sample_pair :: veth_pair where
  "sample_pair = \<lparr>host_if_index = 7, host_if_addr = 0x0A000005\<rparr>"

definition sample_ctr :: "byte list \<Rightarrow> skb" where
  "sample_ctr p = \<lparr>pkt = p, headlen = 42, protocol = 8, ifindex = 8\<rparr>"

lemma sample_ctr_sel [simp]:
  "pkt (sample_ctr p) = p" "headlen (sample_ctr p) = 42" "ifindex (sample_ctr p) = 8"
  "protocol (sample_ctr p) = ucast (bpf_htons LE True ETH_P_IP)"
proof -
  have "(8 :: u32) = ucast (bpf_htons LE True ETH_P_IP)" by code_simp
  then show "protocol (sample_ctr p) = ucast (bpf_htons LE True ETH_P_IP)"
    by (simp only: sample_ctr_def skb.simps)
qed (simp_all add: sample_ctr_def)

lemma sample_l4 [simp]:
  "l4_frame 6 50 sample_web" "l4_frame 17 40 sample_dns" "l4_frame 17 40 sample_quic" "l4_frame 6 50 sample_reply"
  "l4_frame 17 40 sample_dns2" "l4_frame 17 40 sample_dns_reply"
  by (simp_all add: l4_frame_def)

section \<open>Properties\<close>



text \<open>
  The transport checksum of a diverted packet: since \<^verbatim>\<open>rewrite_port\<close> updates no checksum, a valid
  checksum stays valid exactly for packets that already were addressed to port 9111, the only port the
  proxy does not translate.
\<close>

theorem ctr_egress_checksum:
  assumes "skb_kernel K bo" "ETH_HLEN + sizeof struct_iphdr \<le> headlen s"
    and "protocol s = ucast (bpf_htons bo True ETH_P_IP)" "l4_frame proto coff (pkt s)"
    and "l4_sport (pkt s) \<noteq> MC_SERVER_PORT" "vpm (ifindex s) = Some vp" "l4_dport (pkt s) \<noteq> 0"
    and "l4_csum_ok (pkt s)" "ctr_peer_egress K bo vpm M m s = Some (v, s', m')"
  shows "l4_csum_ok (pkt s') \<longleftrightarrow> l4_dport (pkt s) = TPROXY_TCP_PORT"
proof -
  have hl: "34 \<le> headlen s" using assms(2) by (simp add: ETH_HLEN_def)
  let ?port = "bpf_htons bo True (proxy_port (l4_dport (pkt s)))"
  have n: "nat_rewritten bo coff 30 (bpf_htonl bo False (host_if_addr vp)) 36 ?port s s'"
    and f: "l4_frame proto coff (pkt s')" "read_at 36 2 (pkt s) \<noteq> [0, 0]"
    by (rule skb_kernel.ctr_peer_egress_nat [where vpm = vpm and m = m and M = M, OF assms(1) hl assms(3-7)],
        use assms(9) in simp)+
  have "?port \<noteq> 0" by (simp add: proxy_port_def const_defs)
  then have "l4_csum_ok (pkt s') \<longleftrightarrow> load16 bo (read_at 36 2 (pkt s)) = ?port"
    by (intro nat_rewritten_csum [OF n assms(4) f(1) assms(8) _ f(2)]) simp_all
  also have "\<dots> \<longleftrightarrow> l4_dport (pkt s) = proxy_port (l4_dport (pkt s))"
    using conjunct1 [OF l4_frame_len [OF assms(4)]] by (simp add: l4_dport_def)
  also have "\<dots> \<longleftrightarrow> l4_dport (pkt s) = TPROXY_TCP_PORT"
    by (auto simp: proxy_port_def const_defs)
  finally show ?thesis .
qed

theorem ctr_egress_checksum_witness:
  "\<exists>v s' m'. ctr_peer_egress (doc_kernel LE) LE [8 \<mapsto> sample_pair] (alist_lru 9999) [] (sample_ctr sample_web) =
      Some (v, s', m') \<and> \<not> l4_csum_ok (pkt s')"
proof -
  obtain v s' m' where c: "ctr_peer_egress (doc_kernel LE) LE [8 \<mapsto> sample_pair] (alist_lru 9999) []
      (sample_ctr sample_web) = Some (v, s', m')"
    using ctr_peer_egress_total [of "doc_kernel LE" LE "[8 \<mapsto> sample_pair]" "alist_lru 9999" "[]"
        "sample_ctr sample_web"] by auto
  have "l4_csum_ok (pkt s') \<longleftrightarrow> l4_dport (pkt (sample_ctr sample_web)) = TPROXY_TCP_PORT"
    by (rule ctr_egress_checksum [OF doc.skb_kernel_axioms _ _ _ _ _ _ _ c, of 6 50 sample_pair])
      (simp_all add: MC_SERVER_PORT_def ETH_HLEN_def del: endian_net)
  with c show ?thesis by (simp add: TPROXY_TCP_PORT_def)
qed

end
