(* ===== verification/Tproxy_Trip.thy ===== *)
theory Tproxy_Trip
  imports Tproxy
begin

text \<open>
  The three programs of \<^verbatim>\<open>tproxy.c\<close> together: what a workload sent through \<^verbatim>\<open>ctr_peer_egress\<close>, the
  proxy's answer through \<^verbatim>\<open>host_peer_egress\<close> and the proxy's \<^verbatim>\<open>getsockopt\<close>. They meet in
  \<^verbatim>\<open>original_dst_map\<close>: the first writes under the address of the host peer, the other two read under
  the address of the workload, and both find the same entry only through what is left of the address
  in the key.
\<close>

section \<open>The octet of the address that is left in the key\<close>

definition key_octet :: "byte_order \<Rightarrow> u32 \<Rightarrow> u32" where
  "key_octet bo a = (case bo of LE \<Rightarrow> drop_bit 24 a | BE \<Rightarrow> take_bit 8 a)"

lemma take_bit_net32: "take_bit 8 (net32 bo a) = key_octet bo a"
proof (cases bo)
  case LE
  have "take_bit 8 (builtin_bswap32 a) = drop_bit 24 a"
    unfolding bswap32_bits by (rule bit_word_eqI) (auto simp: bit_simps dest: bit_imp_le_length)
  with LE show ?thesis by (simp add: net32_def key_octet_def)
qed (simp add: net32_def key_octet_def)

lemma raw_net:
  "30 \<le> length p \<Longrightarrow> raw_src bo p = net32 bo (ip_src p)" "34 \<le> length p \<Longrightarrow> raw_dst bo p = net32 bo (ip_dst p)"
  "36 \<le> length p \<Longrightarrow> raw_sport bo p = net16 bo (l4_sport p)"
  "38 \<le> length p \<Longrightarrow> raw_dport bo p = net16 bo (l4_dport p)"
proof -
  have n32: "load32 bo bs = net32 bo (load32 BE bs)" if "length bs = 4" for bs
    using that by (metis net32_load32 net32_net32)
  have n16: "load16 bo bs = net16 bo (load16 BE bs)" if "length bs = 2" for bs
    using that by (metis net16_load16 net16_net16)
  show "30 \<le> length p \<Longrightarrow> raw_src bo p = net32 bo (ip_src p)"
    "34 \<le> length p \<Longrightarrow> raw_dst bo p = net32 bo (ip_dst p)"
    by (simp_all add: raw_defs ip_src_def ip_dst_def n32)
  show "36 \<le> length p \<Longrightarrow> raw_sport bo p = net16 bo (l4_sport p)"
    "38 \<le> length p \<Longrightarrow> raw_dport bo p = net16 bo (l4_dport p)"
    by (simp_all add: raw_defs l4_sport_def l4_dport_def n16)
qed

lemma odst_key_net:
  "odst_key (net32 bo a) p q = odst_key (net32 bo a') p' q' \<longleftrightarrow>
   key_octet bo a = key_octet bo a' \<and> p = p' \<and> q = q'"
  by (simp add: odst_key_iff take_bit_net32)

text \<open>The key under which a workload's packet is stored and the key its answer is looked up with.\<close>

definition store_key :: "byte_order \<Rightarrow> veth_pair \<Rightarrow> u8 \<Rightarrow> byte list \<Rightarrow> u64" where
  "store_key bo vp proto p = odst_key (bpf_htonl bo False (host_if_addr vp)) (raw_sport bo p) proto"

definition reply_key :: "byte_order \<Rightarrow> u8 \<Rightarrow> byte list \<Rightarrow> u64" where
  "reply_key bo proto r = odst_key (raw_dst bo r) (raw_dport bo r) proto"

definition answers :: "byte list \<Rightarrow> byte list \<Rightarrow> bool" where
  "answers p r \<longleftrightarrow> ip_dst r = ip_src p \<and> l4_dport r = l4_sport p \<and> l4_sport r \<noteq> 0"

lemma store_key_reply_key:
  assumes "l4_frame proto coff p" "l4_frame proto coff r" "answers p r"
  shows "store_key bo vp proto p = reply_key bo proto r \<longleftrightarrow> key_octet bo (host_if_addr vp) = key_octet bo (ip_src p)"
  using assms conjunct1 [OF l4_frame_len [OF assms(1)]] conjunct1 [OF l4_frame_len [OF assms(2)]]
  by (simp add: store_key_def reply_key_def raw_net answers_def odst_key_net)

text \<open>A packet that \<^verbatim>\<open>ctr_peer_egress\<close> diverts.\<close>

definition diverted :: "byte_order \<Rightarrow> (u32 \<rightharpoonup> veth_pair) \<Rightarrow> veth_pair \<Rightarrow> u8 \<Rightarrow> nat \<Rightarrow> skb \<Rightarrow> bool" where
  "diverted bo vpm vp proto coff s \<longleftrightarrow>
     ETH_HLEN + sizeof struct_iphdr \<le> headlen s \<and> protocol s = ucast (bpf_htons bo True ETH_P_IP) \<and>
     l4_frame proto coff (pkt s) \<and> l4_sport (pkt s) \<noteq> MC_SERVER_PORT \<and> vpm (ifindex s) = Some vp \<and>
     l4_dport (pkt s) \<noteq> 0"

text \<open>An IPv4 packet whose headers are in the linear area.\<close>

definition readable :: "byte_order \<Rightarrow> u8 \<Rightarrow> nat \<Rightarrow> skb \<Rightarrow> bool" where
  "readable bo proto coff r \<longleftrightarrow>
     ETH_HLEN + sizeof struct_iphdr \<le> headlen r \<and> protocol r = ucast (bpf_htons bo True ETH_P_IP) \<and>
     l4_frame proto coff (pkt r)"

lemma remembered_fields:
  "34 \<le> length p \<Longrightarrow> store32 bo (odst_ip_addr (remembered bo p)) = read_at 30 4 p"
  "38 \<le> length p \<Longrightarrow> store16 bo (odst_port (remembered bo p)) = read_at 36 2 p"
  by (simp_all add: remembered_def raw_defs)

text \<open>The answer, once the entry of a workload's packet is found.\<close>

definition restored :: "nat \<Rightarrow> byte list \<Rightarrow> byte list \<Rightarrow> byte list \<Rightarrow> bool" where
  "restored coff p r r' \<longleftrightarrow> ip_src r' = ip_dst p \<and> l4_sport r' = l4_dport p \<and>
     ip_csum_ok r' = ip_csum_ok r \<and> same_outside [(24, 2), (26, 4), (34, 2), (coff, 2)] r r'"

context skb_kernel
begin

lemma diverted_egress:
  assumes "diverted bo vpm vp proto coff s"
  obtains s' where "ctr_peer_egress K bo vpm M m s =
    Some (Act TC_ACT_OK, s', lru_update M m (store_key bo vp proto (pkt s)) (remembered bo (pkt s)))"
proof -
  have a: "34 \<le> headlen s" "protocol s = ucast (bpf_htons bo True ETH_P_IP)" "l4_frame proto coff (pkt s)"
    "l4_sport (pkt s) \<noteq> MC_SERVER_PORT" "vpm (ifindex s) = Some vp" "l4_dport (pkt s) \<noteq> 0"
    using assms by (simp_all add: diverted_def ETH_HLEN_def)
  show thesis by (rule ctr_peer_egress_nat [where vpm = vpm, OF a]) (auto simp: store_key_def intro: that)
qed

lemma reply_restored:
  assumes r: "readable bo proto coff r" "l4_sport (pkt r) \<noteq> 0" and p: "l4_frame proto coff p"
    and e: "lru_lookup M m (reply_key bo proto (pkt r)) = Some (remembered bo p)"
  shows "\<exists>r'. host_peer_egress K bo M m r = Some (Act TC_ACT_OK, r') \<and> restored coff p (pkt r) (pkt r')"
proof -
  have a: "34 \<le> headlen r" "protocol r = ucast (bpf_htons bo True ETH_P_IP)" "l4_frame proto coff (pkt r)"
    using r(1) by (simp_all add: readable_def ETH_HLEN_def)
  obtain r' where "host_peer_egress K bo M m r = Some (Act TC_ACT_OK, r')"
    and "nat_rewritten bo coff 26 (odst_ip_addr (remembered bo p)) 34 (odst_port (remembered bo p)) r r'"
    by (rule host_peer_egress_nat [OF a r(2) e [unfolded reply_key_def]])
  then show ?thesis
    using conjunct1 [OF l4_frame_len [OF p]]
    by (simp add: nat_rewritten_def restored_def remembered_fields ip_src_def ip_dst_def l4_sport_def l4_dport_def)
qed

lemma reply_dropped:
  assumes "readable bo proto coff r" "lru_lookup M m (reply_key bo proto (pkt r)) = None"
  shows "host_peer_egress K bo M m r = Some (Act TC_ACT_SHOT, r)"
proof -
  have a: "34 \<le> headlen r" "protocol r = ucast (bpf_htons bo True ETH_P_IP)" "l4_frame proto coff (pkt r)"
    using assms(1) by (simp_all add: readable_def ETH_HLEN_def)
  show ?thesis using host_peer_egress_result [OF a, of M m] assms(2) by (simp add: reply_key_def)
qed

end

lemma getsockopt_found:
  assumes "optname ctx = SO_ORIGINAL_DST" "sk_family ctx = AF_INET" "16 \<le> length (optval ctx)"
    and "lru_lookup M m (odst_key (sk_dst_ip4 ctx) (sk_dst_port ctx) (ucast (sk_protocol ctx))) = Some e"
  shows "getsockopt bo M m ctx = Some (1, ctx\<lparr>optlen := 16, retval := 0, optval :=
    write_at 2 (store16 bo (odst_port e)) (write_at 4 (store32 bo (odst_ip_addr e))
      (write_at 0 (store16 bo 2) (optval ctx)))\<rparr>)"
  using assms by (simp add: getsockopt_def Let_def optval_write_def AF_INET_def)

section \<open>Sample inputs\<close>

definition sample_pair2 :: veth_pair where
  "sample_pair2 = \<lparr>host_if_index = 9, host_if_addr = 0x0A000009\<rparr>"

definition sample_pair3 :: veth_pair where
  "sample_pair3 = \<lparr>host_if_index = 7, host_if_addr = 0xC0A80005\<rparr>"

definition sample_vethmap :: "u32 \<rightharpoonup> veth_pair" where
  "sample_vethmap = [8 \<mapsto> sample_pair, 10 \<mapsto> sample_pair2]"

definition sample_sockopt :: sockopt_ctx where
  "sample_sockopt = \<lparr>sk_family = 2, sk_protocol = 6, sk_dst_ip4 = raw_src LE sample_web,
     sk_dst_port = raw_sport LE sample_web, optname = 80, optval = replicate 16 0, optlen = 16, retval = 0\<rparr>"

lemmas sample_simps = diverted_def readable_def ETH_HLEN_def MC_SERVER_PORT_def sample_vethmap_def

lemma sample_diverted:
  "diverted LE sample_vethmap sample_pair 6 50 (sample_ctr sample_web)"
  "diverted LE sample_vethmap sample_pair 17 40 (sample_ctr sample_dns)"
  "diverted LE sample_vethmap sample_pair2 17 40 (sample_ctr sample_dns2\<lparr>ifindex := 10\<rparr>)"
  "diverted LE [8 \<mapsto> sample_pair3] sample_pair3 6 50 (sample_ctr sample_web)"
  by (simp_all add: sample_simps del: endian_net)

lemma sample_replies:
  "readable LE 6 50 (sample_ctr sample_reply)" "answers sample_web sample_reply"
  "readable LE 17 40 (sample_ctr sample_dns_reply)" "answers sample_dns sample_dns_reply"
  by (simp_all add: sample_simps answers_def del: endian_net)

lemma sample_octets:
  "key_octet LE (host_if_addr sample_pair) = 10" "key_octet LE (host_if_addr sample_pair2) = 10"
  "key_octet LE (host_if_addr sample_pair3) = 192" "key_octet LE 0x0A000006 = 10" "key_octet LE 167772166 = 10"
  by (simp_all add: key_octet_def sample_pair_def sample_pair2_def sample_pair3_def)

section \<open>Properties\<close>

text \<open>
  C7. Round trip: after a workload's packet went through \<^verbatim>\<open>ctr_peer_egress\<close>, the proxy's answer to
  that workload leaves \<^verbatim>\<open>host_peer_egress\<close> with the original destination as its source, address and
  port, so the workload sees the answer of whom it addressed. This needs the host peer's and the
  workload's address to agree in the octet that is left in the key: the first on little-endian
  machines, the last on big-endian ones.
\<close>

theorem tproxy_round_trip:
  assumes "skb_kernel K bo" "bpf_lru_map M" "diverted bo vpm vp proto coff s"
    and "readable bo proto coff r" "answers (pkt s) (pkt r)"
    and "key_octet bo (host_if_addr vp) = key_octet bo (ip_src (pkt s))"
    and "ctr_peer_egress K bo vpm M m s = Some (v, s', m')"
  shows "\<exists>r'. host_peer_egress K bo M m' r = Some (Act TC_ACT_OK, r') \<and> restored coff (pkt s) (pkt r) (pkt r')"
proof -
  have f: "l4_frame proto coff (pkt s)" "l4_frame proto coff (pkt r)" "l4_sport (pkt r) \<noteq> 0"
    using assms(3-5) by (simp_all add: diverted_def readable_def answers_def)
  have "m' = lru_update M m (store_key bo vp proto (pkt s)) (remembered bo (pkt s))"
    by (rule skb_kernel.diverted_egress [OF assms(1,3), of M m]) (use assms(7) in simp)
  moreover have "store_key bo vp proto (pkt s) = reply_key bo proto (pkt r)"
    using store_key_reply_key [OF f(1,2) assms(5)] assms(6) by simp
  ultimately have "lru_lookup M m' (reply_key bo proto (pkt r)) = Some (remembered bo (pkt s))"
    by (simp add: bpf_lru_map.update_same [OF assms(2)])
  then show ?thesis by (rule skb_kernel.reply_restored [OF assms(1,4) f(3,1)])
qed

theorem tproxy_round_trip_witness:
  "\<exists>v s' m' r'.
    ctr_peer_egress (doc_kernel LE) LE sample_vethmap (alist_lru 9999) [] (sample_ctr sample_web) = Some (v, s', m') \<and>
    host_peer_egress (doc_kernel LE) LE (alist_lru 9999) m' (sample_ctr sample_reply) = Some (Act TC_ACT_OK, r') \<and>
    ip_src (pkt r') = 0x5DB8D822 \<and> l4_sport (pkt r') = 443"
proof -
  obtain v s' m' where c: "ctr_peer_egress (doc_kernel LE) LE sample_vethmap (alist_lru 9999) []
      (sample_ctr sample_web) = Some (v, s', m')"
    using ctr_peer_egress_total [of "doc_kernel LE" LE sample_vethmap "alist_lru 9999" "[]" "sample_ctr sample_web"]
    by auto
  from tproxy_round_trip [OF doc.skb_kernel_axioms alist_lru.bpf_lru_map_axioms sample_diverted(1)
      sample_replies(1) _ _ c]
  show ?thesis using c sample_replies(2) by (auto simp: restored_def sample_octets)
qed

text \<open>
  When host peer and workload differ in that octet, the proxy's answers are dropped, unless an
  unrelated entry happens to be under their key: the answer is looked up under another key than the
  packet was stored under. On a big-endian machine this is so for every pair of different addresses of
  a /24 network.
\<close>

theorem tproxy_key_mismatch:
  assumes "skb_kernel K bo" "bpf_lru_map M" "diverted bo vpm vp proto coff s"
    and "readable bo proto coff r" "answers (pkt s) (pkt r)"
    and "key_octet bo (host_if_addr vp) \<noteq> key_octet bo (ip_src (pkt s))"
    and "ctr_peer_egress K bo vpm M m s = Some (v, s', m')"
    and "lru_lookup M m (reply_key bo proto (pkt r)) = None"
  shows "host_peer_egress K bo M m' r = Some (Act TC_ACT_SHOT, r)"
proof -
  have f: "l4_frame proto coff (pkt s)" "l4_frame proto coff (pkt r)"
    using assms(3,4) by (simp_all add: diverted_def readable_def)
  have "m' = lru_update M m (store_key bo vp proto (pkt s)) (remembered bo (pkt s))"
    by (rule skb_kernel.diverted_egress [OF assms(1,3), of M m]) (use assms(7) in simp)
  moreover have "reply_key bo proto (pkt r) \<noteq> store_key bo vp proto (pkt s)"
    using store_key_reply_key [OF f assms(5), of bo vp] assms(6) by auto
  ultimately have "lru_lookup M m' (reply_key bo proto (pkt r)) = None"
    using bpf_lru_map.update_other_missing [OF assms(2) _ assms(8)] by simp
  then show ?thesis by (rule skb_kernel.reply_dropped [OF assms(1,4)])
qed

theorem tproxy_key_mismatch_witness:
  "\<exists>v s' m'.
    ctr_peer_egress (doc_kernel LE) LE [8 \<mapsto> sample_pair3] (alist_lru 9999) [] (sample_ctr sample_web) = Some (v, s', m') \<and>
    host_peer_egress (doc_kernel LE) LE (alist_lru 9999) m' (sample_ctr sample_reply) =
      Some (Act TC_ACT_SHOT, sample_ctr sample_reply)"
proof -
  obtain v s' m' where c: "ctr_peer_egress (doc_kernel LE) LE [8 \<mapsto> sample_pair3] (alist_lru 9999) []
      (sample_ctr sample_web) = Some (v, s', m')"
    using ctr_peer_egress_total [of "doc_kernel LE" LE "[8 \<mapsto> sample_pair3]" "alist_lru 9999" "[]" "sample_ctr sample_web"]
    by auto
  from tproxy_key_mismatch [OF doc.skb_kernel_axioms alist_lru.bpf_lru_map_axioms sample_diverted(4)
      sample_replies(1) _ _ c]
  show ?thesis using c sample_replies(2) by (simp add: sample_octets alist_lru_def)
qed

text \<open>
  Collision: two workloads behind host peers that agree in that octet, sending from the same source
  port over the same protocol, share one entry. Once the second has sent, the answers to the first
  carry the second's destination as their source.
\<close>

theorem tproxy_collision:
  assumes "skb_kernel K bo" "bpf_lru_map M" "diverted bo vpm vp1 proto coff s1" "diverted bo vpm vp2 proto coff s2"
    and "key_octet bo (host_if_addr vp1) = key_octet bo (host_if_addr vp2)"
    and "l4_sport (pkt s1) = l4_sport (pkt s2)"
    and "readable bo proto coff r" "answers (pkt s1) (pkt r)"
    and "key_octet bo (host_if_addr vp1) = key_octet bo (ip_src (pkt s1))"
    and "ctr_peer_egress K bo vpm M m s1 = Some (v1, s1', m1)" "ctr_peer_egress K bo vpm M m1 s2 = Some (v2, s2', m2)"
  shows "\<exists>r'. host_peer_egress K bo M m2 r = Some (Act TC_ACT_OK, r') \<and> restored coff (pkt s2) (pkt r) (pkt r')"
proof -
  have f: "l4_frame proto coff (pkt s1)" "l4_frame proto coff (pkt s2)" "l4_frame proto coff (pkt r)"
    "l4_sport (pkt r) \<noteq> 0"
    using assms(3,4,7,8) by (simp_all add: diverted_def readable_def answers_def)
  have "m2 = lru_update M m1 (store_key bo vp2 proto (pkt s2)) (remembered bo (pkt s2))"
    by (rule skb_kernel.diverted_egress [OF assms(1,4), of M m1]) (use assms(11) in simp)
  moreover have "store_key bo vp1 proto (pkt s1) = store_key bo vp2 proto (pkt s2)"
    using conjunct1 [OF l4_frame_len [OF f(1)]] conjunct1 [OF l4_frame_len [OF f(2)]] assms(5,6)
    by (simp add: store_key_def odst_key_net raw_net)
  then have "store_key bo vp2 proto (pkt s2) = reply_key bo proto (pkt r)"
    using store_key_reply_key [OF f(1,3) assms(8), of bo vp1] assms(9) by simp
  ultimately have "lru_lookup M m2 (reply_key bo proto (pkt r)) = Some (remembered bo (pkt s2))"
    by (simp add: bpf_lru_map.update_same [OF assms(2)])
  then show ?thesis by (rule skb_kernel.reply_restored [OF assms(1,7) f(4,2)])
qed

theorem tproxy_collision_witness:
  "\<exists>v1 s1 m1 v2 s2 m2 r'.
    ctr_peer_egress (doc_kernel LE) LE sample_vethmap (alist_lru 9999) [] (sample_ctr sample_dns) = Some (v1, s1, m1) \<and>
    ctr_peer_egress (doc_kernel LE) LE sample_vethmap (alist_lru 9999) m1 (sample_ctr sample_dns2\<lparr>ifindex := 10\<rparr>) =
      Some (v2, s2, m2) \<and>
    host_peer_egress (doc_kernel LE) LE (alist_lru 9999) m2 (sample_ctr sample_dns_reply) = Some (Act TC_ACT_OK, r') \<and>
    ip_src (pkt r') = 0x01010101 \<and> ip_dst sample_dns = 0x08080808"
proof -
  obtain v1 s1 m1 where c1: "ctr_peer_egress (doc_kernel LE) LE sample_vethmap (alist_lru 9999) []
      (sample_ctr sample_dns) = Some (v1, s1, m1)"
    using ctr_peer_egress_total [of "doc_kernel LE" LE sample_vethmap "alist_lru 9999" "[]" "sample_ctr sample_dns"]
    by auto
  obtain v2 s2 m2 where c2: "ctr_peer_egress (doc_kernel LE) LE sample_vethmap (alist_lru 9999) m1
      (sample_ctr sample_dns2\<lparr>ifindex := 10\<rparr>) = Some (v2, s2, m2)"
    using ctr_peer_egress_total [of "doc_kernel LE" LE sample_vethmap "alist_lru 9999" m1
        "sample_ctr sample_dns2\<lparr>ifindex := 10\<rparr>"] by auto
  from tproxy_collision [OF doc.skb_kernel_axioms alist_lru.bpf_lru_map_axioms sample_diverted(2,3)
      _ _ sample_replies(3) _ _ c1 c2]
  show ?thesis using c1 c2 sample_replies(4) by (auto simp: restored_def sample_octets)
qed





text \<open>
  What a key says about the connection: two connections share a key exactly if they have the same
  source port and protocol and their addresses agree in one octet, the first on little-endian and the
  last on big-endian machines. The other three octets of the address do not reach the key.
\<close>

theorem odst_key_octet:
  "odst_key (bpf_htonl bo c a) (bpf_htons bo c p) q = odst_key (bpf_htonl bo c' a') (bpf_htons bo c' p') q' \<longleftrightarrow>
   (case bo of LE \<Rightarrow> drop_bit 24 a = drop_bit 24 a' | BE \<Rightarrow> take_bit 8 a = take_bit 8 a') \<and> p = p' \<and> q = q'"
  by (simp add: odst_key_net key_octet_def split: byte_order.split)

end
