(* ===== verification/Helper_Defs.thy ===== *)
theory Helper_Defs
  imports Vmlinux
begin

text \<open>
  The helper declarations of \<^verbatim>\<open>bpf_helper_defs.h\<close>, one entry per function pointer: its name, the
  number the pointer is initialised with (the operand of the BPF call instruction), its return type and
  parameters, and two facts of the \<^verbatim>\<open>Returns\<close> paragraph of its comment: whether it is the sentence
  ``0 on success, or a negative error in case of failure.'' and whether it mentions \<^verbatim>\<open>NULL\<close>.
  The tables follow the order of the header. The lemmas at the end show that the numbers are exactly
  those of \<^verbatim>\<open>enum bpf_func_id\<close> of \<^verbatim>\<open>vmlinux.h\<close>, and what the declarations guarantee for the
  calls the programs make.
\<close>

section \<open>Declarations\<close>

datatype helper_arg = Arg string string | Variadic

record helper_decl =
  h_name :: string
  h_id :: nat
  h_ret :: string
  h_args :: "helper_arg list"
  h_zero_or_neg :: bool
  h_null :: bool

definition decl :: "string \<Rightarrow> nat \<Rightarrow> string \<Rightarrow> helper_arg list \<Rightarrow> bool \<Rightarrow> bool \<Rightarrow> helper_decl" where
  "decl n i r as z nu = \<lparr>h_name = n, h_id = i, h_ret = r, h_args = as, h_zero_or_neg = z, h_null = nu\<rparr>"

section \<open>The table\<close>

definition helpers_1_7 :: "helper_decl list" where
  "helpers_1_7 = [
    decl ''bpf_map_lookup_elem'' 1 ''void *''
      [Arg ''void *'' ''map'', Arg ''const void *'' ''key''] False True,
    decl ''bpf_map_update_elem'' 2 ''long''
      [Arg ''void *'' ''map'', Arg ''const void *'' ''key'', Arg ''const void *'' ''value'',
       Arg ''__u64'' ''flags'']
      True False,
    decl ''bpf_map_delete_elem'' 3 ''long''
      [Arg ''void *'' ''map'', Arg ''const void *'' ''key''] True False,
    decl ''bpf_probe_read'' 4 ''long''
      [Arg ''void *'' ''dst'', Arg ''__u32'' ''size'', Arg ''const void *'' ''unsafe_ptr'']
      True False,
    decl ''bpf_ktime_get_ns'' 5 ''__u64''
      [] False False,
    decl ''bpf_trace_printk'' 6 ''long''
      [Arg ''const char *'' ''fmt'', Arg ''__u32'' ''fmt_size'', Variadic] False False,
    decl ''bpf_get_prandom_u32'' 7 ''__u32''
      [] False False]"

definition helpers_8_12 :: "helper_decl list" where
  "helpers_8_12 = [
    decl ''bpf_get_smp_processor_id'' 8 ''__u32''
      [] False False,
    decl ''bpf_skb_store_bytes'' 9 ''long''
      [Arg ''struct __sk_buff *'' ''skb'', Arg ''__u32'' ''offset'', Arg ''const void *'' ''from'',
       Arg ''__u32'' ''len'', Arg ''__u64'' ''flags'']
      True False,
    decl ''bpf_l3_csum_replace'' 10 ''long''
      [Arg ''struct __sk_buff *'' ''skb'', Arg ''__u32'' ''offset'', Arg ''__u64'' ''from'',
       Arg ''__u64'' ''to'', Arg ''__u64'' ''size'']
      True False,
    decl ''bpf_l4_csum_replace'' 11 ''long''
      [Arg ''struct __sk_buff *'' ''skb'', Arg ''__u32'' ''offset'', Arg ''__u64'' ''from'',
       Arg ''__u64'' ''to'', Arg ''__u64'' ''flags'']
      True False,
    decl ''bpf_tail_call'' 12 ''long''
      [Arg ''void *'' ''ctx'', Arg ''void *'' ''prog_array_map'', Arg ''__u32'' ''index'']
      True False]"

definition helpers_13_19 :: "helper_decl list" where
  "helpers_13_19 = [
    decl ''bpf_clone_redirect'' 13 ''long''
      [Arg ''struct __sk_buff *'' ''skb'', Arg ''__u32'' ''ifindex'', Arg ''__u64'' ''flags'']
      False False,
    decl ''bpf_get_current_pid_tgid'' 14 ''__u64''
      [] False False,
    decl ''bpf_get_current_uid_gid'' 15 ''__u64''
      [] False False,
    decl ''bpf_get_current_comm'' 16 ''long''
      [Arg ''void *'' ''buf'', Arg ''__u32'' ''size_of_buf''] True False,
    decl ''bpf_get_cgroup_classid'' 17 ''__u32''
      [Arg ''struct __sk_buff *'' ''skb''] False False,
    decl ''bpf_skb_vlan_push'' 18 ''long''
      [Arg ''struct __sk_buff *'' ''skb'', Arg ''__be16'' ''vlan_proto'', Arg ''__u16'' ''vlan_tci'']
      True False,
    decl ''bpf_skb_vlan_pop'' 19 ''long''
      [Arg ''struct __sk_buff *'' ''skb''] True False]"

definition helpers_20_22 :: "helper_decl list" where
  "helpers_20_22 = [
    decl ''bpf_skb_get_tunnel_key'' 20 ''long''
      [Arg ''struct __sk_buff *'' ''skb'', Arg ''struct bpf_tunnel_key *'' ''key'', Arg ''__u32'' ''size'',
       Arg ''__u64'' ''flags'']
      True False,
    decl ''bpf_skb_set_tunnel_key'' 21 ''long''
      [Arg ''struct __sk_buff *'' ''skb'', Arg ''struct bpf_tunnel_key *'' ''key'', Arg ''__u32'' ''size'',
       Arg ''__u64'' ''flags'']
      True False,
    decl ''bpf_perf_event_read'' 22 ''__u64''
      [Arg ''void *'' ''map'', Arg ''__u64'' ''flags''] False False]"

definition helpers_23_26 :: "helper_decl list" where
  "helpers_23_26 = [
    decl ''bpf_redirect'' 23 ''long''
      [Arg ''__u32'' ''ifindex'', Arg ''__u64'' ''flags''] False False,
    decl ''bpf_get_route_realm'' 24 ''__u32''
      [Arg ''struct __sk_buff *'' ''skb''] False False,
    decl ''bpf_perf_event_output'' 25 ''long''
      [Arg ''void *'' ''ctx'', Arg ''void *'' ''map'', Arg ''__u64'' ''flags'',
       Arg ''void *'' ''data'', Arg ''__u64'' ''size'']
      True False,
    decl ''bpf_skb_load_bytes'' 26 ''long''
      [Arg ''const void *'' ''skb'', Arg ''__u32'' ''offset'', Arg ''void *'' ''to'',
       Arg ''__u32'' ''len'']
      True False]"

definition helpers_27_31 :: "helper_decl list" where
  "helpers_27_31 = [
    decl ''bpf_get_stackid'' 27 ''long''
      [Arg ''void *'' ''ctx'', Arg ''void *'' ''map'', Arg ''__u64'' ''flags''] False False,
    decl ''bpf_csum_diff'' 28 ''__s64''
      [Arg ''__be32 *'' ''from'', Arg ''__u32'' ''from_size'', Arg ''__be32 *'' ''to'',
       Arg ''__u32'' ''to_size'', Arg ''__wsum'' ''seed'']
      False False,
    decl ''bpf_skb_get_tunnel_opt'' 29 ''long''
      [Arg ''struct __sk_buff *'' ''skb'', Arg ''void *'' ''opt'', Arg ''__u32'' ''size'']
      False False,
    decl ''bpf_skb_set_tunnel_opt'' 30 ''long''
      [Arg ''struct __sk_buff *'' ''skb'', Arg ''void *'' ''opt'', Arg ''__u32'' ''size'']
      True False,
    decl ''bpf_skb_change_proto'' 31 ''long''
      [Arg ''struct __sk_buff *'' ''skb'', Arg ''__be16'' ''proto'', Arg ''__u64'' ''flags'']
      True False]"

definition helpers_32_38 :: "helper_decl list" where
  "helpers_32_38 = [
    decl ''bpf_skb_change_type'' 32 ''long''
      [Arg ''struct __sk_buff *'' ''skb'', Arg ''__u32'' ''type''] True False,
    decl ''bpf_skb_under_cgroup'' 33 ''long''
      [Arg ''struct __sk_buff *'' ''skb'', Arg ''void *'' ''map'', Arg ''__u32'' ''index'']
      False False,
    decl ''bpf_get_hash_recalc'' 34 ''__u32''
      [Arg ''struct __sk_buff *'' ''skb''] False False,
    decl ''bpf_get_current_task'' 35 ''__u64''
      [] False False,
    decl ''bpf_probe_write_user'' 36 ''long''
      [Arg ''void *'' ''dst'', Arg ''const void *'' ''src'', Arg ''__u32'' ''len''] True False,
    decl ''bpf_current_task_under_cgroup'' 37 ''long''
      [Arg ''void *'' ''map'', Arg ''__u32'' ''index''] False False,
    decl ''bpf_skb_change_tail'' 38 ''long''
      [Arg ''struct __sk_buff *'' ''skb'', Arg ''__u32'' ''len'', Arg ''__u64'' ''flags'']
      True False]"

definition helpers_39_45 :: "helper_decl list" where
  "helpers_39_45 = [
    decl ''bpf_skb_pull_data'' 39 ''long''
      [Arg ''struct __sk_buff *'' ''skb'', Arg ''__u32'' ''len''] True False,
    decl ''bpf_csum_update'' 40 ''__s64''
      [Arg ''struct __sk_buff *'' ''skb'', Arg ''__wsum'' ''csum''] False False,
    decl ''bpf_set_hash_invalid'' 41 ''void''
      [Arg ''struct __sk_buff *'' ''skb''] False False,
    decl ''bpf_get_numa_node_id'' 42 ''long''
      [] False False,
    decl ''bpf_skb_change_head'' 43 ''long''
      [Arg ''struct __sk_buff *'' ''skb'', Arg ''__u32'' ''len'', Arg ''__u64'' ''flags'']
      True False,
    decl ''bpf_xdp_adjust_head'' 44 ''long''
      [Arg ''struct xdp_md *'' ''xdp_md'', Arg ''int'' ''delta''] True False,
    decl ''bpf_probe_read_str'' 45 ''long''
      [Arg ''void *'' ''dst'', Arg ''__u32'' ''size'', Arg ''const void *'' ''unsafe_ptr'']
      False False]"

definition helpers_46_50 :: "helper_decl list" where
  "helpers_46_50 = [
    decl ''bpf_get_socket_cookie'' 46 ''__u64''
      [Arg ''void *'' ''ctx''] False False,
    decl ''bpf_get_socket_uid'' 47 ''__u32''
      [Arg ''struct __sk_buff *'' ''skb''] False True,
    decl ''bpf_set_hash'' 48 ''long''
      [Arg ''struct __sk_buff *'' ''skb'', Arg ''__u32'' ''hash''] False False,
    decl ''bpf_setsockopt'' 49 ''long''
      [Arg ''void *'' ''bpf_socket'', Arg ''int'' ''level'', Arg ''int'' ''optname'',
       Arg ''void *'' ''optval'', Arg ''int'' ''optlen'']
      True False,
    decl ''bpf_skb_adjust_room'' 50 ''long''
      [Arg ''struct __sk_buff *'' ''skb'', Arg ''__s32'' ''len_diff'', Arg ''__u32'' ''mode'',
       Arg ''__u64'' ''flags'']
      True False]"

definition helpers_51_54 :: "helper_decl list" where
  "helpers_51_54 = [
    decl ''bpf_redirect_map'' 51 ''long''
      [Arg ''void *'' ''map'', Arg ''__u64'' ''key'', Arg ''__u64'' ''flags''] False False,
    decl ''bpf_sk_redirect_map'' 52 ''long''
      [Arg ''struct __sk_buff *'' ''skb'', Arg ''void *'' ''map'', Arg ''__u32'' ''key'',
       Arg ''__u64'' ''flags'']
      False False,
    decl ''bpf_sock_map_update'' 53 ''long''
      [Arg ''struct bpf_sock_ops *'' ''skops'', Arg ''void *'' ''map'', Arg ''void *'' ''key'',
       Arg ''__u64'' ''flags'']
      True False,
    decl ''bpf_xdp_adjust_meta'' 54 ''long''
      [Arg ''struct xdp_md *'' ''xdp_md'', Arg ''int'' ''delta''] True False]"

definition helpers_55_58 :: "helper_decl list" where
  "helpers_55_58 = [
    decl ''bpf_perf_event_read_value'' 55 ''long''
      [Arg ''void *'' ''map'', Arg ''__u64'' ''flags'', Arg ''struct bpf_perf_event_value *'' ''buf'',
       Arg ''__u32'' ''buf_size'']
      True False,
    decl ''bpf_perf_prog_read_value'' 56 ''long''
      [Arg ''struct bpf_perf_event_data *'' ''ctx'', Arg ''struct bpf_perf_event_value *'' ''buf'', Arg ''__u32'' ''buf_size'']
      True False,
    decl ''bpf_getsockopt'' 57 ''long''
      [Arg ''void *'' ''bpf_socket'', Arg ''int'' ''level'', Arg ''int'' ''optname'',
       Arg ''void *'' ''optval'', Arg ''int'' ''optlen'']
      True False,
    decl ''bpf_override_return'' 58 ''long''
      [Arg ''struct pt_regs *'' ''regs'', Arg ''__u64'' ''rc''] False False]"

definition helpers_59_62 :: "helper_decl list" where
  "helpers_59_62 = [
    decl ''bpf_sock_ops_cb_flags_set'' 59 ''long''
      [Arg ''struct bpf_sock_ops *'' ''bpf_sock'', Arg ''int'' ''argval''] False False,
    decl ''bpf_msg_redirect_map'' 60 ''long''
      [Arg ''struct sk_msg_md *'' ''msg'', Arg ''void *'' ''map'', Arg ''__u32'' ''key'',
       Arg ''__u64'' ''flags'']
      False False,
    decl ''bpf_msg_apply_bytes'' 61 ''long''
      [Arg ''struct sk_msg_md *'' ''msg'', Arg ''__u32'' ''bytes''] False False,
    decl ''bpf_msg_cork_bytes'' 62 ''long''
      [Arg ''struct sk_msg_md *'' ''msg'', Arg ''__u32'' ''bytes''] False False]"

definition helpers_63_67 :: "helper_decl list" where
  "helpers_63_67 = [
    decl ''bpf_msg_pull_data'' 63 ''long''
      [Arg ''struct sk_msg_md *'' ''msg'', Arg ''__u32'' ''start'', Arg ''__u32'' ''end'',
       Arg ''__u64'' ''flags'']
      True False,
    decl ''bpf_bind'' 64 ''long''
      [Arg ''struct bpf_sock_addr *'' ''ctx'', Arg ''struct sockaddr *'' ''addr'', Arg ''int'' ''addr_len'']
      True False,
    decl ''bpf_xdp_adjust_tail'' 65 ''long''
      [Arg ''struct xdp_md *'' ''xdp_md'', Arg ''int'' ''delta''] True False,
    decl ''bpf_skb_get_xfrm_state'' 66 ''long''
      [Arg ''struct __sk_buff *'' ''skb'', Arg ''__u32'' ''index'', Arg ''struct bpf_xfrm_state *'' ''xfrm_state'',
       Arg ''__u32'' ''size'', Arg ''__u64'' ''flags'']
      True False,
    decl ''bpf_get_stack'' 67 ''long''
      [Arg ''void *'' ''ctx'', Arg ''void *'' ''buf'', Arg ''__u32'' ''size'',
       Arg ''__u64'' ''flags'']
      False False]"

definition helpers_68_72 :: "helper_decl list" where
  "helpers_68_72 = [
    decl ''bpf_skb_load_bytes_relative'' 68 ''long''
      [Arg ''const void *'' ''skb'', Arg ''__u32'' ''offset'', Arg ''void *'' ''to'',
       Arg ''__u32'' ''len'', Arg ''__u32'' ''start_header'']
      True False,
    decl ''bpf_fib_lookup'' 69 ''long''
      [Arg ''void *'' ''ctx'', Arg ''struct bpf_fib_lookup *'' ''params'', Arg ''int'' ''plen'',
       Arg ''__u32'' ''flags'']
      False False,
    decl ''bpf_sock_hash_update'' 70 ''long''
      [Arg ''struct bpf_sock_ops *'' ''skops'', Arg ''void *'' ''map'', Arg ''void *'' ''key'',
       Arg ''__u64'' ''flags'']
      True False,
    decl ''bpf_msg_redirect_hash'' 71 ''long''
      [Arg ''struct sk_msg_md *'' ''msg'', Arg ''void *'' ''map'', Arg ''void *'' ''key'',
       Arg ''__u64'' ''flags'']
      False False,
    decl ''bpf_sk_redirect_hash'' 72 ''long''
      [Arg ''struct __sk_buff *'' ''skb'', Arg ''void *'' ''map'', Arg ''void *'' ''key'',
       Arg ''__u64'' ''flags'']
      False False]"

definition helpers_73_77 :: "helper_decl list" where
  "helpers_73_77 = [
    decl ''bpf_lwt_push_encap'' 73 ''long''
      [Arg ''struct __sk_buff *'' ''skb'', Arg ''__u32'' ''type'', Arg ''void *'' ''hdr'',
       Arg ''__u32'' ''len'']
      True False,
    decl ''bpf_lwt_seg6_store_bytes'' 74 ''long''
      [Arg ''struct __sk_buff *'' ''skb'', Arg ''__u32'' ''offset'', Arg ''const void *'' ''from'',
       Arg ''__u32'' ''len'']
      True False,
    decl ''bpf_lwt_seg6_adjust_srh'' 75 ''long''
      [Arg ''struct __sk_buff *'' ''skb'', Arg ''__u32'' ''offset'', Arg ''__s32'' ''delta'']
      True False,
    decl ''bpf_lwt_seg6_action'' 76 ''long''
      [Arg ''struct __sk_buff *'' ''skb'', Arg ''__u32'' ''action'', Arg ''void *'' ''param'',
       Arg ''__u32'' ''param_len'']
      True False,
    decl ''bpf_rc_repeat'' 77 ''long''
      [Arg ''void *'' ''ctx''] False False]"

definition helpers_78_83 :: "helper_decl list" where
  "helpers_78_83 = [
    decl ''bpf_rc_keydown'' 78 ''long''
      [Arg ''void *'' ''ctx'', Arg ''__u32'' ''protocol'', Arg ''__u64'' ''scancode'',
       Arg ''__u32'' ''toggle'']
      False False,
    decl ''bpf_skb_cgroup_id'' 79 ''__u64''
      [Arg ''struct __sk_buff *'' ''skb''] False False,
    decl ''bpf_get_current_cgroup_id'' 80 ''__u64''
      [] False False,
    decl ''bpf_get_local_storage'' 81 ''void *''
      [Arg ''void *'' ''map'', Arg ''__u64'' ''flags''] False False,
    decl ''bpf_sk_select_reuseport'' 82 ''long''
      [Arg ''struct sk_reuseport_md *'' ''reuse'', Arg ''void *'' ''map'', Arg ''void *'' ''key'',
       Arg ''__u64'' ''flags'']
      True False,
    decl ''bpf_skb_ancestor_cgroup_id'' 83 ''__u64''
      [Arg ''struct __sk_buff *'' ''skb'', Arg ''int'' ''ancestor_level''] False False]"

definition helpers_84_90 :: "helper_decl list" where
  "helpers_84_90 = [
    decl ''bpf_sk_lookup_tcp'' 84 ''struct bpf_sock *''
      [Arg ''void *'' ''ctx'', Arg ''struct bpf_sock_tuple *'' ''tuple'', Arg ''__u32'' ''tuple_size'',
       Arg ''__u64'' ''netns'', Arg ''__u64'' ''flags'']
      False True,
    decl ''bpf_sk_lookup_udp'' 85 ''struct bpf_sock *''
      [Arg ''void *'' ''ctx'', Arg ''struct bpf_sock_tuple *'' ''tuple'', Arg ''__u32'' ''tuple_size'',
       Arg ''__u64'' ''netns'', Arg ''__u64'' ''flags'']
      False True,
    decl ''bpf_sk_release'' 86 ''long''
      [Arg ''void *'' ''sock''] True False,
    decl ''bpf_map_push_elem'' 87 ''long''
      [Arg ''void *'' ''map'', Arg ''const void *'' ''value'', Arg ''__u64'' ''flags''] True False,
    decl ''bpf_map_pop_elem'' 88 ''long''
      [Arg ''void *'' ''map'', Arg ''void *'' ''value''] True False,
    decl ''bpf_map_peek_elem'' 89 ''long''
      [Arg ''void *'' ''map'', Arg ''void *'' ''value''] True False,
    decl ''bpf_msg_push_data'' 90 ''long''
      [Arg ''struct sk_msg_md *'' ''msg'', Arg ''__u32'' ''start'', Arg ''__u32'' ''len'',
       Arg ''__u64'' ''flags'']
      True False]"

definition helpers_91_98 :: "helper_decl list" where
  "helpers_91_98 = [
    decl ''bpf_msg_pop_data'' 91 ''long''
      [Arg ''struct sk_msg_md *'' ''msg'', Arg ''__u32'' ''start'', Arg ''__u32'' ''len'',
       Arg ''__u64'' ''flags'']
      True False,
    decl ''bpf_rc_pointer_rel'' 92 ''long''
      [Arg ''void *'' ''ctx'', Arg ''__s32'' ''rel_x'', Arg ''__s32'' ''rel_y''] False False,
    decl ''bpf_spin_lock'' 93 ''long''
      [Arg ''struct bpf_spin_lock *'' ''lock''] False False,
    decl ''bpf_spin_unlock'' 94 ''long''
      [Arg ''struct bpf_spin_lock *'' ''lock''] False False,
    decl ''bpf_sk_fullsock'' 95 ''struct bpf_sock *''
      [Arg ''struct bpf_sock *'' ''sk''] False True,
    decl ''bpf_tcp_sock'' 96 ''struct bpf_tcp_sock *''
      [Arg ''struct bpf_sock *'' ''sk''] False True,
    decl ''bpf_skb_ecn_set_ce'' 97 ''long''
      [Arg ''struct __sk_buff *'' ''skb''] False False,
    decl ''bpf_get_listener_sock'' 98 ''struct bpf_sock *''
      [Arg ''struct bpf_sock *'' ''sk''] False True]"

definition helpers_99_104 :: "helper_decl list" where
  "helpers_99_104 = [
    decl ''bpf_skc_lookup_tcp'' 99 ''struct bpf_sock *''
      [Arg ''void *'' ''ctx'', Arg ''struct bpf_sock_tuple *'' ''tuple'', Arg ''__u32'' ''tuple_size'',
       Arg ''__u64'' ''netns'', Arg ''__u64'' ''flags'']
      False True,
    decl ''bpf_tcp_check_syncookie'' 100 ''long''
      [Arg ''void *'' ''sk'', Arg ''void *'' ''iph'', Arg ''__u32'' ''iph_len'',
       Arg ''struct tcphdr *'' ''th'', Arg ''__u32'' ''th_len'']
      False False,
    decl ''bpf_sysctl_get_name'' 101 ''long''
      [Arg ''struct bpf_sysctl *'' ''ctx'', Arg ''char *'' ''buf'', Arg ''unsigned long'' ''buf_len'',
       Arg ''__u64'' ''flags'']
      False False,
    decl ''bpf_sysctl_get_current_value'' 102 ''long''
      [Arg ''struct bpf_sysctl *'' ''ctx'', Arg ''char *'' ''buf'', Arg ''unsigned long'' ''buf_len'']
      False False,
    decl ''bpf_sysctl_get_new_value'' 103 ''long''
      [Arg ''struct bpf_sysctl *'' ''ctx'', Arg ''char *'' ''buf'', Arg ''unsigned long'' ''buf_len'']
      False False,
    decl ''bpf_sysctl_set_new_value'' 104 ''long''
      [Arg ''struct bpf_sysctl *'' ''ctx'', Arg ''const char *'' ''buf'', Arg ''unsigned long'' ''buf_len'']
      False False]"

definition helpers_105_109 :: "helper_decl list" where
  "helpers_105_109 = [
    decl ''bpf_strtol'' 105 ''long''
      [Arg ''const char *'' ''buf'', Arg ''unsigned long'' ''buf_len'', Arg ''__u64'' ''flags'',
       Arg ''long *'' ''res'']
      False False,
    decl ''bpf_strtoul'' 106 ''long''
      [Arg ''const char *'' ''buf'', Arg ''unsigned long'' ''buf_len'', Arg ''__u64'' ''flags'',
       Arg ''unsigned long *'' ''res'']
      False False,
    decl ''bpf_sk_storage_get'' 107 ''void *''
      [Arg ''void *'' ''map'', Arg ''void *'' ''sk'', Arg ''void *'' ''value'',
       Arg ''__u64'' ''flags'']
      False True,
    decl ''bpf_sk_storage_delete'' 108 ''long''
      [Arg ''void *'' ''map'', Arg ''void *'' ''sk''] False False,
    decl ''bpf_send_signal'' 109 ''long''
      [Arg ''__u32'' ''sig''] False False]"

definition helpers_110_115 :: "helper_decl list" where
  "helpers_110_115 = [
    decl ''bpf_tcp_gen_syncookie'' 110 ''__s64''
      [Arg ''void *'' ''sk'', Arg ''void *'' ''iph'', Arg ''__u32'' ''iph_len'',
       Arg ''struct tcphdr *'' ''th'', Arg ''__u32'' ''th_len'']
      False False,
    decl ''bpf_skb_output'' 111 ''long''
      [Arg ''void *'' ''ctx'', Arg ''void *'' ''map'', Arg ''__u64'' ''flags'',
       Arg ''void *'' ''data'', Arg ''__u64'' ''size'']
      True False,
    decl ''bpf_probe_read_user'' 112 ''long''
      [Arg ''void *'' ''dst'', Arg ''__u32'' ''size'', Arg ''const void *'' ''unsafe_ptr'']
      True False,
    decl ''bpf_probe_read_kernel'' 113 ''long''
      [Arg ''void *'' ''dst'', Arg ''__u32'' ''size'', Arg ''const void *'' ''unsafe_ptr'']
      True False,
    decl ''bpf_probe_read_user_str'' 114 ''long''
      [Arg ''void *'' ''dst'', Arg ''__u32'' ''size'', Arg ''const void *'' ''unsafe_ptr'']
      False False,
    decl ''bpf_probe_read_kernel_str'' 115 ''long''
      [Arg ''void *'' ''dst'', Arg ''__u32'' ''size'', Arg ''const void *'' ''unsafe_ptr'']
      False False]"

definition helpers_116_123 :: "helper_decl list" where
  "helpers_116_123 = [
    decl ''bpf_tcp_send_ack'' 116 ''long''
      [Arg ''void *'' ''tp'', Arg ''__u32'' ''rcv_nxt''] True False,
    decl ''bpf_send_signal_thread'' 117 ''long''
      [Arg ''__u32'' ''sig''] False False,
    decl ''bpf_jiffies64'' 118 ''__u64''
      [] False False,
    decl ''bpf_read_branch_records'' 119 ''long''
      [Arg ''struct bpf_perf_event_data *'' ''ctx'', Arg ''void *'' ''buf'', Arg ''__u32'' ''size'',
       Arg ''__u64'' ''flags'']
      False True,
    decl ''bpf_get_ns_current_pid_tgid'' 120 ''long''
      [Arg ''__u64'' ''dev'', Arg ''__u64'' ''ino'', Arg ''struct bpf_pidns_info *'' ''nsdata'',
       Arg ''__u32'' ''size'']
      False False,
    decl ''bpf_xdp_output'' 121 ''long''
      [Arg ''void *'' ''ctx'', Arg ''void *'' ''map'', Arg ''__u64'' ''flags'',
       Arg ''void *'' ''data'', Arg ''__u64'' ''size'']
      True False,
    decl ''bpf_get_netns_cookie'' 122 ''__u64''
      [Arg ''void *'' ''ctx''] False False,
    decl ''bpf_get_current_ancestor_cgroup_id'' 123 ''__u64''
      [Arg ''int'' ''ancestor_level''] False False]"

definition helpers_124_129 :: "helper_decl list" where
  "helpers_124_129 = [
    decl ''bpf_sk_assign'' 124 ''long''
      [Arg ''void *'' ''ctx'', Arg ''void *'' ''sk'', Arg ''__u64'' ''flags''] False False,
    decl ''bpf_ktime_get_boot_ns'' 125 ''__u64''
      [] False False,
    decl ''bpf_seq_printf'' 126 ''long''
      [Arg ''struct seq_file *'' ''m'', Arg ''const char *'' ''fmt'', Arg ''__u32'' ''fmt_size'',
       Arg ''const void *'' ''data'', Arg ''__u32'' ''data_len'']
      False False,
    decl ''bpf_seq_write'' 127 ''long''
      [Arg ''struct seq_file *'' ''m'', Arg ''const void *'' ''data'', Arg ''__u32'' ''len'']
      False False,
    decl ''bpf_sk_cgroup_id'' 128 ''__u64''
      [Arg ''void *'' ''sk''] False False,
    decl ''bpf_sk_ancestor_cgroup_id'' 129 ''__u64''
      [Arg ''void *'' ''sk'', Arg ''int'' ''ancestor_level''] False False]"

definition helpers_130_137 :: "helper_decl list" where
  "helpers_130_137 = [
    decl ''bpf_ringbuf_output'' 130 ''long''
      [Arg ''void *'' ''ringbuf'', Arg ''void *'' ''data'', Arg ''__u64'' ''size'',
       Arg ''__u64'' ''flags'']
      True False,
    decl ''bpf_ringbuf_reserve'' 131 ''void *''
      [Arg ''void *'' ''ringbuf'', Arg ''__u64'' ''size'', Arg ''__u64'' ''flags''] False True,
    decl ''bpf_ringbuf_submit'' 132 ''void''
      [Arg ''void *'' ''data'', Arg ''__u64'' ''flags''] False False,
    decl ''bpf_ringbuf_discard'' 133 ''void''
      [Arg ''void *'' ''data'', Arg ''__u64'' ''flags''] False False,
    decl ''bpf_ringbuf_query'' 134 ''__u64''
      [Arg ''void *'' ''ringbuf'', Arg ''__u64'' ''flags''] False False,
    decl ''bpf_csum_level'' 135 ''long''
      [Arg ''struct __sk_buff *'' ''skb'', Arg ''__u64'' ''level''] False False,
    decl ''bpf_skc_to_tcp6_sock'' 136 ''struct tcp6_sock *''
      [Arg ''void *'' ''sk''] False True,
    decl ''bpf_skc_to_tcp_sock'' 137 ''struct tcp_sock *''
      [Arg ''void *'' ''sk''] False True]"

definition helpers_138_142 :: "helper_decl list" where
  "helpers_138_142 = [
    decl ''bpf_skc_to_tcp_timewait_sock'' 138 ''struct tcp_timewait_sock *''
      [Arg ''void *'' ''sk''] False True,
    decl ''bpf_skc_to_tcp_request_sock'' 139 ''struct tcp_request_sock *''
      [Arg ''void *'' ''sk''] False True,
    decl ''bpf_skc_to_udp6_sock'' 140 ''struct udp6_sock *''
      [Arg ''void *'' ''sk''] False True,
    decl ''bpf_get_task_stack'' 141 ''long''
      [Arg ''struct task_struct *'' ''task'', Arg ''void *'' ''buf'', Arg ''__u32'' ''size'',
       Arg ''__u64'' ''flags'']
      False False,
    decl ''bpf_load_hdr_opt'' 142 ''long''
      [Arg ''struct bpf_sock_ops *'' ''skops'', Arg ''void *'' ''searchby_res'', Arg ''__u32'' ''len'',
       Arg ''__u64'' ''flags'']
      False False]"

definition helpers_143_148 :: "helper_decl list" where
  "helpers_143_148 = [
    decl ''bpf_store_hdr_opt'' 143 ''long''
      [Arg ''struct bpf_sock_ops *'' ''skops'', Arg ''const void *'' ''from'', Arg ''__u32'' ''len'',
       Arg ''__u64'' ''flags'']
      False False,
    decl ''bpf_reserve_hdr_opt'' 144 ''long''
      [Arg ''struct bpf_sock_ops *'' ''skops'', Arg ''__u32'' ''len'', Arg ''__u64'' ''flags'']
      False False,
    decl ''bpf_inode_storage_get'' 145 ''void *''
      [Arg ''void *'' ''map'', Arg ''void *'' ''inode'', Arg ''void *'' ''value'',
       Arg ''__u64'' ''flags'']
      False True,
    decl ''bpf_inode_storage_delete'' 146 ''int''
      [Arg ''void *'' ''map'', Arg ''void *'' ''inode''] False False,
    decl ''bpf_d_path'' 147 ''long''
      [Arg ''struct path *'' ''path'', Arg ''char *'' ''buf'', Arg ''__u32'' ''sz''] False False,
    decl ''bpf_copy_from_user'' 148 ''long''
      [Arg ''void *'' ''dst'', Arg ''__u32'' ''size'', Arg ''const void *'' ''user_ptr'']
      True False]"

definition helpers_149_155 :: "helper_decl list" where
  "helpers_149_155 = [
    decl ''bpf_snprintf_btf'' 149 ''long''
      [Arg ''char *'' ''str'', Arg ''__u32'' ''str_size'', Arg ''struct btf_ptr *'' ''ptr'',
       Arg ''__u32'' ''btf_ptr_size'', Arg ''__u64'' ''flags'']
      False False,
    decl ''bpf_seq_printf_btf'' 150 ''long''
      [Arg ''struct seq_file *'' ''m'', Arg ''struct btf_ptr *'' ''ptr'', Arg ''__u32'' ''ptr_size'',
       Arg ''__u64'' ''flags'']
      False False,
    decl ''bpf_skb_cgroup_classid'' 151 ''__u64''
      [Arg ''struct __sk_buff *'' ''skb''] False False,
    decl ''bpf_redirect_neigh'' 152 ''long''
      [Arg ''__u32'' ''ifindex'', Arg ''struct bpf_redir_neigh *'' ''params'', Arg ''int'' ''plen'',
       Arg ''__u64'' ''flags'']
      False False,
    decl ''bpf_per_cpu_ptr'' 153 ''void *''
      [Arg ''const void *'' ''percpu_ptr'', Arg ''__u32'' ''cpu''] False True,
    decl ''bpf_this_cpu_ptr'' 154 ''void *''
      [Arg ''const void *'' ''percpu_ptr''] False False,
    decl ''bpf_redirect_peer'' 155 ''long''
      [Arg ''__u32'' ''ifindex'', Arg ''__u64'' ''flags''] False False]"

definition helpers_156_162 :: "helper_decl list" where
  "helpers_156_162 = [
    decl ''bpf_task_storage_get'' 156 ''void *''
      [Arg ''void *'' ''map'', Arg ''struct task_struct *'' ''task'', Arg ''void *'' ''value'',
       Arg ''__u64'' ''flags'']
      False True,
    decl ''bpf_task_storage_delete'' 157 ''long''
      [Arg ''void *'' ''map'', Arg ''struct task_struct *'' ''task''] False False,
    decl ''bpf_get_current_task_btf'' 158 ''struct task_struct *''
      [] False False,
    decl ''bpf_bprm_opts_set'' 159 ''long''
      [Arg ''struct linux_binprm *'' ''bprm'', Arg ''__u64'' ''flags''] False False,
    decl ''bpf_ktime_get_coarse_ns'' 160 ''__u64''
      [] False False,
    decl ''bpf_ima_inode_hash'' 161 ''long''
      [Arg ''struct inode *'' ''inode'', Arg ''void *'' ''dst'', Arg ''__u32'' ''size'']
      False False,
    decl ''bpf_sock_from_file'' 162 ''struct socket *''
      [Arg ''struct file *'' ''file''] False True]"

definition helpers_163_166 :: "helper_decl list" where
  "helpers_163_166 = [
    decl ''bpf_check_mtu'' 163 ''long''
      [Arg ''void *'' ''ctx'', Arg ''__u32'' ''ifindex'', Arg ''__u32 *'' ''mtu_len'',
       Arg ''__s32'' ''len_diff'', Arg ''__u64'' ''flags'']
      False False,
    decl ''bpf_for_each_map_elem'' 164 ''long''
      [Arg ''void *'' ''map'', Arg ''void *'' ''callback_fn'', Arg ''void *'' ''callback_ctx'',
       Arg ''__u64'' ''flags'']
      False False,
    decl ''bpf_snprintf'' 165 ''long''
      [Arg ''char *'' ''str'', Arg ''__u32'' ''str_size'', Arg ''const char *'' ''fmt'',
       Arg ''__u64 *'' ''data'', Arg ''__u32'' ''data_len'']
      False False,
    decl ''bpf_sys_bpf'' 166 ''long''
      [Arg ''__u32'' ''cmd'', Arg ''void *'' ''attr'', Arg ''__u32'' ''attr_size''] False False]"

definition helpers_167_174 :: "helper_decl list" where
  "helpers_167_174 = [
    decl ''bpf_btf_find_by_name_kind'' 167 ''long''
      [Arg ''char *'' ''name'', Arg ''int'' ''name_sz'', Arg ''__u32'' ''kind'',
       Arg ''int'' ''flags'']
      False False,
    decl ''bpf_sys_close'' 168 ''long''
      [Arg ''__u32'' ''fd''] False False,
    decl ''bpf_timer_init'' 169 ''long''
      [Arg ''struct bpf_timer *'' ''timer'', Arg ''void *'' ''map'', Arg ''__u64'' ''flags'']
      False False,
    decl ''bpf_timer_set_callback'' 170 ''long''
      [Arg ''struct bpf_timer *'' ''timer'', Arg ''void *'' ''callback_fn''] False False,
    decl ''bpf_timer_start'' 171 ''long''
      [Arg ''struct bpf_timer *'' ''timer'', Arg ''__u64'' ''nsecs'', Arg ''__u64'' ''flags'']
      False False,
    decl ''bpf_timer_cancel'' 172 ''long''
      [Arg ''struct bpf_timer *'' ''timer''] False False,
    decl ''bpf_get_func_ip'' 173 ''__u64''
      [Arg ''void *'' ''ctx''] False False,
    decl ''bpf_get_attach_cookie'' 174 ''__u64''
      [Arg ''void *'' ''ctx''] False False]"

definition helpers_175_182 :: "helper_decl list" where
  "helpers_175_182 = [
    decl ''bpf_task_pt_regs'' 175 ''long''
      [Arg ''struct task_struct *'' ''task''] False False,
    decl ''bpf_get_branch_snapshot'' 176 ''long''
      [Arg ''void *'' ''entries'', Arg ''__u32'' ''size'', Arg ''__u64'' ''flags''] False False,
    decl ''bpf_trace_vprintk'' 177 ''long''
      [Arg ''const char *'' ''fmt'', Arg ''__u32'' ''fmt_size'', Arg ''const void *'' ''data'',
       Arg ''__u32'' ''data_len'']
      False False,
    decl ''bpf_skc_to_unix_sock'' 178 ''struct unix_sock *''
      [Arg ''void *'' ''sk''] False True,
    decl ''bpf_kallsyms_lookup_name'' 179 ''long''
      [Arg ''const char *'' ''name'', Arg ''int'' ''name_sz'', Arg ''int'' ''flags'',
       Arg ''__u64 *'' ''res'']
      False False,
    decl ''bpf_find_vma'' 180 ''long''
      [Arg ''struct task_struct *'' ''task'', Arg ''__u64'' ''addr'', Arg ''void *'' ''callback_fn'',
       Arg ''void *'' ''callback_ctx'', Arg ''__u64'' ''flags'']
      False True,
    decl ''bpf_loop'' 181 ''long''
      [Arg ''__u32'' ''nr_loops'', Arg ''void *'' ''callback_fn'', Arg ''void *'' ''callback_ctx'',
       Arg ''__u64'' ''flags'']
      False False,
    decl ''bpf_strncmp'' 182 ''long''
      [Arg ''const char *'' ''s1'', Arg ''__u32'' ''s1_sz'', Arg ''const char *'' ''s2'']
      False False]"

definition helpers_183_191 :: "helper_decl list" where
  "helpers_183_191 = [
    decl ''bpf_get_func_arg'' 183 ''long''
      [Arg ''void *'' ''ctx'', Arg ''__u32'' ''n'', Arg ''__u64 *'' ''value''] False False,
    decl ''bpf_get_func_ret'' 184 ''long''
      [Arg ''void *'' ''ctx'', Arg ''__u64 *'' ''value''] False False,
    decl ''bpf_get_func_arg_cnt'' 185 ''long''
      [Arg ''void *'' ''ctx''] False False,
    decl ''bpf_get_retval'' 186 ''int''
      [] False False,
    decl ''bpf_set_retval'' 187 ''int''
      [Arg ''int'' ''retval''] True False,
    decl ''bpf_xdp_get_buff_len'' 188 ''__u64''
      [Arg ''struct xdp_md *'' ''xdp_md''] False False,
    decl ''bpf_xdp_load_bytes'' 189 ''long''
      [Arg ''struct xdp_md *'' ''xdp_md'', Arg ''__u32'' ''offset'', Arg ''void *'' ''buf'',
       Arg ''__u32'' ''len'']
      True False,
    decl ''bpf_xdp_store_bytes'' 190 ''long''
      [Arg ''struct xdp_md *'' ''xdp_md'', Arg ''__u32'' ''offset'', Arg ''void *'' ''buf'',
       Arg ''__u32'' ''len'']
      True False,
    decl ''bpf_copy_from_user_task'' 191 ''long''
      [Arg ''void *'' ''dst'', Arg ''__u32'' ''size'', Arg ''const void *'' ''user_ptr'',
       Arg ''struct task_struct *'' ''tsk'', Arg ''__u64'' ''flags'']
      False False]"

definition helpers_192_200 :: "helper_decl list" where
  "helpers_192_200 = [
    decl ''bpf_skb_set_tstamp'' 192 ''long''
      [Arg ''struct __sk_buff *'' ''skb'', Arg ''__u64'' ''tstamp'', Arg ''__u32'' ''tstamp_type'']
      False False,
    decl ''bpf_ima_file_hash'' 193 ''long''
      [Arg ''struct file *'' ''file'', Arg ''void *'' ''dst'', Arg ''__u32'' ''size''] False False,
    decl ''bpf_kptr_xchg'' 194 ''void *''
      [Arg ''void *'' ''map_value'', Arg ''void *'' ''ptr''] False True,
    decl ''bpf_map_lookup_percpu_elem'' 195 ''void *''
      [Arg ''void *'' ''map'', Arg ''const void *'' ''key'', Arg ''__u32'' ''cpu''] False True,
    decl ''bpf_skc_to_mptcp_sock'' 196 ''struct mptcp_sock *''
      [Arg ''void *'' ''sk''] False True,
    decl ''bpf_dynptr_from_mem'' 197 ''long''
      [Arg ''void *'' ''data'', Arg ''__u32'' ''size'', Arg ''__u64'' ''flags'',
       Arg ''struct bpf_dynptr *'' ''ptr'']
      False False,
    decl ''bpf_ringbuf_reserve_dynptr'' 198 ''long''
      [Arg ''void *'' ''ringbuf'', Arg ''__u32'' ''size'', Arg ''__u64'' ''flags'',
       Arg ''struct bpf_dynptr *'' ''ptr'']
      True False,
    decl ''bpf_ringbuf_submit_dynptr'' 199 ''void''
      [Arg ''struct bpf_dynptr *'' ''ptr'', Arg ''__u64'' ''flags''] False False,
    decl ''bpf_ringbuf_discard_dynptr'' 200 ''void''
      [Arg ''struct bpf_dynptr *'' ''ptr'', Arg ''__u64'' ''flags''] False False]"

definition helpers_201_207 :: "helper_decl list" where
  "helpers_201_207 = [
    decl ''bpf_dynptr_read'' 201 ''long''
      [Arg ''void *'' ''dst'', Arg ''__u32'' ''len'', Arg ''const struct bpf_dynptr *'' ''src'',
       Arg ''__u32'' ''offset'', Arg ''__u64'' ''flags'']
      False False,
    decl ''bpf_dynptr_write'' 202 ''long''
      [Arg ''const struct bpf_dynptr *'' ''dst'', Arg ''__u32'' ''offset'', Arg ''void *'' ''src'',
       Arg ''__u32'' ''len'', Arg ''__u64'' ''flags'']
      False False,
    decl ''bpf_dynptr_data'' 203 ''void *''
      [Arg ''const struct bpf_dynptr *'' ''ptr'', Arg ''__u32'' ''offset'', Arg ''__u32'' ''len'']
      False True,
    decl ''bpf_tcp_raw_gen_syncookie_ipv4'' 204 ''__s64''
      [Arg ''struct iphdr *'' ''iph'', Arg ''struct tcphdr *'' ''th'', Arg ''__u32'' ''th_len'']
      False False,
    decl ''bpf_tcp_raw_gen_syncookie_ipv6'' 205 ''__s64''
      [Arg ''struct ipv6hdr *'' ''iph'', Arg ''struct tcphdr *'' ''th'', Arg ''__u32'' ''th_len'']
      False False,
    decl ''bpf_tcp_raw_check_syncookie_ipv4'' 206 ''long''
      [Arg ''struct iphdr *'' ''iph'', Arg ''struct tcphdr *'' ''th''] False False,
    decl ''bpf_tcp_raw_check_syncookie_ipv6'' 207 ''long''
      [Arg ''struct ipv6hdr *'' ''iph'', Arg ''struct tcphdr *'' ''th''] False False]"

definition helpers_208_211 :: "helper_decl list" where
  "helpers_208_211 = [
    decl ''bpf_ktime_get_tai_ns'' 208 ''__u64''
      [] False False,
    decl ''bpf_user_ringbuf_drain'' 209 ''long''
      [Arg ''void *'' ''map'', Arg ''void *'' ''callback_fn'', Arg ''void *'' ''ctx'',
       Arg ''__u64'' ''flags'']
      False False,
    decl ''bpf_cgrp_storage_get'' 210 ''void *''
      [Arg ''void *'' ''map'', Arg ''struct cgroup *'' ''cgroup'', Arg ''void *'' ''value'',
       Arg ''__u64'' ''flags'']
      False True,
    decl ''bpf_cgrp_storage_delete'' 211 ''long''
      [Arg ''void *'' ''map'', Arg ''struct cgroup *'' ''cgroup''] False False]"

definition helper_decls :: "helper_decl list" where
  "helper_decls =
    helpers_1_7 @ helpers_8_12 @ helpers_13_19 @ helpers_20_22 @
    helpers_23_26 @ helpers_27_31 @ helpers_32_38 @ helpers_39_45 @
    helpers_46_50 @ helpers_51_54 @ helpers_55_58 @ helpers_59_62 @
    helpers_63_67 @ helpers_68_72 @ helpers_73_77 @ helpers_78_83 @
    helpers_84_90 @ helpers_91_98 @ helpers_99_104 @ helpers_105_109 @
    helpers_110_115 @ helpers_116_123 @ helpers_124_129 @ helpers_130_137 @
    helpers_138_142 @ helpers_143_148 @ helpers_149_155 @ helpers_156_162 @
    helpers_163_166 @ helpers_167_174 @ helpers_175_182 @ helpers_183_191 @
    helpers_192_200 @ helpers_201_207 @ helpers_208_211"

lemmas helper_tables = 
  helpers_1_7_def helpers_8_12_def helpers_13_19_def helpers_20_22_def
  helpers_23_26_def helpers_27_31_def helpers_32_38_def helpers_39_45_def
  helpers_46_50_def helpers_51_54_def helpers_55_58_def helpers_59_62_def
  helpers_63_67_def helpers_68_72_def helpers_73_77_def helpers_78_83_def
  helpers_84_90_def helpers_91_98_def helpers_99_104_def helpers_105_109_def
  helpers_110_115_def helpers_116_123_def helpers_124_129_def helpers_130_137_def
  helpers_138_142_def helpers_143_148_def helpers_149_155_def helpers_156_162_def
  helpers_163_166_def helpers_167_174_def helpers_175_182_def helpers_183_191_def
  helpers_192_200_def helpers_201_207_def helpers_208_211_def

section \<open>Properties\<close>

text \<open>
  The helper prototypes agree with the kernel's numbering: \<^verbatim>\<open>bpf_helper_defs.h\<close> casts helper
  $n$ to the address $n$ for $n = 1, \ldots, 211$ without a gap, and the helper at each number has the
  name that \<^verbatim>\<open>enum bpf_func_id\<close> of \<^verbatim>\<open>vmlinux.h\<close> gives that number.
\<close>

theorem helper_ids_match_enum:
  "map h_id helper_decls = [1..<212] \<and>
   map (\<lambda>h. (drop 4 (h_name h), int (h_id h))) helper_decls =
     map (\<lambda>(n, v). (drop 9 n, v)) (butlast (tl enum_bpf_func_id))"
  by (rule conjI) code_simp+

text \<open>
  No helper takes more than the five arguments a BPF call can pass, and every helper that returns
  a pointer documents a NULL result, except the three whose result is always valid: among them
  \<^verbatim>\<open>bpf_get_current_task_btf\<close>, which the socket programs dereference without a check.
\<close>

theorem helper_call_discipline:
  "list_all (\<lambda>h. length (h_args h) \<le> 5) helper_decls \<and>
   map h_name (filter (\<lambda>h. last (h_ret h) = CHR ''*'' \<and> \<not> h_null h) helper_decls) =
     [''bpf_get_local_storage'', ''bpf_this_cpu_ptr'', ''bpf_get_current_task_btf'']"
  by (rule conjI) code_simp+

end
