(* ===== verification/Go_Lib.thy ===== *)
theory Go_Lib
  imports Prelude "HOL-Library.List_Lexorder" "HOL-Library.Char_ord"
begin

text \<open>
  What the Go sources use of the language and its library: steps that can fail, \<^verbatim>\<open>strings\<close>,
  \<^verbatim>\<open>path/filepath\<close> on Linux, maps built from slices and \<^verbatim>\<open>sort.Slice\<close>. \<^verbatim>\<open>filepath.Clean\<close> works on the
  segments between slashes; \<open>resolve\<close> is the specification it is measured against.
\<close>

section \<open>Steps that can fail\<close>

definition ebind :: "('st \<Rightarrow> ('e + 'a) \<times> 'st) \<Rightarrow> ('a \<Rightarrow> 'st \<Rightarrow> ('e + 'b) \<times> 'st) \<Rightarrow> 'st \<Rightarrow> ('e + 'b) \<times> 'st" where
  "ebind m f st = (case m st of (Inl e, st) \<Rightarrow> (Inl e, st) | (Inr x, st) \<Rightarrow> f x st)"

definition ereturn :: "'a \<Rightarrow> 'st \<Rightarrow> ('e + 'a) \<times> 'st" where
  "ereturn x st = (Inr x, st)"

definition efail :: "'e \<Rightarrow> 'st \<Rightarrow> ('e + 'a) \<times> 'st" where
  "efail e st = (Inl e, st)"

section \<open>Strings\<close>

text \<open>\<^verbatim>\<open>strings.Split\<close> with a separator of one character, and \<^verbatim>\<open>strings.Join\<close>.\<close>

fun split_on :: "char \<Rightarrow> string \<Rightarrow> string list" where
  "split_on c [] = [[]]"
| "split_on c (x # xs) = (if x = c then [] # split_on c xs
     else (case split_on c xs of [] \<Rightarrow> [[x]] | p # ps \<Rightarrow> (x # p) # ps))"

fun join_with :: "char \<Rightarrow> string list \<Rightarrow> string" where
  "join_with c [] = []"
| "join_with c [s] = s"
| "join_with c (s # t # ss) = s @ c # join_with c (t # ss)"

definition HasPrefix :: "string \<Rightarrow> string \<Rightarrow> bool" where
  "HasPrefix s p \<longleftrightarrow> take (length p) s = p"

text \<open>\<^verbatim>\<open>strings.ReplaceAll\<close>: from the left, without overlaps; an empty old text matches everywhere.\<close>

function ReplaceAll :: "string \<Rightarrow> string \<Rightarrow> string \<Rightarrow> string" where
  "ReplaceAll s old new =
     (if old = [] then new @ concat (map (\<lambda>x. x # new) s)
      else case s of
        [] \<Rightarrow> []
      | x # xs \<Rightarrow> if HasPrefix s old then new @ ReplaceAll (drop (length old) s) old new
                  else x # ReplaceAll xs old new)"
  by pat_completeness auto
termination
  by (relation "measure (\<lambda>(s, _, _). length s)") auto

declare ReplaceAll.simps [simp del]

fun Contains :: "string \<Rightarrow> string \<Rightarrow> bool" where
  "Contains [] t = (t = [])"
| "Contains (x # xs) t = (HasPrefix (x # xs) t \<or> Contains xs t)"

section \<open>Paths\<close>

text \<open>
  \<^verbatim>\<open>filepath.Clean\<close>, segment by segment with the segments kept so far in reverse: empty ones and single dots
  are dropped, two dots remove the last one kept, stay where there is none to remove, and vanish at the root.
\<close>

fun clean_segs :: "bool \<Rightarrow> string list \<Rightarrow> string list \<Rightarrow> string list" where
  "clean_segs rooted [] out = rev out"
| "clean_segs rooted (s # ss) out =
     (if s = [] \<or> s = ''.'' then clean_segs rooted ss out
      else if s = ''..'' then
        (case out of
           [] \<Rightarrow> clean_segs rooted ss (if rooted then [] else [''..''])
         | x # xs \<Rightarrow> if x \<noteq> ''..'' then clean_segs rooted ss xs else clean_segs rooted ss (''..'' # out))
      else clean_segs rooted ss (s # out))"

definition Clean :: "string \<Rightarrow> string" where
  "Clean path =
     (if path = [] then ''.''
      else
        let rooted = (hd path = CHR ''/'');
            segs = clean_segs rooted (split_on (CHR ''/'') path) []
        in if rooted then CHR ''/'' # join_with (CHR ''/'') segs
           else if segs = [] then ''.'' else join_with (CHR ''/'') segs)"

definition IsAbs :: "string \<Rightarrow> bool" where
  "IsAbs path \<longleftrightarrow> HasPrefix path ''/''"

text \<open>\<^verbatim>\<open>filepath.Dir\<close> cleans what is before and with the last slash, \<^verbatim>\<open>filepath.Join\<close> the non-empty parts.\<close>

definition Dir :: "string \<Rightarrow> string" where
  "Dir path = Clean (rev (dropWhile (\<lambda>c. c \<noteq> CHR ''/'') (rev path)))"

definition path_Join :: "string list \<Rightarrow> string" where
  "path_Join parts = (let ps = filter (\<lambda>p. p \<noteq> []) parts in if ps = [] then [] else Clean (join_with (CHR ''/'') ps))"

text \<open>
  Where a relative path leads from a directory: the names below it in order, or None if a step goes above it.
\<close>

fun resolve :: "string list \<Rightarrow> string list \<Rightarrow> string list option" where
  "resolve [] dirs = Some (rev dirs)"
| "resolve (s # ss) dirs =
     (if s = [] \<or> s = ''.'' then resolve ss dirs
      else if s = ''..'' then (case dirs of [] \<Rightarrow> None | _ # ds \<Rightarrow> resolve ss ds)
      else resolve ss (s # dirs))"

definition is_name :: "string \<Rightarrow> bool" where
  "is_name s \<longleftrightarrow> s \<noteq> [] \<and> s \<noteq> ''.'' \<and> s \<noteq> ''..'' \<and> CHR ''/'' \<notin> set s"

definition names :: "string list \<Rightarrow> bool" where
  "names ss \<longleftrightarrow> list_all is_name ss"

section \<open>Maps and sorting\<close>

text \<open>A Go map filled from a slice keeps the last value of a key.\<close>

definition map_by :: "('a \<Rightarrow> 'k) \<Rightarrow> 'a list \<Rightarrow> 'k \<rightharpoonup> 'a" where
  "map_by key xs = fold (\<lambda>x m. m(key x \<mapsto> x)) xs Map.empty"

text \<open>Go ranges over a map in any order in which every key comes once.\<close>

definition map_order :: "(('k \<rightharpoonup> 'v) \<Rightarrow> 'k list) \<Rightarrow> bool" where
  "map_order order \<longleftrightarrow> (\<forall>m. finite (dom m) \<longrightarrow> distinct (order m) \<and> set (order m) = dom m)"

definition sample_order :: "(string \<rightharpoonup> 'v) \<Rightarrow> string list" where
  "sample_order m = sorted_list_of_set (dom m)"

text \<open>The values of a map in an order of its keys.\<close>

primrec vals_in :: "'k list \<Rightarrow> ('k \<rightharpoonup> 'v) \<Rightarrow> 'v list" where
  "vals_in [] m = []"
| "vals_in (k # ks) m = (case m k of None \<Rightarrow> vals_in ks m | Some v \<Rightarrow> v # vals_in ks m)"

section \<open>Lemmas\<close>

lemma ebind_Inr: "ebind m f st = (Inr y, st') \<longleftrightarrow> (\<exists>x st1. m st = (Inr x, st1) \<and> f x st1 = (Inr y, st'))"
  by (auto simp: ebind_def split: prod.split sum.split)

lemma ebind_Inl:
  "ebind m f st = (Inl e, st') \<longleftrightarrow> m st = (Inl e, st') \<or> (\<exists>x st1. m st = (Inr x, st1) \<and> f x st1 = (Inl e, st'))"
  by (auto simp: ebind_def split: prod.split sum.split)

lemma ebindE:
  assumes "ebind m f w = (r, w')"
  obtains (fails) e where "r = Inl e" "m w = (Inl e, w')" | (goes) x w1 where "m w = (Inr x, w1)" "f x w1 = (r, w')"
  using assms by (auto simp: ebind_def split: prod.splits sum.splits)

lemma ereturn_simps [simp]: "ereturn x st = (Inr y, st') \<longleftrightarrow> y = x \<and> st' = st" "ereturn x st \<noteq> (Inl e, st')"
  by (auto simp: ereturn_def)

lemma efail_simps [simp]: "efail e st = (Inl e', st') \<longleftrightarrow> e' = e \<and> st' = st" "efail e st \<noteq> (Inr y, st')"
  by (auto simp: efail_def)

lemma sample_order_ok: "map_order sample_order"
  by (simp add: map_order_def sample_order_def)

subsection \<open>Splitting and joining\<close>

lemma HasPrefix_iff: "HasPrefix s p \<longleftrightarrow> (\<exists>r. s = p @ r)"
  unfolding HasPrefix_def by (metis append_take_drop_id append_eq_conv_conj)

lemma split_on_not_Nil [simp]: "split_on c s \<noteq> []"
  by (induction s) (auto split: list.split)

lemma split_on_append:
  "c \<notin> set a \<Longrightarrow> split_on c (a @ c # s) = a # split_on c s"
  by (induction a) (auto split: list.split)

lemma split_on_free: "c \<notin> set a \<Longrightarrow> split_on c a = [a]"
  by (induction a) auto

lemma split_on_segs: "s \<in> set (split_on c p) \<Longrightarrow> c \<notin> set s"
  by (induction p arbitrary: s) (auto split: list.splits if_splits)

lemma split_join:
  "ss \<noteq> [] \<Longrightarrow> \<forall>s \<in> set ss. c \<notin> set s \<Longrightarrow> split_on c (join_with c ss) = ss"
  by (induction c ss rule: join_with.induct) (auto simp: split_on_append split_on_free)

lemma join_split [simp]: "join_with c (split_on c p) = p"
proof (induction p)
  case (Cons x xs)
  obtain p ps where "split_on c xs = p # ps" by (meson split_on_not_Nil list.exhaust)
  with Cons show ?case by (cases ps) auto
qed simp

lemma join_with_Cons: "join_with c (s # ss) = s @ (if ss = [] then [] else c # join_with c ss)"
  by (cases ss) auto

subsection \<open>Paths\<close>

lemma clean_segs_up: "\<exists>q. clean_segs False ss (out @ [''..'']) = ''..'' # q"
proof (induction ss arbitrary: out)
  case (Cons s ss)
  show ?case using Cons [of out] Cons [of "tl out"] Cons [of "s # out"] by (cases out) auto
qed simp

lemma clean_segs_Some: "resolve ss dirs = Some q \<Longrightarrow> ''..'' \<notin> set dirs \<Longrightarrow> clean_segs False ss dirs = q"
  by (induction ss dirs rule: resolve.induct) (auto split: list.splits if_splits)

lemma clean_segs_None: "resolve ss dirs = None \<Longrightarrow> ''..'' \<notin> set dirs \<Longrightarrow> \<exists>q. clean_segs False ss dirs = ''..'' # q"
  using clean_segs_up [of _ "[]"] by (induction ss dirs rule: resolve.induct) (auto split: list.splits if_splits)

lemma names_simps [simp]:
  "names []" "names (s # ss) \<longleftrightarrow> is_name s \<and> names ss" "names (rev ss) \<longleftrightarrow> names ss"
  by (simp_all add: names_def list_all_iff)

lemma is_nameD: "is_name s \<Longrightarrow> s \<noteq> [] \<and> s \<noteq> ''.'' \<and> s \<noteq> ''..'' \<and> CHR ''/'' \<notin> set s"
  by (simp add: is_name_def)

lemma resolve_names:
  "resolve ss dirs = Some q \<Longrightarrow> \<forall>s \<in> set ss. CHR ''/'' \<notin> set s \<Longrightarrow> names dirs \<Longrightarrow> names q"
proof (induction ss dirs rule: resolve.induct)
  case (2 s ss dirs)
  consider "s = [] \<or> s = ''.''" | "s = ''..''" | "is_name s" using 2(5) by (auto simp: is_name_def)
  then show ?case
  proof cases
    case 3
    then show ?thesis using 2 is_nameD [OF 3] by simp
  qed (use 2 in \<open>auto split: list.splits\<close>)
qed auto

lemma resolve_id: "names ss \<Longrightarrow> resolve ss dirs = Some (rev dirs @ ss)"
  by (induction ss arbitrary: dirs) (auto dest: is_nameD)

lemma names_slash: "names q \<Longrightarrow> \<forall>s \<in> set q. CHR ''/'' \<notin> set s"
  by (induction q) (auto dest: is_nameD)

lemma split_join_names: "names q \<Longrightarrow> q \<noteq> [] \<Longrightarrow> split_on (CHR ''/'') (join_with (CHR ''/'') q) = q"
  by (simp add: split_join names_slash)

text \<open>Cleaning a relative path gives the names it leads to, or a path that starts with two dots if it leads outside.\<close>

definition escapes :: "string \<Rightarrow> bool" where
  "escapes path \<longleftrightarrow> path = ''..'' \<or> HasPrefix path ''../''"

lemma Clean_relative:
  assumes "p \<noteq> []" "hd p \<noteq> CHR ''/''"
  shows "resolve (split_on (CHR ''/'') p) [] = Some [] \<Longrightarrow> Clean p = ''.''"
    and "resolve (split_on (CHR ''/'') p) [] = Some q \<Longrightarrow> q \<noteq> [] \<Longrightarrow> Clean p = join_with (CHR ''/'') q"
    and "resolve (split_on (CHR ''/'') p) [] = None \<Longrightarrow> escapes (Clean p)"
proof -
  let ?ss = "split_on (CHR ''/'') p"
  show "resolve ?ss [] = Some [] \<Longrightarrow> Clean p = ''.''" "resolve ?ss [] = Some q \<Longrightarrow> q \<noteq> [] \<Longrightarrow> Clean p = join_with (CHR ''/'') q"
    using assms clean_segs_Some [of ?ss "[]"] by (auto simp: Clean_def Let_def)
  assume "resolve ?ss [] = None"
  then obtain q where "clean_segs False ?ss [] = ''..'' # q" using clean_segs_None by force
  with assms show "escapes (Clean p)" by (auto simp: Clean_def Let_def escapes_def HasPrefix_def join_with_Cons)
qed

lemma escapes_hd:
  assumes "escapes p"
  shows "hd (split_on (CHR ''/'') p) = ''..''"
proof -
  have "p = ''..'' \<or> (\<exists>r. p = ''..'' @ CHR ''/'' # r)" using assms by (auto simp: escapes_def HasPrefix_iff)
  then show ?thesis
    using split_on_append [of "CHR ''/''" "''..''"] split_on_free [of "CHR ''/''" "''..''"] by fastforce
qed

lemma join_names_inside:
  assumes "names q" "q \<noteq> []"
  shows "\<not> escapes (join_with (CHR ''/'') q)" "join_with (CHR ''/'') q \<noteq> ''.''" "\<not> IsAbs (join_with (CHR ''/'') q)"
proof -
  note sj = split_join_names [OF assms]
  obtain s ss where q: "q = s # ss" using assms(2) by (cases q) auto
  then have s: "s \<noteq> []" "s \<noteq> ''.''" "s \<noteq> ''..''" "CHR ''/'' \<notin> set s" using assms(1) is_nameD by auto
  show "\<not> escapes (join_with (CHR ''/'') q)" using escapes_hd [of "join_with (CHR ''/'') q"] sj s(3) q by auto
  show "join_with (CHR ''/'') q \<noteq> ''.''" using sj s(2) q split_on_free [of "CHR ''/''" "''.''"] by auto
  show "\<not> IsAbs (join_with (CHR ''/'') q)"
    using s(1,4) by (cases s) (auto simp: q join_with_Cons IsAbs_def HasPrefix_def)
qed

subsection \<open>Maps and sorting\<close>

lemma map_by_snoc: "map_by key (xs @ [x]) = (map_by key xs)(key x \<mapsto> x)"
  by (simp add: map_by_def)

lemma map_by_Nil [simp]: "map_by key [] = Map.empty"
  by (simp add: map_by_def)

lemma map_by_key: "map_by key xs k = Some x \<Longrightarrow> key x = k \<and> x \<in> set xs"
  by (induction xs rule: rev_induct) (auto simp: map_by_snoc split: if_splits)

lemma dom_map_by: "dom (map_by key xs) = key ` set xs"
proof (induction xs rule: rev_induct)
  case (snoc x xs)
  then show ?case unfolding map_by_snoc dom_fun_upd by simp
qed simp

lemma finite_dom_map_by [simp]: "finite (dom (map_by key xs))"
  by (simp add: dom_map_by)

lemma map_by_distinct: "distinct (map key xs) \<Longrightarrow> x \<in> set xs \<Longrightarrow> map_by key xs (key x) = Some x"
  by (induction xs rule: rev_induct) (auto simp: map_by_snoc image_iff)

lemma vals_in_mem: "v \<in> set (vals_in ks m) \<longleftrightarrow> (\<exists>k \<in> set ks. m k = Some v)"
  by (induction ks) (auto split: option.split)

lemma vals_in_keys:
  assumes "\<And>k x. m k = Some x \<Longrightarrow> key x = k"
  shows "set ks \<subseteq> dom m \<Longrightarrow> map key (vals_in ks m) = ks"
  by (induction ks) (auto simp: assms)

lemma set_map_filter: "set (List.map_filter f xs) = {y. \<exists>x \<in> set xs. f x = Some y}"
  by (induction xs) (auto simp: List.map_filter_simps split: option.split)

lemma map_filter_key:
  assumes "\<And>x y. f x = Some y \<Longrightarrow> key y = key x" "distinct (map key xs)"
  shows "distinct (map key (List.map_filter f xs))"
  using assms(2)
proof (induction xs)
  case (Cons x xs)
  have "key x \<notin> key ` set (List.map_filter f xs)" using Cons.prems assms(1) by (force simp: set_map_filter)
  then show ?case using Cons assms(1) by (auto simp: List.map_filter_simps split: option.split)
qed (simp add: List.map_filter_simps)

lemma sort_key_unique:
  fixes key :: "'a \<Rightarrow> 'k::linorder"
  assumes "distinct (map key xs)" "distinct (map key ys)" "set xs = set ys"
  shows "sort_key key xs = sort_key key ys"
proof (rule map_sorted_distinct_set_unique)
  show "inj_on key (set (sort_key key xs) \<union> set (sort_key key ys))" using assms by (simp add: distinct_map)
  show "distinct (map key (sort_key key xs))" "distinct (map key (sort_key key ys))"
    using assms by (simp_all add: distinct_map)
qed (use assms in simp_all)

end
