(* ===== verification/Sock.thy ===== *)
theory Sock
  imports Endian Vmlinux Go_Lib
begin

text \<open>
  \<^verbatim>\<open>sock.c\<close> and the part of \<^verbatim>\<open>sock_handler.go\<close> that drives it: before a container is checkpointed,
  outgoing connections are blocked and the open sockets of its network namespace are destroyed. The
  two iterator programs run once per socket of the system; what they do with a socket is a function of
  the socket and the namespace of the task that reads the iterator. \<^verbatim>\<open>bpf_sock_destroy\<close> is kernel
  code: whether it closes a given socket is a parameter.
\<close>

section \<open>Sockets\<close>

text \<open>
  What the programs read of \<^verbatim>\<open>struct sock_common\<close>; \<^verbatim>\<open>skc_net.net\<close> is the number of the network
  namespace it points to, \<open>None\<close> for a null pointer.
\<close>

record sock =
  skc_net :: "u32 option"
  skc_state :: u8
  skc_dport :: be16

definition TCP_LISTEN :: u8 where
  "TCP_LISTEN = of_int (the (enum_val enum_tcp_state ''TCP_LISTEN''))"

lemma TCP_LISTEN_eq [simp]: "TCP_LISTEN = 10"
  by code_simp

section \<open>The programs\<close>

definition block_connect4 :: int where "block_connect4 = 0"
definition block_connect6 :: int where "block_connect6 = 0"

text \<open>
  Each iterator program gives its return value and whether it called \<^verbatim>\<open>bpf_sock_destroy\<close>. The last
  call of an iteration passes a null socket. \<open>tskns\<close> is the namespace of the current task, \<open>nul\<close> what
  the kernel makes of a load through a null pointer, which \<^verbatim>\<open>destroy_udp\<close> does not exclude.
\<close>

definition destroy_tcp :: "u32 \<Rightarrow> sock option \<Rightarrow> int \<times> bool" where
  "destroy_tcp tskns sk_common =
     (case sk_common of
        None \<Rightarrow> (0, False)
      | Some sk \<Rightarrow>
          (case skc_net sk of
             None \<Rightarrow> (0, False)
           | Some sockns \<Rightarrow>
               if tskns \<noteq> sockns then (0, False)
               else if skc_state sk = TCP_LISTEN then (0, False)
               else (0, True)))"

definition destroy_udp :: "byte_order \<Rightarrow> u32 \<Rightarrow> u32 \<Rightarrow> sock option \<Rightarrow> int \<times> bool" where
  "destroy_udp bo nul tskns udp_sk =
     (case udp_sk of
        None \<Rightarrow> (0, False)
      | Some sk \<Rightarrow>
          let sockns = (case skc_net sk of None \<Rightarrow> nul | Some ns \<Rightarrow> ns) in
          if tskns \<noteq> sockns then (0, False)
          else if bpf_ntohs bo False (skc_dport sk) = 0 then (0, False)
          else (0, True))"

text \<open>
  Reading an iterator: the program runs for every socket and finally for none; a socket is gone if
  the program destroyed it and the kernel could close it.
\<close>

definition run_iter :: "(sock option \<Rightarrow> int \<times> bool) \<Rightarrow> (sock \<Rightarrow> bool) \<Rightarrow> sock list \<Rightarrow> sock list" where
  "run_iter prog closes socks = filter (\<lambda>sk. \<not> (snd (prog (Some sk)) \<and> closes sk)) socks"

section \<open>The handler\<close>

text \<open>The sockets of the system, and whether connections from the container's cgroup are blocked.\<close>

record net_state =
  tcp_socks :: "sock list"
  udp_socks :: "sock list"
  blocked4 :: bool
  blocked6 :: bool

text \<open>
  \<^verbatim>\<open>destroySocks\<close>: attach the program, open the iterator and read it to the end. Any of the three can
  fail; a failing read has visited some of the sockets.
\<close>

datatype iter_io = AttachFails | OpenFails | ReadFails nat | ReadsAll

definition destroySocks ::
  "iter_io \<Rightarrow> (sock option \<Rightarrow> int \<times> bool) \<Rightarrow> (sock \<Rightarrow> bool) \<Rightarrow> sock list \<Rightarrow> (string + unit) \<times> sock list" where
  "destroySocks io prog closes socks =
     (case io of
        AttachFails \<Rightarrow> (Inl ''attach iter'', socks)
      | OpenFails \<Rightarrow> (Inl ''open iter'', socks)
      | ReadFails n \<Rightarrow> (Inl ''read'', run_iter prog closes (take n socks) @ drop n socks)
      | ReadsAll \<Rightarrow> (Inr (), run_iter prog closes socks))"

text \<open>
  \<^verbatim>\<open>DestroySocks\<close>: enter the container's namespace, which may fail (\<open>enter\<close> gives its number), and
  read both iterators there.
\<close>

definition DestroySocks ::
  "byte_order \<Rightarrow> u32 \<Rightarrow> (sock \<Rightarrow> bool) \<Rightarrow> (string \<Rightarrow> u32 option) \<Rightarrow> iter_io \<Rightarrow> iter_io \<Rightarrow> string \<Rightarrow> net_state \<Rightarrow>
   (string + unit) \<times> net_state" where
  "DestroySocks bo nul closes enter io_tcp io_udp netnsPath st =
     (case enter netnsPath of
        None \<Rightarrow> (Inl ''in netns'', st)
      | Some netns \<Rightarrow>
          (case destroySocks io_tcp (destroy_tcp netns) closes (tcp_socks st) of
             (Inl e, socks) \<Rightarrow> (Inl (''in netns: destroy tcp socks: '' @ e), st\<lparr>tcp_socks := socks\<rparr>)
           | (Inr _, socks) \<Rightarrow>
               let st = st\<lparr>tcp_socks := socks\<rparr> in
               (case destroySocks io_udp (destroy_udp bo nul netns) closes (udp_socks st) of
                  (Inl e, socks) \<Rightarrow> (Inl (''in netns: destroy tcp socks: '' @ e), st\<lparr>udp_socks := socks\<rparr>)
                | (Inr _, socks) \<Rightarrow> (Inr (), st\<lparr>udp_socks := socks\<rparr>))))"

definition cgroupData :: "string \<Rightarrow> string + string" where
  "cgroupData cgroupsPath =
     (let parts = split_on (CHR '':'') cgroupsPath in
      if length parts < 3 then Inl (''invalid cgroups path: '' @ cgroupsPath)
      else Inr (''/sys/fs/cgroup/'' @ parts ! 0 @ ''/'' @ parts ! 1 @ ''-'' @ parts ! 2 @ ''.scope/container''))"

text \<open>
  \<^verbatim>\<open>BlockNewConnections\<close>: attach the two connect programs to the container's cgroup. Attaching is a
  parameter: \<open>attach4\<close> and \<open>attach6\<close> say whether it succeeds for a path. A connection is denied when
  an attached program returns 0.
\<close>

definition BlockNewConnections ::
  "(string \<Rightarrow> bool) \<Rightarrow> (string \<Rightarrow> bool) \<Rightarrow> string \<Rightarrow> net_state \<Rightarrow> (string + unit) \<times> net_state" where
  "BlockNewConnections attach4 attach6 criCgroupsPath st =
     (case cgroupData criCgroupsPath of
        Inl e \<Rightarrow> (Inl (''cgroup data: '' @ e), st)
      | Inr cgroupPath \<Rightarrow>
          if \<not> attach4 cgroupPath then (Inl ''block ip4'', st)
          else
            let st = st\<lparr>blocked4 := block_connect4 = 0\<rparr> in
            if \<not> attach6 cgroupPath then (Inl ''block ip6'', st)
            else (Inr (), st\<lparr>blocked6 := block_connect6 = 0\<rparr>))"

section \<open>What may happen next\<close>

text \<open>
  The container goes on running: it tries to connect sockets of its own over either family, accepts
  connections on its listening sockets, and other namespaces do what they like. A connection attempt
  over a blocked family leaves no socket behind; accepting is not a connect and is not blocked.
\<close>

datatype sock_event =
    ConnectTCP bool sock
  | ConnectUDP bool sock
  | AcceptTCP sock
  | OtherTCP sock
  | OtherUDP sock

inductive sock_step :: "u32 \<Rightarrow> net_state \<Rightarrow> sock_event \<Rightarrow> net_state \<Rightarrow> bool" for ns where
  denied_tcp: "(if v6 then blocked6 st else blocked4 st) \<Longrightarrow> skc_net sk = Some ns \<Longrightarrow>
    sock_step ns st (ConnectTCP v6 sk) st"
| tcp: "\<not> (if v6 then blocked6 st else blocked4 st) \<Longrightarrow> skc_net sk = Some ns \<Longrightarrow>
    sock_step ns st (ConnectTCP v6 sk) (st\<lparr>tcp_socks := sk # tcp_socks st\<rparr>)"
| denied_udp: "(if v6 then blocked6 st else blocked4 st) \<Longrightarrow> skc_net sk = Some ns \<Longrightarrow>
    sock_step ns st (ConnectUDP v6 sk) st"
| udp: "\<not> (if v6 then blocked6 st else blocked4 st) \<Longrightarrow> skc_net sk = Some ns \<Longrightarrow>
    sock_step ns st (ConnectUDP v6 sk) (st\<lparr>udp_socks := sk # udp_socks st\<rparr>)"
| accept: "l \<in> set (tcp_socks st) \<Longrightarrow> skc_net l = Some ns \<Longrightarrow> skc_state l = TCP_LISTEN \<Longrightarrow>
    skc_net sk = Some ns \<Longrightarrow> sock_step ns st (AcceptTCP sk) (st\<lparr>tcp_socks := sk # tcp_socks st\<rparr>)"
| other_tcp: "skc_net sk \<noteq> Some ns \<Longrightarrow> sock_step ns st (OtherTCP sk) (st\<lparr>tcp_socks := sk # tcp_socks st\<rparr>)"
| other_udp: "skc_net sk \<noteq> Some ns \<Longrightarrow> sock_step ns st (OtherUDP sk) (st\<lparr>udp_socks := sk # udp_socks st\<rparr>)"

inductive sock_steps :: "u32 \<Rightarrow> net_state \<Rightarrow> sock_event list \<Rightarrow> net_state \<Rightarrow> bool" for ns where
  nil: "sock_steps ns st [] st"
| cons: "sock_step ns st e st' \<Longrightarrow> sock_steps ns st' es st'' \<Longrightarrow> sock_steps ns st (e # es) st''"

inductive_cases sock_stepE: "sock_step ns st e st'"

text \<open>The sockets a checkpoint cannot keep: the namespace's own that are connected.\<close>

definition tcp_victim :: "u32 \<Rightarrow> sock \<Rightarrow> bool" where
  "tcp_victim ns sk \<longleftrightarrow> skc_net sk = Some ns \<and> skc_state sk \<noteq> TCP_LISTEN"

definition udp_victim :: "u32 \<Rightarrow> sock \<Rightarrow> bool" where
  "udp_victim ns sk \<longleftrightarrow> skc_net sk = Some ns \<and> skc_dport sk \<noteq> 0"

definition quiet :: "u32 \<Rightarrow> net_state \<Rightarrow> bool" where
  "quiet ns st \<longleftrightarrow> blocked4 st \<and> blocked6 st \<and>
     list_all (\<lambda>sk. \<not> tcp_victim ns sk) (tcp_socks st) \<and> list_all (\<lambda>sk. \<not> udp_victim ns sk) (udp_socks st)"

section \<open>Lemmas\<close>

lemma destroy_tcp_iff: "snd (destroy_tcp ns (Some sk)) \<longleftrightarrow> tcp_victim ns sk"
  by (auto simp: destroy_tcp_def tcp_victim_def split: option.split)

lemma destroy_udp_iff:
  "skc_net sk \<noteq> None \<or> nul \<noteq> ns \<Longrightarrow> snd (destroy_udp bo nul ns (Some sk)) \<longleftrightarrow> udp_victim ns sk"
  by (auto simp: destroy_udp_def udp_victim_def Let_def split: option.split)

lemma destroy_return: "fst (destroy_tcp ns so) = 0" "fst (destroy_udp bo nul ns so) = 0"
  by (auto simp: destroy_tcp_def destroy_udp_def Let_def split: option.split)

lemma quiet_step: "sock_step ns st e st' \<Longrightarrow> quiet ns st \<Longrightarrow> \<forall>sk. e \<noteq> AcceptTCP sk \<Longrightarrow> quiet ns st'"
  by (erule sock_stepE) (auto simp: quiet_def tcp_victim_def udp_victim_def split: if_splits)

lemma quiet_steps:
  "sock_steps ns st es st' \<Longrightarrow> quiet ns st \<Longrightarrow> \<forall>sk. AcceptTCP sk \<notin> set es \<Longrightarrow> quiet ns st'"
  by (induction rule: sock_steps.induct) (auto dest: quiet_step)

text \<open>Every socket is in a namespace, or a load through a null pointer does not give this one.\<close>

definition udp_net_ok :: "u32 \<Rightarrow> u32 \<Rightarrow> net_state \<Rightarrow> bool" where
  "udp_net_ok nul ns st \<longleftrightarrow> nul \<noteq> ns \<or> list_all (\<lambda>sk. skc_net sk \<noteq> None) (udp_socks st)"

definition swept :: "u32 \<Rightarrow> (sock \<Rightarrow> bool) \<Rightarrow> net_state \<Rightarrow> net_state" where
  "swept ns closes st =
    st\<lparr>tcp_socks := filter (\<lambda>sk. \<not> (tcp_victim ns sk \<and> closes sk)) (tcp_socks st),
       udp_socks := filter (\<lambda>sk. \<not> (udp_victim ns sk \<and> closes sk)) (udp_socks st)\<rparr>"

lemma DestroySocks_swept:
  assumes "udp_net_ok nul ns st" "enter path = Some ns" "fst (DestroySocks bo nul closes enter i1 i2 path st) = Inr ()"
  shows "snd (DestroySocks bo nul closes enter i1 i2 path st) = swept ns closes st"
proof -
  have "filter (\<lambda>sk. \<not> (snd (destroy_udp bo nul ns (Some sk)) \<and> closes sk)) (udp_socks st) =
      filter (\<lambda>sk. \<not> (udp_victim ns sk \<and> closes sk)) (udp_socks st)"
    using assms(1) by (intro filter_cong refl) (auto simp: udp_net_ok_def list_all_iff destroy_udp_iff)
  moreover have "i1 = ReadsAll" "i2 = ReadsAll"
    using assms(2,3) by (auto simp: DestroySocks_def destroySocks_def Let_def split: iter_io.splits)
  ultimately show ?thesis
    using assms(2) by (simp add: DestroySocks_def destroySocks_def run_iter_def destroy_tcp_iff swept_def)
qed

text \<open>Even a run that fails half-way removes only sockets it may remove.\<close>

lemma destroySocks_keeps:
  "sk \<in> set socks \<Longrightarrow> \<not> snd (prog (Some sk)) \<Longrightarrow> sk \<in> set (snd (destroySocks io prog closes socks))"
  by (auto simp: destroySocks_def run_iter_def split: iter_io.split)
    (metis append_take_drop_id Un_iff set_append)

lemma DestroySocks_keeps:
  assumes "udp_net_ok nul ns st" "enter path = Some ns"
    and "st' = snd (DestroySocks bo nul closes enter i1 i2 path st)"
  shows "{sk \<in> set (tcp_socks st). \<not> tcp_victim ns sk} \<subseteq> set (tcp_socks st')"
    "{sk \<in> set (udp_socks st). \<not> udp_victim ns sk} \<subseteq> set (udp_socks st')"
proof -
  have u: "\<not> snd (destroy_udp bo nul ns (Some sk))" if "sk \<in> set (udp_socks st)" "\<not> udp_victim ns sk" for sk
    using assms(1) that by (auto simp: udp_net_ok_def list_all_iff destroy_udp_iff)
  show "{sk \<in> set (tcp_socks st). \<not> tcp_victim ns sk} \<subseteq> set (tcp_socks st')"
    using destroySocks_keeps [of _ "tcp_socks st" "destroy_tcp ns" i1 closes] assms(2,3)
    by (auto simp: DestroySocks_def Let_def destroy_tcp_iff split: prod.splits sum.splits)
  show "{sk \<in> set (udp_socks st). \<not> udp_victim ns sk} \<subseteq> set (udp_socks st')"
    using destroySocks_keeps [of _ "udp_socks st" "destroy_udp bo nul ns" i2 closes] assms(2,3) u
    by (auto simp: DestroySocks_def Let_def split: prod.splits sum.splits)
qed

lemma BlockNewConnections_ok:
  "fst (BlockNewConnections a4 a6 path st) = Inr () \<Longrightarrow>
   snd (BlockNewConnections a4 a6 path st) = st\<lparr>blocked4 := True, blocked6 := True\<rparr>"
  by (auto simp: BlockNewConnections_def block_connect4_def block_connect6_def Let_def split: sum.splits if_splits)

definition sample_socks :: net_state where
  "sample_socks =
     \<lparr>tcp_socks = [\<lparr>skc_net = Some 1, skc_state = 10, skc_dport = 0\<rparr>,
        \<lparr>skc_net = Some 1, skc_state = 1, skc_dport = 80\<rparr>, \<lparr>skc_net = Some 2, skc_state = 1, skc_dport = 80\<rparr>],
      udp_socks = [\<lparr>skc_net = Some 1, skc_state = 1, skc_dport = 53\<rparr>, \<lparr>skc_net = Some 1, skc_state = 7, skc_dport = 0\<rparr>],
      blocked4 = False, blocked6 = False\<rparr>"

section \<open>Properties\<close>

text \<open>
  C24. \<^verbatim>\<open>DestroySocks\<close> removes the sockets it is meant to remove and no others: whether or not it
  fails on the way, listening sockets, unconnected UDP sockets and all sockets of other namespaces
  stay; and when it succeeds, every TCP socket of the container's namespace that does not listen and
  every UDP socket of it with a destination port is gone, as far as the kernel can close it. For UDP
  this needs every socket to have a namespace, or that a load through a null pointer does not yield
  the container's namespace number: \<^verbatim>\<open>destroy_udp\<close> lacks the check \<^verbatim>\<open>destroy_tcp\<close> has.
\<close>

theorem destroy_socks_exact:
  assumes "udp_net_ok nul ns st" "enter path = Some ns"
    and "DestroySocks bo nul closes enter i1 i2 path st = (res, st')"
  shows "{sk \<in> set (tcp_socks st). skc_net sk \<noteq> Some ns \<or> skc_state sk = TCP_LISTEN} \<subseteq> set (tcp_socks st') \<and>
    {sk \<in> set (udp_socks st). skc_net sk \<noteq> Some ns \<or> skc_dport sk = 0} \<subseteq> set (udp_socks st') \<and>
    (res = Inr () \<longrightarrow>
      set (tcp_socks st') = {sk \<in> set (tcp_socks st). skc_net sk \<noteq> Some ns \<or> skc_state sk = TCP_LISTEN \<or> \<not> closes sk} \<and>
      set (udp_socks st') = {sk \<in> set (udp_socks st). skc_net sk \<noteq> Some ns \<or> skc_dport sk = 0 \<or> \<not> closes sk})"
proof -
  have st': "st' = snd (DestroySocks bo nul closes enter i1 i2 path st)" using assms(3) by simp
  show ?thesis
    using DestroySocks_keeps [where enter = enter, OF assms(1,2) st']
      DestroySocks_swept [where enter = enter, OF assms(1,2), of bo closes i1 i2] assms(3)
    by (auto simp: tcp_victim_def udp_victim_def swept_def)
qed

theorem destroy_socks_exact_witness:
  "\<exists>st'. DestroySocks LE 0 (\<lambda>_. True) (\<lambda>_. Some 1) ReadsAll ReadsAll ''/run/netns/c'' sample_socks = (Inr (), st') \<and>
     set (udp_socks st') = {sk \<in> set (udp_socks sample_socks). skc_net sk \<noteq> Some 1 \<or> skc_dport sk = 0}"
proof -
  obtain st' where d:
    "DestroySocks LE 0 (\<lambda>_. True) (\<lambda>_. Some 1) ReadsAll ReadsAll ''/run/netns/c'' sample_socks = (Inr (), st')"
    by (simp add: DestroySocks_def destroySocks_def)
  then show ?thesis
    using destroy_socks_exact [of 0 1 sample_socks "\<lambda>_. Some 1", OF _ _ d] by (auto simp: udp_net_ok_def)
qed



text \<open>
  \<^verbatim>\<open>cgroupData\<close>: of a path \<^verbatim>\<open>slice:runtime:id\<close> it builds the directory of the container's scope,
  ignoring anything behind a third colon, and it rejects exactly the paths with fewer than two colons.
\<close>

theorem cgroupData_spec:
  "(CHR '':'' \<notin> set a \<longrightarrow> CHR '':'' \<notin> set b \<longrightarrow> CHR '':'' \<notin> set c \<longrightarrow>
     cgroupData (a @ '':'' @ b @ '':'' @ c) = Inr (''/sys/fs/cgroup/'' @ a @ ''/'' @ b @ ''-'' @ c @ ''.scope/container'') \<and>
     cgroupData (a @ '':'' @ b @ '':'' @ c @ '':'' @ d) =
       Inr (''/sys/fs/cgroup/'' @ a @ ''/'' @ b @ ''-'' @ c @ ''.scope/container'')) \<and>
   (\<forall>s. (\<exists>e. cgroupData s = Inl e) \<longleftrightarrow> length (filter ((=) (CHR '':'')) s) < 2)"
proof (intro conjI impI allI)
  fix s
  have "length (split_on x t) = Suc (length (filter ((=) x) t))" for x t
    by (induction t) (auto split: list.split)
  then show "(\<exists>e. cgroupData s = Inl e) \<longleftrightarrow> length (filter ((=) (CHR '':'')) s) < 2"
    by (auto simp: cgroupData_def Let_def)
qed (simp_all add: cgroupData_def Let_def split_on_append split_on_free)

theorem cgroupData_spec_witness:
  "cgroupData (''system.slice'' @ '':'' @ ''crio'' @ '':'' @ ''abc'') =
     Inr (''/sys/fs/cgroup/'' @ ''system.slice'' @ ''/'' @ ''crio'' @ ''-'' @ ''abc'' @ ''.scope/container'')"
  using cgroupData_spec [of "''system.slice''" "''crio''" "''abc''" "[]"] by simp

end
