(* ===== verification/Objects.thy ===== *)
theory Objects
  imports Dnat Snat Tproxy
begin

text \<open>
  The map operations of \<^verbatim>\<open>objects.go\<close>: what user space writes into the maps the programs read. The maps
  themselves are kernel objects, a parameter with the contract of \<open>bpf_hash_map\<close>, one per map with its
  own capacity. Go's conversions of addresses and indices are spelled out, with the panics they can end
  in. The abstract view is a registry of workloads by host port, which \<^verbatim>\<open>AddNetData\<close> and
  \<^verbatim>\<open>DelNetData\<close> implement with two entries per workload.
\<close>

section \<open>Go values\<close>

datatype go_error = Panic | Err string map_error

type_synonym 'a go_result = "go_error + 'a"

record go_peer =
  Index :: int
  HardwareAddr :: "byte list"
  Addr :: "byte list"

record VethPair =
  HostPeer :: go_peer
  PodPeer :: go_peer

record NetData =
  Veth :: VethPair
  HostPort :: u16

text \<open>\<^verbatim>\<open>net.IP.To4\<close>: the four bytes of an IPv4 address in either of its forms, else nil.\<close>

definition To4 :: "byte list \<Rightarrow> byte list option" where
  "To4 ip =
     (if length ip = 4 then Some ip
      else if length ip = 16 \<and> take 10 ip = replicate 10 0 \<and> read_at 10 2 ip = [255, 255] then Some (drop 12 ip)
      else None)"

text \<open>\<^verbatim>\<open>binary.BigEndian.Uint32\<close> panics on nil.\<close>

definition ipToInt :: "byte list \<Rightarrow> u32 option" where
  "ipToInt ip = map_option (load32 BE) (To4 ip)"

definition intToIP :: "u32 \<Rightarrow> byte list" where
  "intToIP val = store32 BE val"

text \<open>The conversion \<^verbatim>\<open>[6]byte(mac)\<close> panics on a shorter slice and drops what is behind six bytes.\<close>

definition mac6 :: "byte list \<Rightarrow> byte list option" where
  "mac6 mac = (if length mac < 6 then None else Some (take 6 mac))"

definition peer_value :: "go_peer \<Rightarrow> veth_peer option" where
  "peer_value p = do {
     addr \<leftarrow> ipToInt (Addr p);
     mac \<leftarrow> mac6 (HardwareAddr p);
     Some \<lparr>if_index = of_int (Index p), if_addr = addr, peer_mac = mac\<rparr>
   }"

definition netDataToMapValue :: "NetData \<Rightarrow> net_data option" where
  "netDataToMapValue data = do {
     pod \<leftarrow> peer_value (PodPeer (Veth data));
     host \<leftarrow> peer_value (HostPeer (Veth data));
     Some \<lparr>pod_peer = pod, host_peer = host, host_port = HostPort data\<rparr>
   }"

section \<open>The maps\<close>

record ('n, 'd, 's, 'v) bpf_ops =
  nd_ops :: "('n, u32, net_data) bpf_hash"
  dnat_ops :: "('d, u16, dnat_target) bpf_hash"
  snat_ops :: "('s, u8, ptp_snat_entry) bpf_hash"
  veth_ops :: "('v, u32, veth_pair) bpf_hash"

record ('n, 'd, 's, 'v) Objects =
  NetDataMap :: 'n
  PtpDnatTargets :: 'd
  PtpSnatConfig :: 's
  VethPairMap :: 'v

text \<open>Running one map operation whose error is wrapped with a text.\<close>

definition wrap :: "string \<Rightarrow> map_error + 'a \<Rightarrow> 'a go_result" where
  "wrap msg r = (case r of Inl e \<Rightarrow> Inl (Err msg e) | Inr x \<Rightarrow> Inr x)"

section \<open>The operations\<close>

text \<open>Each gives its result and the objects afterwards: an error can come after a first write.\<close>

definition AddNetData ::
  "('n, 'd, 's, 'v) bpf_ops \<Rightarrow> NetData \<Rightarrow> ('n, 'd, 's, 'v) Objects \<Rightarrow> unit go_result \<times> ('n, 'd, 's, 'v) Objects" where
  "AddNetData B data obj =
     (case netDataToMapValue data of
        None \<Rightarrow> (Inl Panic, obj)
      | Some v \<Rightarrow>
          let podPeerAddr = if_addr (pod_peer v) in
          (case wrap ''add dnat by port'' (map_update (nd_ops B) (NetDataMap obj) (ucast (HostPort data)) v) of
             Inl e \<Rightarrow> (Inl e, obj)
           | Inr m \<Rightarrow>
               let obj = obj\<lparr>NetDataMap := m\<rparr> in
               (case wrap ''add dnat by addr'' (map_update (nd_ops B) (NetDataMap obj) podPeerAddr v) of
                  Inl e \<Rightarrow> (Inl e, obj)
                | Inr m \<Rightarrow> (Inr (), obj\<lparr>NetDataMap := m\<rparr>))))"

definition GetNetData ::
  "('n, 'd, 's, 'v) bpf_ops \<Rightarrow> u16 \<Rightarrow> ('n, 'd, 's, 'v) Objects \<Rightarrow> NetData go_result" where
  "GetNetData B port obj =
     (case map_lookup (nd_ops B) (NetDataMap obj) (ucast port) of
        None \<Rightarrow> Inl (Err ''get by port'' ENOENT)
      | Some v \<Rightarrow> Inr
          \<lparr>Veth = \<lparr>HostPeer = \<lparr>Index = uint (if_index (host_peer v)), HardwareAddr = peer_mac (host_peer v),
                       Addr = intToIP (if_addr (host_peer v))\<rparr>,
                   PodPeer = \<lparr>Index = uint (if_index (pod_peer v)), HardwareAddr = peer_mac (pod_peer v),
                       Addr = intToIP (if_addr (pod_peer v))\<rparr>\<rparr>,
           HostPort = host_port v\<rparr>)"

definition DelNetData ::
  "('n, 'd, 's, 'v) bpf_ops \<Rightarrow> NetData \<Rightarrow> ('n, 'd, 's, 'v) Objects \<Rightarrow> unit go_result \<times> ('n, 'd, 's, 'v) Objects" where
  "DelNetData B data obj =
     (case ipToInt (Addr (PodPeer (Veth data))) of
        None \<Rightarrow> (Inl Panic, obj)
      | Some podPeerAddr \<Rightarrow>
          (case wrap ''remove by port'' (map_delete (nd_ops B) (NetDataMap obj) (ucast (HostPort data))) of
             Inl e \<Rightarrow> (Inl e, obj)
           | Inr m \<Rightarrow>
               let obj = obj\<lparr>NetDataMap := m\<rparr> in
               (case wrap ''remove by addr'' (map_delete (nd_ops B) (NetDataMap obj) podPeerAddr) of
                  Inl e \<Rightarrow> (Inl e, obj)
                | Inr m \<Rightarrow> (Inr (), obj\<lparr>NetDataMap := m\<rparr>))))"

definition AddDNATTarget ::
  "('n, 'd, 's, 'v) bpf_ops \<Rightarrow> u16 \<Rightarrow> byte list \<Rightarrow> u8 \<Rightarrow> byte list \<Rightarrow> ('n, 'd, 's, 'v) Objects \<Rightarrow>
   unit go_result \<times> ('n, 'd, 's, 'v) Objects" where
  "AddDNATTarget B key ip ifaceIdx mac obj =
     (case (ipToInt ip, mac6 mac) of
        (Some a, Some m) \<Rightarrow>
          (case wrap '''' (map_update (dnat_ops B) (PtpDnatTargets obj) key
                  \<lparr>tgt_ip_addr = a, tgt_iface_idx = ifaceIdx, tgt_mac_addr = m\<rparr>) of
             Inl e \<Rightarrow> (Inl e, obj)
           | Inr d \<Rightarrow> (Inr (), obj\<lparr>PtpDnatTargets := d\<rparr>))
      | _ \<Rightarrow> (Inl Panic, obj))"

definition DelDNATTarget ::
  "('n, 'd, 's, 'v) bpf_ops \<Rightarrow> u16 \<Rightarrow> ('n, 'd, 's, 'v) Objects \<Rightarrow> unit go_result \<times> ('n, 'd, 's, 'v) Objects" where
  "DelDNATTarget B port obj =
     (case wrap '''' (map_delete (dnat_ops B) (PtpDnatTargets obj) port) of
        Inl e \<Rightarrow> (Inl e, obj)
      | Inr d \<Rightarrow> (Inr (), obj\<lparr>PtpDnatTargets := d\<rparr>))"

definition AddSNATTarget ::
  "('n, 'd, 's, 'v) bpf_ops \<Rightarrow> u8 \<Rightarrow> byte list \<Rightarrow> u8 \<Rightarrow> ('n, 'd, 's, 'v) Objects \<Rightarrow>
   unit go_result \<times> ('n, 'd, 's, 'v) Objects" where
  "AddSNATTarget B key ip ifaceIdx obj =
     (case ipToInt ip of
        None \<Rightarrow> (Inl Panic, obj)
      | Some a \<Rightarrow>
          (case wrap '''' (map_update (snat_ops B) (PtpSnatConfig obj) key
                  \<lparr>snat_ip_addr = a, snat_iface_idx = ifaceIdx\<rparr>) of
             Inl e \<Rightarrow> (Inl e, obj)
           | Inr s \<Rightarrow> (Inr (), obj\<lparr>PtpSnatConfig := s\<rparr>)))"

definition DelSNATTarget ::
  "('n, 'd, 's, 'v) bpf_ops \<Rightarrow> u8 \<Rightarrow> ('n, 'd, 's, 'v) Objects \<Rightarrow> unit go_result \<times> ('n, 'd, 's, 'v) Objects" where
  "DelSNATTarget B key obj =
     (case wrap '''' (map_delete (snat_ops B) (PtpSnatConfig obj) key) of
        Inl e \<Rightarrow> (Inl e, obj)
      | Inr s \<Rightarrow> (Inr (), obj\<lparr>PtpSnatConfig := s\<rparr>))"

definition AddVethPairEntry ::
  "('n, 'd, 's, 'v) bpf_ops \<Rightarrow> VethPair \<Rightarrow> ('n, 'd, 's, 'v) Objects \<Rightarrow> unit go_result \<times> ('n, 'd, 's, 'v) Objects" where
  "AddVethPairEntry B veth obj =
     (case ipToInt (Addr (HostPeer veth)) of
        None \<Rightarrow> (Inl Panic, obj)
      | Some a \<Rightarrow>
          let mapValue = \<lparr>host_if_index = of_int (Index (HostPeer veth)), host_if_addr = a\<rparr> in
          (case wrap ''host'' (map_update (veth_ops B) (VethPairMap obj) (of_int (Index (HostPeer veth))) mapValue) of
             Inl e \<Rightarrow> (Inl e, obj)
           | Inr m \<Rightarrow>
               let obj = obj\<lparr>VethPairMap := m\<rparr> in
               (case wrap ''pod'' (map_update (veth_ops B) (VethPairMap obj) (of_int (Index (PodPeer veth))) mapValue) of
                  Inl e \<Rightarrow> (Inl e, obj)
                | Inr m \<Rightarrow> (Inr (), obj\<lparr>VethPairMap := m\<rparr>))))"

definition DelVethPairEntry ::
  "('n, 'd, 's, 'v) bpf_ops \<Rightarrow> VethPair \<Rightarrow> ('n, 'd, 's, 'v) Objects \<Rightarrow> unit go_result \<times> ('n, 'd, 's, 'v) Objects" where
  "DelVethPairEntry B veth obj =
     (case wrap ''delete using host peer index'' (map_delete (veth_ops B) (VethPairMap obj) (of_int (Index (HostPeer veth)))) of
        Inl e \<Rightarrow> (Inl e, obj)
      | Inr m \<Rightarrow>
          let obj = obj\<lparr>VethPairMap := m\<rparr> in
          (case wrap ''delete using pod peer index'' (map_delete (veth_ops B) (VethPairMap obj) (of_int (Index (PodPeer veth)))) of
             Inl e \<Rightarrow> (Inl e, obj)
           | Inr m \<Rightarrow> (Inr (), obj\<lparr>VethPairMap := m\<rparr>)))"

section \<open>The contract of the maps\<close>

definition obj_inv ::
  "('n \<Rightarrow> bool) \<Rightarrow> ('d \<Rightarrow> bool) \<Rightarrow> ('s \<Rightarrow> bool) \<Rightarrow> ('v \<Rightarrow> bool) \<Rightarrow> ('n, 'd, 's, 'v) Objects \<Rightarrow> bool" where
  "obj_inv nd_inv dn_inv sn_inv ve_inv obj \<longleftrightarrow> nd_inv (NetDataMap obj) \<and> dn_inv (PtpDnatTargets obj) \<and>
     sn_inv (PtpSnatConfig obj) \<and> ve_inv (VethPairMap obj)"

text \<open>What the programs find in the maps.\<close>

definition nd_of :: "('n, 'd, 's, 'v) bpf_ops \<Rightarrow> ('n, 'd, 's, 'v) Objects \<Rightarrow> u32 \<rightharpoonup> net_data" where
  "nd_of B obj = map_lookup (nd_ops B) (NetDataMap obj)"

definition dnat_of :: "('n, 'd, 's, 'v) bpf_ops \<Rightarrow> ('n, 'd, 's, 'v) Objects \<Rightarrow> u16 \<rightharpoonup> dnat_target" where
  "dnat_of B obj = map_lookup (dnat_ops B) (PtpDnatTargets obj)"

definition snat_of :: "('n, 'd, 's, 'v) bpf_ops \<Rightarrow> ('n, 'd, 's, 'v) Objects \<Rightarrow> u8 \<rightharpoonup> ptp_snat_entry" where
  "snat_of B obj = map_lookup (snat_ops B) (PtpSnatConfig obj)"

definition veth_of :: "('n, 'd, 's, 'v) bpf_ops \<Rightarrow> ('n, 'd, 's, 'v) Objects \<Rightarrow> u32 \<rightharpoonup> veth_pair" where
  "veth_of B obj = map_lookup (veth_ops B) (VethPairMap obj)"

lemmas map_views = nd_of_def dnat_of_def snat_of_def veth_of_def

lemma wrap_simps [simp]:
  "wrap msg (Inl e) = Inl (Err msg e)" "wrap msg (Inr x) = Inr x"
  "wrap msg r = Inr x \<longleftrightarrow> r = Inr x" "wrap msg r = Inl e' \<longleftrightarrow> (\<exists>e. r = Inl e \<and> e' = Err msg e)"
  by (auto simp: wrap_def split: sum.split)

locale datapath_maps =
  nd: bpf_hash_map "nd_ops B" net_data_max_entries nd_inv +
  dn: bpf_hash_map "dnat_ops B" dnat_targets_max_entries dn_inv +
  sn: bpf_hash_map "snat_ops B" snat_config_max_entries sn_inv +
  ve: bpf_hash_map "veth_ops B" veth_pair_max_entries ve_inv
  for B :: "('n, 'd, 's, 'v) bpf_ops" and nd_inv dn_inv sn_inv ve_inv
begin

abbreviation "good \<equiv> obj_inv nd_inv dn_inv sn_inv ve_inv"

text \<open>The laws as introduction rules for the invariant and as rewrite rules for the contents.\<close>

lemma map_inv:
  "nd_inv n \<Longrightarrow> map_update (nd_ops B) n k v = Inr n' \<Longrightarrow> nd_inv n'"
  "nd_inv n \<Longrightarrow> map_delete (nd_ops B) n k = Inr n' \<Longrightarrow> nd_inv n'"
  "dn_inv d \<Longrightarrow> map_update (dnat_ops B) d p t = Inr d' \<Longrightarrow> dn_inv d'"
  "dn_inv d \<Longrightarrow> map_delete (dnat_ops B) d p = Inr d' \<Longrightarrow> dn_inv d'"
  "sn_inv s \<Longrightarrow> map_update (snat_ops B) s i e = Inr s' \<Longrightarrow> sn_inv s'"
  "sn_inv s \<Longrightarrow> map_delete (snat_ops B) s i = Inr s' \<Longrightarrow> sn_inv s'"
  "ve_inv w \<Longrightarrow> map_update (veth_ops B) w k x = Inr w' \<Longrightarrow> ve_inv w'"
  "ve_inv w \<Longrightarrow> map_delete (veth_ops B) w k = Inr w' \<Longrightarrow> ve_inv w'"
  by (rule nd.update_lookup [THEN conjunct1] nd.delete_lookup [THEN conjunct1] dn.update_lookup [THEN conjunct1]
      dn.delete_lookup [THEN conjunct1] sn.update_lookup [THEN conjunct1] sn.delete_lookup [THEN conjunct1]
      ve.update_lookup [THEN conjunct1] ve.delete_lookup [THEN conjunct1]; assumption)+

lemma map_contents:
  "nd_inv n \<Longrightarrow> map_update (nd_ops B) n k v = Inr n' \<Longrightarrow> map_lookup (nd_ops B) n' = (map_lookup (nd_ops B) n)(k \<mapsto> v)"
  "nd_inv n \<Longrightarrow> map_delete (nd_ops B) n k = Inr n' \<Longrightarrow> map_lookup (nd_ops B) n' = (map_lookup (nd_ops B) n)(k := None)"
  "dn_inv d \<Longrightarrow> map_update (dnat_ops B) d p t = Inr d' \<Longrightarrow> map_lookup (dnat_ops B) d' = (map_lookup (dnat_ops B) d)(p \<mapsto> t)"
  "dn_inv d \<Longrightarrow> map_delete (dnat_ops B) d p = Inr d' \<Longrightarrow> map_lookup (dnat_ops B) d' = (map_lookup (dnat_ops B) d)(p := None)"
  "sn_inv s \<Longrightarrow> map_update (snat_ops B) s i e = Inr s' \<Longrightarrow> map_lookup (snat_ops B) s' = (map_lookup (snat_ops B) s)(i \<mapsto> e)"
  "sn_inv s \<Longrightarrow> map_delete (snat_ops B) s i = Inr s' \<Longrightarrow> map_lookup (snat_ops B) s' = (map_lookup (snat_ops B) s)(i := None)"
  "ve_inv w \<Longrightarrow> map_update (veth_ops B) w k x = Inr w' \<Longrightarrow> map_lookup (veth_ops B) w' = (map_lookup (veth_ops B) w)(k \<mapsto> x)"
  "ve_inv w \<Longrightarrow> map_delete (veth_ops B) w k = Inr w' \<Longrightarrow> map_lookup (veth_ops B) w' = (map_lookup (veth_ops B) w)(k := None)"
  by (rule nd.update_lookup [THEN conjunct2] nd.delete_lookup [THEN conjunct2] dn.update_lookup [THEN conjunct2]
      dn.delete_lookup [THEN conjunct2] sn.update_lookup [THEN conjunct2] sn.delete_lookup [THEN conjunct2]
      ve.update_lookup [THEN conjunct2] ve.delete_lookup [THEN conjunct2]; assumption)+

lemma ops_inv:
  assumes "good obj"
  shows "good (snd (AddNetData B data obj))" "good (snd (DelNetData B data obj))"
    "good (snd (AddDNATTarget B key ip idx mac obj))" "good (snd (DelDNATTarget B key obj))"
    "good (snd (AddSNATTarget B k ip idx obj))" "good (snd (DelSNATTarget B k obj))"
    "good (snd (AddVethPairEntry B veth obj))" "good (snd (DelVethPairEntry B veth obj))"
  using assms
  by (simp_all add: obj_inv_def AddNetData_def DelNetData_def AddDNATTarget_def DelDNATTarget_def AddSNATTarget_def
      DelSNATTarget_def AddVethPairEntry_def DelVethPairEntry_def Let_def wrap_def split: option.split sum.split)
    (blast intro: map_inv)+

lemma AddNetData_ok:
  assumes "good obj" "AddNetData B data obj = (Inr (), obj')"
  obtains v where "netDataToMapValue data = Some v"
    "nd_of B obj' = (nd_of B obj)(ucast (HostPort data) \<mapsto> v, if_addr (pod_peer v) \<mapsto> v)"
    "dnat_of B obj' = dnat_of B obj" "snat_of B obj' = snat_of B obj" "veth_of B obj' = veth_of B obj"
proof -
  obtain v n1 n2 where v: "netDataToMapValue data = Some v"
    and u: "map_update (nd_ops B) (NetDataMap obj) (ucast (HostPort data)) v = Inr n1"
      "map_update (nd_ops B) n1 (if_addr (pod_peer v)) v = Inr n2" "obj' = obj\<lparr>NetDataMap := n2\<rparr>"
    using assms(2) by (auto simp: AddNetData_def Let_def split: option.splits sum.splits)
  have i: "nd_inv (NetDataMap obj)" using assms(1) by (simp add: obj_inv_def)
  note L = map_contents(1) [OF i u(1)] map_contents(1) [OF map_inv(1) [OF i u(1)] u(2)]
  show thesis by (rule that [OF v]) (simp_all add: map_views u(3) L)
qed

lemma DelNetData_ok:
  assumes "good obj" "DelNetData B data obj = (Inr (), obj')"
  obtains a where "ipToInt (Addr (PodPeer (Veth data))) = Some a"
    "nd_of B obj' = (nd_of B obj)(ucast (HostPort data) := None, a := None)"
    "dnat_of B obj' = dnat_of B obj" "snat_of B obj' = snat_of B obj" "veth_of B obj' = veth_of B obj"
proof -
  obtain a n1 n2 where a: "ipToInt (Addr (PodPeer (Veth data))) = Some a"
    and u: "map_delete (nd_ops B) (NetDataMap obj) (ucast (HostPort data)) = Inr n1"
      "map_delete (nd_ops B) n1 a = Inr n2" "obj' = obj\<lparr>NetDataMap := n2\<rparr>"
    using assms(2) by (auto simp: DelNetData_def Let_def split: option.splits sum.splits)
  have i: "nd_inv (NetDataMap obj)" using assms(1) by (simp add: obj_inv_def)
  note L = map_contents(2) [OF i u(1)] map_contents(2) [OF map_inv(2) [OF i u(1)] u(2)]
  show thesis by (rule that [OF a]) (simp_all add: map_views u(3) L)
qed

end

definition alist_ops :: "((u32 \<times> net_data) list, (u16 \<times> dnat_target) list, (u8 \<times> ptp_snat_entry) list,
    (u32 \<times> veth_pair) list) bpf_ops" where
  "alist_ops = \<lparr>nd_ops = alist_hash net_data_max_entries, dnat_ops = alist_hash dnat_targets_max_entries,
     snat_ops = alist_hash snat_config_max_entries, veth_ops = alist_hash veth_pair_max_entries\<rparr>"

interpretation alist_maps: datapath_maps alist_ops "alist_inv net_data_max_entries"
  "alist_inv dnat_targets_max_entries" "alist_inv snat_config_max_entries" "alist_inv veth_pair_max_entries"
  by (simp add: datapath_maps_def alist_ops_def alist.bpf_hash_map_axioms)

end
