(* ===== verification/Registry.thy ===== *)
theory Registry
  imports Objects
begin

text \<open>
  What \<^verbatim>\<open>net_data_map\<close> means: a registry of workloads by host port. Every workload has two entries, one
  under its port and one under the address of its pod, so the map represents the registry only if
  addresses are not taken for ports and no two workloads share one. \<^verbatim>\<open>AddNetData\<close> and
  \<^verbatim>\<open>DelNetData\<close> then refine adding to and deleting from the registry.
\<close>

section \<open>The abstract registry\<close>

type_synonym registry = "u16 \<rightharpoonup> net_data"

definition pod_addr :: "net_data \<Rightarrow> u32" where
  "pod_addr v = if_addr (pod_peer v)"

definition registry_ok :: "registry \<Rightarrow> bool" where
  "registry_ok reg \<longleftrightarrow>
     (\<forall>p v. reg p = Some v \<longrightarrow> host_port v = p \<and> 65536 \<le> unat (pod_addr v)) \<and>
     (\<forall>p q v w. reg p = Some v \<longrightarrow> reg q = Some w \<longrightarrow> pod_addr v = pod_addr w \<longrightarrow> p = q)"

definition represents :: "(u32 \<rightharpoonup> net_data) \<Rightarrow> registry \<Rightarrow> bool" where
  "represents m reg \<longleftrightarrow>
     (\<forall>k v. m k = Some v \<longleftrightarrow> (\<exists>p. reg p = Some v \<and> (k = ucast p \<or> k = pod_addr v)))"

text \<open>
  Adding and deleting at the level of the registry. A workload can be added if its port is free, its
  address is new and no port number, and the map has two entries left; it is deleted under the port and
  address it was added with.
\<close>

datatype reg_event = RegAdd NetData | RegDel NetData

inductive reg_step :: "registry \<Rightarrow> reg_event \<Rightarrow> registry \<Rightarrow> bool" where
  reg_add: "netDataToMapValue data = Some v \<Longrightarrow> reg (HostPort data) = None \<Longrightarrow>
    registry_ok (reg(HostPort data \<mapsto> v)) \<Longrightarrow> 2 * card (dom reg) + 2 \<le> net_data_max_entries \<Longrightarrow>
    reg_step reg (RegAdd data) (reg(HostPort data \<mapsto> v))"
| reg_del: "reg (HostPort data) = Some v \<Longrightarrow> ipToInt (Addr (PodPeer (Veth data))) = Some (pod_addr v) \<Longrightarrow>
    reg_step reg (RegDel data) (reg(HostPort data := None))"

inductive reg_steps :: "registry \<Rightarrow> reg_event list \<Rightarrow> registry \<Rightarrow> bool" where
  reg_done: "reg_steps reg [] reg"
| reg_more: "reg_step reg e reg' \<Longrightarrow> reg_steps reg' es reg'' \<Longrightarrow> reg_steps reg (e # es) reg''"

inductive_simps reg_steps_Nil [simp]: "reg_steps reg [] reg'"

definition reg_run1 ::
  "('n, 'd, 's, 'v) bpf_ops \<Rightarrow> reg_event \<Rightarrow> ('n, 'd, 's, 'v) Objects \<Rightarrow> unit go_result \<times> ('n, 'd, 's, 'v) Objects" where
  "reg_run1 B e obj = (case e of RegAdd data \<Rightarrow> AddNetData B data obj | RegDel data \<Rightarrow> DelNetData B data obj)"

fun reg_run ::
  "('n, 'd, 's, 'v) bpf_ops \<Rightarrow> reg_event list \<Rightarrow> ('n, 'd, 's, 'v) Objects \<Rightarrow> unit go_result \<times> ('n, 'd, 's, 'v) Objects" where
  "reg_run B [] obj = (Inr (), obj)"
| "reg_run B (e # es) obj =
     (case reg_run1 B e obj of (Inl x, obj') \<Rightarrow> (Inl x, obj') | (Inr _, obj') \<Rightarrow> reg_run B es obj')"

text \<open>A workload as the CNI plugin describes it, in Go's canonical form.\<close>

definition canonical_peer :: "go_peer \<Rightarrow> bool" where
  "canonical_peer p \<longleftrightarrow> length (Addr p) = 4 \<and> length (HardwareAddr p) = 6 \<and> 0 \<le> Index p \<and> Index p < 4294967296"

definition canonical :: "NetData \<Rightarrow> bool" where
  "canonical data \<longleftrightarrow> canonical_peer (HostPeer (Veth data)) \<and> canonical_peer (PodPeer (Veth data))"

text \<open>Two workloads, and objects in which one entry of \<^verbatim>\<open>net_data_map\<close> is left.\<close>

definition sample_pod :: "u16 \<Rightarrow> u8 \<Rightarrow> NetData" where
  "sample_pod port i =
     \<lparr>Veth = \<lparr>HostPeer = \<lparr>Index = 20 + uint i, HardwareAddr = [2, 0, 0, 0, 0, i], Addr = [10, 0, 0, 1]\<rparr>,
              PodPeer = \<lparr>Index = 40 + uint i, HardwareAddr = [2, 0, 0, 0, 1, i], Addr = [10, 0, 0, i]\<rparr>\<rparr>,
      HostPort = port\<rparr>"

definition empty_objects ::
  "((u32 \<times> net_data) list, (u16 \<times> dnat_target) list, (u8 \<times> ptp_snat_entry) list, (u32 \<times> veth_pair) list) Objects" where
  "empty_objects = \<lparr>NetDataMap = [], PtpDnatTargets = [], PtpSnatConfig = [], VethPairMap = []\<rparr>"

definition crowded_objects ::
  "net_data \<Rightarrow> ((u32 \<times> net_data) list, (u16 \<times> dnat_target) list, (u8 \<times> ptp_snat_entry) list, (u32 \<times> veth_pair) list) Objects" where
  "crowded_objects v = empty_objects\<lparr>NetDataMap := map (\<lambda>i. (of_nat i, v)) [0 ..< 255]\<rparr>"

section \<open>Lemmas\<close>

lemma ucast_port_neq: "65536 \<le> unat a \<Longrightarrow> ucast (p :: u16) \<noteq> (a :: u32)"
proof
  assume "65536 \<le> unat a" "ucast p = a"
  moreover have "unat (ucast p :: u32) = unat p"
    by (simp add: unsigned_ucast_eq take_bit_nat_eq_self_iff order_less_trans [OF unat_u16_less])
  ultimately show False using unat_u16_less [of p] by auto
qed

lemma ucast_port_inj: "(ucast (p :: u16) :: u32) = ucast q \<longleftrightarrow> p = q"
proof
  assume "(ucast p :: u32) = ucast q"
  then have "(ucast (ucast p :: u32) :: u16) = ucast (ucast q :: u32)" by simp
  moreover have "(ucast (ucast x :: u32) :: u16) = x" for x :: u16
    by (rule bit_word_eqI) (auto simp: bit_simps dest: bit_imp_le_length)
  ultimately show "p = q" by simp
qed simp

lemma represents_add:
  assumes r: "represents m reg" and ok: "registry_ok (reg(p \<mapsto> v))" and new: "reg p = None"
  shows "represents (m(ucast p \<mapsto> v, pod_addr v \<mapsto> v)) (reg(p \<mapsto> v))"
  unfolding represents_def
proof (intro allI)
  fix k w
  have far: "65536 \<le> unat (pod_addr x)" if "(reg(p \<mapsto> v)) q = Some x" for q x
    using ok that unfolding registry_ok_def by blast
  have inj: "q = q'" if "(reg(p \<mapsto> v)) q = Some x" "(reg(p \<mapsto> v)) q' = Some y" "pod_addr x = pod_addr y" for q q' x y
    using ok that unfolding registry_ok_def by blast
  show "(m(ucast p \<mapsto> v, pod_addr v \<mapsto> v)) k = Some w \<longleftrightarrow>
      (\<exists>q. (reg(p \<mapsto> v)) q = Some w \<and> (k = ucast q \<or> k = pod_addr w))"
  proof (cases "k = ucast p \<or> k = pod_addr v")
    case True
    have only: "q = p" if "(reg(p \<mapsto> v)) q = Some w" "k = ucast q \<or> k = pod_addr w" for q
      using True that far [OF that(1)] far [of p v] inj [OF that(1), of p v]
      by (auto simp: ucast_port_inj ucast_port_neq dest: ucast_port_neq)
    have "(m(ucast p \<mapsto> v, pod_addr v \<mapsto> v)) k = Some w \<longleftrightarrow> w = v" using True by auto
    also have "\<dots> \<longleftrightarrow> (\<exists>q. (reg(p \<mapsto> v)) q = Some w \<and> (k = ucast q \<or> k = pod_addr w))"
    proof
      assume "w = v"
      with True show "\<exists>q. (reg(p \<mapsto> v)) q = Some w \<and> (k = ucast q \<or> k = pod_addr w)"
        by (intro exI [of _ p]) simp
    next
      assume "\<exists>q. (reg(p \<mapsto> v)) q = Some w \<and> (k = ucast q \<or> k = pod_addr w)"
      then have "(reg(p \<mapsto> v)) p = Some w" using only by metis
      then show "w = v" by simp
    qed
    finally show ?thesis .
  next
    case False
    then have "(m(ucast p \<mapsto> v, pod_addr v \<mapsto> v)) k = m k" by simp
    also have "m k = Some w \<longleftrightarrow> (\<exists>q. reg q = Some w \<and> (k = ucast q \<or> k = pod_addr w))"
      using r by (simp add: represents_def)
    also have "\<dots> \<longleftrightarrow> (\<exists>q. (reg(p \<mapsto> v)) q = Some w \<and> (k = ucast q \<or> k = pod_addr w))"
    proof (rule ex_cong1)
      fix q
      show "(reg q = Some w \<and> (k = ucast q \<or> k = pod_addr w)) =
          ((reg(p \<mapsto> v)) q = Some w \<and> (k = ucast q \<or> k = pod_addr w))"
        using False new by (cases "q = p") auto
    qed
    finally show ?thesis .
  qed
qed

lemma represents_delete:
  assumes r: "represents m reg" and ok: "registry_ok reg" and p: "reg p = Some v"
  shows "represents (m(ucast p := None, pod_addr v := None)) (reg(p := None))"
  unfolding represents_def
proof (intro allI)
  fix k w
  have far: "65536 \<le> unat (pod_addr x)" if "reg q = Some x" for q x
    using ok that unfolding registry_ok_def by blast
  have inj: "q = q'" if "reg q = Some x" "reg q' = Some y" "pod_addr x = pod_addr y" for q q' x y
    using ok that unfolding registry_ok_def by blast
  show "(m(ucast p := None, pod_addr v := None)) k = Some w \<longleftrightarrow>
      (\<exists>q. (reg(p := None)) q = Some w \<and> (k = ucast q \<or> k = pod_addr w))"
  proof (cases "k = ucast p \<or> k = pod_addr v")
    case True
    have only: "q = p" if "reg q = Some w" "k = ucast q \<or> k = pod_addr w" for q
      using True that far [OF that(1)] far [OF p] inj [OF that(1) p]
      by (auto simp: ucast_port_inj dest: ucast_port_neq)
    have "(m(ucast p := None, pod_addr v := None)) k = None" using True by auto
    moreover have "\<not> ((reg(p := None)) q = Some w \<and> (k = ucast q \<or> k = pod_addr w))" for q
      using only [of q] by (cases "q = p") auto
    ultimately show ?thesis by simp
  next
    case False
    then have "(m(ucast p := None, pod_addr v := None)) k = m k" by simp
    also have "m k = Some w \<longleftrightarrow> (\<exists>q. reg q = Some w \<and> (k = ucast q \<or> k = pod_addr w))"
      using r by (simp add: represents_def)
    also have "\<dots> \<longleftrightarrow> (\<exists>q. (reg(p := None)) q = Some w \<and> (k = ucast q \<or> k = pod_addr w))"
    proof (rule ex_cong1)
      fix q
      show "(reg q = Some w \<and> (k = ucast q \<or> k = pod_addr w)) =
          ((reg(p := None)) q = Some w \<and> (k = ucast q \<or> k = pod_addr w))"
        using False p by (cases "q = p") auto
    qed
    finally show ?thesis .
  qed
qed

lemma peer_value_canonical:
  "canonical_peer p \<Longrightarrow> peer_value p =
    Some \<lparr>if_index = of_int (Index p), if_addr = load32 BE (Addr p), peer_mac = HardwareAddr p\<rparr>"
  by (simp add: canonical_peer_def peer_value_def ipToInt_def To4_def mac6_def)

lemma netDataToMapValue_canonical:
  "canonical data \<Longrightarrow> netDataToMapValue data = Some
    \<lparr>pod_peer = \<lparr>if_index = of_int (Index (PodPeer (Veth data))), if_addr = load32 BE (Addr (PodPeer (Veth data))),
        peer_mac = HardwareAddr (PodPeer (Veth data))\<rparr>,
     host_peer = \<lparr>if_index = of_int (Index (HostPeer (Veth data))), if_addr = load32 BE (Addr (HostPeer (Veth data))),
        peer_mac = HardwareAddr (HostPeer (Veth data))\<rparr>,
     host_port = HostPort data\<rparr>"
  by (simp add: canonical_def netDataToMapValue_def peer_value_canonical)

lemma netDataToMapValue_parts:
  "netDataToMapValue data = Some v \<Longrightarrow>
   host_port v = HostPort data \<and> ipToInt (Addr (PodPeer (Veth data))) = Some (pod_addr v)"
  by (auto simp: netDataToMapValue_def peer_value_def pod_addr_def split: Option.bind_splits)

lemma uint_of_index: "0 \<le> i \<Longrightarrow> i < 4294967296 \<Longrightarrow> uint (of_int i :: u32) = i"
  by (simp add: uint_word_of_int)

context datapath_maps
begin

lemma AddNetData_room:
  assumes g: "good obj" and v: "netDataToMapValue data = Some v"
    and room: "card (dom (nd_of B obj)) + 2 \<le> net_data_max_entries"
  shows "\<exists>obj'. AddNetData B data obj = (Inr (), obj')"
proof -
  have i: "nd_inv (NetDataMap obj)" using g by (simp add: obj_inv_def)
  obtain n1 where n1: "map_update (nd_ops B) (NetDataMap obj) (ucast (HostPort data)) v = Inr n1"
    using nd.update_ok [OF i] room by (force simp: nd_of_def)
  note L = map_contents(1) [OF i n1] map_inv(1) [OF i n1]
  have "finite (dom (nd_of B obj))" using nd.bounded [OF i] by (simp add: nd_of_def)
  then have "card (dom (map_lookup (nd_ops B) n1)) \<le> Suc (card (dom (nd_of B obj)))"
    by (simp add: L nd_of_def card_insert_le_m1 card_insert_if)
  then have "card (dom (map_lookup (nd_ops B) n1)) < net_data_max_entries" using room by simp
  then obtain n2 where "map_update (nd_ops B) n1 (if_addr (pod_peer v)) v = Inr n2"
    using nd.update_ok [OF L(2)] by blast
  with n1 v show ?thesis by (simp add: AddNetData_def Let_def)
qed

lemma AddNetData_half:
  assumes g: "good obj" and v: "netDataToMapValue data = Some v"
    and room: "Suc (card (dom (nd_of B obj))) = net_data_max_entries"
    and new: "nd_of B obj (ucast (HostPort data)) = None" "nd_of B obj (pod_addr v) = None" "ucast (HostPort data) \<noteq> pod_addr v"
  shows "\<exists>obj'. AddNetData B data obj = (Inl (Err ''add dnat by addr'' E2BIG), obj') \<and>
    nd_of B obj' = (nd_of B obj)(ucast (HostPort data) \<mapsto> v)"
proof -
  have i: "nd_inv (NetDataMap obj)" using g by (simp add: obj_inv_def)
  obtain n1 where n1: "map_update (nd_ops B) (NetDataMap obj) (ucast (HostPort data)) v = Inr n1"
    using nd.update_ok [OF i] room by (force simp: nd_of_def)
  note L = map_contents(1) [OF i n1] map_inv(1) [OF i n1]
  have "finite (dom (nd_of B obj))" using nd.bounded [OF i] by (simp add: nd_of_def)
  then have "card (dom (map_lookup (nd_ops B) n1)) = net_data_max_entries"
    using new(1) room by (simp add: L nd_of_def card_insert_if domIff)
  moreover have "pod_addr v \<notin> dom (map_lookup (nd_ops B) n1)" using new(2,3) by (auto simp: L nd_of_def)
  ultimately have "map_update (nd_ops B) n1 (pod_addr v) v = Inl E2BIG" using nd.update_full [OF L(2)] by blast
  with n1 v show ?thesis by (simp add: AddNetData_def Let_def pod_addr_def nd_of_def L)
qed

lemma DelNetData_present:
  assumes g: "good obj" and a: "ipToInt (Addr (PodPeer (Veth data))) = Some a"
    and m: "nd_of B obj (ucast (HostPort data)) \<noteq> None" "nd_of B obj a \<noteq> None" "ucast (HostPort data) \<noteq> a"
  shows "\<exists>obj'. DelNetData B data obj = (Inr (), obj')"
proof -
  have i: "nd_inv (NetDataMap obj)" using g by (simp add: obj_inv_def)
  obtain n1 where n1: "map_delete (nd_ops B) (NetDataMap obj) (ucast (HostPort data)) = Inr n1"
    using nd.delete_ok [OF i] m(1) by (auto simp: nd_of_def domIff)
  note L = map_contents(2) [OF i n1] map_inv(2) [OF i n1]
  have "a \<in> dom (map_lookup (nd_ops B) n1)" using m(2,3) by (auto simp: L nd_of_def)
  then obtain n2 where "map_delete (nd_ops B) n1 a = Inr n2" using nd.delete_ok [OF L(2)] by blast
  with n1 a show ?thesis by (simp add: DelNetData_def Let_def)
qed

lemma AddNetData_good: "good obj \<Longrightarrow> AddNetData B data obj = (r, obj') \<Longrightarrow> good obj'"
  using ops_inv(1) [of obj data] by simp

lemma DelNetData_good: "good obj \<Longrightarrow> DelNetData B data obj = (r, obj') \<Longrightarrow> good obj'"
  using ops_inv(2) [of obj data] by simp

end

section \<open>Refinement\<close>

lemma represents_room:
  assumes "represents m reg"
  shows "card (dom m) \<le> 2 * card (dom reg)"
proof -
  have "dom m \<subseteq> ucast ` dom reg \<union> (\<lambda>p. pod_addr (the (reg p))) ` dom reg"
  proof
    fix k
    assume "k \<in> dom m"
    then obtain v where "m k = Some v" by blast
    then obtain p where "reg p = Some v" "k = ucast p \<or> k = pod_addr v"
      using assms unfolding represents_def by blast
    then show "k \<in> ucast ` dom reg \<union> (\<lambda>p. pod_addr (the (reg p))) ` dom reg" by (auto intro!: image_eqI [of _ _ p])
  qed
  then have "card (dom m) \<le> card (ucast ` dom reg \<union> (\<lambda>p. pod_addr (the (reg p))) ` dom reg :: u32 set)"
    by (rule card_mono [rotated]) simp
  also have "\<dots> \<le> card (ucast ` dom reg :: u32 set) + card ((\<lambda>p. pod_addr (the (reg p))) ` dom reg)"
    by (rule card_Un_le)
  also have "\<dots> \<le> card (dom reg) + card (dom reg)" by (intro add_mono card_image_le) simp_all
  finally show ?thesis by simp
qed

lemma registry_ok_delete: "registry_ok reg \<Longrightarrow> registry_ok (reg(p := None))"
  by (fastforce simp: registry_ok_def split: if_splits)

context datapath_maps
begin

lemma reg_step_refined:
  assumes g: "good obj" and r: "represents (nd_of B obj) reg" and ok: "registry_ok reg" and s: "reg_step reg e reg'"
  shows "\<exists>obj'. reg_run1 B e obj = (Inr (), obj') \<and> good obj' \<and> represents (nd_of B obj') reg' \<and> registry_ok reg'"
  using s
proof (cases rule: reg_step.cases)
  case (reg_add data v)
  have "card (dom (nd_of B obj)) + 2 \<le> net_data_max_entries" using represents_room [OF r] reg_add(6) by simp
  then obtain obj' where o: "AddNetData B data obj = (Inr (), obj')" using AddNetData_room [OF g reg_add(3)] by blast
  moreover have "represents (nd_of B obj') reg'"
    using represents_add [OF r reg_add(5,4)] reg_add(2,3)
    by (auto intro: AddNetData_ok [OF g o] simp: pod_addr_def)
  ultimately show ?thesis using AddNetData_good [OF g o] reg_add(1,2,5) by (simp add: reg_run1_def)
next
  case (reg_del data v)
  have far: "ucast (HostPort data) \<noteq> pod_addr v" using ok reg_del(3) by (intro ucast_port_neq) (auto simp: registry_ok_def)
  have "nd_of B obj (ucast (HostPort data)) = Some v" "nd_of B obj (pod_addr v) = Some v"
    using r reg_del(3) by (auto simp: represents_def)
  then obtain obj' where o: "DelNetData B data obj = (Inr (), obj')"
    using DelNetData_present [OF g reg_del(4)] far by auto
  moreover have "represents (nd_of B obj') reg'"
    using represents_delete [OF r ok reg_del(3)] reg_del(2,4) by (auto intro: DelNetData_ok [OF g o])
  ultimately show ?thesis
    using DelNetData_good [OF g o] reg_del(1,2) registry_ok_delete [OF ok] by (simp add: reg_run1_def)
qed

lemma reg_run_refined:
  "reg_steps reg es reg' \<Longrightarrow> good obj \<Longrightarrow> represents (nd_of B obj) reg \<Longrightarrow> registry_ok reg \<Longrightarrow>
   \<exists>obj'. reg_run B es obj = (Inr (), obj') \<and> good obj' \<and> represents (nd_of B obj') reg' \<and> registry_ok reg'"
proof (induction arbitrary: obj rule: reg_steps.induct)
  case (reg_more reg e reg' es reg'')
  then obtain o1 where "reg_run1 B e obj = (Inr (), o1)" "good o1" "represents (nd_of B o1) reg'" "registry_ok reg'"
    using reg_step_refined by blast
  with reg_more.IH show ?case by auto
qed simp

lemma sizes:
  assumes "good obj"
  shows "card (dom (nd_of B obj)) \<le> net_data_max_entries" "card (dom (dnat_of B obj)) \<le> dnat_targets_max_entries"
    "card (dom (snat_of B obj)) \<le> snat_config_max_entries" "card (dom (veth_of B obj)) \<le> veth_pair_max_entries"
  using assms nd.bounded dn.bounded sn.bounded ve.bounded by (auto simp: obj_inv_def map_views)

lemma add_get:
  assumes g: "good obj" and c: "canonical data"
    and o: "AddNetData B data obj = (Inr (), obj')"
  shows "GetNetData B (HostPort data) obj' = Inr data"
proof -
  obtain v where v: "netDataToMapValue data = Some v"
    and n: "nd_of B obj' = (nd_of B obj)(ucast (HostPort data) \<mapsto> v, if_addr (pod_peer v) \<mapsto> v)"
    using AddNetData_ok [OF g o] by metis
  then have "map_lookup (nd_ops B) (NetDataMap obj') (ucast (HostPort data)) = Some v" by (simp add: nd_of_def fun_upd_def)
  then show ?thesis using c netDataToMapValue_canonical [OF c] v
    by (auto simp: GetNetData_def canonical_def canonical_peer_def uint_of_index intToIP_def)
qed

end

section \<open>Properties\<close>

lemma sample_pod_simps [simp]:
  "HostPort (sample_pod p i) = p" "canonical (sample_pod p i)" "canonical_peer (PodPeer (Veth (sample_pod p i)))"
  "Addr (PodPeer (Veth (sample_pod p i))) = [10, 0, 0, i]"
proof -
  have "uint i < 256" using uint_lt2p [of i] by simp
  then show "canonical (sample_pod p i)" "canonical_peer (PodPeer (Veth (sample_pod p i)))"
    by (simp_all add: sample_pod_def canonical_def canonical_peer_def)
qed (simp_all add: sample_pod_def)

lemma empty_objects_ok [simp]:
  "obj_inv (alist_inv net_data_max_entries) (alist_inv dnat_targets_max_entries) (alist_inv snat_config_max_entries)
     (alist_inv veth_pair_max_entries) empty_objects"
  "nd_of alist_ops empty_objects = Map.empty" "dnat_of alist_ops empty_objects = Map.empty"
  by (simp_all add: obj_inv_def alist_inv_def empty_objects_def nd_of_def dnat_of_def alist_ops_def alist_hash_def)

text \<open>
  C6. \<^verbatim>\<open>AddNetData\<close> and \<^verbatim>\<open>DelNetData\<close> implement the registry: every sequence of additions and
  deletions the registry allows succeeds on the maps, and afterwards \<^verbatim>\<open>net_data_map\<close> holds, under port
  and pod address, exactly the workloads of the registry that the sequence leads to.
\<close>

theorem net_data_refines_registry:
  assumes "datapath_maps B ndi dni sni vei" "obj_inv ndi dni sni vei obj"
    and "represents (nd_of B obj) reg" "registry_ok reg" "reg_steps reg es reg'"
  shows "\<exists>obj'. reg_run B es obj = (Inr (), obj') \<and> obj_inv ndi dni sni vei obj' \<and>
    represents (nd_of B obj') reg' \<and> registry_ok reg'"
  by (rule datapath_maps.reg_run_refined [OF assms(1,5,2,3,4)])

theorem net_data_refines_registry_witness:
  "\<exists>obj' v. reg_run alist_ops [RegAdd (sample_pod 9000 2), RegAdd (sample_pod 9001 3), RegDel (sample_pod 9000 2)]
       empty_objects = (Inr (), obj') \<and> nd_of alist_ops obj' 9001 = Some v \<and> nd_of alist_ops obj' 9000 = None"
proof -
  let ?a = "sample_pod 9000 2" and ?b = "sample_pod 9001 3"
  obtain v where v: "netDataToMapValue ?a = Some v" "pod_addr v = 0x0A000002" "host_port v = 9000"
    by (simp add: netDataToMapValue_canonical pod_addr_def) (simp add: load32_def mem_nat_def)
  obtain w where w: "netDataToMapValue ?b = Some w" "pod_addr w = 0x0A000003" "host_port w = 9001"
    by (simp add: netDataToMapValue_canonical pod_addr_def) (simp add: load32_def mem_nat_def)
  have "registry_ok [9000 \<mapsto> v]" "registry_ok [9000 \<mapsto> v, 9001 \<mapsto> w]"
    by (auto simp: registry_ok_def v w split: if_splits)
  moreover have "ipToInt [10, 0, 0, 2] = Some 0x0A000002" by (simp add: ipToInt_def To4_def load32_def mem_nat_def)
  ultimately have st: "reg_steps Map.empty [RegAdd ?a, RegAdd ?b, RegDel ?a] ([9000 \<mapsto> v, 9001 \<mapsto> w](9000 := None))"
    using reg_add [of ?a v Map.empty] reg_add [of ?b w "[9000 \<mapsto> v]"] reg_del [of "[9000 \<mapsto> v, 9001 \<mapsto> w]" ?a v]
    by (intro reg_more) (auto simp: v w net_data_max_entries_def fun_eq_iff)
  have "represents Map.empty Map.empty" "registry_ok Map.empty" by (simp_all add: represents_def registry_ok_def)
  then obtain obj' where o: "reg_run alist_ops [RegAdd ?a, RegAdd ?b, RegDel ?a] empty_objects = (Inr (), obj')"
    and r: "represents (nd_of alist_ops obj') ([9000 \<mapsto> v, 9001 \<mapsto> w](9000 := None))"
    using net_data_refines_registry [OF alist_maps.datapath_maps_axioms empty_objects_ok(1) _ _ st]
    unfolding empty_objects_ok(2) by blast
  have "nd_of alist_ops obj' 9001 = Some w" using r by (simp add: represents_def)
  moreover have "nd_of alist_ops obj' 9000 = None"
    using r by (cases "nd_of alist_ops obj' 9000") (auto simp: represents_def w split: if_splits)
  ultimately show ?thesis using o by blast
qed

text \<open>
  What \<^verbatim>\<open>AddNetData\<close> stored for a port is what \<^verbatim>\<open>GetNetData\<close> gives back, field by field, for
  data with four-byte addresses, six-byte hardware addresses and indices of 32 bits.
\<close>

theorem net_data_round_trip:
  assumes "datapath_maps B ndi dni sni vei" "obj_inv ndi dni sni vei obj" "canonical data"
    and "AddNetData B data obj = (Inr (), obj')"
  shows "GetNetData B (HostPort data) obj' = Inr data"
  by (rule datapath_maps.add_get [OF assms])

theorem net_data_round_trip_witness:
  "\<exists>obj'. AddNetData alist_ops (sample_pod 9000 2) empty_objects = (Inr (), obj') \<and>
     GetNetData alist_ops 9000 obj' = Inr (sample_pod 9000 2)"
proof -
  obtain obj' where o: "AddNetData alist_ops (sample_pod 9000 2) empty_objects = (Inr (), obj')"
    using alist_maps.AddNetData_room [OF empty_objects_ok(1) netDataToMapValue_canonical [OF sample_pod_simps(2)]]
    by (auto simp: net_data_max_entries_def)
  then show ?thesis
    using net_data_round_trip [OF alist_maps.datapath_maps_axioms, of empty_objects "sample_pod 9000 2"] by simp
qed

text \<open>
  With one entry left in \<^verbatim>\<open>net_data_map\<close>, \<^verbatim>\<open>AddNetData\<close> of a new workload fails after
  its first write: the workload stays registered under its port, but not under its address, the key
  \<^verbatim>\<open>snat\<close> looks it up with.
\<close>

theorem net_data_half_added:
  assumes "datapath_maps B ndi dni sni vei" "obj_inv ndi dni sni vei obj" "netDataToMapValue data = Some v"
    and "Suc (card (dom (nd_of B obj))) = net_data_max_entries"
    and "nd_of B obj (ucast (HostPort data)) = None" "nd_of B obj (pod_addr v) = None" "65536 \<le> unat (pod_addr v)"
  shows "\<exists>obj'. AddNetData B data obj = (Inl (Err ''add dnat by addr'' E2BIG), obj') \<and>
    nd_of B obj' (ucast (HostPort data)) = Some v \<and> nd_of B obj' (pod_addr v) = None"
  using datapath_maps.AddNetData_half [OF assms(1-6) ucast_port_neq [OF assms(7)]] assms(6) ucast_port_neq [OF assms(7)]
  by fastforce

theorem net_data_half_added_witness:
  "\<exists>v obj'. AddNetData alist_ops (sample_pod 9000 2) (crowded_objects v) = (Inl (Err ''add dnat by addr'' E2BIG), obj') \<and>
     nd_of alist_ops obj' 9000 = Some v \<and> nd_of alist_ops obj' 0x0A000002 = None"
proof -
  obtain v where v: "netDataToMapValue (sample_pod 9000 2) = Some v" "pod_addr v = 0x0A000002"
    by (simp add: netDataToMapValue_canonical pod_addr_def) (simp add: load32_def mem_nat_def)
  let ?m = "map (\<lambda>i. (of_nat i :: u32, v)) [0 ..< 255]"
  have d: "distinct (map fst ?m)"
    by (auto simp: distinct_map comp_def inj_on_def word_of_nat_eq_iff take_bit_nat_eq_self)
  have n: "nd_of alist_ops (crowded_objects v) = map_of ?m"
    by (simp add: nd_of_def crowded_objects_def alist_ops_def alist_hash_def)
  have out: "map_of ?m k = None" if "255 \<le> unat k" for k
    using that by (auto simp: map_of_eq_None_iff unat_of_nat)
  have "card (dom (map_of ?m)) = 255" using card_keys [OF d] by (simp add: dom_map_of_conv_image_fst)
  moreover have "obj_inv (alist_inv net_data_max_entries) (alist_inv dnat_targets_max_entries)
     (alist_inv snat_config_max_entries) (alist_inv veth_pair_max_entries) (crowded_objects v)"
    using d empty_objects_ok(1) by (simp add: crowded_objects_def obj_inv_def alist_inv_def net_data_max_entries_def)
  ultimately show ?thesis
    using net_data_half_added [OF alist_maps.datapath_maps_axioms, of "crowded_objects v" "sample_pod 9000 2" v]
    by (auto simp: v n out net_data_max_entries_def)
qed



end
