(* ===== verification/Cni.thy ===== *)
theory Cni
  imports Registry Sock
begin

text \<open>
  The network plugin, \<^verbatim>\<open>cni/cni.go\<close> with the handler of \<^verbatim>\<open>cni/handler.go\<close>: what it does when a pod is
  added or deleted. The maps are those of \<open>Objects\<close>; everything else the plugin calls (address
  management, netlink, attaching programs, the services of \<^verbatim>\<open>platformd\<close>) is a parameter \<open>host\<close>, a
  function from the call and a state of the outside world to a reply, and all calls are recorded in order.
\<close>

section \<open>Calls to the outside\<close>

datatype bpf_prog = ProgSNAT | ProgARP | ProgHostEgress | ProgCtrEgress

datatype host_call =
    IpamAdd string
  | IpamDel string
  | CreateVeth string "byte list" "byte list"
  | AttachProg bpf_prog int
  | RouteDefault VethPair string
  | RouteAddFullMatch VethPair
  | RouteDelFullMatch VethPair
  | LinkByIndex int
  | LinkDel int
  | WorkloadStatusRPC string
  | CreateListeners string "byte list"
  | DeleteListeners string
  | PrintResult VethPair

datatype host_reply =
    Fails
  | Done
  | Addrs "byte list list"
  | Ifaces int "byte list" int "byte list"
  | PortIs u32

record ('n, 'd, 's, 'v, 'w) cni_state =
  bpf :: "('n, 'd, 's, 'v) Objects"
  outside :: 'w
  calls :: "host_call list"

type_synonym 'w host = "host_call \<Rightarrow> 'w \<Rightarrow> host_reply \<times> 'w"

datatype cni_error = CniPanic | CniErr string | ErrPodUIDMissing | ErrPlatformdListenSockNotSet | ErrIPAMConfigNotSet
  | ErrInsufficientAddresses | ErrInvalidPort

section \<open>Steps that can fail\<close>

definition call ::
  "'w host \<Rightarrow> host_call \<Rightarrow> ('n, 'd, 's, 'v, 'w) cni_state \<Rightarrow> host_reply \<times> ('n, 'd, 's, 'v, 'w) cni_state" where
  "call host c st = (let (r, w) = host c (outside st) in (r, st\<lparr>outside := w, calls := calls st @ [c]\<rparr>))"

text \<open>A call that only succeeds or fails, with the text its error is wrapped with.\<close>

definition try_call ::
  "'w host \<Rightarrow> string \<Rightarrow> host_call \<Rightarrow> ('n, 'd, 's, 'v, 'w) cni_state \<Rightarrow> (cni_error + unit) \<times> ('n, 'd, 's, 'v, 'w) cni_state" where
  "try_call host msg c st = (case call host c st of (Fails, st) \<Rightarrow> (Inl (CniErr msg), st) | (_, st) \<Rightarrow> (Inr (), st))"

text \<open>An operation of \<^verbatim>\<open>objects.go\<close>.\<close>

definition map_op ::
  "string \<Rightarrow> (('n, 'd, 's, 'v) Objects \<Rightarrow> unit go_result \<times> ('n, 'd, 's, 'v) Objects) \<Rightarrow>
   ('n, 'd, 's, 'v, 'w) cni_state \<Rightarrow> (cni_error + unit) \<times> ('n, 'd, 's, 'v, 'w) cni_state" where
  "map_op msg f st =
     (case f (bpf st) of
        (Inl Panic, b) \<Rightarrow> (Inl CniPanic, st\<lparr>bpf := b\<rparr>)
      | (Inl (Err _ _), b) \<Rightarrow> (Inl (CniErr msg), st\<lparr>bpf := b\<rparr>)
      | (Inr _, b) \<Rightarrow> (Inr (), st\<lparr>bpf := b\<rparr>))"

section \<open>Arguments\<close>

definition parse_pair :: "string \<Rightarrow> (string \<times> string) option" where
  "parse_pair pair =
     (case split_on (CHR ''='') pair of
        [k, v] \<Rightarrow> if k = [] \<or> v = [] then None else Some (k, v)
      | _ \<Rightarrow> None)"

fun parse_pairs :: "string list \<Rightarrow> (string \<rightharpoonup> string) \<Rightarrow> (string \<rightharpoonup> string) option" where
  "parse_pairs [] ret = Some ret"
| "parse_pairs (pair # pairs) ret =
     (case parse_pair pair of None \<Rightarrow> None | Some (k, v) \<Rightarrow> parse_pairs pairs (ret(k \<mapsto> v)))"

definition parseArgs :: "string \<Rightarrow> (string \<rightharpoonup> string) option" where
  "parseArgs args = parse_pairs (split_on (CHR '';'') args) Map.empty"

record Conf =
  PlatformdListenSock :: string
  IPAMType :: string

record CmdArgs =
  Args :: string
  Netns :: string

section \<open>The handler\<close>

definition getHostPort ::
  "'w host \<Rightarrow> string \<Rightarrow> ('n, 'd, 's, 'v, 'w) cni_state \<Rightarrow> (cni_error + u16) \<times> ('n, 'd, 's, 'v, 'w) cni_state" where
  "getHostPort host workloadID st =
     (case call host (WorkloadStatusRPC workloadID) st of
        (PortIs port, st) \<Rightarrow> if port = 0 then (Inl ErrInvalidPort, st) else (Inr (ucast port), st)
      | (_, st) \<Rightarrow> (Inl (CniErr ''get workload status''), st))"

definition AllocIPs ::
  "'w host \<Rightarrow> string \<Rightarrow> ('n, 'd, 's, 'v, 'w) cni_state \<Rightarrow> (cni_error + byte list list) \<times> ('n, 'd, 's, 'v, 'w) cni_state" where
  "AllocIPs host plugin st =
     (case call host (IpamAdd plugin) st of (Addrs ips, st) \<Rightarrow> (Inr ips, st) | (_, st) \<Rightarrow> (Inl (CniErr ''alloc ips''), st))"

text \<open>The interfaces come with the indices and hardware addresses the kernel reports.\<close>

definition AllocVethPair ::
  "('n, 'd, 's, 'v) bpf_ops \<Rightarrow> 'w host \<Rightarrow> string \<Rightarrow> byte list \<Rightarrow> byte list \<Rightarrow> ('n, 'd, 's, 'v, 'w) cni_state \<Rightarrow>
   (cni_error + VethPair) \<times> ('n, 'd, 's, 'v, 'w) cni_state" where
  "AllocVethPair B host netNS hostAddr podAddr st =
     (case call host (CreateVeth netNS hostAddr podAddr) st of
        (Ifaces hidx hmac pidx pmac, st) \<Rightarrow>
          let veth = \<lparr>HostPeer = \<lparr>Index = hidx, HardwareAddr = hmac, Addr = hostAddr\<rparr>,
                      PodPeer = \<lparr>Index = pidx, HardwareAddr = pmac, Addr = podAddr\<rparr>\<rparr>
          in ebind (map_op ''put veth pairs'' (AddVethPairEntry B veth)) (\<lambda>_ st. (Inr veth, st)) st
      | (_, st) \<Rightarrow> (Inl (CniErr ''configure veth pair''), st))"

definition AttachHostVethBPF ::
  "'w host \<Rightarrow> VethPair \<Rightarrow> ('n, 'd, 's, 'v, 'w) cni_state \<Rightarrow> (cni_error + unit) \<times> ('n, 'd, 's, 'v, 'w) cni_state" where
  "AttachHostVethBPF host veth =
     ebind (try_call host ''snat'' (AttachProg ProgSNAT (Index (HostPeer veth)))) (\<lambda>_.
     ebind (try_call host ''arp'' (AttachProg ProgARP (Index (HostPeer veth)))) (\<lambda>_.
     try_call host ''tproxy host egress'' (AttachProg ProgHostEgress (Index (HostPeer veth)))))"

definition AttachCtrVethBPF ::
  "'w host \<Rightarrow> VethPair \<Rightarrow> ('n, 'd, 's, 'v, 'w) cni_state \<Rightarrow> (cni_error + unit) \<times> ('n, 'd, 's, 'v, 'w) cni_state" where
  "AttachCtrVethBPF host veth = try_call host ''tproxy ctr egress'' (AttachProg ProgCtrEgress (Index (PodPeer veth)))"

text \<open>The interface index is cut to eight bits.\<close>

definition handler_AddDNATTarget ::
  "('n, 'd, 's, 'v) bpf_ops \<Rightarrow> VethPair \<Rightarrow> u16 \<Rightarrow> ('n, 'd, 's, 'v) Objects \<Rightarrow> unit go_result \<times> ('n, 'd, 's, 'v) Objects" where
  "handler_AddDNATTarget B veth port =
     AddDNATTarget B port (Addr (PodPeer veth)) (of_int (Index (HostPeer veth))) (HardwareAddr (PodPeer veth))"

definition GetVethPair ::
  "('n, 'd, 's, 'v) bpf_ops \<Rightarrow> u16 \<Rightarrow> ('n, 'd, 's, 'v, 'w) cni_state \<Rightarrow> VethPair option" where
  "GetVethPair B hostPort st = (case GetNetData B hostPort (bpf st) of Inl _ \<Rightarrow> None | Inr d \<Rightarrow> Some (Veth d))"

definition DelMapEntries ::
  "('n, 'd, 's, 'v) bpf_ops \<Rightarrow> VethPair \<Rightarrow> u16 \<Rightarrow> ('n, 'd, 's, 'v, 'w) cni_state \<Rightarrow>
   (cni_error + unit) \<times> ('n, 'd, 's, 'v, 'w) cni_state" where
  "DelMapEntries B veth hostPort =
     ebind (map_op ''delete net data'' (DelNetData B \<lparr>Veth = veth, HostPort = hostPort\<rparr>)) (\<lambda>_.
     ebind (map_op ''delete dnat'' (DelDNATTarget B hostPort)) (\<lambda>_.
     map_op ''delete veth pair'' (DelVethPairEntry B veth)))"

definition DeallocVethPair ::
  "'w host \<Rightarrow> VethPair \<Rightarrow> ('n, 'd, 's, 'v, 'w) cni_state \<Rightarrow> (cni_error + unit) \<times> ('n, 'd, 's, 'v, 'w) cni_state" where
  "DeallocVethPair host veth =
     ebind (try_call host ''get link'' (LinkByIndex (Index (HostPeer veth)))) (\<lambda>_.
     try_call host ''delete link'' (LinkDel (Index (HostPeer veth))))"

section \<open>Adding and deleting a pod\<close>

text \<open>The body of \<^verbatim>\<open>ExecAdd\<close> behind the checks, which the deferred deallocation covers.\<close>

definition ExecAdd_body ::
  "('n, 'd, 's, 'v) bpf_ops \<Rightarrow> 'w host \<Rightarrow> CmdArgs \<Rightarrow> Conf \<Rightarrow> string \<Rightarrow> ('n, 'd, 's, 'v, 'w) cni_state \<Rightarrow>
   (cni_error + unit) \<times> ('n, 'd, 's, 'v, 'w) cni_state" where
  "ExecAdd_body B host args conf wlID =
     ebind (AllocIPs host (IPAMType conf)) (\<lambda>ips.
     if length ips < 2 then (\<lambda>st. (Inl ErrInsufficientAddresses, st)) else
     ebind (AllocVethPair B host (Netns args) (ips ! 0) (ips ! 1)) (\<lambda>veth.
     ebind (AttachHostVethBPF host veth) (\<lambda>_.
     ebind (AttachCtrVethBPF host veth) (\<lambda>_.
     ebind (try_call host ''add default route'' (RouteDefault veth (Netns args))) (\<lambda>_.
     ebind (try_call host ''add full match route'' (RouteAddFullMatch veth)) (\<lambda>_.
     ebind (getHostPort host wlID) (\<lambda>port.
     ebind (map_op ''add dnat target'' (handler_AddDNATTarget B veth port)) (\<lambda>_.
     ebind (map_op ''add net data'' (AddNetData B \<lparr>Veth = veth, HostPort = port\<rparr>)) (\<lambda>_.
     ebind (try_call host ''create proxy listeners'' (CreateListeners wlID (Addr (HostPeer veth)))) (\<lambda>_.
     try_call host ''print result'' (PrintResult veth)))))))))))"

definition ExecAdd ::
  "('n, 'd, 's, 'v) bpf_ops \<Rightarrow> 'w host \<Rightarrow> CmdArgs \<Rightarrow> Conf \<Rightarrow> ('n, 'd, 's, 'v, 'w) cni_state \<Rightarrow>
   (cni_error + unit) \<times> ('n, 'd, 's, 'v, 'w) cni_state" where
  "ExecAdd B host args conf st =
     (case parseArgs (Args args) of
        None \<Rightarrow> (Inl (CniErr ''CNI_ARGS parse error''), st)
      | Some cniArgs \<Rightarrow>
          (case cniArgs ''K8S_POD_UID'' of
             None \<Rightarrow> (Inl ErrPodUIDMissing, st)
           | Some wlID \<Rightarrow>
               if PlatformdListenSock conf = [] then (Inl ErrPlatformdListenSockNotSet, st)
               else if IPAMType conf = [] then (Inl ErrIPAMConfigNotSet, st)
               else (case ExecAdd_body B host args conf wlID st of
                       (Inr _, st) \<Rightarrow> (Inr (), st)
                     | (Inl CniPanic, st) \<Rightarrow> (Inl CniPanic, st)
                     | (Inl e, st) \<Rightarrow> (Inl e, snd (call host (IpamDel (IPAMType conf)) st)))))"

text \<open>A step of \<^verbatim>\<open>ExecDel\<close> whose error is only collected.\<close>

definition collect ::
  "('st \<Rightarrow> (cni_error + unit) \<times> 'st) \<Rightarrow> cni_error list \<times> 'st \<Rightarrow> cni_error list \<times> 'st" where
  "collect m acc = (case m (snd acc) of (Inl e, st) \<Rightarrow> (fst acc @ [e], st) | (Inr _, st) \<Rightarrow> (fst acc, st))"

text \<open>The errors \<^verbatim>\<open>ExecDel\<close> prints; its result is always nil.\<close>

definition ExecDel ::
  "('n, 'd, 's, 'v) bpf_ops \<Rightarrow> 'w host \<Rightarrow> CmdArgs \<Rightarrow> Conf \<Rightarrow> ('n, 'd, 's, 'v, 'w) cni_state \<Rightarrow>
   cni_error list \<times> ('n, 'd, 's, 'v, 'w) cni_state" where
  "ExecDel B host args conf st =
     (case parseArgs (Args args) of
        None \<Rightarrow> ([CniErr ''CNI_ARGS parse error''], st)
      | Some cniArgs \<Rightarrow>
          (case cniArgs ''K8S_POD_UID'' of
             None \<Rightarrow> ([ErrPodUIDMissing], st)
           | Some wlID \<Rightarrow>
               (case getHostPort host wlID st of
                  (Inl e, st) \<Rightarrow> ([e], st)
                | (Inr port, st) \<Rightarrow>
                    (case GetVethPair B port st of
                       None \<Rightarrow> ([CniErr ''get veth pair''], st)
                     | Some veth \<Rightarrow>
                         collect (try_call host ''deallocate ips'' (IpamDel (IPAMType conf)))
                         (collect (DeallocVethPair host veth)
                         (collect (DelMapEntries B veth port)
                         (collect (try_call host ''delete listeners'' (DeleteListeners wlID))
                         (collect (try_call host ''delete full match route'' (RouteDelFullMatch veth)) ([], st)))))))))"

section \<open>Lemmas\<close>

lemma call_bpf: "call host c st = (r, st') \<Longrightarrow> bpf st' = bpf st"
  by (auto simp: call_def Let_def split: prod.splits)

lemma try_call_bpf: "try_call host msg c st = (r, st') \<Longrightarrow> bpf st' = bpf st"
  by (auto simp: try_call_def dest!: call_bpf split: prod.splits host_reply.splits)

lemma map_op_Inr: "map_op msg f st = (Inr u, st') \<longleftrightarrow> (\<exists>b. f (bpf st) = (Inr (), b) \<and> st' = st\<lparr>bpf := b\<rparr>)"
  by (auto simp: map_op_def split: prod.splits sum.splits go_error.splits)

lemma getHostPort_Inr:
  assumes "getHostPort host k st = (Inr port, st')"
  shows "bpf st' = bpf st \<and> (\<exists>w n w'. host (WorkloadStatusRPC k) w = (PortIs n, w') \<and> n \<noteq> 0 \<and> port = ucast n)"
  using assms by (auto simp: getHostPort_def call_def Let_def split: prod.splits host_reply.splits if_splits)

lemma AllocIPs_bpf: "AllocIPs host k st = (r, st') \<Longrightarrow> bpf st' = bpf st"
  by (auto simp: AllocIPs_def dest!: call_bpf split: prod.splits host_reply.splits)

lemma AllocVethPair_Inr:
  "AllocVethPair B host ns h p st = (Inr veth, st') \<Longrightarrow> AddVethPairEntry B veth (bpf st) = (Inr (), bpf st')"
  by (auto simp: AllocVethPair_def Let_def ebind_Inr map_op_Inr dest!: call_bpf split: prod.splits host_reply.splits)

lemma Attach_bpf:
  "AttachHostVethBPF host veth st = (Inr u, st') \<Longrightarrow> bpf st' = bpf st"
  "AttachCtrVethBPF host veth st = (r, st') \<Longrightarrow> bpf st' = bpf st"
  by (auto simp: AttachHostVethBPF_def AttachCtrVethBPF_def ebind_Inr dest!: try_call_bpf)

lemma ExecAdd_body_Inr:
  assumes "ExecAdd_body B host args conf k st = (Inr (), st')"
  obtains veth port b1 b2 where "AddVethPairEntry B veth (bpf st) = (Inr (), b1)" "handler_AddDNATTarget B veth port b1 = (Inr (), b2)"
    "AddNetData B \<lparr>Veth = veth, HostPort = port\<rparr> b2 = (Inr (), bpf st')"
    "\<exists>w n w'. host (WorkloadStatusRPC k) w = (PortIs n, w') \<and> n \<noteq> 0 \<and> port = ucast n"
  using assms
  by (auto simp: ExecAdd_body_def ebind_Inr map_op_Inr split: if_splits
      dest!: AllocIPs_bpf AllocVethPair_Inr Attach_bpf try_call_bpf getHostPort_Inr) blast

lemma ExecAdd_Inr:
  assumes "ExecAdd B host args conf st = (Inr (), st')"
  obtains cniArgs k where "parseArgs (Args args) = Some cniArgs" "cniArgs ''K8S_POD_UID'' = Some k"
    "ExecAdd_body B host args conf k st = (Inr (), st')"
  using assms by (auto simp: ExecAdd_def split: option.splits if_splits prod.splits sum.splits cni_error.splits)

lemma netDataToMapValue_Some:
  assumes "netDataToMapValue \<lparr>Veth = veth, HostPort = port\<rparr> = Some v"
  shows "if_index (host_peer v) = of_int (Index (HostPeer veth))" "if_index (pod_peer v) = of_int (Index (PodPeer veth))"
    "ipToInt (Addr (HostPeer veth)) = Some (if_addr (host_peer v))" "ipToInt (Addr (PodPeer veth)) = Some (if_addr (pod_peer v))"
    "mac6 (HardwareAddr (PodPeer veth)) = Some (peer_mac (pod_peer v))" "host_port v = port"
  using assms by (auto simp: netDataToMapValue_def peer_value_def bind_eq_Some_conv)

lemma of_int_u8: "(of_int i :: u8) = ucast (of_int i :: u32)"
  by (rule bit_word_eqI) (auto simp: bit_simps)

context datapath_maps
begin

lemma AddDNATTarget_ok:
  assumes "good obj" "AddDNATTarget B key ip idx mac obj = (Inr (), obj')"
  obtains a m where "ipToInt ip = Some a" "mac6 mac = Some m"
    "dnat_of B obj' = (dnat_of B obj)(key \<mapsto> \<lparr>tgt_ip_addr = a, tgt_iface_idx = idx, tgt_mac_addr = m\<rparr>)"
    "nd_of B obj' = nd_of B obj" "veth_of B obj' = veth_of B obj"
proof -
  obtain a m d where a: "ipToInt ip = Some a" "mac6 mac = Some m"
    and u: "map_update (dnat_ops B) (PtpDnatTargets obj) key \<lparr>tgt_ip_addr = a, tgt_iface_idx = idx, tgt_mac_addr = m\<rparr> = Inr d"
      "obj' = obj\<lparr>PtpDnatTargets := d\<rparr>"
    using assms(2) by (auto simp: AddDNATTarget_def split: option.splits sum.splits)
  have i: "dn_inv (PtpDnatTargets obj)" using assms(1) by (simp add: obj_inv_def)
  show thesis by (rule that [OF a]) (simp_all add: map_views u(2) map_contents(3) [OF i u(1)])
qed

lemma AddVethPairEntry_ok:
  assumes "good obj" "AddVethPairEntry B veth obj = (Inr (), obj')"
  obtains a where "ipToInt (Addr (HostPeer veth)) = Some a"
    "veth_of B obj' = (veth_of B obj)
      (of_int (Index (HostPeer veth)) \<mapsto> \<lparr>host_if_index = of_int (Index (HostPeer veth)), host_if_addr = a\<rparr>,
       of_int (Index (PodPeer veth)) \<mapsto> \<lparr>host_if_index = of_int (Index (HostPeer veth)), host_if_addr = a\<rparr>)"
    "nd_of B obj' = nd_of B obj" "dnat_of B obj' = dnat_of B obj"
proof -
  let ?v = "\<lambda>a. \<lparr>host_if_index = of_int (Index (HostPeer veth)), host_if_addr = a\<rparr>"
  obtain a m1 m2 where a: "ipToInt (Addr (HostPeer veth)) = Some a"
    and u: "map_update (veth_ops B) (VethPairMap obj) (of_int (Index (HostPeer veth))) (?v a) = Inr m1"
      "map_update (veth_ops B) m1 (of_int (Index (PodPeer veth))) (?v a) = Inr m2" "obj' = obj\<lparr>VethPairMap := m2\<rparr>"
    using assms(2) by (auto simp: AddVethPairEntry_def Let_def split: option.splits sum.splits)
  have i: "ve_inv (VethPairMap obj)" using assms(1) by (simp add: obj_inv_def)
  note L = map_contents(7) [OF i u(1)] map_contents(7) [OF map_inv(7) [OF i u(1)] u(2)]
  show thesis by (rule that [OF a]) (simp_all add: map_views u(3) L)
qed

lemma DelDNATTarget_present:
  assumes g: "good obj" and m: "dnat_of B obj key \<noteq> None"
  shows "\<exists>obj'. DelDNATTarget B key obj = (Inr (), obj') \<and> good obj' \<and> dnat_of B obj' = (dnat_of B obj)(key := None) \<and>
    nd_of B obj' = nd_of B obj \<and> veth_of B obj' = veth_of B obj"
proof -
  have i: "dn_inv (PtpDnatTargets obj)" using g by (simp add: obj_inv_def)
  obtain d where d: "map_delete (dnat_ops B) (PtpDnatTargets obj) key = Inr d"
    using dn.delete_ok [OF i] m by (auto simp: dnat_of_def)
  then have e: "DelDNATTarget B key obj = (Inr (), obj\<lparr>PtpDnatTargets := d\<rparr>)" by (simp add: DelDNATTarget_def)
  then show ?thesis using map_contents(4) [OF i d] ops_inv(4) [OF g, of key] by (simp add: map_views)
qed

lemma DelVethPairEntry_present:
  assumes g: "good obj" and m: "veth_of B obj (of_int (Index (HostPeer veth))) \<noteq> None" "veth_of B obj (of_int (Index (PodPeer veth))) \<noteq> None"
      "(of_int (Index (HostPeer veth)) :: u32) \<noteq> of_int (Index (PodPeer veth))"
  shows "\<exists>obj'. DelVethPairEntry B veth obj = (Inr (), obj') \<and> good obj' \<and>
    veth_of B obj' = (veth_of B obj)(of_int (Index (HostPeer veth)) := None, of_int (Index (PodPeer veth)) := None) \<and>
    nd_of B obj' = nd_of B obj \<and> dnat_of B obj' = dnat_of B obj"
proof -
  have i: "ve_inv (VethPairMap obj)" using g by (simp add: obj_inv_def)
  obtain m1 where m1: "map_delete (veth_ops B) (VethPairMap obj) (of_int (Index (HostPeer veth))) = Inr m1"
    using ve.delete_ok [OF i] m(1) by (auto simp: veth_of_def)
  note L = map_contents(8) [OF i m1] map_inv(8) [OF i m1]
  have "of_int (Index (PodPeer veth)) \<in> dom (map_lookup (veth_ops B) m1)" using m(2,3) by (auto simp: L veth_of_def)
  then obtain m2 where m2: "map_delete (veth_ops B) m1 (of_int (Index (PodPeer veth))) = Inr m2" using ve.delete_ok [OF L(2)] by blast
  with m1 have e: "DelVethPairEntry B veth obj = (Inr (), obj\<lparr>VethPairMap := m2\<rparr>)" by (simp add: DelVethPairEntry_def Let_def)
  then show ?thesis using map_contents(8) [OF L(2) m2] L(1) ops_inv(8) [OF g, of veth] by (simp add: map_views)
qed

lemma DelMapEntries_present:
  assumes g: "good (bpf st)" and a: "ipToInt (Addr (PodPeer veth)) = Some a"
    and m: "nd_of B (bpf st) (ucast port) \<noteq> None" "nd_of B (bpf st) a \<noteq> None" "ucast port \<noteq> a" "dnat_of B (bpf st) port \<noteq> None"
      "veth_of B (bpf st) (of_int (Index (HostPeer veth))) \<noteq> None" "veth_of B (bpf st) (of_int (Index (PodPeer veth))) \<noteq> None"
      "(of_int (Index (HostPeer veth)) :: u32) \<noteq> of_int (Index (PodPeer veth))"
  shows "\<exists>b. DelMapEntries B veth port st = (Inr (), st\<lparr>bpf := b\<rparr>) \<and> good b \<and>
    nd_of B b = (nd_of B (bpf st))(ucast port := None, a := None) \<and> dnat_of B b = (dnat_of B (bpf st))(port := None) \<and>
    veth_of B b = (veth_of B (bpf st))(of_int (Index (HostPeer veth)) := None, of_int (Index (PodPeer veth)) := None)"
proof -
  let ?data = "\<lparr>Veth = veth, HostPort = port\<rparr>"
  obtain b1 where b1: "DelNetData B ?data (bpf st) = (Inr (), b1)"
    using DelNetData_present [OF g, of ?data a] a m(1-3) by auto
  have v1: "nd_of B b1 = (nd_of B (bpf st))(ucast port := None, a := None)" "dnat_of B b1 = dnat_of B (bpf st)"
    "veth_of B b1 = veth_of B (bpf st)" using a by (auto intro: DelNetData_ok [OF g b1])
  obtain b2 where b2: "DelDNATTarget B port b1 = (Inr (), b2)" "good b2" "dnat_of B b2 = (dnat_of B b1)(port := None)"
    "nd_of B b2 = nd_of B b1" "veth_of B b2 = veth_of B b1"
    using DelDNATTarget_present [OF DelNetData_good [OF g b1], of port] m(4) v1(2) by auto
  obtain b3 where b3: "DelVethPairEntry B veth b2 = (Inr (), b3)" "good b3" "nd_of B b3 = nd_of B b2" "dnat_of B b3 = dnat_of B b2"
    "veth_of B b3 = (veth_of B b2)(of_int (Index (HostPeer veth)) := None, of_int (Index (PodPeer veth)) := None)"
    using DelVethPairEntry_present [OF b2(2), of veth] m(5-7) b2(5) v1(3) by auto
  have "DelMapEntries B veth port st = (Inr (), st\<lparr>bpf := b3\<rparr>)"
    using b1 b2(1) b3(1) by (simp add: DelMapEntries_def ebind_def map_op_def)
  then show ?thesis using b3 b2 v1 by auto
qed

end

lemma ipToInt_intToIP [simp]: "ipToInt (intToIP a) = Some a"
  by (simp add: ipToInt_def intToIP_def To4_def)

lemma try_call_calls: "try_call host msg c st = (r, st') \<Longrightarrow> calls st' = calls st @ [c]"
  by (auto simp: try_call_def call_def Let_def split: prod.splits host_reply.splits)

lemma collect_try_call:
  "bpf (snd (collect (try_call host msg c) acc)) = bpf (snd acc)"
  "calls (snd (collect (try_call host msg c) acc)) = calls (snd acc) @ [c]"
  by (auto simp: collect_def dest: try_call_bpf try_call_calls split: prod.split sum.split)

lemma collect_Dealloc: "bpf (snd (collect (DeallocVethPair host veth) acc)) = bpf (snd acc)"
  by (auto simp: collect_def DeallocVethPair_def ebind_def dest!: try_call_bpf split: prod.splits sum.splits)

lemma getHostPort_PortIs:
  "host (WorkloadStatusRPC k) (outside st) = (PortIs n, w) \<Longrightarrow> n \<noteq> 0 \<Longrightarrow>
   getHostPort host k st = (Inr (ucast n), st\<lparr>outside := w, calls := calls st @ [WorkloadStatusRPC k]\<rparr>)"
  by (simp add: getHostPort_def call_def)

text \<open>An outside on which everything works, and the first error can be chosen.\<close>

definition sample_host :: "(host_call \<Rightarrow> bool) \<Rightarrow> unit host" where
  "sample_host bad c u =
     (if bad c then Fails
      else case c of
          IpamAdd _ \<Rightarrow> Addrs [[10, 0, 0, 1], [10, 0, 0, 2]]
        | CreateVeth _ _ _ \<Rightarrow> Ifaces 300 [126, 144, 196, 237, 223, 208] 301 [2, 0, 0, 0, 0, 1]
        | WorkloadStatusRPC _ \<Rightarrow> PortIs 30001
        | _ \<Rightarrow> Done, ())"

definition sample_args :: CmdArgs where
  "sample_args = \<lparr>Args = ''K8S_POD_UID=w'', Netns = ''/run/netns/w''\<rparr>"

definition sample_conf :: Conf where
  "sample_conf = \<lparr>PlatformdListenSock = ''/run/p.sock'', IPAMType = ''host-local''\<rparr>"

definition sample_cni_state :: "((u32 \<times> net_data) list, (u16 \<times> dnat_target) list, (u8 \<times> ptp_snat_entry) list,
    (u32 \<times> veth_pair) list, unit) cni_state" where
  "sample_cni_state = \<lparr>bpf = empty_objects, outside = (), calls = []\<rparr>"

definition sample_registered ::
  "((u32 \<times> net_data) list, (u16 \<times> dnat_target) list, (u8 \<times> ptp_snat_entry) list, (u32 \<times> veth_pair) list) Objects" where
  "sample_registered =
     \<lparr>NetDataMap = [(30001, sample_net_data), (0x0A000006, sample_net_data)], PtpDnatTargets = [(30001, sample_target)],
      PtpSnatConfig = [], VethPairMap = [(7, \<lparr>host_if_index = 7, host_if_addr = 0x0A000005\<rparr>), (8, \<lparr>host_if_index = 7, host_if_addr = 0x0A000005\<rparr>)]\<rparr>"

lemma sample_args_parsed: "parseArgs (Args sample_args) = Some [''K8S_POD_UID'' \<mapsto> ''w'']"
  by (simp add: parseArgs_def sample_args_def parse_pair_def)

text \<open>Adding a pod when nothing fails.\<close>

lemma call_bpf_snd [simp]: "bpf (snd (call host c st)) = bpf st"
  by (simp add: call_def case_prod_beta Let_def)

lemma ebind_try_call: "(\<And>w. fst (host c w) \<noteq> Fails) \<Longrightarrow> ebind (try_call host msg c) f st = f () (snd (call host c st))"
  by (simp add: ebind_def try_call_def call_def case_prod_beta Let_def split: host_reply.split)

lemma ebind_map_op: "f (bpf st) = (Inr (), b) \<Longrightarrow> ebind (map_op msg f) g st = g () (st\<lparr>bpf := b\<rparr>)"
  by (simp add: ebind_def map_op_def)

lemma ExecAdd_body_succeeds:
  fixes B :: "('n, 'd, 's, 'v) bpf_ops" and st :: "('n, 'd, 's, 'v, 'w) cni_state" and host :: "'w host"
  assumes H: "\<And>c w. fst (host c w) \<noteq> Fails" "\<And>x w. fst (host (IpamAdd x) w) = Addrs [h, p]"
      "\<And>x y z w. fst (host (CreateVeth x y z) w) = Ifaces hi hm pi pm" "\<And>x w. fst (host (WorkloadStatusRPC x) w) = PortIs n" "n \<noteq> 0"
    and veth: "veth = \<lparr>HostPeer = \<lparr>Index = hi, HardwareAddr = hm, Addr = h\<rparr>, PodPeer = \<lparr>Index = pi, HardwareAddr = pm, Addr = p\<rparr>\<rparr>"
    and M: "AddVethPairEntry B veth (bpf st) = (Inr (), b1)" "handler_AddDNATTarget B veth (ucast n) b1 = (Inr (), b2)"
      "AddNetData B \<lparr>Veth = veth, HostPort = ucast n\<rparr> b2 = (Inr (), b3)"
  shows "\<exists>st'. ExecAdd_body B host args conf k st = (Inr (), st') \<and> bpf st' = b3"
proof -
  have ip: "ebind (AllocIPs host x) f st = f [h, p] (snd (call host (IpamAdd x) st))" for x f and st :: "('n, 'd, 's, 'v, 'w) cni_state"
    using H(2) [of x "outside st"] by (simp add: ebind_def AllocIPs_def call_def case_prod_beta Let_def)
  have ve: "ebind (AllocVethPair B host ns h p) f st1 = f veth ((snd (call host (CreateVeth ns h p) st1))\<lparr>bpf := b1\<rparr>)"
    if "bpf st1 = bpf st" for ns f and st1 :: "('n, 'd, 's, 'v, 'w) cni_state"
    using that H(3) [of ns h p "outside st1"] M(1)
    by (simp add: ebind_def AllocVethPair_def call_def case_prod_beta Let_def veth map_op_def)
  have po: "ebind (getHostPort host x) f st = f (ucast n) (snd (call host (WorkloadStatusRPC x) st))" for x f and st :: "('n, 'd, 's, 'v, 'w) cni_state"
    using H(4) [of x "outside st"] H(5) by (simp add: ebind_def getHostPort_def call_def case_prod_beta Let_def)
  have at: "ebind (AttachHostVethBPF host veth) f st = f () (snd (call host (AttachProg ProgHostEgress (Index (HostPeer veth)))
      (snd (call host (AttachProg ProgARP (Index (HostPeer veth))) (snd (call host (AttachProg ProgSNAT (Index (HostPeer veth))) st))))))"
    for f and st :: "('n, 'd, 's, 'v, 'w) cni_state"
    using H(1) by (simp add: AttachHostVethBPF_def ebind_def try_call_def call_def case_prod_beta Let_def split: host_reply.split)
  have la: "\<exists>st'. try_call host msg c st = (Inr (), st') \<and> bpf st' = b" if "bpf st = b"
    for msg c b and st :: "('n, 'd, 's, 'v, 'w) cni_state"
    using that H(1) [of c "outside st"] by (simp add: try_call_def call_def case_prod_beta Let_def split: host_reply.split)
  show ?thesis
    using M by (simp add: ExecAdd_body_def ip ve at po AttachCtrVethBPF_def ebind_try_call H(1) ebind_map_op) (rule la, simp)
qed

lemma sample_add_ok: "\<exists>st'. ExecAdd alist_ops (sample_host (\<lambda>_. False)) sample_args sample_conf sample_cni_state = (Inr (), st')"
proof -
  let ?veth = "\<lparr>HostPeer = \<lparr>Index = 300, HardwareAddr = [126, 144, 196, 237, 223, 208], Addr = [10, 0, 0, 1]\<rparr>,
    PodPeer = \<lparr>Index = 301, HardwareAddr = [2, 0, 0, 0, 0, 1], Addr = [10, 0, 0, 2]\<rparr>\<rparr>"
  obtain b1 b2 b3 where "AddVethPairEntry alist_ops ?veth (bpf sample_cni_state) = (Inr (), b1)"
    "handler_AddDNATTarget alist_ops ?veth (ucast (30001 :: u32)) b1 = (Inr (), b2)"
    "AddNetData alist_ops \<lparr>Veth = ?veth, HostPort = ucast (30001 :: u32)\<rparr> b2 = (Inr (), b3)"
    by (simp add: AddVethPairEntry_def handler_AddDNATTarget_def AddDNATTarget_def AddNetData_def netDataToMapValue_def peer_value_def
      ipToInt_def To4_def mac6_def alist_ops_def alist_hash_def sample_cni_state_def empty_objects_def Let_def
      net_data_max_entries_def dnat_targets_max_entries_def veth_pair_max_entries_def)
  then have "\<exists>st'. ExecAdd_body alist_ops (sample_host (\<lambda>_. False)) sample_args sample_conf ''w'' sample_cni_state = (Inr (), st') \<and> bpf st' = b3"
    by (intro ExecAdd_body_succeeds [where n = 30001 and h = "[10, 0, 0, 1]" and p = "[10, 0, 0, 2]" and veth = ?veth])
      (simp_all add: sample_host_def split: host_call.split)
  then show ?thesis by (auto simp: ExecAdd_def sample_args_parsed sample_conf_def)
qed

lemma ExecAdd_registers:
  assumes "datapath_maps B ndi dni sni vei" "obj_inv ndi dni sni vei (bpf st)" "ExecAdd B host args conf st = (Inr (), st')"
  shows "\<exists>k n w w' veth v. Option.bind (parseArgs (Args args)) (\<lambda>a. a ''K8S_POD_UID'') = Some k \<and>
    host (WorkloadStatusRPC k) w = (PortIs n, w') \<and> n \<noteq> 0 \<and>
    netDataToMapValue \<lparr>Veth = veth, HostPort = ucast n\<rparr> = Some v \<and>
    obj_inv ndi dni sni vei (bpf st') \<and>
    nd_of B (bpf st') = (nd_of B (bpf st))(ucast (ucast n :: u16) \<mapsto> v, if_addr (pod_peer v) \<mapsto> v) \<and>
    dnat_of B (bpf st') = (dnat_of B (bpf st))(ucast n \<mapsto> \<lparr>tgt_ip_addr = if_addr (pod_peer v),
      tgt_iface_idx = ucast (if_index (host_peer v)), tgt_mac_addr = peer_mac (pod_peer v)\<rparr>) \<and>
    veth_of B (bpf st') = (veth_of B (bpf st))
      (if_index (host_peer v) \<mapsto> \<lparr>host_if_index = if_index (host_peer v), host_if_addr = if_addr (host_peer v)\<rparr>,
       if_index (pod_peer v) \<mapsto> \<lparr>host_if_index = if_index (host_peer v), host_if_addr = if_addr (host_peer v)\<rparr>)"
proof -
  obtain a k where k: "parseArgs (Args args) = Some a" "a ''K8S_POD_UID'' = Some k"
    and body: "ExecAdd_body B host args conf k st = (Inr (), st')" using ExecAdd_Inr [OF assms(3)] by metis
  obtain veth port b1 b2 where V: "AddVethPairEntry B veth (bpf st) = (Inr (), b1)"
    and D: "handler_AddDNATTarget B veth port b1 = (Inr (), b2)"
    and N: "AddNetData B \<lparr>Veth = veth, HostPort = port\<rparr> b2 = (Inr (), bpf st')"
    and p: "\<exists>w n w'. host (WorkloadStatusRPC k) w = (PortIs n, w') \<and> n \<noteq> 0 \<and> port = ucast n"
    by (rule ExecAdd_body_Inr [OF body])
  have g1: "obj_inv ndi dni sni vei b1" using datapath_maps.ops_inv(7) [OF assms(1,2), of veth] V by simp
  have g2: "obj_inv ndi dni sni vei b2"
    using datapath_maps.ops_inv(3) [OF assms(1) g1] D by (simp add: handler_AddDNATTarget_def) (metis snd_conv)
  have g3: "obj_inv ndi dni sni vei (bpf st')" using datapath_maps.AddNetData_good [OF assms(1) g2 N] .
  obtain va where W: "ipToInt (Addr (HostPeer veth)) = Some va" "veth_of B b1 = (veth_of B (bpf st))
      (of_int (Index (HostPeer veth)) \<mapsto> \<lparr>host_if_index = of_int (Index (HostPeer veth)), host_if_addr = va\<rparr>,
       of_int (Index (PodPeer veth)) \<mapsto> \<lparr>host_if_index = of_int (Index (HostPeer veth)), host_if_addr = va\<rparr>)"
    "nd_of B b1 = nd_of B (bpf st)" "dnat_of B b1 = dnat_of B (bpf st)"
    by (rule datapath_maps.AddVethPairEntry_ok [OF assms(1,2) V])
  obtain pa m where T: "ipToInt (Addr (PodPeer veth)) = Some pa" "mac6 (HardwareAddr (PodPeer veth)) = Some m"
    "dnat_of B b2 = (dnat_of B b1)(port \<mapsto> \<lparr>tgt_ip_addr = pa, tgt_iface_idx = of_int (Index (HostPeer veth)), tgt_mac_addr = m\<rparr>)"
    "nd_of B b2 = nd_of B b1" "veth_of B b2 = veth_of B b1"
    by (rule datapath_maps.AddDNATTarget_ok [OF assms(1) g1 D [unfolded handler_AddDNATTarget_def]])
  obtain v where v: "netDataToMapValue \<lparr>Veth = veth, HostPort = port\<rparr> = Some v"
    "nd_of B (bpf st') = (nd_of B b2)(ucast port \<mapsto> v, if_addr (pod_peer v) \<mapsto> v)"
    "dnat_of B (bpf st') = dnat_of B b2" "veth_of B (bpf st') = veth_of B b2"
    using datapath_maps.AddNetData_ok [OF assms(1) g2 N] by (metis NetData.select_convs(2))
  note P = netDataToMapValue_Some [OF v(1)]
  from p obtain w n w' where "host (WorkloadStatusRPC k) w = (PortIs n, w')" "n \<noteq> 0" "port = ucast n" by blast
  with k g3 v W T P show ?thesis by (intro exI [of _ k] exI [of _ n] exI [of _ w] exI [of _ w'] exI [of _ veth] exI [of _ v])
      (simp add: of_int_u8)
qed

section \<open>Properties\<close>



text \<open>
  C14. When the maps have all entries of a workload, \<^verbatim>\<open>ExecDel\<close> removes exactly these, whatever the
  calls to the outside answer besides the port, and always ends with deallocating the addresses.
\<close>

theorem cni_del_removes:
  assumes "datapath_maps B ndi dni sni vei" "obj_inv ndi dni sni vei (bpf st)"
    and "parseArgs (Args args) = Some a" "a ''K8S_POD_UID'' = Some k"
    and "host (WorkloadStatusRPC k) (outside st) = (PortIs n, w)" "n \<noteq> 0" "port = ucast n"
    and "nd_of B (bpf st) (ucast port) = Some v" "nd_of B (bpf st) (if_addr (pod_peer v)) \<noteq> None" "ucast port \<noteq> if_addr (pod_peer v)"
    and "dnat_of B (bpf st) port \<noteq> None" "veth_of B (bpf st) (if_index (host_peer v)) \<noteq> None"
    and "veth_of B (bpf st) (if_index (pod_peer v)) \<noteq> None" "if_index (host_peer v) \<noteq> if_index (pod_peer v)"
  shows "\<exists>errs st'. ExecDel B host args conf st = (errs, st') \<and> obj_inv ndi dni sni vei (bpf st') \<and>
    nd_of B (bpf st') = (nd_of B (bpf st))(ucast port := None, if_addr (pod_peer v) := None) \<and>
    dnat_of B (bpf st') = (dnat_of B (bpf st))(port := None) \<and>
    veth_of B (bpf st') = (veth_of B (bpf st))(if_index (host_peer v) := None, if_index (pod_peer v) := None) \<and>
    last (calls st') = IpamDel (IPAMType conf)"
proof -
  let ?s1 = "st\<lparr>outside := w, calls := calls st @ [WorkloadStatusRPC k]\<rparr>"
  define veth where "veth =
      \<lparr>HostPeer = \<lparr>Index = uint (if_index (host_peer v)), HardwareAddr = peer_mac (host_peer v), Addr = intToIP (if_addr (host_peer v))\<rparr>,
       PodPeer = \<lparr>Index = uint (if_index (pod_peer v)), HardwareAddr = peer_mac (pod_peer v), Addr = intToIP (if_addr (pod_peer v))\<rparr>\<rparr>"
  have g: "GetVethPair B port ?s1 = Some veth"
    using assms(8) by (simp add: GetVethPair_def GetNetData_def nd_of_def veth_def)
  define acc where "acc = collect (try_call host ''delete listeners'' (DeleteListeners k))
      (collect (try_call host ''delete full match route'' (RouteDelFullMatch veth)) ([], ?s1))"
  have bpf_acc: "bpf (snd acc) = bpf st" by (simp add: acc_def collect_try_call)
  obtain b where b: "DelMapEntries B veth port (snd acc) = (Inr (), (snd acc)\<lparr>bpf := b\<rparr>)" "obj_inv ndi dni sni vei b"
    "nd_of B b = (nd_of B (bpf st))(ucast port := None, if_addr (pod_peer v) := None)" "dnat_of B b = (dnat_of B (bpf st))(port := None)"
    "veth_of B b = (veth_of B (bpf st))(if_index (host_peer v) := None, if_index (pod_peer v) := None)"
    using datapath_maps.DelMapEntries_present [OF assms(1), of "snd acc" veth "if_addr (pod_peer v)" port] assms(2,8-14)
    by (auto simp: bpf_acc veth_def)
  have "ExecDel B host args conf st = collect (try_call host ''deallocate ips'' (IpamDel (IPAMType conf)))
      (collect (DeallocVethPair host veth) (collect (DelMapEntries B veth port) acc))"
    using assms(3,4,7) getHostPort_PortIs [of host k st n w, OF assms(5,6)] g by (simp add: ExecDel_def acc_def)
  moreover have "bpf (snd (collect (DelMapEntries B veth port) acc)) = b" by (simp add: collect_def b(1))
  ultimately show ?thesis using b(2-5)
    by (intro exI [of _ "fst (ExecDel B host args conf st)"] exI [of _ "snd (ExecDel B host args conf st)"])
      (simp add: collect_try_call collect_Dealloc)
qed

theorem cni_del_removes_witness:
  "\<exists>errs st'. ExecDel alist_ops (sample_host (\<lambda>c. c = DeleteListeners ''w'')) sample_args sample_conf
       (sample_cni_state\<lparr>bpf := sample_registered\<rparr>) = (errs, st') \<and>
     nd_of alist_ops (bpf st') 0x0A000006 = None \<and> last (calls st') = IpamDel ''host-local''"
proof -
  let ?st = "sample_cni_state\<lparr>bpf := sample_registered\<rparr>"
  have v: "nd_of alist_ops sample_registered = [30001 \<mapsto> sample_net_data, 0x0A000006 \<mapsto> sample_net_data]"
    "dnat_of alist_ops sample_registered = [30001 \<mapsto> sample_target]"
    "veth_of alist_ops sample_registered = [7 \<mapsto> \<lparr>host_if_index = 7, host_if_addr = 0x0A000005\<rparr>, 8 \<mapsto> \<lparr>host_if_index = 7, host_if_addr = 0x0A000005\<rparr>]"
    by (auto simp: map_views alist_ops_def alist_hash_def sample_registered_def fun_eq_iff)
  have inv: "obj_inv (alist_inv net_data_max_entries) (alist_inv dnat_targets_max_entries) (alist_inv snat_config_max_entries)
     (alist_inv veth_pair_max_entries) (bpf ?st)"
    by (simp add: obj_inv_def alist_inv_def sample_registered_def net_data_max_entries_def dnat_targets_max_entries_def
        veth_pair_max_entries_def)
  show ?thesis
    using cni_del_removes [OF alist_maps.datapath_maps_axioms inv sample_args_parsed, of "''w''"
        "sample_host (\<lambda>c. c = DeleteListeners ''w'')" 30001 "()" 30001 sample_net_data sample_conf]
    by (auto simp: v sample_host_def sample_net_data_def sample_conf_def)
qed



end
