(* ===== verification/Port_Allocator.thy ===== *)
theory Port_Allocator
  imports Prelude
begin

text \<open>
  The allocator of host ports, \<^verbatim>\<open>platformd/workload/port_allocator.go\<close>. The random source is a parameter with
  the documented contract of \<^verbatim>\<open>rand.IntN\<close>: a value below its argument, and a panic if the argument is not
  positive. The mutex makes every operation atomic, so concurrent use is a sequence of operations.
\<close>

section \<open>The allocator\<close>

record PortAllocator =
  portMin :: int
  portMax :: int
  allocated :: "int \<rightharpoonup> bool"

datatype alloc_error = ErrMaxPortTriesReached | IntNPanic

definition NewPortAllocator :: "u16 \<Rightarrow> u16 \<Rightarrow> PortAllocator" where
  "NewPortAllocator pmin pmax = \<lparr>portMin = uint pmin, portMax = uint pmax, allocated = Map.empty\<rparr>"

definition maxTries :: nat where
  "maxTries = 5"

text \<open>The loop of \<^verbatim>\<open>Allocate\<close>: \<open>IntN\<close> maps the state of the random source to a value and the next state.\<close>

function Allocate_loop ::
  "(int \<Rightarrow> 'r \<Rightarrow> int \<times> 'r) \<Rightarrow> nat \<Rightarrow> PortAllocator \<Rightarrow> 'r \<Rightarrow> (alloc_error + u16) \<times> PortAllocator \<times> 'r" where
  "Allocate_loop IntN tries a r =
     (if maxTries \<le> tries then (Inl ErrMaxPortTriesReached, a, r)
      else if portMax a + 1 - portMin a \<le> 0 then (Inl IntNPanic, a, r)
      else
        let (n, r) = IntN (portMax a + 1 - portMin a) r;
            port = n + portMin a
        in case allocated a port of
             Some _ \<Rightarrow> Allocate_loop IntN (tries + 1) a r
           | None \<Rightarrow> (Inr (of_int port), a\<lparr>allocated := (allocated a)(port \<mapsto> True)\<rparr>, r))"
  by pat_completeness auto
termination
  by (relation "measure (\<lambda>(_, tries, _, _). maxTries - tries)") auto

declare Allocate_loop.simps [simp del]

definition Allocate ::
  "(int \<Rightarrow> 'r \<Rightarrow> int \<times> 'r) \<Rightarrow> PortAllocator \<Rightarrow> 'r \<Rightarrow> (alloc_error + u16) \<times> PortAllocator \<times> 'r" where
  "Allocate IntN a r = Allocate_loop IntN 0 a r"

definition Free :: "u16 \<Rightarrow> PortAllocator \<Rightarrow> PortAllocator" where
  "Free port a = a\<lparr>allocated := (allocated a)(uint port := None)\<rparr>"

section \<open>The specification\<close>

text \<open>The ports handed out, and what a sequence of calls leaves handed out.\<close>

definition in_use :: "PortAllocator \<Rightarrow> u16 set" where
  "in_use a = {p. uint p \<in> dom (allocated a)}"

definition alloc_ok :: "PortAllocator \<Rightarrow> bool" where
  "alloc_ok a \<longleftrightarrow> 0 \<le> portMin a \<and> portMax a < 65536 \<and> dom (allocated a) \<subseteq> {portMin a .. portMax a}"

datatype alloc_call = CallAllocate | CallFree u16

fun alloc_calls ::
  "(int \<Rightarrow> 'r \<Rightarrow> int \<times> 'r) \<Rightarrow> alloc_call list \<Rightarrow> PortAllocator \<Rightarrow> 'r \<Rightarrow> u16 list \<Rightarrow> u16 list \<times> PortAllocator \<times> 'r" where
  "alloc_calls IntN [] a r live = (live, a, r)"
| "alloc_calls IntN (CallAllocate # cs) a r live =
     (case Allocate IntN a r of
        (Inl _, a', r') \<Rightarrow> alloc_calls IntN cs a' r' live
      | (Inr p, a', r') \<Rightarrow> alloc_calls IntN cs a' r' (p # live))"
| "alloc_calls IntN (CallFree p # cs) a r live = alloc_calls IntN cs (Free p a) r (removeAll p live)"

text \<open>The ports the random source proposes.\<close>

fun candidates :: "(int \<Rightarrow> 'r \<Rightarrow> int \<times> 'r) \<Rightarrow> nat \<Rightarrow> PortAllocator \<Rightarrow> 'r \<Rightarrow> int list" where
  "candidates IntN 0 a r = []"
| "candidates IntN (Suc k) a r =
     (let (n, r) = IntN (portMax a + 1 - portMin a) r in (n + portMin a) # candidates IntN k a r)"

section \<open>Lemmas\<close>

lemma Allocate_loop_done: "Allocate_loop IntN maxTries a r = (Inl ErrMaxPortTriesReached, a, r)"
  by (simp add: Allocate_loop.simps)

lemma Allocate_loop_step:
  "tries < maxTries \<Longrightarrow> portMin a \<le> portMax a \<Longrightarrow> IntN (portMax a + 1 - portMin a) r = (n, r') \<Longrightarrow>
   Allocate_loop IntN tries a r =
     (if allocated a (n + portMin a) = None
      then (Inr (of_int (n + portMin a)), a\<lparr>allocated := (allocated a)(n + portMin a \<mapsto> True)\<rparr>, r')
      else Allocate_loop IntN (Suc tries) a r')"
  by (subst Allocate_loop.simps) (auto split: option.split)

lemma Allocate_loop_find:
  "portMin a \<le> portMax a \<Longrightarrow> k \<le> maxTries \<Longrightarrow>
   (case find (\<lambda>p. allocated a p = None) (candidates IntN k a r) of
      None \<Rightarrow> \<exists>r'. Allocate_loop IntN (maxTries - k) a r = (Inl ErrMaxPortTriesReached, a, r')
    | Some p \<Rightarrow> \<exists>r'. Allocate_loop IntN (maxTries - k) a r =
        (Inr (of_int p), a\<lparr>allocated := (allocated a)(p \<mapsto> True)\<rparr>, r'))"
proof (induction k arbitrary: r)
  case 0
  then show ?case by (simp add: Allocate_loop_done)
next
  case (Suc k)
  obtain n r' where n: "IntN (portMax a + 1 - portMin a) r = (n, r')" by fastforce
  have "maxTries - Suc k < maxTries" "Suc (maxTries - Suc k) = maxTries - k" using Suc.prems(2) by simp_all
  then show ?case using Suc.IH [of r'] Suc.prems Allocate_loop_step [of "maxTries - Suc k" a IntN r n r', OF _ _ n]
    by (cases "allocated a (n + portMin a)") (auto simp: n split: option.splits)
qed

text \<open>The documented behaviour of the random source.\<close>

locale rand_source =
  fixes IntN :: "int \<Rightarrow> 'r \<Rightarrow> int \<times> 'r"
  assumes IntN_range: "0 < n \<Longrightarrow> 0 \<le> fst (IntN n r) \<and> fst (IntN n r) < n"
begin

lemma candidates_range:
  "portMin a \<le> portMax a \<Longrightarrow> set (candidates IntN k a r) \<subseteq> {portMin a .. portMax a}"
proof (induction k arbitrary: r)
  case (Suc k)
  then show ?case using IntN_range [of "portMax a + 1 - portMin a" r]
    by (cases "IntN (portMax a + 1 - portMin a) r") auto
qed simp

lemma Allocate_cases:
  assumes "alloc_ok a" "Allocate IntN a r = (res, a', r')"
  obtains e where "res = Inl e" "a' = a"
  | p where "res = Inr p" "portMin a \<le> uint p" "uint p \<le> portMax a" "p \<notin> in_use a"
      "a' = a\<lparr>allocated := (allocated a)(uint p \<mapsto> True)\<rparr>"
proof (cases "portMin a \<le> portMax a")
  case False
  then have "res = Inl IntNPanic" "a' = a"
    using assms(2) by (auto simp: Allocate_def Allocate_loop.simps maxTries_def)
  then show thesis by (rule that(1))
next
  case True
  let ?f = "find (\<lambda>p. allocated a p = None) (candidates IntN maxTries a r)"
  note F = Allocate_loop_find [OF True order_refl, of IntN r]
  show thesis
  proof (cases ?f)
    case None
    with F assms(2) show thesis by (intro that(1)) (auto simp: Allocate_def)
  next
    case (Some p)
    then have p: "p \<in> {portMin a .. portMax a}" "allocated a p = None"
      using candidates_range [OF True, of maxTries r] by (auto simp: find_Some_iff dest!: nth_mem)
    moreover have "uint (of_int p :: u16) = p"
      using p(1) assms(1) by (simp add: alloc_ok_def uint_word_of_int)
    ultimately show thesis using F Some assms(2) by (intro that(2) [of "of_int p"]) (auto simp: Allocate_def in_use_def)
  qed
qed

lemma alloc_calls_spec:
  assumes "alloc_calls IntN cs a r live = (live', a', r')" "alloc_ok a" "distinct live" "set live = in_use a"
  shows "distinct live' \<and> set live' = in_use a' \<and> alloc_ok a' \<and> portMin a' = portMin a \<and> portMax a' = portMax a"
  using assms
proof (induction cs arbitrary: a r live)
  case (Cons c cs)
  show ?case
  proof (cases c)
    case CallAllocate
    obtain res a1 r1 where A: "Allocate IntN a r = (res, a1, r1)" by (metis prod_cases3)
    from Cons.prems(2) A show ?thesis
    proof (cases rule: Allocate_cases)
      case (1 e)
      with A Cons.IH [of a r1 live] Cons.prems CallAllocate show ?thesis by simp
    next
      case (2 p)
      then have "alloc_ok a1" "set (p # live) = in_use a1" using Cons.prems by (auto simp: alloc_ok_def in_use_def word_uint_eq_iff)
      with A Cons.IH [of a1 r1 "p # live"] Cons.prems CallAllocate 2 show ?thesis by simp
    qed
  next
    case (CallFree p)
    have "alloc_ok (Free p a)" "set (removeAll p live) = in_use (Free p a)"
      using Cons.prems(2,4) by (auto simp: alloc_ok_def in_use_def Free_def word_uint_eq_iff split: if_splits)
    with Cons.IH [of "Free p a" r "removeAll p live"] Cons.prems CallFree show ?thesis
      by (simp add: distinct_removeAll Free_def)
  qed
qed simp

end

text \<open>A source that reads its values from a list meets the contract.\<close>

definition list_rand :: "int \<Rightarrow> int list \<Rightarrow> int \<times> int list" where
  "list_rand n xs = (case xs of [] \<Rightarrow> (0, []) | x # xs \<Rightarrow> (x mod n, xs))"

interpretation list_rand: rand_source list_rand
  by unfold_locales (auto simp: list_rand_def split: list.split)

section \<open>Properties\<close>

text \<open>
  \<^verbatim>\<open>Allocate\<close> returns, after at most five draws: the first of the five ports drawn that is free, or
  \<^verbatim>\<open>ErrMaxPortTriesReached\<close> if none of the five is, which can happen while other ports are free.
\<close>

theorem allocate_first_free:
  assumes "portMin a \<le> portMax a"
  shows "fst (Allocate IntN a r) =
    (case find (\<lambda>p. allocated a p = None) (candidates IntN maxTries a r) of
       None \<Rightarrow> Inl ErrMaxPortTriesReached | Some p \<Rightarrow> Inr (of_int p))"
  using Allocate_loop_find [OF assms order_refl, of IntN r] by (auto simp: Allocate_def split: option.splits)

theorem allocate_first_free_witness:
  "fst (Allocate list_rand \<lparr>portMin = 30000, portMax = 30009, allocated = [30003 \<mapsto> True]\<rparr> [3, 13, 5]) = Inr 30005"
  using allocate_first_free [of "\<lparr>portMin = 30000, portMax = 30009, allocated = [30003 \<mapsto> True]\<rparr>" list_rand "[3, 13, 5]"]
  by (simp add: maxTries_def eval_nat_numeral list_rand_def)

text \<open>
  C16. A port is never handed out twice: after any sequence of calls of \<^verbatim>\<open>Allocate\<close> and \<^verbatim>\<open>Free\<close>, in
  whatever order the callers get the mutex, the ports handed out and not freed since are distinct, lie in
  the configured range, and are exactly those the allocator has marked.
\<close>

theorem ports_unique:
  assumes "rand_source IntN" "alloc_calls IntN cs (NewPortAllocator pmin pmax) r [] = (live, a, r')"
  shows "distinct live \<and> set live = in_use a \<and> (\<forall>p. p \<in> set live \<longrightarrow> pmin \<le> p \<and> p \<le> pmax)"
proof -
  have "alloc_ok (NewPortAllocator pmin pmax)" using uint_lt2p [of pmax] by (simp add: alloc_ok_def NewPortAllocator_def)
  then have "distinct live \<and> set live = in_use a \<and> alloc_ok a \<and> portMin a = uint pmin \<and> portMax a = uint pmax"
    using rand_source.alloc_calls_spec [OF assms] by (simp add: NewPortAllocator_def in_use_def)
  then show ?thesis by (auto simp: alloc_ok_def in_use_def word_le_def dest!: subsetD)
qed

theorem ports_unique_witness:
  "\<exists>live a r'. alloc_calls list_rand [CallAllocate, CallAllocate, CallFree 30003, CallAllocate]
      (NewPortAllocator 30000 30009) [3, 3, 5, 3] [] = (live, a, r') \<and> live = [30003, 30005] \<and> distinct live"
proof -
  obtain live a r' where l: "alloc_calls list_rand [CallAllocate, CallAllocate, CallFree 30003, CallAllocate]
      (NewPortAllocator 30000 30009) [3, 3, 5, 3] [] = (live, a, r')" by (metis prod_cases3)
  moreover have "live = [30003, 30005]"
    using l by (simp add: Allocate_def Allocate_loop.simps maxTries_def list_rand_def NewPortAllocator_def Free_def)
  ultimately show ?thesis using ports_unique [OF list_rand.rand_source_axioms l] by simp
qed

end
