(* ===== verification/Status_Store.thy ===== *)
theory Status_Store
  imports Go_Lib "HOL-Library.Monad_Syntax"
begin

text \<open>
  The store of statuses, \<^verbatim>\<open>platformd/status\<close>. A \<^verbatim>\<open>Status\<close> holds pointers, the store copies the
  pointers and \<^verbatim>\<open>Update\<close> writes through them, so the structs live in an explicit heap. A nil dereference
  is a panic, the value None. The mutex makes every operation atomic.
\<close>

section \<open>Statuses\<close>

record WorkloadStatus =
  WState :: string
  WPort :: u16

record CheckpointStatus =
  CState :: string
  Message :: string
  CompletedAt :: "nat option"
  CPort :: u16

type_synonym addr = nat

record Status =
  CheckpointStatus :: "addr option"
  WorkloadStatus :: "addr option"

definition WorkloadStateCreating :: string where
  "WorkloadStateCreating = ''CREATING''"

definition WorkloadStateRunning :: string where
  "WorkloadStateRunning = ''RUNNING''"

definition WorkloadStateDeleted :: string where
  "WorkloadStateDeleted = ''DELETED''"

definition WorkloadStateCreationFailed :: string where
  "WorkloadStateCreationFailed = ''CREATION_FAILED''"

lemmas wl_states = WorkloadStateCreating_def WorkloadStateRunning_def WorkloadStateDeleted_def
  WorkloadStateCreationFailed_def

section \<open>The store\<close>

text \<open>The map of the store with the part of the heap its statuses live in; \<open>next_addr\<close> is not in use yet.\<close>

record MemStore =
  data :: "string \<rightharpoonup> Status"
  wl_heap :: "addr \<rightharpoonup> WorkloadStatus"
  cp_heap :: "addr \<rightharpoonup> CheckpointStatus"
  next_addr :: addr

definition NewMemStore :: MemStore where
  "NewMemStore = \<lparr>data = Map.empty, wl_heap = Map.empty, cp_heap = Map.empty, next_addr = 0\<rparr>"

text \<open>The composite literals \<^verbatim>\<open>&WorkloadStatus{...}\<close> and \<^verbatim>\<open>&CheckpointStatus{...}\<close> of the callers.\<close>

definition new_workload :: "WorkloadStatus \<Rightarrow> MemStore \<Rightarrow> Status \<times> MemStore" where
  "new_workload w s =
     (\<lparr>CheckpointStatus = None, WorkloadStatus = Some (next_addr s)\<rparr>,
      s\<lparr>wl_heap := (wl_heap s)(next_addr s \<mapsto> w), next_addr := Suc (next_addr s)\<rparr>)"

definition new_checkpoint :: "CheckpointStatus \<Rightarrow> MemStore \<Rightarrow> Status \<times> MemStore" where
  "new_checkpoint c s =
     (\<lparr>CheckpointStatus = Some (next_addr s), WorkloadStatus = None\<rparr>,
      s\<lparr>cp_heap := (cp_heap s)(next_addr s \<mapsto> c), next_addr := Suc (next_addr s)\<rparr>)"

definition merge_workload :: "WorkloadStatus \<Rightarrow> WorkloadStatus \<Rightarrow> WorkloadStatus" where
  "merge_workload new cur =
     (let cur = (if WState new \<noteq> [] then cur\<lparr>WState := WState new\<rparr> else cur)
      in if WPort new \<noteq> 0 then cur\<lparr>WPort := WPort new\<rparr> else cur)"

definition merge_checkpoint :: "CheckpointStatus \<Rightarrow> CheckpointStatus \<Rightarrow> CheckpointStatus" where
  "merge_checkpoint new cur =
     (let cur = (if CState new \<noteq> [] then cur\<lparr>CState := CState new\<rparr> else cur);
          cur = (if CPort new \<noteq> 0 then cur\<lparr>CPort := CPort new\<rparr> else cur);
          cur = (if CompletedAt new \<noteq> None then cur\<lparr>CompletedAt := CompletedAt new\<rparr> else cur)
      in if Message new \<noteq> [] then cur\<lparr>Message := Message new\<rparr> else cur)"

definition Update :: "string \<Rightarrow> Status \<Rightarrow> MemStore \<Rightarrow> MemStore option" where
  "Update k new s =
     (case data s k of
        None \<Rightarrow> Some (s\<lparr>data := (data s)(k \<mapsto> new)\<rparr>)
      | Some cur \<Rightarrow> do {
          s \<leftarrow> (case WorkloadStatus cur of
                 None \<Rightarrow> Some s
               | Some p \<Rightarrow> do {
                   q \<leftarrow> WorkloadStatus new;
                   n \<leftarrow> wl_heap s q;
                   c \<leftarrow> wl_heap s p;
                   Some (s\<lparr>wl_heap := (wl_heap s)(p \<mapsto> merge_workload n c), data := (data s)(k \<mapsto> cur)\<rparr>)
                 });
          case CheckpointStatus cur of
            None \<Rightarrow> Some s
          | Some p \<Rightarrow> do {
              q \<leftarrow> CheckpointStatus new;
              n \<leftarrow> cp_heap s q;
              c \<leftarrow> cp_heap s p;
              Some (s\<lparr>cp_heap := (cp_heap s)(p \<mapsto> merge_checkpoint n c), data := (data s)(k \<mapsto> cur)\<rparr>)
            }
        })"

text \<open>\<^verbatim>\<open>Get\<close> gives a pointer to a copy of the struct with the two pointers, \<^verbatim>\<open>View\<close> a copy of the map.\<close>

definition Get :: "string \<Rightarrow> MemStore \<Rightarrow> Status option" where
  "Get k s = data s k"

definition Del :: "string \<Rightarrow> MemStore \<Rightarrow> MemStore" where
  "Del k s = s\<lparr>data := (data s)(k := None)\<rparr>"

definition View :: "MemStore \<Rightarrow> string \<rightharpoonup> Status" where
  "View s = data s"

section \<open>The specification\<close>

text \<open>
  The store as a map of values: what the pointers of an entry point to. Pointers are live, below the next
  address, and no two entries share one; every entry has one part or the other.
\<close>

definition deref :: "('k \<rightharpoonup> addr) \<Rightarrow> (addr \<rightharpoonup> 'v) \<Rightarrow> 'k \<rightharpoonup> 'v" where
  "deref ptr h k = Option.bind (ptr k) h"

definition ptr_ok :: "('k \<rightharpoonup> addr) \<Rightarrow> (addr \<rightharpoonup> 'v) \<Rightarrow> addr \<Rightarrow> bool" where
  "ptr_ok ptr h n \<longleftrightarrow> (\<forall>k p. ptr k = Some p \<longrightarrow> h p \<noteq> None) \<and> (\<forall>p. h p \<noteq> None \<longrightarrow> p < n) \<and>
     (\<forall>i j p. ptr i = Some p \<longrightarrow> ptr j = Some p \<longrightarrow> i = j)"

definition wl_ptr :: "MemStore \<Rightarrow> string \<rightharpoonup> addr" where
  "wl_ptr s k = Option.bind (data s k) WorkloadStatus"

definition cp_ptr :: "MemStore \<Rightarrow> string \<rightharpoonup> addr" where
  "cp_ptr s k = Option.bind (data s k) CheckpointStatus"

definition store_ok :: "MemStore \<Rightarrow> bool" where
  "store_ok s \<longleftrightarrow> ptr_ok (wl_ptr s) (wl_heap s) (next_addr s) \<and> ptr_ok (cp_ptr s) (cp_heap s) (next_addr s) \<and>
     (\<forall>k. data s k \<noteq> None \<longrightarrow> wl_ptr s k \<noteq> None \<or> cp_ptr s k \<noteq> None) \<and> finite (dom (data s))"

text \<open>The two parts of an entry as values.\<close>

definition wl_val :: "MemStore \<Rightarrow> string \<rightharpoonup> WorkloadStatus" where
  "wl_val s = deref (wl_ptr s) (wl_heap s)"

definition cp_val :: "MemStore \<Rightarrow> string \<rightharpoonup> CheckpointStatus" where
  "cp_val s = deref (cp_ptr s) (cp_heap s)"

text \<open>The update of a workload status as the reconciler does it, on the heap and on values.\<close>

definition update_workload :: "string \<Rightarrow> WorkloadStatus \<Rightarrow> MemStore \<Rightarrow> MemStore option" where
  "update_workload k w s = (let (new, s) = new_workload w s in Update k new s)"

definition update_checkpoint :: "string \<Rightarrow> CheckpointStatus \<Rightarrow> MemStore \<Rightarrow> MemStore option" where
  "update_checkpoint k c s = (let (new, s) = new_checkpoint c s in Update k new s)"

section \<open>Lemmas\<close>

lemma ptr_ok_alloc:
  assumes "ptr_ok ptr h n"
  shows "ptr_ok ptr h (Suc n)" "ptr_ok ptr (h(n \<mapsto> v)) (Suc n)" "deref ptr (h(n \<mapsto> v)) = deref ptr h"
proof -
  have n: "h n = None" using assms unfolding ptr_ok_def by blast
  show "ptr_ok ptr h (Suc n)" "ptr_ok ptr (h(n \<mapsto> v)) (Suc n)" using assms by (auto simp: ptr_ok_def less_Suc_eq)
  have "ptr k \<noteq> Some n" for k using assms n unfolding ptr_ok_def by blast
  then show "deref ptr (h(n \<mapsto> v)) = deref ptr h" by (auto simp: deref_def fun_eq_iff bind_eq_None_conv split: bind_split)
qed

lemma ptr_ok_insert:
  assumes "ptr_ok ptr h n"
  shows "ptr_ok (ptr(k \<mapsto> n)) (h(n \<mapsto> v)) (Suc n)" "deref (ptr(k \<mapsto> n)) (h(n \<mapsto> v)) = (deref ptr h)(k \<mapsto> v)"
proof -
  have n: "h n = None" using assms unfolding ptr_ok_def by blast
  then have "ptr i \<noteq> Some n" for i using assms unfolding ptr_ok_def by blast
  then show "ptr_ok (ptr(k \<mapsto> n)) (h(n \<mapsto> v)) (Suc n)"
    using assms unfolding ptr_ok_def by (auto simp: less_Suc_eq split: if_splits)
  show "deref (ptr(k \<mapsto> n)) (h(n \<mapsto> v)) = (deref ptr h)(k \<mapsto> v)"
    using fun_cong [OF ptr_ok_alloc(3) [OF assms]] by (auto simp: deref_def fun_eq_iff)
qed

lemma ptr_ok_write:
  assumes "ptr_ok ptr h n" "ptr k = Some p"
  shows "ptr_ok ptr (h(p \<mapsto> v)) n" "deref ptr (h(p \<mapsto> v)) = (deref ptr h)(k \<mapsto> v)"
proof -
  show "ptr_ok ptr (h(p \<mapsto> v)) n" using assms unfolding ptr_ok_def by auto
  have "ptr i \<noteq> Some p" if "i \<noteq> k" for i using assms that unfolding ptr_ok_def by blast
  then show "deref ptr (h(p \<mapsto> v)) = (deref ptr h)(k \<mapsto> v)"
    using assms(2) by (auto simp: deref_def fun_eq_iff split: bind_split)
qed

lemma ptr_ok_remove:
  assumes "ptr_ok ptr h n"
  shows "ptr_ok (ptr(k := None)) h n" "deref (ptr(k := None)) h = (deref ptr h)(k := None)"
  using assms by (auto simp: ptr_ok_def deref_def fun_eq_iff split: if_splits)

lemma ptr_ok_live: "ptr_ok ptr h n \<Longrightarrow> ptr k = Some p \<Longrightarrow> \<exists>v. h p = Some v"
  by (auto simp: ptr_ok_def)

lemma ptr_upd [simp]:
  "wl_ptr (s\<lparr>data := d\<rparr>) = (\<lambda>k. Option.bind (d k) WorkloadStatus)"
  "wl_ptr (s\<lparr>wl_heap := h\<rparr>) = wl_ptr s" "wl_ptr (s\<lparr>cp_heap := h'\<rparr>) = wl_ptr s" "wl_ptr (s\<lparr>next_addr := n\<rparr>) = wl_ptr s"
  "cp_ptr (s\<lparr>data := d\<rparr>) = (\<lambda>k. Option.bind (d k) CheckpointStatus)"
  "cp_ptr (s\<lparr>wl_heap := h\<rparr>) = cp_ptr s" "cp_ptr (s\<lparr>cp_heap := h'\<rparr>) = cp_ptr s" "cp_ptr (s\<lparr>next_addr := n\<rparr>) = cp_ptr s"
  by (auto simp: wl_ptr_def cp_ptr_def fun_eq_iff)

lemma ptr_fun_upd [simp]:
  "(\<lambda>i. Option.bind (if i = k then Some st else data s i) WorkloadStatus) = (wl_ptr s)(k := WorkloadStatus st)"
  "(\<lambda>i. Option.bind (if i = k then Some st else data s i) CheckpointStatus) = (cp_ptr s)(k := CheckpointStatus st)"
  by (auto simp: wl_ptr_def cp_ptr_def fun_eq_iff)

lemma data_of_ptr:
  "wl_ptr s k = Some p \<Longrightarrow> \<exists>st. data s k = Some st \<and> WorkloadStatus st = Some p \<and> CheckpointStatus st = cp_ptr s k"
  "cp_ptr s k = Some p \<Longrightarrow> \<exists>st. data s k = Some st \<and> CheckpointStatus st = Some p \<and> WorkloadStatus st = wl_ptr s k"
  by (cases "data s k"; simp add: wl_ptr_def cp_ptr_def)+

lemma store_okD:
  assumes "store_ok s"
  shows "ptr_ok (wl_ptr s) (wl_heap s) (next_addr s)" "ptr_ok (cp_ptr s) (cp_heap s) (next_addr s)"
    "data s k \<noteq> None \<Longrightarrow> wl_ptr s k \<noteq> None \<or> cp_ptr s k \<noteq> None" "finite (dom (data s))"
  using assms by (simp_all add: store_ok_def)

lemmas upd_defs = update_workload_def update_checkpoint_def new_workload_def new_checkpoint_def Update_def
lemmas val_defs = wl_val_def cp_val_def

section \<open>Updates\<close>

lemma update_workload_new:
  assumes ok: "store_ok s" and d: "data s k = None"
  shows "\<exists>s'. update_workload k w s = Some s' \<and> store_ok s' \<and> dom (data s') = insert k (dom (data s)) \<and>
    wl_val s' = (wl_val s)(k \<mapsto> w) \<and> cp_val s' = cp_val s"
proof -
  have "cp_ptr s k = None" using d by (simp add: cp_ptr_def)
  then have c: "(cp_ptr s)(k := None) = cp_ptr s" by (simp add: fun_eq_iff)
  show ?thesis
    using ptr_ok_insert [OF store_okD(1) [OF ok], of k w] ptr_ok_alloc(1) [OF store_okD(2) [OF ok]] store_okD(3,4) [OF ok] d
    by (simp add: upd_defs store_ok_def val_defs c)
qed

lemma update_checkpoint_new:
  assumes ok: "store_ok s" and d: "data s k = None"
  shows "\<exists>s'. update_checkpoint k c s = Some s' \<and> store_ok s' \<and> dom (data s') = insert k (dom (data s)) \<and>
    cp_val s' = (cp_val s)(k \<mapsto> c) \<and> wl_val s' = wl_val s"
proof -
  have "wl_ptr s k = None" using d by (simp add: wl_ptr_def)
  then have c: "(wl_ptr s)(k := None) = wl_ptr s" by (simp add: fun_eq_iff)
  show ?thesis
    using ptr_ok_insert [OF store_okD(2) [OF ok], of k c] ptr_ok_alloc(1) [OF store_okD(1) [OF ok]] store_okD(3,4) [OF ok] d
    by (simp add: upd_defs store_ok_def val_defs c)
qed

lemma update_workload_old:
  assumes ok: "store_ok s" and p: "wl_ptr s k = Some p" and c: "cp_ptr s k = None"
  shows "\<exists>s' old. update_workload k w s = Some s' \<and> store_ok s' \<and> dom (data s') = dom (data s) \<and> wl_val s k = Some old \<and>
    wl_val s' = (wl_val s)(k \<mapsto> merge_workload w old) \<and> cp_val s' = cp_val s \<and> wl_heap s' p = Some (merge_workload w old)"
proof -
  obtain st where st: "data s k = Some st" "WorkloadStatus st = Some p" "CheckpointStatus st = None"
    using data_of_ptr(1) [OF p] c by auto
  note P = store_okD [OF ok]
  obtain old where old: "wl_heap s p = Some old" using ptr_ok_live [OF P(1) p] by blast
  have np: "p \<noteq> next_addr s" using P(1) old by (auto simp: ptr_ok_def)
  have d: "(data s)(k \<mapsto> st) = data s" using st(1) by (simp add: fun_eq_iff)
  note W = ptr_ok_write [OF ptr_ok_alloc(2) [OF P(1), of w] p, of "merge_workload w old"]
  show ?thesis
    using W P(3,4) ptr_ok_alloc(1) [OF P(2)] ptr_ok_alloc(3) [OF P(1), of w] old np st p
    by (simp add: upd_defs store_ok_def val_defs d) (simp add: deref_def)
qed

lemma update_checkpoint_old:
  assumes ok: "store_ok s" and p: "cp_ptr s k = Some p" and c: "wl_ptr s k = None"
  shows "\<exists>s' old. update_checkpoint k w s = Some s' \<and> store_ok s' \<and> dom (data s') = dom (data s) \<and> cp_val s k = Some old \<and>
    cp_val s' = (cp_val s)(k \<mapsto> merge_checkpoint w old) \<and> wl_val s' = wl_val s"
proof -
  obtain st where st: "data s k = Some st" "CheckpointStatus st = Some p" "WorkloadStatus st = None"
    using data_of_ptr(2) [OF p] c by auto
  note P = store_okD [OF ok]
  obtain old where old: "cp_heap s p = Some old" using ptr_ok_live [OF P(2) p] by blast
  have np: "p \<noteq> next_addr s" using P(2) old by (auto simp: ptr_ok_def)
  have d: "(data s)(k \<mapsto> st) = data s" using st(1) by (simp add: fun_eq_iff)
  note W = ptr_ok_write [OF ptr_ok_alloc(2) [OF P(2), of w] p, of "merge_checkpoint w old"]
  show ?thesis
    using W P(3,4) ptr_ok_alloc(1) [OF P(1)] ptr_ok_alloc(3) [OF P(2), of w] old np st p
    by (simp add: upd_defs store_ok_def val_defs d) (simp add: deref_def)
qed

lemma update_other_kind:
  "cp_ptr s k \<noteq> None \<Longrightarrow> update_workload k w s = None" "wl_ptr s k \<noteq> None \<Longrightarrow> update_checkpoint k c s = None"
  by (auto simp: upd_defs wl_ptr_def cp_ptr_def bind_eq_Some_conv split: option.split bind_split)

lemma val_dom:
  assumes "store_ok s"
  shows "wl_val s k = None \<longleftrightarrow> wl_ptr s k = None" "cp_val s k = None \<longleftrightarrow> cp_ptr s k = None"
  using store_okD(1,2) [OF assms] by (auto simp: val_defs deref_def ptr_ok_def split: bind_split)

lemma store_ok_Del:
  assumes "store_ok s"
  shows "store_ok (Del k s)" "wl_val (Del k s) = (wl_val s)(k := None)" "cp_val (Del k s) = (cp_val s)(k := None)"
proof -
  have "wl_ptr (Del k s) = (wl_ptr s)(k := None)" "cp_ptr (Del k s) = (cp_ptr s)(k := None)"
    by (auto simp: Del_def wl_ptr_def cp_ptr_def fun_eq_iff)
  then show "store_ok (Del k s)" "wl_val (Del k s) = (wl_val s)(k := None)" "cp_val (Del k s) = (cp_val s)(k := None)"
    using store_okD(3,4) [OF assms] ptr_ok_remove [OF store_okD(1) [OF assms], of k] ptr_ok_remove [OF store_okD(2) [OF assms], of k]
    by (simp_all add: store_ok_def val_defs Del_def)
qed

section \<open>The interface\<close>

text \<open>
  \<^verbatim>\<open>status.Store\<close> as its clients use it: a client passes one part, built for the call, and looks at the
  parts of what it gets.
\<close>

record 's store_ops =
  upd_wl :: "string \<Rightarrow> WorkloadStatus \<Rightarrow> 's \<Rightarrow> 's option"
  upd_cp :: "string \<Rightarrow> CheckpointStatus \<Rightarrow> 's \<Rightarrow> 's option"
  get :: "string \<Rightarrow> 's \<Rightarrow> (WorkloadStatus option \<times> CheckpointStatus option) option"
  del :: "string \<Rightarrow> 's \<Rightarrow> 's"
  view :: "'s \<Rightarrow> string \<rightharpoonup> (WorkloadStatus option \<times> CheckpointStatus option)"

definition parts :: "MemStore \<Rightarrow> Status \<Rightarrow> WorkloadStatus option \<times> CheckpointStatus option" where
  "parts s st = (Option.bind (WorkloadStatus st) (wl_heap s), Option.bind (CheckpointStatus st) (cp_heap s))"

definition mem_ops :: "MemStore store_ops" where
  "mem_ops = \<lparr>upd_wl = update_workload, upd_cp = update_checkpoint, get = (\<lambda>k s. map_option (parts s) (Get k s)),
     del = Del, view = (\<lambda>s k. map_option (parts s) (View s k))\<rparr>"

definition merged_wl :: "WorkloadStatus \<Rightarrow> WorkloadStatus option \<Rightarrow> WorkloadStatus" where
  "merged_wl w old = (case old of None \<Rightarrow> w | Some o' \<Rightarrow> merge_workload w o')"

definition merged_cp :: "CheckpointStatus \<Rightarrow> CheckpointStatus option \<Rightarrow> CheckpointStatus" where
  "merged_cp c old = (case old of None \<Rightarrow> c | Some o' \<Rightarrow> merge_checkpoint c o')"

locale status_store =
  fixes S :: "'s store_ops" and ok :: "'s \<Rightarrow> bool"
    and wl :: "'s \<Rightarrow> string \<rightharpoonup> WorkloadStatus" and cp :: "'s \<Rightarrow> string \<rightharpoonup> CheckpointStatus"
  assumes upd_wl_ok: "ok s \<Longrightarrow> cp s k = None \<Longrightarrow> \<exists>s'. upd_wl S k w s = Some s' \<and> ok s' \<and>
      wl s' = (wl s)(k \<mapsto> merged_wl w (wl s k)) \<and> cp s' = cp s"
    and upd_cp_ok: "ok s \<Longrightarrow> wl s k = None \<Longrightarrow> \<exists>s'. upd_cp S k c s = Some s' \<and> ok s' \<and>
      cp s' = (cp s)(k \<mapsto> merged_cp c (cp s k)) \<and> wl s' = wl s"
    and upd_panic: "ok s \<Longrightarrow> cp s k \<noteq> None \<Longrightarrow> upd_wl S k w s = None"
      "ok s \<Longrightarrow> wl s k \<noteq> None \<Longrightarrow> upd_cp S k c s = None"
    and get_parts: "ok s \<Longrightarrow> get S k s = (if wl s k = None \<and> cp s k = None then None else Some (wl s k, cp s k))"
    and view_get: "view S s k = get S k s"
    and view_finite: "ok s \<Longrightarrow> finite (dom (view S s))"
    and del_ok: "ok s \<Longrightarrow> ok (del S k s) \<and> wl (del S k s) = (wl s)(k := None) \<and> cp (del S k s) = (cp s)(k := None)"

interpretation mem: status_store mem_ops store_ok wl_val cp_val
proof (unfold_locales, goal_cases)
  case (1 s k w)
  then have c: "cp_ptr s k = None" using val_dom(2) by blast
  show ?case
  proof (cases "wl_ptr s k")
    case None
    then have "data s k = None" "wl_val s k = None" using 1(1) c store_okD(3) val_dom(1) by blast+
    then show ?thesis using update_workload_new [OF 1(1), of k w] by (auto simp: mem_ops_def merged_wl_def)
  next
    case (Some p)
    then show ?thesis using update_workload_old [OF 1(1) Some c, of w] by (auto simp: mem_ops_def merged_wl_def)
  qed
next
  case (2 s k c)
  then have w: "wl_ptr s k = None" using val_dom(1) by blast
  show ?case
  proof (cases "cp_ptr s k")
    case None
    then have "data s k = None" "cp_val s k = None" using 2(1) w store_okD(3) val_dom(2) by blast+
    then show ?thesis using update_checkpoint_new [OF 2(1), of k c] by (auto simp: mem_ops_def merged_cp_def)
  next
    case (Some p)
    then show ?thesis using update_checkpoint_old [OF 2(1) Some w, of c] by (auto simp: mem_ops_def merged_cp_def)
  qed
next
  case (7 s)
  have "dom (view mem_ops s) = dom (data s)" by (auto simp: mem_ops_def View_def)
  then show ?case using 7 store_okD(4) by simp
next
  case (5 s k)
  then show ?case using store_okD(3) [OF 5, of k] val_dom [OF 5, of k]
    by (cases "data s k") (auto simp: mem_ops_def Get_def parts_def val_defs deref_def wl_ptr_def cp_ptr_def)
qed (auto simp: mem_ops_def Get_def View_def store_ok_Del val_dom update_other_kind)

section \<open>Properties\<close>

text \<open>
  C35. \<^verbatim>\<open>Update\<close> of a workload merges: fields that are set replace those of the entry, the others and all
  other entries stay, a new entry is stored as given; and it panics exactly if the entry is one of a
  checkpoint, whose part of the new status is nil.
\<close>

theorem update_merges:
  assumes "store_ok s"
  shows "(update_workload k w s = None \<longleftrightarrow> cp_val s k \<noteq> None) \<and>
    (cp_val s k = None \<longrightarrow> (\<exists>s'. update_workload k w s = Some s' \<and> store_ok s' \<and> cp_val s' = cp_val s \<and>
      (\<forall>i. i \<noteq> k \<longrightarrow> wl_val s' i = wl_val s i) \<and>
      wl_val s' k = Some (case wl_val s k of None \<Rightarrow> w
        | Some old \<Rightarrow> \<lparr>WState = (if WState w = [] then WState old else WState w),
            WPort = (if WPort w = 0 then WPort old else WPort w)\<rparr>)))"
proof (cases "cp_val s k")
  case None
  then show ?thesis using mem.upd_wl_ok [OF assms, of k w]
    by (auto simp: mem_ops_def merged_wl_def merge_workload_def Let_def split: option.split)
next
  case (Some c)
  then show ?thesis using mem.upd_panic(1) [OF assms, of k w] by (simp add: mem_ops_def)
qed

lemma NewMemStore_ok: "store_ok NewMemStore" "wl_val NewMemStore k = None" "cp_val NewMemStore k = None"
  by (simp_all add: store_ok_def ptr_ok_def NewMemStore_def wl_ptr_def cp_ptr_def val_defs deref_def)

theorem update_merges_witness:
  "\<exists>s'. update_workload ''a'' \<lparr>WState = ''CREATING'', WPort = 0\<rparr> NewMemStore = Some s' \<and>
     wl_val s' ''a'' = Some \<lparr>WState = ''CREATING'', WPort = 0\<rparr>"
  using update_merges [OF NewMemStore_ok(1), of "''a''" "\<lparr>WState = ''CREATING'', WPort = 0\<rparr>"] by (auto simp: NewMemStore_ok)

text \<open>
  \<^verbatim>\<open>View\<close> copies the map but not the statuses: a later \<^verbatim>\<open>Update\<close> of an entry shows through a
  view taken before, which then reads the merged status.
\<close>

theorem view_is_shared:
  assumes "store_ok s" "View s k = Some st" "WorkloadStatus st = Some p" "CheckpointStatus st = None"
  shows "\<exists>s' old. wl_heap s p = Some old \<and> update_workload k w s = Some s' \<and> parts s' st = (Some (merge_workload w old), None)"
proof -
  have "wl_ptr s k = Some p" "cp_ptr s k = None" using assms(2-4) by (simp_all add: View_def wl_ptr_def cp_ptr_def)
  moreover from this have "wl_val s k = wl_heap s p" by (simp add: val_defs deref_def)
  ultimately show ?thesis
    using update_workload_old [OF assms(1), of k p w] assms(3,4) by (auto simp: parts_def)
qed

theorem view_is_shared_witness:
  "\<exists>s st s'. store_ok s \<and> View s ''a'' = Some st \<and> parts s st = (Some \<lparr>WState = ''CREATING'', WPort = 0\<rparr>, None) \<and>
     update_workload ''a'' \<lparr>WState = ''RUNNING'', WPort = 0\<rparr> s = Some s' \<and>
     parts s' st = (Some \<lparr>WState = ''RUNNING'', WPort = 0\<rparr>, None)"
proof -
  let ?w = "\<lparr>WState = ''CREATING'', WPort = 0\<rparr>" and ?st = "\<lparr>CheckpointStatus = None, WorkloadStatus = Some 0\<rparr>"
  obtain s where s: "update_workload ''a'' ?w NewMemStore = Some s" "store_ok s"
    using update_workload_new [OF NewMemStore_ok(1), of "''a''" ?w] by (auto simp: NewMemStore_def)
  have d: "View s ''a'' = Some ?st" "wl_heap s 0 = Some ?w"
    using s(1) by (simp_all add: upd_defs NewMemStore_def View_def) auto
  then show ?thesis
    using view_is_shared [OF s(2) d(1), of 0 "\<lparr>WState = ''RUNNING'', WPort = 0\<rparr>"] s(2)
    by (auto simp: parts_def merge_workload_def)
qed

end
