(* ===== verification/Checkpoint_Service.thy ===== *)
theory Checkpoint_Service
  imports Port_Allocator Status_Store Sock
begin

text \<open>
  The checkpoint service, \<^verbatim>\<open>platformd/checkpoint/service.go\<close>: one checkpoint job from the base image to the
  pushed checkpoint, and the collection of what finished jobs leave behind. The container runtime, the
  image service, the file system and the clock are a parameter \<open>env\<close>; blocking connections and
  destroying sockets are the operations of \<open>Sock\<close>, the status store is the interface of
  \<open>Status_Store\<close>, and ports come from \<open>Port_Allocator\<close>.
\<close>

section \<open>Data\<close>

definition CheckpointStateRunning :: string where
  "CheckpointStateRunning = ''RUNNING''"

definition CheckpointStatePullBaseImageFailed :: string where
  "CheckpointStatePullBaseImageFailed = ''PULL_BASE_IMAGE_FAILED''"

definition CheckpointStateContainerWaitReadyFailed :: string where
  "CheckpointStateContainerWaitReadyFailed = ''CONTAINER_WAIT_READY_FAILED''"

definition CheckpointStateContainerCheckpointFailed :: string where
  "CheckpointStateContainerCheckpointFailed = ''CONTAINER_CHECKPOINT_FAILED''"

definition CheckpointStatePushCheckpointFailed :: string where
  "CheckpointStatePushCheckpointFailed = ''PUSH_CHECKPOINT_FAILED''"

definition CheckpointStateCompleted :: string where
  "CheckpointStateCompleted = ''COMPLETED''"

lemmas cp_states = CheckpointStateRunning_def CheckpointStatePullBaseImageFailed_def
  CheckpointStateContainerWaitReadyFailed_def CheckpointStateContainerCheckpointFailed_def
  CheckpointStatePushCheckpointFailed_def CheckpointStateCompleted_def

text \<open>The errors of a job by the step they come from.\<close>

datatype cp_error = ErrPullBaseImage | ErrWaitReady string | ErrContainerInfo | ErrBlock string | ErrFindNetns
  | ErrKillSockets string | ErrCheckpointContainer | ErrCreateImage | ErrPushImage

definition error_text :: "cp_error \<Rightarrow> string" where
  "error_text e =
     (case e of
        ErrPullBaseImage \<Rightarrow> ''pull base image''
      | ErrWaitReady m \<Rightarrow> ''wait ctr ready: '' @ m
      | ErrContainerInfo \<Rightarrow> ''container info''
      | ErrBlock m \<Rightarrow> ''block: '' @ m
      | ErrFindNetns \<Rightarrow> ''find netns: no network namespace found''
      | ErrKillSockets m \<Rightarrow> ''kill sockets: '' @ m
      | ErrCheckpointContainer \<Rightarrow> ''checkpoint container''
      | ErrCreateImage \<Rightarrow> ''create image''
      | ErrPushImage \<Rightarrow> ''push image'')"

definition FindNsPath :: "string \<Rightarrow> (string \<times> string) list \<Rightarrow> string option" where
  "FindNsPath nsType namespaces =
     (let path = foldl (\<lambda>path n. if fst n \<noteq> nsType then path else snd n) [] namespaces
      in if path = [] then None else Some path)"

section \<open>The outside\<close>

datatype cri_call = EnsureImage string | RunPodSandbox string | RunContainer string string | Attach | NewExecutor | WaitForRegex
  | CheckpointContainer string | FromCheckpoint string | Push string
  | RemoveFile string | StopPodSandbox string string | RemovePodSandbox string string | RemoveLogs string

datatype cri_reply = CriOk | CriErr | CriNotExist

record 'w cp_env =
  cri :: "cri_call \<Rightarrow> 'w \<Rightarrow> cri_reply \<times> 'w"
  ContainerInfo :: "'w \<Rightarrow> (string \<times> (string \<times> string) list) option \<times> 'w"
  Now :: "'w \<Rightarrow> nat"
  ReadDir :: "'w \<Rightarrow> (string \<times> bool) list option \<times> 'w"
  ListPodSandbox :: "'w \<Rightarrow> (string \<times> string) list option \<times> 'w"
  attach4 :: "string \<Rightarrow> bool"
  attach6 :: "string \<Rightarrow> bool"
  byte_ord :: byte_order
  null_word :: u32
  closes :: "sock \<Rightarrow> bool"
  enter :: "string \<Rightarrow> u32 option"
  io_tcp :: iter_io
  io_udp :: iter_io

record ('s, 'r, 'w) cp_service =
  statusStore :: 's
  cpPortAlloc :: PortAllocator
  cpRand :: 'r
  socks :: net_state
  cpWorld :: 'w
  cpCalls :: "cri_call list"

definition do_cri :: "'w cp_env \<Rightarrow> cri_call \<Rightarrow> ('s, 'r, 'w) cp_service \<Rightarrow> cri_reply \<times> ('s, 'r, 'w) cp_service" where
  "do_cri env c st = (let (r, w) = cri env c (cpWorld st) in (r, st\<lparr>cpWorld := w, cpCalls := cpCalls st @ [c]\<rparr>))"

text \<open>Calls in a row, up to the first that fails, whose text is the error.\<close>

fun cri_seq ::
  "'w cp_env \<Rightarrow> (string \<times> cri_call) list \<Rightarrow> ('s, 'r, 'w) cp_service \<Rightarrow> string option \<times> ('s, 'r, 'w) cp_service" where
  "cri_seq env [] st = (None, st)"
| "cri_seq env ((msg, c) # cs) st =
     (case do_cri env c st of (CriOk, st) \<Rightarrow> cri_seq env cs st | (_, st) \<Rightarrow> (Some msg, st))"

section \<open>A checkpoint job\<close>

definition set_cp ::
  "'s store_ops \<Rightarrow> string \<Rightarrow> CheckpointStatus \<Rightarrow> ('s, 'r, 'w) cp_service \<Rightarrow> ('s, 'r, 'w) cp_service option" where
  "set_cp S k c st = map_option (\<lambda>s. st\<lparr>statusStore := s\<rparr>) (upd_cp S k c (statusStore st))"

text \<open>\<^verbatim>\<open>waitContainerReady\<close> with \<^verbatim>\<open>runAndAttachContainer\<close>; the result None is a panic.\<close>

definition waitContainerReady ::
  "'s store_ops \<Rightarrow> (int \<Rightarrow> 'r \<Rightarrow> int \<times> 'r) \<Rightarrow> 'w cp_env \<Rightarrow> string \<Rightarrow> string \<Rightarrow> ('s, 'r, 'w) cp_service \<Rightarrow>
   (string option \<times> ('s, 'r, 'w) cp_service) option" where
  "waitContainerReady S IntN env k baseImgURL st =
     (case Allocate IntN (cpPortAlloc st) (cpRand st) of
        (Inl IntNPanic, _) \<Rightarrow> None
      | (Inl ErrMaxPortTriesReached, a, g) \<Rightarrow>
          Some (Some ''run and attach container: allocate port'', st\<lparr>cpPortAlloc := a, cpRand := g\<rparr>)
      | (Inr port, a, g) \<Rightarrow> do {
          st \<leftarrow> set_cp S k \<lparr>CState = CheckpointStateRunning, Message = [], CompletedAt = None, CPort = port\<rparr>
                 (st\<lparr>cpPortAlloc := a, cpRand := g\<rparr>);
          Some (cri_seq env
            [(''run and attach container: create pod'', RunPodSandbox k),
             (''run and attach container: run container'', RunContainer k baseImgURL),
             (''run and attach container: attach container'', Attach),
             (''spdy executor'', NewExecutor),
             (''reading logs'', WaitForRegex)] st)
        })"

text \<open>\<^verbatim>\<open>checkpoint\<close> from the ready container on, and as a whole between the two updates of the status.\<close>

definition checkpoint_ready ::
  "'w cp_env \<Rightarrow> string \<Rightarrow> string \<Rightarrow> string \<Rightarrow> ('s, 'r, 'w) cp_service \<Rightarrow> string \<times> cp_error option \<times> ('s, 'r, 'w) cp_service" where
  "checkpoint_ready env dir k baseRef st =
     (let location = dir @ ''/'' @ k; (info, w) = ContainerInfo env (cpWorld st); st = st\<lparr>cpWorld := w\<rparr> in
      case info of
        None \<Rightarrow> (CheckpointStateCompleted, Some ErrContainerInfo, st)
      | Some (cgroupsPath, namespaces) \<Rightarrow>
          (case BlockNewConnections (attach4 env) (attach6 env) cgroupsPath (socks st) of
             (Inl e, n) \<Rightarrow> (CheckpointStateCompleted, Some (ErrBlock e), st\<lparr>socks := n\<rparr>)
           | (Inr _, n) \<Rightarrow>
               (case FindNsPath ''network'' namespaces of
                  None \<Rightarrow> (CheckpointStateCompleted, Some ErrFindNetns, st\<lparr>socks := n\<rparr>)
                | Some netnsPath \<Rightarrow>
                    (case DestroySocks (byte_ord env) (null_word env) (closes env) (enter env) (io_tcp env) (io_udp env)
                            netnsPath n of
                       (Inl e, n) \<Rightarrow> (CheckpointStateCompleted, Some (ErrKillSockets e), st\<lparr>socks := n\<rparr>)
                     | (Inr _, n) \<Rightarrow>
                         (case do_cri env (CheckpointContainer location) (st\<lparr>socks := n\<rparr>) of
                            (CriOk, st) \<Rightarrow>
                              (case do_cri env (FromCheckpoint location) st of
                                 (CriOk, st) \<Rightarrow>
                                   (case do_cri env (Push baseRef) st of
                                      (CriOk, st) \<Rightarrow> (CheckpointStateCompleted, None, st)
                                    | (_, st) \<Rightarrow> (CheckpointStatePushCheckpointFailed, Some ErrPushImage, st))
                               | (_, st) \<Rightarrow> (CheckpointStatePushCheckpointFailed, Some ErrCreateImage, st))
                          | (_, st) \<Rightarrow> (CheckpointStateContainerCheckpointFailed, Some ErrCheckpointContainer, st))))))"

definition checkpoint_body ::
  "'s store_ops \<Rightarrow> (int \<Rightarrow> 'r \<Rightarrow> int \<times> 'r) \<Rightarrow> 'w cp_env \<Rightarrow> string \<Rightarrow> string \<Rightarrow> string \<Rightarrow> ('s, 'r, 'w) cp_service \<Rightarrow>
   (string \<times> cp_error option \<times> ('s, 'r, 'w) cp_service) option" where
  "checkpoint_body S IntN env dir k baseRef st =
     (case do_cri env (EnsureImage baseRef) st of
        (CriOk, st) \<Rightarrow> do {
          (err, st) \<leftarrow> waitContainerReady S IntN env k baseRef st;
          Some (case err of
             Some m \<Rightarrow> (CheckpointStateContainerWaitReadyFailed, Some (ErrWaitReady m), st)
           | None \<Rightarrow> checkpoint_ready env dir k baseRef st)
        }
      | (_, st) \<Rightarrow> Some (CheckpointStatePullBaseImageFailed, Some ErrPullBaseImage, st))"

definition checkpoint ::
  "'s store_ops \<Rightarrow> (int \<Rightarrow> 'r \<Rightarrow> int \<times> 'r) \<Rightarrow> 'w cp_env \<Rightarrow> string \<Rightarrow> string \<Rightarrow> string \<Rightarrow> ('s, 'r, 'w) cp_service \<Rightarrow>
   (cp_error option \<times> ('s, 'r, 'w) cp_service) option" where
  "checkpoint S IntN env dir k baseRef st = do {
     st \<leftarrow> set_cp S k \<lparr>CState = CheckpointStateRunning, Message = [], CompletedAt = None, CPort = 0\<rparr> st;
     (x, ret, st) \<leftarrow> checkpoint_body S IntN env dir k baseRef st;
     st \<leftarrow> set_cp S k \<lparr>CState = x, Message = (case ret of None \<Rightarrow> [] | Some e \<Rightarrow> error_text e),
            CompletedAt = Some (Now env (cpWorld st)), CPort = 0\<rparr> st;
     Some (ret, st)
   }"

section \<open>Garbage collection\<close>

definition expired :: "nat \<Rightarrow> nat \<Rightarrow> CheckpointStatus \<Rightarrow> bool" where
  "expired now retention c \<longleftrightarrow> (case CompletedAt c of None \<Rightarrow> False | Some t \<Rightarrow> t + retention < now)"

text \<open>The loop over the statuses, in the order \<open>ks\<close> in which Go ranges over the view.\<close>

definition gc_statuses ::
  "'s store_ops \<Rightarrow> nat \<Rightarrow> nat \<Rightarrow> (string \<rightharpoonup> (WorkloadStatus option \<times> CheckpointStatus option)) \<Rightarrow> string list \<Rightarrow>
   's \<times> PortAllocator \<Rightarrow> 's \<times> PortAllocator" where
  "gc_statuses S now retention statuses ks =
     (\<lambda>sa. foldl (\<lambda>(s, a) k. case statuses k of
         Some (_, Some c) \<Rightarrow> if expired now retention c then (del S k s, Free (CPort c) a) else (s, a)
       | _ \<Rightarrow> (s, a)) sa ks)"

fun gc_files ::
  "'w cp_env \<Rightarrow> (string \<Rightarrow> bool) \<Rightarrow> (string \<times> bool) list \<Rightarrow> ('s, 'r, 'w) cp_service \<Rightarrow> string option \<times> ('s, 'r, 'w) cp_service" where
  "gc_files env keep [] st = (None, st)"
| "gc_files env keep ((name, isDir) # files) st =
     (if isDir \<or> keep name then gc_files env keep files st
      else case do_cri env (RemoveFile name) st of
          (CriErr, st) \<Rightarrow> (Some ''remove file'', st)
        | (_, st) \<Rightarrow> gc_files env keep files st)"

fun gc_pods ::
  "'w cp_env \<Rightarrow> (string \<Rightarrow> bool) \<Rightarrow> (string \<times> string) list \<Rightarrow> ('s, 'r, 'w) cp_service \<Rightarrow> string option \<times> ('s, 'r, 'w) cp_service" where
  "gc_pods env keep [] st = (None, st)"
| "gc_pods env keep ((uid, pod) # pods) st =
     (if keep uid then gc_pods env keep pods st
      else case cri_seq env [(''stop pod'', StopPodSandbox uid pod), (''remove pod'', RemovePodSandbox uid pod),
             (''remove checkpoint logs'', RemoveLogs uid)] st of
          (Some e, st) \<Rightarrow> (Some e, st)
        | (None, st) \<Rightarrow> gc_pods env keep pods st)"

definition running :: "(string \<rightharpoonup> (WorkloadStatus option \<times> CheckpointStatus option)) \<Rightarrow> string \<Rightarrow> bool" where
  "running statuses k \<longleftrightarrow>
     (case statuses k of Some (_, Some c) \<Rightarrow> CState c = CheckpointStateRunning | _ \<Rightarrow> False)"

definition CollectGarbage ::
  "'s store_ops \<Rightarrow> 'w cp_env \<Rightarrow> nat \<Rightarrow> ((string \<rightharpoonup> (WorkloadStatus option \<times> CheckpointStatus option)) \<Rightarrow> string list) \<Rightarrow>
   ('s, 'r, 'w) cp_service \<Rightarrow> string option \<times> ('s, 'r, 'w) cp_service" where
  "CollectGarbage S env retention order st =
     (let statuses = view S (statusStore st);
          keep = running statuses;
          (s, a) = gc_statuses S (Now env (cpWorld st)) retention statuses (order statuses) (statusStore st, cpPortAlloc st);
          (files, w) = ReadDir env (cpWorld st);
          st = st\<lparr>statusStore := s, cpPortAlloc := a, cpWorld := w\<rparr>
      in case files of
           None \<Rightarrow> (Some ''read dir'', st)
         | Some files \<Rightarrow>
             (case gc_files env keep files st of
                (Some e, st) \<Rightarrow> (Some e, st)
              | (None, st) \<Rightarrow>
                  let (pods, w) = ListPodSandbox env (cpWorld st); st = st\<lparr>cpWorld := w\<rparr> in
                  (case pods of None \<Rightarrow> (Some ''list pods'', st) | Some pods \<Rightarrow> gc_pods env keep pods st)))"

section \<open>The specification\<close>

text \<open>The state a job ends in, by its error: four errors leave the state of success.\<close>

definition outcome_state :: "cp_error option \<Rightarrow> string" where
  "outcome_state ret =
     (case ret of
        None \<Rightarrow> CheckpointStateCompleted
      | Some e \<Rightarrow> (case e of
            ErrPullBaseImage \<Rightarrow> CheckpointStatePullBaseImageFailed
          | ErrWaitReady _ \<Rightarrow> CheckpointStateContainerWaitReadyFailed
          | ErrCheckpointContainer \<Rightarrow> CheckpointStateContainerCheckpointFailed
          | ErrCreateImage \<Rightarrow> CheckpointStatePushCheckpointFailed
          | ErrPushImage \<Rightarrow> CheckpointStatePushCheckpointFailed
          | ErrContainerInfo \<Rightarrow> CheckpointStateCompleted
          | ErrBlock _ \<Rightarrow> CheckpointStateCompleted
          | ErrFindNetns \<Rightarrow> CheckpointStateCompleted
          | ErrKillSockets _ \<Rightarrow> CheckpointStateCompleted))"

text \<open>The calls garbage collection may make: none that touches what is kept.\<close>

definition gc_allowed :: "(string \<Rightarrow> bool) \<Rightarrow> cri_call \<Rightarrow> bool" where
  "gc_allowed keep c =
     (case c of RemoveFile f \<Rightarrow> \<not> keep f | StopPodSandbox u _ \<Rightarrow> \<not> keep u | RemovePodSandbox u _ \<Rightarrow> \<not> keep u
      | RemoveLogs u \<Rightarrow> \<not> keep u | _ \<Rightarrow> False)"

definition sample_env :: "unit cp_env" where
  "sample_env =
     \<lparr>cri = (\<lambda>_ _. (CriOk, ())), ContainerInfo = (\<lambda>_. (None, ())), Now = (\<lambda>_. 100),
      ReadDir = (\<lambda>_. (Some [(''a'', False), (''b'', False)], ())), ListPodSandbox = (\<lambda>_. (Some [(''b'', ''p'')], ())),
      attach4 = (\<lambda>_. True), attach6 = (\<lambda>_. True), byte_ord = LE, null_word = 0, closes = (\<lambda>_. True),
      enter = (\<lambda>_. Some 1), io_tcp = ReadsAll, io_udp = ReadsAll\<rparr>"

definition sample_service :: "(MemStore, int list, unit) cp_service" where
  "sample_service = \<lparr>statusStore = NewMemStore, cpPortAlloc = NewPortAllocator 30000 30009, cpRand = [3, 1, 4],
     socks = sample_socks, cpWorld = (), cpCalls = []\<rparr>"

definition cp_ok :: "('s \<Rightarrow> bool) \<Rightarrow> ('s, 'r, 'w) cp_service \<Rightarrow> bool" where
  "cp_ok ok st \<longleftrightarrow> ok (statusStore st) \<and> alloc_ok (cpPortAlloc st) \<and> portMin (cpPortAlloc st) \<le> portMax (cpPortAlloc st)"

section \<open>Lemmas\<close>

lemma do_cri_sel:
  "do_cri env c st = (r, st') \<Longrightarrow> statusStore st' = statusStore st \<and> cpPortAlloc st' = cpPortAlloc st \<and>
     socks st' = socks st \<and> cpCalls st' = cpCalls st @ [c]"
  by (auto simp: do_cri_def Let_def split: prod.splits)

lemma cri_seq_sel:
  "cri_seq env cs st = (r, st') \<Longrightarrow> statusStore st' = statusStore st \<and> cpPortAlloc st' = cpPortAlloc st \<and> socks st' = socks st \<and>
     (\<exists>n. cpCalls st' = cpCalls st @ map snd (take n cs))"
proof (induction env cs st rule: cri_seq.induct)
  case (2 env msg c cs st)
  obtain r1 st1 where d: "do_cri env c st = (r1, st1)" by (rule prod.exhaust)
  note s1 = do_cri_sel [OF d]
  show ?case
  proof (cases r1)
    case CriOk
    with 2 d obtain n where "cpCalls st' = cpCalls st1 @ map snd (take n cs)" and
      "statusStore st' = statusStore st1 \<and> cpPortAlloc st' = cpPortAlloc st1 \<and> socks st' = socks st1" by fastforce
    then show ?thesis using s1 by (auto intro!: exI [of _ "Suc n"])
  qed (use 2(2) d s1 in \<open>auto intro!: exI [of _ 1]\<close>)
qed simp

lemma Allocate_no_panic: "portMin a \<le> portMax a \<Longrightarrow> fst (Allocate IntN a r) \<noteq> Inl IntNPanic"
  using Allocate_loop_find [OF _ order_refl, of a IntN r] by (auto simp: Allocate_def split: option.splits)

lemma checkpoint_ready_result:
  assumes "checkpoint_ready env dir k ref st = (x, ret, st')"
  shows "statusStore st' = statusStore st" "x = outcome_state ret"
    "ret = None \<Longrightarrow> \<exists>cgroup path n. BlockNewConnections (attach4 env) (attach6 env) cgroup (socks st) = (Inr (), n) \<and>
       DestroySocks (byte_ord env) (null_word env) (closes env) (enter env) (io_tcp env) (io_udp env) path n = (Inr (), socks st')"
  using assms
  by (auto simp: checkpoint_ready_def outcome_state_def Let_def dest!: do_cri_sel
      split: prod.splits option.splits sum.splits cri_reply.splits) blast

locale checkpoint_env = status_store S ok wl cp + rand_source IntN
  for S :: "'s store_ops" and ok wl cp and IntN :: "int \<Rightarrow> 'r \<Rightarrow> int \<times> 'r"
begin

lemma set_cp_ok:
  assumes "ok (statusStore st)" "wl (statusStore st) k = None"
  obtains s where "set_cp S k c st = Some (st\<lparr>statusStore := s\<rparr>)" "ok s" "wl s = wl (statusStore st)"
    "cp s = (cp (statusStore st))(k \<mapsto> merged_cp c (cp (statusStore st) k))"
  using upd_cp_ok [OF assms, of c] that by (auto simp: set_cp_def)

lemma wait_result:
  assumes o: "cp_ok ok st" "wl (statusStore st) k = None" "cp (statusStore st) k \<noteq> None"
  shows "\<exists>err st'. waitContainerReady S IntN env k url st = Some (err, st') \<and> ok (statusStore st') \<and>
    wl (statusStore st') = wl (statusStore st) \<and> cp (statusStore st') k \<noteq> None \<and> socks st' = socks st"
proof -
  obtain res a g where A: "Allocate IntN (cpPortAlloc st) (cpRand st) = (res, a, g)" by (metis prod_cases3)
  have np: "res \<noteq> Inl IntNPanic" using Allocate_no_panic [of "cpPortAlloc st" IntN "cpRand st"] A o(1) by (simp add: cp_ok_def)
  show ?thesis
  proof (cases res)
    case (Inl e)
    then show ?thesis using A np o by (cases e) (auto simp: waitContainerReady_def cp_ok_def)
  next
    case (Inr p)
    let ?st = "st\<lparr>cpPortAlloc := a, cpRand := g\<rparr>"
    let ?c = "\<lparr>CState = CheckpointStateRunning, Message = [], CompletedAt = None, CPort = p\<rparr>"
    have "ok (statusStore ?st)" "wl (statusStore ?st) k = None" using o by (simp_all add: cp_ok_def)
    then obtain s where s: "set_cp S k ?c ?st = Some (?st\<lparr>statusStore := s\<rparr>)" "ok s" "wl s = wl (statusStore ?st)"
      "cp s = (cp (statusStore ?st))(k \<mapsto> merged_cp ?c (cp (statusStore ?st) k))" by (rule set_cp_ok)
    let ?cs = "[(''run and attach container: create pod'', RunPodSandbox k),
      (''run and attach container: run container'', RunContainer k url),
      (''run and attach container: attach container'', Attach), (''spdy executor'', NewExecutor), (''reading logs'', WaitForRegex)]"
    obtain r st' where c: "cri_seq env ?cs (?st\<lparr>statusStore := s\<rparr>) = (r, st')" by (rule prod.exhaust)
    have "waitContainerReady S IntN env k url st = Some (r, st')"
      using A Inr s(1) c by (simp add: waitContainerReady_def del: cri_seq.simps)
    then show ?thesis using cri_seq_sel [OF c] s by auto
  qed
qed

lemma body_result:
  assumes o: "cp_ok ok st" "wl (statusStore st) k = None" "cp (statusStore st) k \<noteq> None"
  shows "\<exists>ret st'. checkpoint_body S IntN env dir k ref st = Some (outcome_state ret, ret, st') \<and> ok (statusStore st') \<and>
    wl (statusStore st') = wl (statusStore st) \<and> cp (statusStore st') k \<noteq> None \<and>
    (ret = None \<longrightarrow> (\<exists>cgroup path n. BlockNewConnections (attach4 env) (attach6 env) cgroup (socks st) = (Inr (), n) \<and>
       DestroySocks (byte_ord env) (null_word env) (closes env) (enter env) (io_tcp env) (io_udp env) path n = (Inr (), socks st')))"
proof -
  obtain r st1 where d: "do_cri env (EnsureImage ref) st = (r, st1)" by (rule prod.exhaust)
  note s1 = do_cri_sel [OF d]
  show ?thesis
  proof (cases "r = CriOk")
    case False
    then show ?thesis using d s1 o by (cases r) (auto simp: checkpoint_body_def outcome_state_def cp_ok_def)
  next
    case True
    have "cp_ok ok st1" "wl (statusStore st1) k = None" "cp (statusStore st1) k \<noteq> None" using o s1 by (simp_all add: cp_ok_def)
    from wait_result [OF this, of env ref] obtain err st2 where w: "waitContainerReady S IntN env k ref st1 = Some (err, st2)"
      "ok (statusStore st2)" "wl (statusStore st2) = wl (statusStore st1)" "cp (statusStore st2) k \<noteq> None" "socks st2 = socks st1" by blast
    show ?thesis
    proof (cases err)
      case (Some m)
      then show ?thesis using d True w s1 by (auto simp: checkpoint_body_def outcome_state_def)
    next
      case None
      obtain x ret st' where c: "checkpoint_ready env dir k ref st2 = (x, ret, st')" by (metis prod_cases3)
      have "checkpoint_body S IntN env dir k ref st = Some (outcome_state ret, ret, st')"
        using d True w(1) None c checkpoint_ready_result(2) [OF c] by (simp add: checkpoint_body_def)
      then show ?thesis using checkpoint_ready_result(1,3) [OF c] w s1 by auto
    qed
  qed
qed

lemma view_cp: "ok s \<Longrightarrow> Option.bind (view S s k) snd = cp s k"
  by (simp add: view_get get_parts)

lemma gc_statuses_spec:
  assumes st: "\<And>k. Option.bind (statuses k) snd = c0 k"
  shows "ok s \<Longrightarrow> distinct ks \<Longrightarrow> gc_statuses S now ret statuses ks (s, a) = (s', a') \<Longrightarrow>
    ok s' \<and> cp s' = (\<lambda>k. if k \<in> set ks \<and> (\<exists>c. c0 k = Some c \<and> expired now ret c) then None else cp s k) \<and>
    wl s' = (\<lambda>k. if k \<in> set ks \<and> (\<exists>c. c0 k = Some c \<and> expired now ret c) then None else wl s k) \<and>
    in_use a' = in_use a - {CPort c | k c. k \<in> set ks \<and> c0 k = Some c \<and> expired now ret c}"
proof (induction ks arbitrary: s a)
  case Nil
  then show ?case by (simp add: gc_statuses_def)
next
  case (Cons k ks)
  have step: "(case statuses k of Some (_, Some c) \<Rightarrow> if expired now ret c then (del S k s, Free (CPort c) a) else (s, a) | _ \<Rightarrow> (s, a)) =
    (case c0 k of Some c \<Rightarrow> if expired now ret c then (del S k s, Free (CPort c) a) else (s, a) | None \<Rightarrow> (s, a))"
    using st [of k] by (auto split: option.splits)
  have fr: "in_use (Free p a) = in_use a - {p}" for p by (auto simp: in_use_def Free_def word_uint_eq_iff)
  show ?case
  proof (cases "\<exists>c. c0 k = Some c \<and> expired now ret c")
    case True
    then obtain c where c: "c0 k = Some c" "expired now ret c" by blast
    then have g: "gc_statuses S now ret statuses ks (del S k s, Free (CPort c) a) = (s', a')"
      using Cons.prems(3) step by (simp add: gc_statuses_def)
    have d: "ok (del S k s)" "wl (del S k s) = (wl s)(k := None)" "cp (del S k s) = (cp s)(k := None)"
      using del_ok [OF Cons.prems(1)] by blast+
    show ?thesis using Cons.IH [OF d(1) _ g] Cons.prems(2) c d(2,3) fr by (auto simp: fun_eq_iff)
  next
    case False
    then have g: "gc_statuses S now ret statuses ks (s, a) = (s', a')"
      using Cons.prems(3) step by (auto simp: gc_statuses_def split: option.splits)
    show ?thesis using Cons.IH [OF Cons.prems(1) _ g] Cons.prems(2) False by (auto simp: fun_eq_iff)
  qed
qed

end

interpretation mem_cp: checkpoint_env mem_ops store_ok wl_val cp_val list_rand
  by unfold_locales

lemma gc_files_sel:
  "gc_files env keep files st = (r, st') \<Longrightarrow> statusStore st' = statusStore st \<and> cpPortAlloc st' = cpPortAlloc st \<and>
     (\<exists>new. cpCalls st' = cpCalls st @ new \<and> list_all (gc_allowed keep) new)"
proof (induction env keep files st rule: gc_files.induct)
  case (2 env keep name isDir files st)
  obtain r1 st1 where d: "do_cri env (RemoveFile name) st = (r1, st1)" by (rule prod.exhaust)
  show ?case
  proof (cases "isDir \<or> keep name")
    case False
    then have "gc_allowed keep (RemoveFile name)" by (simp add: gc_allowed_def)
    with False 2 d do_cri_sel [OF d] show ?thesis by (cases r1) fastforce+
  qed (use 2 in simp)
qed simp

lemma gc_pods_sel:
  "gc_pods env keep pods st = (r, st') \<Longrightarrow> statusStore st' = statusStore st \<and> cpPortAlloc st' = cpPortAlloc st \<and>
     (\<exists>new. cpCalls st' = cpCalls st @ new \<and> list_all (gc_allowed keep) new)"
proof (induction env keep pods st rule: gc_pods.induct)
  case (2 env keep uid pod pods st)
  let ?cs = "[(''stop pod'', StopPodSandbox uid pod), (''remove pod'', RemovePodSandbox uid pod), (''remove checkpoint logs'', RemoveLogs uid)]"
  obtain r1 st1 where d: "cri_seq env ?cs st = (r1, st1)" by (rule prod.exhaust)
  show ?case
  proof (cases "keep uid")
    case False
    have "list_all (gc_allowed keep) (map snd (take n ?cs))" for n
      using False by (auto simp: gc_allowed_def list_all_iff dest!: in_set_takeD)
    then obtain new where n: "cpCalls st1 = cpCalls st @ new" "list_all (gc_allowed keep) new"
      "statusStore st1 = statusStore st" "cpPortAlloc st1 = cpPortAlloc st" using cri_seq_sel [OF d] by blast
    show ?thesis
    proof (cases r1)
      case None
      then show ?thesis using 2(2) [OF False d [symmetric] None] 2(3) False d n by (auto simp del: cri_seq.simps)
    next
      case (Some e)
      then show ?thesis using 2(3) False d n by (auto simp del: cri_seq.simps)
    qed
  qed (use 2 in simp)
qed simp

lemma sockets_swept:
  assumes "BlockNewConnections a4 a6 cgroup n0 = (Inr (), n)" "DestroySocks bo nul cl en i1 i2 path n = (Inr (), n1)"
    and "\<And>ns. udp_net_ok nul ns n0"
  shows "\<exists>ns. n1 = swept ns cl (n0\<lparr>blocked4 := True, blocked6 := True\<rparr>)"
proof -
  obtain ns where e: "en path = Some ns" using assms(2) by (cases "en path") (auto simp: DestroySocks_def)
  have n: "n = n0\<lparr>blocked4 := True, blocked6 := True\<rparr>" using BlockNewConnections_ok [of a4 a6 cgroup n0] assms(1) by simp
  then have "udp_net_ok nul ns n" using assms(3) [of ns] by (simp add: udp_net_ok_def)
  then show ?thesis using DestroySocks_swept [where enter = en, OF _ e, of nul n bo cl i1 i2] assms(2) n by auto
qed

lemma merged_final:
  "merged_cp \<lparr>CState = outcome_state ret, Message = (case ret of None \<Rightarrow> [] | Some e \<Rightarrow> error_text e), CompletedAt = Some t, CPort = 0\<rparr> (Some c) =
     c\<lparr>CState := outcome_state ret, Message := (case ret of None \<Rightarrow> Message c | Some e \<Rightarrow> error_text e), CompletedAt := Some t\<rparr>"
proof -
  have "error_text e \<noteq> []" for e by (simp add: error_text_def split: cp_error.split)
  moreover have "outcome_state ret \<noteq> []" by (simp add: outcome_state_def cp_states split: option.split cp_error.split)
  ultimately show ?thesis by (cases c) (auto simp: merged_cp_def merge_checkpoint_def split: option.split)
qed

section \<open>Properties\<close>


lemma sample_service_ok: "cp_ok store_ok sample_service" "wl_val (statusStore sample_service) k = None"
  "cp_val (statusStore sample_service) k = None"
  by (simp_all add: cp_ok_def sample_service_def alloc_ok_def NewPortAllocator_def NewMemStore_ok)


text \<open>
  C34. A run of the garbage collection, whether it fails or not: the statuses of checkpoints that ended
  longer than the retention period ago are gone and their ports free, all other statuses and ports are as
  before, and no file, pod or log of a running checkpoint is touched.
\<close>

theorem garbage_collected:
  assumes "checkpoint_env S ok wl cp IntN" "ok (statusStore st)" "map_order order"
    and "CollectGarbage S env retention order st = (res, st')"
    and "old = {k. \<exists>c. cp (statusStore st) k = Some c \<and> expired (Now env (cpWorld st)) retention c}"
  shows "ok (statusStore st') \<and> cp (statusStore st') = (cp (statusStore st)) |` (- old) \<and>
    wl (statusStore st') = (wl (statusStore st)) |` (- old) \<and>
    in_use (cpPortAlloc st') = in_use (cpPortAlloc st) - {CPort c | k c. k \<in> old \<and> cp (statusStore st) k = Some c} \<and>
    (\<exists>new. cpCalls st' = cpCalls st @ new \<and>
       list_all (gc_allowed (\<lambda>k. \<exists>c. cp (statusStore st) k = Some c \<and> CState c = CheckpointStateRunning)) new)"
proof -
  let ?v = "view S (statusStore st)" and ?now = "Now env (cpWorld st)"
  note st = checkpoint_env.axioms(1) [OF assms(1)]
  have cpv: "Option.bind (?v k) snd = cp (statusStore st) k" for k by (rule checkpoint_env.view_cp [OF assms(1,2)])
  have o: "distinct (order ?v)" "set (order ?v) = dom ?v"
    using assms(3) status_store.view_finite [OF st assms(2)] by (simp_all add: map_order_def)
  obtain s a where g: "gc_statuses S ?now retention ?v (order ?v) (statusStore st, cpPortAlloc st) = (s, a)" by (rule prod.exhaust)
  have run: "running ?v = (\<lambda>k. \<exists>c. cp (statusStore st) k = Some c \<and> CState c = CheckpointStateRunning)"
    unfolding cpv [symmetric] by (auto simp: running_def fun_eq_iff split: option.splits)
  have "k \<in> dom ?v" if "k \<in> old" for k using that cpv [of k] by (auto simp: assms(5) bind_eq_Some_conv)
  then have old: "k \<in> set (order ?v) \<and> (\<exists>c. cp (statusStore st) k = Some c \<and> expired ?now retention c) \<longleftrightarrow> k \<in> old" for k
    by (auto simp: assms(5) o(2))
  have old': "(k \<in> set (order ?v) \<and> cp (statusStore st) k = Some c \<and> expired ?now retention c) =
      (k \<in> old \<and> cp (statusStore st) k = Some c)" for k c
    using old [of k] by (auto simp: assms(5))
  note R = checkpoint_env.gc_statuses_spec [OF assms(1) cpv assms(2) o(1) g, unfolded old old']
  have G: "ok s" "cp s = (cp (statusStore st)) |` (- old)" "wl s = (wl (statusStore st)) |` (- old)"
    "in_use a = in_use (cpPortAlloc st) - {CPort c | k c. k \<in> old \<and> cp (statusStore st) k = Some c}"
    using R by (simp_all add: restrict_map_def fun_eq_iff)
  let ?st1 = "st\<lparr>statusStore := s, cpPortAlloc := a, cpWorld := snd (ReadDir env (cpWorld st))\<rparr>"
  have "statusStore st' = s \<and> cpPortAlloc st' = a \<and> (\<exists>new. cpCalls st' = cpCalls st @ new \<and> list_all (gc_allowed (running ?v)) new)"
  proof (cases "fst (ReadDir env (cpWorld st))")
    case None
    then show ?thesis using assms(4) g by (auto simp: CollectGarbage_def Let_def case_prod_beta)
  next
    case (Some files)
    obtain r2 st2 where f: "gc_files env (running ?v) files ?st1 = (r2, st2)" by (rule prod.exhaust)
    then obtain n1 where n1: "cpCalls st2 = cpCalls st @ n1" "list_all (gc_allowed (running ?v)) n1" "statusStore st2 = s" "cpPortAlloc st2 = a"
      using gc_files_sel [OF f] by auto
    show ?thesis
    proof (cases r2)
      case (Some e)
      then show ?thesis using assms(4) g \<open>fst _ = Some files\<close> f n1 by (auto simp: CollectGarbage_def Let_def case_prod_beta)
    next
      case None
      let ?st3 = "st2\<lparr>cpWorld := snd (ListPodSandbox env (cpWorld st2))\<rparr>"
      have "(case fst (ListPodSandbox env (cpWorld st2)) of None \<Rightarrow> (Some ''list pods'', ?st3) | Some pods \<Rightarrow> gc_pods env (running ?v) pods ?st3) = (res, st')"
        using assms(4) g \<open>fst _ = Some files\<close> f None by (simp add: CollectGarbage_def Let_def case_prod_beta)
      then have "statusStore st' = s \<and> cpPortAlloc st' = a \<and> (\<exists>n2. cpCalls st' = cpCalls st2 @ n2 \<and> list_all (gc_allowed (running ?v)) n2)"
        using n1(3,4) gc_pods_sel [of env "running ?v" _ ?st3 res st'] by (auto split: option.splits)
      then obtain n2 where "statusStore st' = s" "cpPortAlloc st' = a" "cpCalls st' = cpCalls st @ (n1 @ n2)" "list_all (gc_allowed (running ?v)) (n1 @ n2)"
        using n1(1,2) by auto
      then show ?thesis by blast
    qed
  qed
  then show ?thesis using G run by simp
qed

theorem garbage_collected_witness:
  "\<exists>res st' new. CollectGarbage mem_ops sample_env 10 sample_order sample_service = (res, st') \<and> store_ok (statusStore st') \<and>
     cpCalls st' = new \<and>
     list_all (gc_allowed (\<lambda>k. \<exists>c. cp_val (statusStore sample_service) k = Some c \<and> CState c = CheckpointStateRunning)) new"
proof -
  obtain res st' where c: "CollectGarbage mem_ops sample_env 10 sample_order sample_service = (res, st')" by (rule prod.exhaust)
  have "store_ok (statusStore sample_service)" using sample_service_ok(1) by (simp add: cp_ok_def)
  from garbage_collected [OF mem_cp.checkpoint_env_axioms this sample_order_ok c refl] c show ?thesis
    by (simp add: sample_service_def)
qed

end
