(* ===== verification/Resources.thy ===== *)
theory Resources
  imports Go_Lib
begin

text \<open>
  The data that control plane, node and client exchange: the domain types of \<^verbatim>\<open>internal/resource\<close>, the
  messages of \<^verbatim>\<open>api\<close> and the codecs of \<^verbatim>\<open>internal/resource/codec\<close> between them. A domain field \<^verbatim>\<open>F\<close> of a
  type is \<open>x_F\<close> with a letter for the type, a field of a message \<open>m_F\<close>. Times are natural numbers, the
  zero time being 0, and a sub-message some codec leaves out is an option.
\<close>

section \<open>Domain types\<close>

record Hash =
  h_Path :: string
  h_Hash :: string

record FlavorVersion =
  v_ID :: string
  v_Version :: string
  v_MinecraftVersion :: string
  v_Hash :: string
  v_FileHashes :: "Hash list"
  v_FilesUploaded :: bool
  v_BuildStatus :: string
  v_CreatedAt :: nat
  v_PresignedURLExpiryDate :: "nat option"
  v_PresignedURL :: "string option"
  v_MinPlayers :: u32
  v_MaxPlayers :: u32

record Flavor =
  f_ID :: string
  f_Name :: string
  f_Versions :: "FlavorVersion list"
  f_CreatedAt :: nat
  f_UpdatedAt :: nat
  f_DeletedAt :: "nat option"

record User =
  u_ID :: string
  u_Nickname :: string
  u_Email :: string
  u_CreatedAt :: nat
  u_UpdatedAt :: nat

record Chunk =
  c_ID :: string
  c_Name :: string
  c_Description :: string
  c_Tags :: "string list"
  c_Flavors :: "Flavor list"
  c_Owner :: User
  c_CreatedAt :: nat
  c_UpdatedAt :: nat
  c_ThumbnailHash :: string
  c_DeletedAt :: "nat option"

record DomainInstance =
  i_ID :: string
  i_Chunk :: Chunk
  i_FlavorVersion :: FlavorVersion
  i_Flavor :: Flavor
  i_Address :: string
  i_State :: string
  i_Port :: "u16 option"
  i_Owner :: User
  i_CreatedAt :: nat
  i_UpdatedAt :: nat
  i_OrderedBy :: string

record StatusReport =
  r_InstanceID :: string
  r_State :: string
  r_Port :: u16

section \<open>Messages\<close>

datatype InstanceState = PENDING | CREATING | RUNNING | DELETING | DELETED | CREATION_FAILED | OtherState int

definition InstanceState_value :: "string \<rightharpoonup> InstanceState" where
  "InstanceState_value =
     [''PENDING'' \<mapsto> PENDING, ''CREATING'' \<mapsto> CREATING, ''RUNNING'' \<mapsto> RUNNING, ''DELETING'' \<mapsto> DELETING,
      ''DELETED'' \<mapsto> DELETED, ''CREATION_FAILED'' \<mapsto> CREATION_FAILED]"

text \<open>\<^verbatim>\<open>strconv.Itoa\<close>, first on naturals.\<close>

fun Itoa :: "nat \<Rightarrow> string" where
  "Itoa n = (if n < 10 then [] else Itoa (n div 10)) @ [char_of (48 + n mod 10)]"

declare Itoa.simps [simp del]

definition Itoa_int :: "int \<Rightarrow> string" where
  "Itoa_int n = (if n < 0 then ''-'' @ Itoa (nat (- n)) else Itoa (nat n))"

text \<open>The method \<^verbatim>\<open>String\<close> of the enumeration: the name, or the number where there is none.\<close>

fun InstanceState_String :: "InstanceState \<Rightarrow> string" where
  "InstanceState_String PENDING = ''PENDING''"
| "InstanceState_String CREATING = ''CREATING''"
| "InstanceState_String RUNNING = ''RUNNING''"
| "InstanceState_String DELETING = ''DELETING''"
| "InstanceState_String DELETED = ''DELETED''"
| "InstanceState_String CREATION_FAILED = ''CREATION_FAILED''"
| "InstanceState_String (OtherState n) = Itoa_int n"

definition BuildStatus_value :: "string \<rightharpoonup> int" where
  "BuildStatus_value =
     [''PENDING'' \<mapsto> 0, ''IMAGE_BUILD'' \<mapsto> 1, ''IMAGE_BUILD_FAILED'' \<mapsto> 2, ''CHECKPOINT_BUILD'' \<mapsto> 3,
      ''CHECKPOINT_BUILD_FAILED'' \<mapsto> 4, ''COMPLETED'' \<mapsto> 5]"

record FlavorVersionMsg =
  m_Id :: string
  m_Version :: string
  m_Hash :: string
  m_FileHashes :: "Hash list"
  m_BuildStatus :: int
  m_FilesUploaded :: bool
  m_MinecraftVersion :: string
  m_CreatedAt :: nat
  m_MinPlayers :: u32
  m_MaxPlayers :: u32

record FlavorMsg =
  mf_Id :: string
  mf_Name :: string
  mf_Versions :: "FlavorVersionMsg list"
  mf_CreatedAt :: nat
  mf_UpdatedAt :: nat

record UserMsg =
  mu_Id :: string
  mu_Nickname :: string
  mu_CreatedAt :: nat
  mu_UpdatedAt :: nat

record ChunkMsg =
  mc_Id :: string
  mc_Name :: string
  mc_Description :: string
  mc_Tags :: "string list"
  mc_CreatedAt :: nat
  mc_UpdatedAt :: nat
  mc_Flavors :: "FlavorMsg list"
  mc_Owner :: "UserMsg option"
  mc_ThumbnailHash :: "string option"

record Instance =
  Id :: string
  InsChunk :: ChunkMsg
  InsFlavorVersion :: FlavorVersionMsg
  Ip :: string
  InsPort :: u32
  State :: InstanceState
  Owner :: UserMsg
  OrderedBy :: string
  InsFlavor :: FlavorMsg

record InstanceStatusReport =
  InstanceId :: string
  ReportPort :: u32
  ReportState :: InstanceState

section \<open>Codecs\<close>

text \<open>The names of the enumeration.\<close>

definition known_state :: "string \<Rightarrow> bool" where
  "known_state s \<longleftrightarrow> InstanceState_value s \<noteq> None"

text \<open>
  Go converts an integer to a string as the UTF-8 text of the character with that number, and to the
  replacement character where there is none.
\<close>

definition utf8 :: "nat \<Rightarrow> string" where
  "utf8 n = map char_of
     (if n < 0x80 then [n]
      else if n < 0x800 then [0xC0 + n div 64, 0x80 + n mod 64]
      else if n < 0x10000 then [0xE0 + n div 4096, 0x80 + n div 64 mod 64, 0x80 + n mod 64]
      else [0xF0 + n div 262144, 0x80 + n div 4096 mod 64, 0x80 + n div 64 mod 64, 0x80 + n mod 64])"

definition string_of_int :: "int \<Rightarrow> string" where
  "string_of_int n =
     (if n < 0 \<or> 0x10FFFF < n \<or> (0xD800 \<le> n \<and> n \<le> 0xDFFF) then utf8 0xFFFD else utf8 (nat n))"

text \<open>A missing key of a Go map reads as zero.\<close>

definition BuildStatusToTransport :: "string \<Rightarrow> int" where
  "BuildStatusToTransport st = (case BuildStatus_value st of Some n \<Rightarrow> n | None \<Rightarrow> 0)"

definition FlavorVersionToDomain :: "FlavorVersionMsg \<Rightarrow> FlavorVersion" where
  "FlavorVersionToDomain m =
     \<lparr>v_ID = m_Id m, v_Version = m_Version m, v_MinecraftVersion = m_MinecraftVersion m, v_Hash = m_Hash m,
      v_FileHashes = m_FileHashes m, v_FilesUploaded = False, v_BuildStatus = string_of_int (m_BuildStatus m),
      v_CreatedAt = m_CreatedAt m, v_PresignedURLExpiryDate = None, v_PresignedURL = None,
      v_MinPlayers = m_MinPlayers m, v_MaxPlayers = m_MaxPlayers m\<rparr>"

definition FlavorVersionToTransport :: "FlavorVersion \<Rightarrow> FlavorVersionMsg" where
  "FlavorVersionToTransport v =
     \<lparr>m_Id = v_ID v, m_Version = v_Version v, m_Hash = v_Hash v, m_FileHashes = v_FileHashes v,
      m_BuildStatus = BuildStatusToTransport (v_BuildStatus v), m_FilesUploaded = v_FilesUploaded v,
      m_MinecraftVersion = v_MinecraftVersion v, m_CreatedAt = v_CreatedAt v,
      m_MinPlayers = v_MinPlayers v, m_MaxPlayers = v_MaxPlayers v\<rparr>"

definition FlavorToTransport :: "Flavor \<Rightarrow> FlavorMsg" where
  "FlavorToTransport f =
     \<lparr>mf_Id = f_ID f, mf_Name = f_Name f, mf_Versions = map FlavorVersionToTransport (f_Versions f),
      mf_CreatedAt = f_CreatedAt f, mf_UpdatedAt = f_UpdatedAt f\<rparr>"

text \<open>A user without the address for mail, as both codecs write it out.\<close>

definition UserToTransport :: "User \<Rightarrow> UserMsg" where
  "UserToTransport u = \<lparr>mu_Id = u_ID u, mu_Nickname = u_Nickname u, mu_CreatedAt = u_CreatedAt u, mu_UpdatedAt = u_UpdatedAt u\<rparr>"

definition ChunkToTransport :: "Chunk \<Rightarrow> ChunkMsg" where
  "ChunkToTransport c =
     \<lparr>mc_Id = c_ID c, mc_Name = c_Name c, mc_Description = c_Description c, mc_Tags = c_Tags c, mc_CreatedAt = c_CreatedAt c,
      mc_UpdatedAt = c_UpdatedAt c, mc_Flavors = map FlavorToTransport (c_Flavors c), mc_Owner = Some (UserToTransport (c_Owner c)),
      mc_ThumbnailHash = Some (c_ThumbnailHash c)\<rparr>"

definition InstanceToTransport :: "DomainInstance \<Rightarrow> Instance" where
  "InstanceToTransport ins =
     (let v = i_FlavorVersion ins; c = i_Chunk ins in
      \<lparr>Id = i_ID ins,
       InsChunk = \<lparr>mc_Id = c_ID c, mc_Name = c_Name c, mc_Description = c_Description c, mc_Tags = c_Tags c,
         mc_CreatedAt = c_CreatedAt c, mc_UpdatedAt = c_UpdatedAt c, mc_Flavors = [], mc_Owner = None, mc_ThumbnailHash = None\<rparr>,
       InsFlavorVersion = \<lparr>m_Id = v_ID v, m_Version = v_Version v, m_Hash = v_Hash v, m_FileHashes = v_FileHashes v,
         m_BuildStatus = BuildStatusToTransport (v_BuildStatus v), m_FilesUploaded = False,
         m_MinecraftVersion = v_MinecraftVersion v, m_CreatedAt = v_CreatedAt v,
         m_MinPlayers = v_MinPlayers v, m_MaxPlayers = v_MaxPlayers v\<rparr>,
       Ip = i_Address ins, InsPort = (case i_Port ins of None \<Rightarrow> 0 | Some p \<Rightarrow> ucast p),
       State = (case InstanceState_value (i_State ins) of Some x \<Rightarrow> x | None \<Rightarrow> PENDING),
       Owner = UserToTransport (i_Owner ins),
       OrderedBy = i_OrderedBy ins, InsFlavor = FlavorToTransport (i_Flavor ins)\<rparr>)"

definition StatusReportToDomain :: "InstanceStatusReport \<Rightarrow> StatusReport" where
  "StatusReportToDomain r =
     \<lparr>r_InstanceID = InstanceId r, r_State = InstanceState_String (ReportState r), r_Port = ucast (ReportPort r)\<rparr>"

definition StatusReportToTransport :: "StatusReport \<Rightarrow> InstanceStatusReport" where
  "StatusReportToTransport r =
     \<lparr>InstanceId = r_InstanceID r, ReportPort = ucast (r_Port r),
      ReportState = (case InstanceState_value (r_State r) of Some x \<Rightarrow> x | None \<Rightarrow> PENDING)\<rparr>"

section \<open>Lemmas\<close>

lemma length_utf8: "length (utf8 n) \<le> 4"
  by (simp add: utf8_def)

lemma BuildStatus_value_short:
  assumes "length s \<le> 4"
  shows "BuildStatus_value s = None"
proof -
  have "s \<noteq> t" if "4 < length t" for t using that assms by auto
  then show ?thesis by (simp add: BuildStatus_value_def)
qed

lemma BuildStatus_of_int [simp]: "BuildStatusToTransport (string_of_int n) = 0"
  by (simp add: BuildStatusToTransport_def string_of_int_def BuildStatus_value_short length_utf8)

lemma InstanceState_value_String: "InstanceState_value (InstanceState_String x) = Some x" if "\<forall>n. x \<noteq> OtherState n"
  using that by (cases x) (auto simp: InstanceState_value_def)

lemma InstanceState_String_value: "InstanceState_value s = Some x \<Longrightarrow> InstanceState_String x = s"
  by (auto simp: InstanceState_value_def split: if_splits)

lemma ucast_u16_u32 [simp]: "ucast (ucast (p :: u16) :: u32) = p"
  by (simp add: unsigned_ucast_eq take_bit_word_eq_self)

section \<open>Properties\<close>

text \<open>
  A status report survives the way from the node to the control plane: decoding what was encoded gives
  the report back, port and state, if its state is one of the six names, and one with any other state
  arrives as pending.
\<close>

theorem status_report_round_trip:
  "StatusReportToDomain (StatusReportToTransport r) = (if known_state (r_State r) then r else r\<lparr>r_State := ''PENDING''\<rparr>)"
  by (auto simp: StatusReportToDomain_def StatusReportToTransport_def known_state_def
      dest: InstanceState_String_value split: option.split)

text \<open>
  The codecs lose the build status of a flavor version: \<^verbatim>\<open>FlavorVersionToDomain\<close> converts the number to
  a one-character string, so what is encoded again is pending, whatever the status was, and not uploaded;
  every other field survives.
\<close>

theorem flavor_version_round_trip:
  "FlavorVersionToTransport (FlavorVersionToDomain m) = m\<lparr>m_BuildStatus := 0, m_FilesUploaded := False\<rparr>"
  by (simp add: FlavorVersionToTransport_def FlavorVersionToDomain_def)

end
