(* ===== verification/Reconciler.thy ===== *)
theory Reconciler
  imports Port_Allocator Status_Store Resources
begin

text \<open>
  The reconciler, \<^verbatim>\<open>platformd/reconciler.go\<close>: how one sync brings the workloads of the node in line with the
  instances of the control plane. The control plane and the workload service behind the interface
  \<^verbatim>\<open>workload.Service\<close> are parameters that act on a world of their own; the store is the interface of
  \<open>Status_Store\<close>. A handler runs to its end before the next one starts, so the goroutines of a sync are
  a list of instances in the order they ran; log output and timers are left out.
\<close>

section \<open>Data\<close>

record reconcilerConfig =
  MaxAttempts :: nat
  SyncInterval :: nat
  NodeID :: string
  WorkloadNamespace :: string
  WorkloadCPUPeriod :: u64
  WorkloadCPUQuota :: u64
  WorkloadMemoryLimit :: u64
  RegistryEndpoint :: string

record Workload =
  ID :: string
  CheckpointImage :: string
  BaseImage :: string
  WInstance :: Instance
  Name :: string
  Namespace :: string
  Hostname :: string
  Labels :: "string \<rightharpoonup> string"
  CPUPeriod :: u64
  CPUQuota :: u64
  MemoryLimitBytes :: u64

definition LabelWorkloadPort :: string where
  "LabelWorkloadPort = ''explorer.chunks.cloud/workload-port''"

definition LabelWorkloadID :: string where
  "LabelWorkloadID = ''explorer.chunks.cloud/workload-id''"

definition InstanceLabels :: "Instance \<Rightarrow> string \<rightharpoonup> string" where
  "InstanceLabels ins =
     [LabelWorkloadID \<mapsto> Id ins,
      ''explorer.chunks.cloud/workload-type'' \<mapsto> ''instance'',
      ''explorer.chunks.cloud/chunk-id'' \<mapsto> mc_Id (InsChunk ins),
      ''explorer.chunks.cloud/chunk-name'' \<mapsto> mc_Name (InsChunk ins),
      ''explorer.chunks.cloud/flavor-version-id'' \<mapsto> m_Id (InsFlavorVersion ins),
      ''explorer.chunks.cloud/ordered-by'' \<mapsto> OrderedBy ins]"

text \<open>The workload of an instance.\<close>

definition instance_workload :: "reconcilerConfig \<Rightarrow> Instance \<Rightarrow> u16 \<Rightarrow> Workload" where
  "instance_workload cfg ins port =
     (let baseURL = RegistryEndpoint cfg @ ''/'' @ m_Id (InsFlavorVersion ins)
      in \<lparr>ID = Id ins, CheckpointImage = baseURL @ '':checkpoint'', BaseImage = baseURL @ '':base'', WInstance = ins,
          Name = m_Id (InsFlavorVersion ins), Namespace = WorkloadNamespace cfg, Hostname = Id ins,
          Labels = [LabelWorkloadPort \<mapsto> Itoa (unat port)] ++ InstanceLabels ins,
          CPUPeriod = WorkloadCPUPeriod cfg, CPUQuota = WorkloadCPUQuota cfg,
          MemoryLimitBytes = WorkloadMemoryLimit cfg\<rparr>)"

section \<open>What the reconciler calls\<close>

text \<open>
  A call sees the store as it is during the call: the network plugin that runs inside \<^verbatim>\<open>RunWorkload\<close> and
  \<^verbatim>\<open>RemoveWorkload\<close> asks for the port there.
\<close>

datatype svc_error = NotFound | OtherError

datatype WorkloadHealthStatus = WorkloadHealthStatusHealthy | WorkloadHealthStatusUnhealthy

record ('s, 'w) services =
  RunWorkload :: "Workload \<Rightarrow> nat \<Rightarrow> 's \<Rightarrow> 'w \<Rightarrow> svc_error option \<times> 'w"
  RemoveWorkload :: "string \<Rightarrow> 's \<Rightarrow> 'w \<Rightarrow> svc_error option \<times> 'w"
  GetWorkloadHealth :: "string \<Rightarrow> 'w \<Rightarrow> (svc_error + WorkloadHealthStatus) \<times> 'w"
  DiscoverInstances :: "string \<Rightarrow> 'w \<Rightarrow> Instance list option \<times> 'w"
  ReceiveReports :: "InstanceStatusReport list \<Rightarrow> 'w \<Rightarrow> bool \<times> 'w"

definition isNotFound :: "svc_error \<Rightarrow> bool" where
  "isNotFound e \<longleftrightarrow> e = NotFound"

section \<open>The reconciler\<close>

record ('s, 'r, 'w) reconciler =
  store :: 's
  portAlloc :: PortAllocator
  rand :: 'r
  attempts :: "string \<Rightarrow> nat"
  world :: 'w

datatype rec_error = ErrMaxAttemptsReached | ErrAllocatePort | ErrRunWorkload svc_error | ErrRemoveWorkload svc_error
  | ErrHealth svc_error

definition set_state :: "'s store_ops \<Rightarrow> string \<Rightarrow> string \<Rightarrow> ('s, 'r, 'w) reconciler \<Rightarrow> ('s, 'r, 'w) reconciler option" where
  "set_state S k x r = map_option (\<lambda>s. r\<lparr>store := s\<rparr>) (upd_wl S k \<lparr>WState = x, WPort = 0\<rparr> (store r))"

definition set_port :: "'s store_ops \<Rightarrow> string \<Rightarrow> u16 \<Rightarrow> ('s, 'r, 'w) reconciler \<Rightarrow> ('s, 'r, 'w) reconciler option" where
  "set_port S k p r = map_option (\<lambda>s. r\<lparr>store := s\<rparr>) (upd_wl S k \<lparr>WState = [], WPort = p\<rparr> (store r))"

definition run_and_record ::
  "reconcilerConfig \<Rightarrow> 's store_ops \<Rightarrow> ('s, 'w) services \<Rightarrow> Instance \<Rightarrow> u16 \<Rightarrow> nat \<Rightarrow> ('s, 'r, 'w) reconciler \<Rightarrow>
   (rec_error option \<times> ('s, 'r, 'w) reconciler) option" where
  "run_and_record cfg S V ins port attempt r =
     (case RunWorkload V (instance_workload cfg ins port) attempt (store r) (world r) of
        (Some e, w) \<Rightarrow>
          let r = r\<lparr>world := w, portAlloc := Free port (portAlloc r)\<rparr>;
              (_, w) = RemoveWorkload V (Id ins) (store r) (world r)
          in Some (Some (ErrRunWorkload e), r\<lparr>world := w\<rparr>)
      | (None, w) \<Rightarrow> do {
          r \<leftarrow> set_state S (Id ins) WorkloadStateRunning (r\<lparr>world := w\<rparr>);
          Some (None, r)
        })"

definition handleInstanceCreation ::
  "reconcilerConfig \<Rightarrow> 's store_ops \<Rightarrow> (int \<Rightarrow> 'r \<Rightarrow> int \<times> 'r) \<Rightarrow> ('s, 'w) services \<Rightarrow> Instance \<Rightarrow>
   ('s, 'r, 'w) reconciler \<Rightarrow> (rec_error option \<times> ('s, 'r, 'w) reconciler) option" where
  "handleInstanceCreation cfg S IntN V ins r =
     (let k = Id ins; attempt = attempts r k in
      if 5 \<le> attempt then do {
        r \<leftarrow> set_state S k WorkloadStateCreationFailed r;
        Some (Some ErrMaxAttemptsReached, r)
      }
      else if (case get S k (store r) of Some (Some w, _) \<Rightarrow> WState w \<noteq> WorkloadStateCreating | _ \<Rightarrow> False)
      then Some (None, r)
      else do {
        r \<leftarrow> set_state S k WorkloadStateCreating r;
        (case Allocate IntN (portAlloc r) (rand r) of
           (Inl IntNPanic, _) \<Rightarrow> None
         | (Inl ErrMaxPortTriesReached, a, g) \<Rightarrow> Some (Some ErrAllocatePort, r\<lparr>portAlloc := a, rand := g\<rparr>)
         | (Inr port, a, g) \<Rightarrow> do {
             r \<leftarrow> set_port S k port (r\<lparr>portAlloc := a, rand := g\<rparr>);
             run_and_record cfg S V ins port (attempt + 1) r
           })
      })"

text \<open>\<^verbatim>\<open>RemoveWorkload\<close> and the status after it, as two handlers have it.\<close>

definition remove_and_record ::
  "'s store_ops \<Rightarrow> ('s, 'w) services \<Rightarrow> string \<Rightarrow> ('s, 'r, 'w) reconciler \<Rightarrow>
   (rec_error option \<times> ('s, 'r, 'w) reconciler) option" where
  "remove_and_record S V k r =
     (case RemoveWorkload V k (store r) (world r) of
        (Some e, w) \<Rightarrow>
          if isNotFound e then do {
            r \<leftarrow> set_state S k WorkloadStateDeleted (r\<lparr>world := w\<rparr>);
            Some (None, r)
          }
          else Some (Some (ErrRemoveWorkload e), r\<lparr>world := w\<rparr>)
      | (None, w) \<Rightarrow> do {
          r \<leftarrow> set_state S k WorkloadStateDeleted (r\<lparr>world := w\<rparr>);
          Some (None, r)
        })"

definition handleInstanceDeleting ::
  "'s store_ops \<Rightarrow> ('s, 'w) services \<Rightarrow> Instance \<Rightarrow> ('s, 'r, 'w) reconciler \<Rightarrow>
   (rec_error option \<times> ('s, 'r, 'w) reconciler) option" where
  "handleInstanceDeleting S V ins r = remove_and_record S V (Id ins) r"

definition handleInstanceRunning ::
  "'s store_ops \<Rightarrow> ('s, 'w) services \<Rightarrow> Instance \<Rightarrow> ('s, 'r, 'w) reconciler \<Rightarrow>
   (rec_error option \<times> ('s, 'r, 'w) reconciler) option" where
  "handleInstanceRunning S V ins r =
     (case GetWorkloadHealth V (Id ins) (world r) of
        (Inl e, w) \<Rightarrow> Some (Some (ErrHealth e), r\<lparr>world := w\<rparr>)
      | (Inr health, w) \<Rightarrow>
          if health = WorkloadHealthStatusHealthy then Some (None, r\<lparr>world := w\<rparr>)
          else remove_and_record S V (Id ins) (r\<lparr>world := w\<rparr>))"

definition reconcile ::
  "reconcilerConfig \<Rightarrow> 's store_ops \<Rightarrow> (int \<Rightarrow> 'r \<Rightarrow> int \<times> 'r) \<Rightarrow> ('s, 'w) services \<Rightarrow> Instance \<Rightarrow>
   ('s, 'r, 'w) reconciler \<Rightarrow> ('s, 'r, 'w) reconciler option" where
  "reconcile cfg S IntN V ins r =
     (let k = Id ins in
      if State ins = PENDING \<or> State ins = CREATING then do {
        (err, r) \<leftarrow> handleInstanceCreation cfg S IntN V ins r;
        (case err of
           None \<Rightarrow> Some r
         | Some e \<Rightarrow> if e = ErrMaxAttemptsReached then Some r
                     else Some (r\<lparr>attempts := (attempts r)(k := attempts r k + 1)\<rparr>))
      }
      else if State ins = DELETING then map_option snd (handleInstanceDeleting S V ins r)
      else if State ins = RUNNING then map_option snd (handleInstanceRunning S V ins r)
      else if State ins = CREATION_FAILED then
        (case RemoveWorkload V k (store r) (world r) of
           (Some _, w) \<Rightarrow> Some (r\<lparr>world := w\<rparr>)
         | (None, w) \<Rightarrow> set_state S k WorkloadStateDeleted (r\<lparr>world := w\<rparr>))
      else Some r)"

fun reconcile_all ::
  "reconcilerConfig \<Rightarrow> 's store_ops \<Rightarrow> (int \<Rightarrow> 'r \<Rightarrow> int \<times> 'r) \<Rightarrow> ('s, 'w) services \<Rightarrow> Instance list \<Rightarrow>
   ('s, 'r, 'w) reconciler \<Rightarrow> ('s, 'r, 'w) reconciler option" where
  "reconcile_all cfg S IntN V [] r = Some r"
| "reconcile_all cfg S IntN V (ins # inss) r = do {
     r \<leftarrow> reconcile cfg S IntN V ins r;
     reconcile_all cfg S IntN V inss r
   }"

text \<open>
  The reports of a sync and the removal of finished statuses. Go ranges over a map in an order of its own,
  here the argument \<open>order\<close>.
\<close>

definition workload_report :: "string \<Rightarrow> WorkloadStatus \<Rightarrow> InstanceStatusReport" where
  "workload_report k wst =
     \<lparr>InstanceId = k, ReportPort = ucast (WPort wst),
      ReportState = (case InstanceState_value (WState wst) of Some x \<Rightarrow> x | None \<Rightarrow> PENDING)\<rparr>"

definition reports ::
  "(string \<rightharpoonup> (WorkloadStatus option \<times> CheckpointStatus option)) \<Rightarrow> string list \<Rightarrow> InstanceStatusReport list" where
  "reports statuses keys =
     List.map_filter (\<lambda>k. map_option (workload_report k) (Option.bind (statuses k) fst)) keys"

definition finished :: "(WorkloadStatus option \<times> CheckpointStatus option) option \<Rightarrow> bool" where
  "finished st \<longleftrightarrow> (case st of
       Some (Some wst, _) \<Rightarrow> WState wst = WorkloadStateDeleted \<or> WState wst = WorkloadStateCreationFailed
     | _ \<Rightarrow> False)"

definition tick ::
  "reconcilerConfig \<Rightarrow> 's store_ops \<Rightarrow> (int \<Rightarrow> 'r \<Rightarrow> int \<times> 'r) \<Rightarrow> ('s, 'w) services \<Rightarrow>
   ((string \<rightharpoonup> (WorkloadStatus option \<times> CheckpointStatus option)) \<Rightarrow> string list) \<Rightarrow>
   ((string \<rightharpoonup> (WorkloadStatus option \<times> CheckpointStatus option)) \<Rightarrow> string list) \<Rightarrow>
   ('s, 'r, 'w) reconciler \<Rightarrow> ('s, 'r, 'w) reconciler option" where
  "tick cfg S IntN V order1 order2 r =
     (case DiscoverInstances V (NodeID cfg) (world r) of
        (None, w) \<Rightarrow> Some (r\<lparr>world := w\<rparr>)
      | (Some inss, w) \<Rightarrow> do {
          r \<leftarrow> reconcile_all cfg S IntN V inss (r\<lparr>world := w\<rparr>);
          let statuses = view S (store r) in
          let (sent, w) = ReceiveReports V (reports statuses (order1 statuses)) (world r) in
          if \<not> sent then Some (r\<lparr>world := w\<rparr>)
          else Some (r\<lparr>world := w,
            store := foldl (\<lambda>s k. if finished (statuses k) then del S k s else s) (store r) (order2 statuses)\<rparr>)
        })"

text \<open>
  The state the reconciler is in between two handlers. The ports start above 0, which stands for a port
  that is not set.
\<close>

definition rec_ok :: "('s \<Rightarrow> bool) \<Rightarrow> ('s, 'r, 'w) reconciler \<Rightarrow> bool" where
  "rec_ok ok r \<longleftrightarrow> ok (store r) \<and> alloc_ok (portAlloc r) \<and> 0 < portMin (portAlloc r) \<and>
     portMin (portAlloc r) \<le> portMax (portAlloc r)"

text \<open>What a handler keeps: no port is given back that was marked before, and attempts end at five.\<close>

definition rec_step_ok :: "('s \<Rightarrow> bool) \<Rightarrow> ('s, 'r, 'w) reconciler \<Rightarrow> ('s, 'r, 'w) reconciler \<Rightarrow> bool" where
  "rec_step_ok ok r r' \<longleftrightarrow> rec_ok ok r' \<and> in_use (portAlloc r) \<subseteq> in_use (portAlloc r') \<and>
     (\<forall>k. attempts r k \<le> 5 \<longrightarrow> attempts r' k \<le> 5)"

text \<open>An instance is due for creation: nothing is known of it, or it is being created.\<close>

definition due :: "WorkloadStatus option \<Rightarrow> bool" where
  "due w \<longleftrightarrow> (case w of None \<Rightarrow> True | Some w \<Rightarrow> WState w = WorkloadStateCreating)"

text \<open>A new reconciler, an instance, and services that count the calls of \<^verbatim>\<open>RunWorkload\<close>, failing or not.\<close>

definition sample_version :: FlavorVersionMsg where
  "sample_version = \<lparr>m_Id = ''f'', m_Version = ''v1'', m_Hash = ''h'', m_FileHashes = [], m_BuildStatus = 5, m_FilesUploaded = True,
     m_MinecraftVersion = ''1.21'', m_CreatedAt = 1, m_MinPlayers = 1, m_MaxPlayers = 8\<rparr>"

definition sample_instance :: "InstanceState \<Rightarrow> Instance" where
  "sample_instance x = \<lparr>Id = ''i'', InsChunk = \<lparr>mc_Id = ''c'', mc_Name = ''my chunk'', mc_Description = ''d'', mc_Tags = [],
     mc_CreatedAt = 1, mc_UpdatedAt = 2, mc_Flavors = [], mc_Owner = None, mc_ThumbnailHash = None\<rparr>, InsFlavorVersion = sample_version, Ip = ''192.0.2.1'', InsPort = 0, State = x,
     Owner = \<lparr>mu_Id = ''u'', mu_Nickname = ''nick'', mu_CreatedAt = 1, mu_UpdatedAt = 1\<rparr>, OrderedBy = ''o'',
     InsFlavor = \<lparr>mf_Id = ''fl'', mf_Name = ''my_flavor'', mf_Versions = [], mf_CreatedAt = 1, mf_UpdatedAt = 1\<rparr>\<rparr>"

definition sample_cfg :: reconcilerConfig where
  "sample_cfg = \<lparr>MaxAttempts = 5, SyncInterval = 1, NodeID = ''node'', WorkloadNamespace = ''ns'',
     WorkloadCPUPeriod = 100000, WorkloadCPUQuota = 200000, WorkloadMemoryLimit = 2000000000, RegistryEndpoint = ''reg''\<rparr>"

definition sample_services :: "bool \<Rightarrow> Instance list \<Rightarrow> (MemStore, nat) services" where
  "sample_services runs inss =
     \<lparr>RunWorkload = (\<lambda>_ _ _ n. (if runs then None else Some OtherError, Suc n)),
      RemoveWorkload = (\<lambda>_ _ n. (None, n)), GetWorkloadHealth = (\<lambda>_ n. (Inr WorkloadHealthStatusHealthy, n)),
      DiscoverInstances = (\<lambda>_ n. (Some inss, n)), ReceiveReports = (\<lambda>_ n. (True, n))\<rparr>"

definition sample_rec :: "(MemStore, int list, nat) reconciler" where
  "sample_rec = \<lparr>store = NewMemStore, portAlloc = NewPortAllocator 30000 30009, rand = [3, 1, 4],
     attempts = (\<lambda>_. 0), world = 0\<rparr>"

section \<open>Lemmas\<close>

lemma set_state_sel:
  "set_state S k x r = Some r' \<Longrightarrow> portAlloc r' = portAlloc r \<and> rand r' = rand r \<and> attempts r' = attempts r \<and> world r' = world r"
  "set_port S k p r = Some r' \<Longrightarrow> portAlloc r' = portAlloc r \<and> rand r' = rand r \<and> attempts r' = attempts r \<and> world r' = world r"
  by (auto simp: set_state_def set_port_def)

lemma remove_and_record_sel:
  "remove_and_record S V k r = Some (e, r') \<Longrightarrow> portAlloc r' = portAlloc r \<and> attempts r' = attempts r"
  by (auto simp: remove_and_record_def bind_eq_Some_conv dest!: set_state_sel split: prod.splits option.splits if_splits)

lemma Free_allocated: "p \<notin> in_use a \<Longrightarrow> Free p (a\<lparr>allocated := (allocated a)(uint p \<mapsto> b)\<rparr>) = a"
  by (cases a) (auto simp: Free_def in_use_def fun_eq_iff)

lemma merged_set:
  "x \<noteq> [] \<Longrightarrow> merged_wl \<lparr>WState = x, WPort = 0\<rparr> old = \<lparr>WState = x, WPort = (case old of None \<Rightarrow> 0 | Some o' \<Rightarrow> WPort o')\<rparr>"
  "p \<noteq> 0 \<Longrightarrow> merged_wl \<lparr>WState = [], WPort = p\<rparr> (Some w) = \<lparr>WState = WState w, WPort = p\<rparr>"
  by (simp_all add: merged_wl_def merge_workload_def split: option.split)

text \<open>The reconciler as a client of the store and of the random source.\<close>

locale reconciler_env = status_store S ok wl cp + rand_source IntN
  for S :: "'s store_ops" and ok wl cp and IntN :: "int \<Rightarrow> 'r \<Rightarrow> int \<times> 'r"
begin

lemma set_state_ok:
  assumes "ok (store r)" "cp (store r) k = None"
  obtains s where "set_state S k x r = Some (r\<lparr>store := s\<rparr>)" "ok s" "cp s = cp (store r)"
    "wl s = (wl (store r))(k \<mapsto> merged_wl \<lparr>WState = x, WPort = 0\<rparr> (wl (store r) k))"
  using upd_wl_ok [OF assms, of "\<lparr>WState = x, WPort = 0\<rparr>"] that by (auto simp: set_state_def)

lemma set_port_ok:
  assumes "ok (store r)" "cp (store r) k = None"
  obtains s where "set_port S k p r = Some (r\<lparr>store := s\<rparr>)" "ok s" "cp s = cp (store r)"
    "wl s = (wl (store r))(k \<mapsto> merged_wl \<lparr>WState = [], WPort = p\<rparr> (wl (store r) k))"
  using upd_wl_ok [OF assms, of "\<lparr>WState = [], WPort = p\<rparr>"] that by (auto simp: set_port_def)

lemma Allocate_result:
  assumes "rec_ok ok r"
  obtains g where "Allocate IntN (portAlloc r) (rand r) = (Inl ErrMaxPortTriesReached, portAlloc r, g)"
  | p g where "p \<notin> in_use (portAlloc r)" "p \<noteq> 0 \<and> portMin (portAlloc r) \<le> uint p \<and> uint p \<le> portMax (portAlloc r)"
    "Allocate IntN (portAlloc r) (rand r) =
       (Inr p, (portAlloc r)\<lparr>allocated := (allocated (portAlloc r))(uint p \<mapsto> True)\<rparr>, g)"
proof -
  have a: "alloc_ok (portAlloc r)" "portMin (portAlloc r) \<le> portMax (portAlloc r)" and pos: "0 < portMin (portAlloc r)"
    using assms by (simp_all add: rec_ok_def)
  obtain res a' g where A: "Allocate IntN (portAlloc r) (rand r) = (res, a', g)" by (metis prod_cases3)
  have "res \<noteq> Inl IntNPanic"
    using Allocate_loop_find [OF a(2) order_refl, of IntN "rand r"] A by (auto simp: Allocate_def split: option.splits)
  moreover have "p \<noteq> 0" if "portMin (portAlloc r) \<le> uint p" for p :: u16 using pos that by auto
  ultimately show thesis using Allocate_cases [OF a(1) A] that A by (metis (full_types) alloc_error.exhaust)
qed

text \<open>
  One attempt to create an instance that is due: no port is left, or \<^verbatim>\<open>RunWorkload\<close> fails and the port is
  given back, or the workload runs with a port that was free.
\<close>

lemma creation_cases:
  assumes r: "rec_ok ok r" and c: "cp (store r) (Id ins) = None" and a: "attempts r (Id ins) < 5"
    and d: "due (wl (store r) (Id ins))"
  obtains (no_port) s g where
    "handleInstanceCreation cfg S IntN V ins r = Some (Some ErrAllocatePort, r\<lparr>store := s, rand := g\<rparr>)"
    "ok s" "cp s = cp (store r)" "wl s (Id ins) \<noteq> None" "due (wl s (Id ins))"
  | (failed) s g p e w w' where "p \<notin> in_use (portAlloc r)" "wl s (Id ins) = Some \<lparr>WState = WorkloadStateCreating, WPort = p\<rparr>"
    "RunWorkload V (instance_workload cfg ins p) (Suc (attempts r (Id ins))) s (world r) = (Some e, w)"
    "w' = snd (RemoveWorkload V (Id ins) s w)"
    "handleInstanceCreation cfg S IntN V ins r = Some (Some (ErrRunWorkload e), r\<lparr>store := s, rand := g, world := w'\<rparr>)"
    "ok s" "cp s = cp (store r)"
  | (runs) s s' g p w where "p \<notin> in_use (portAlloc r)" "portMin (portAlloc r) \<le> uint p \<and> uint p \<le> portMax (portAlloc r)"
    "wl s (Id ins) = Some \<lparr>WState = WorkloadStateCreating, WPort = p\<rparr>"
    "RunWorkload V (instance_workload cfg ins p) (Suc (attempts r (Id ins))) s (world r) = (None, w)"
    "handleInstanceCreation cfg S IntN V ins r = Some (None, r\<lparr>store := s', rand := g, world := w,
       portAlloc := (portAlloc r)\<lparr>allocated := (allocated (portAlloc r))(uint p \<mapsto> True)\<rparr>\<rparr>)"
    "ok s'" "cp s' = cp (store r)" "wl s' (Id ins) = Some \<lparr>WState = WorkloadStateRunning, WPort = p\<rparr>"
proof -
  let ?k = "Id ins" and ?old = "wl (store r) (Id ins)"
  have g: "\<not> (case get S ?k (store r) of Some (Some w, _) \<Rightarrow> WState w \<noteq> WorkloadStateCreating | _ \<Rightarrow> False)"
    using r d c by (auto simp: get_parts rec_ok_def due_def split: option.splits)
  obtain s1 where s1: "set_state S ?k WorkloadStateCreating r = Some (r\<lparr>store := s1\<rparr>)" "ok s1" "cp s1 = cp (store r)"
    "wl s1 = (wl (store r))(?k \<mapsto> merged_wl \<lparr>WState = WorkloadStateCreating, WPort = 0\<rparr> ?old)"
    using set_state_ok r c unfolding rec_ok_def by metis
  have w1: "\<exists>q. wl s1 ?k = Some \<lparr>WState = WorkloadStateCreating, WPort = q\<rparr>"
    using s1(4) by (simp add: merged_set wl_states)
  have H: "handleInstanceCreation cfg S IntN V ins r =
    (case Allocate IntN (portAlloc r) (rand r) of
       (Inl IntNPanic, _) \<Rightarrow> None
     | (Inl ErrMaxPortTriesReached, a, g) \<Rightarrow> Some (Some ErrAllocatePort, r\<lparr>store := s1, portAlloc := a, rand := g\<rparr>)
     | (Inr port, a, g) \<Rightarrow> Option.bind (set_port S ?k port (r\<lparr>store := s1, portAlloc := a, rand := g\<rparr>))
         (run_and_record cfg S V ins port (Suc (attempts r ?k))))"
    using a g by (simp add: handleInstanceCreation_def Let_def s1(1) split: sum.split alloc_error.split prod.split)
  from r show thesis
  proof (cases rule: Allocate_result)
    case (1 g)
    then show thesis using H s1 w1 by (intro no_port [where s = s1 and g = g]) (auto simp: due_def)
  next
    case (2 p g)
    let ?a = "(portAlloc r)\<lparr>allocated := (allocated (portAlloc r))(uint p \<mapsto> True)\<rparr>"
    let ?r = "r\<lparr>store := s1, portAlloc := ?a, rand := g\<rparr>"
    obtain s where s: "set_port S ?k p ?r = Some (?r\<lparr>store := s\<rparr>)" "ok s" "cp s = cp s1"
      "wl s = (wl s1)(?k \<mapsto> merged_wl \<lparr>WState = [], WPort = p\<rparr> (wl s1 ?k))"
      using set_port_ok [of ?r ?k p] s1 c by auto
    have ws: "wl s ?k = Some \<lparr>WState = WorkloadStateCreating, WPort = p\<rparr>"
      using w1 s(4) 2(2) by (auto simp: merged_set)
    have H': "handleInstanceCreation cfg S IntN V ins r = run_and_record cfg S V ins p (Suc (attempts r ?k)) (?r\<lparr>store := s\<rparr>)"
      using H 2(3) s(1) by simp
    obtain res w where R: "RunWorkload V (instance_workload cfg ins p) (Suc (attempts r ?k)) s (world r) = (res, w)"
      by (rule prod.exhaust)
    show thesis
    proof (cases res)
      case None
      let ?rw = "?r\<lparr>store := s, world := w\<rparr>"
      have "ok (store ?rw)" "cp (store ?rw) ?k = None" using s(2,3) s1(3) c by simp_all
      then obtain s' where s': "set_state S ?k WorkloadStateRunning ?rw = Some (?rw\<lparr>store := s'\<rparr>)" "ok s'" "cp s' = cp (store ?rw)"
        "wl s' = (wl (store ?rw))(?k \<mapsto> merged_wl \<lparr>WState = WorkloadStateRunning, WPort = 0\<rparr> (wl (store ?rw) ?k))"
        by (rule set_state_ok)
      have "handleInstanceCreation cfg S IntN V ins r = Some (None, ?rw\<lparr>store := s'\<rparr>)"
        using H' R None s'(1) by (simp add: run_and_record_def)
      with 2(1,2) ws R None s'(2-4) s(3) s1(3) show thesis
        by (intro runs [where p = p and s = s and w = w and s' = s' and g = g]) (simp_all add: merged_set wl_states)
    next
      case (Some e)
      have "handleInstanceCreation cfg S IntN V ins r = Some (Some (ErrRunWorkload e),
          r\<lparr>store := s, rand := g, world := snd (RemoveWorkload V ?k s w)\<rparr>)"
        using H' R Some by (simp add: run_and_record_def Let_def Free_allocated [OF 2(1)] case_prod_beta)
      with 2(1) ws R Some s(2,3) s1(3) show thesis
        by (intro failed [where p = p and s = s and e = e and w = w and g = g]) simp_all
    qed
  qed
qed

lemma creation_rec_ok:
  assumes "rec_ok ok r" "ok s" "portMin (portAlloc r) \<le> uint p \<and> uint p \<le> portMax (portAlloc r)"
  shows "rec_ok ok (r\<lparr>store := s, rand := g, world := w, portAlloc := (portAlloc r)\<lparr>allocated := (allocated (portAlloc r))(uint p \<mapsto> True)\<rparr>\<rparr>)"
  using assms by (auto simp: rec_ok_def alloc_ok_def)

lemma set_state_Some:
  assumes "rec_ok ok r" "set_state S k x r = Some r'"
  shows "rec_ok ok r'"
proof (cases "cp (store r) k")
  case None
  then show ?thesis using assms upd_wl_ok [of "store r" k "\<lparr>WState = x, WPort = 0\<rparr>"] by (auto simp: rec_ok_def set_state_def)
next
  case (Some c)
  then show ?thesis using upd_panic(1) [of "store r" k] assms by (auto simp: rec_ok_def set_state_def)
qed

lemma rec_ok_world [simp]: "rec_ok ok (r\<lparr>world := w\<rparr>) = rec_ok ok r"
  by (simp add: rec_ok_def)

lemma rec_ok_attempts [simp]: "rec_ok ok (r\<lparr>attempts := f\<rparr>) = rec_ok ok r"
  by (simp add: rec_ok_def)

lemma remove_and_record_ok: "rec_ok ok r \<Longrightarrow> remove_and_record S V k r = Some (e, r') \<Longrightarrow> rec_ok ok r'"
  by (auto simp: remove_and_record_def bind_eq_Some_conv intro: set_state_Some [rotated] split: prod.splits option.splits if_splits)

lemma rec_ok_store: "rec_ok ok r \<Longrightarrow> ok s \<Longrightarrow> rec_ok ok (r\<lparr>store := s, rand := g\<rparr>)"
  by (simp add: rec_ok_def)

lemma creation_inv:
  assumes r: "rec_ok ok r" and h: "handleInstanceCreation cfg S IntN V ins r = Some (e, r')"
  shows "rec_ok ok r' \<and> in_use (portAlloc r) \<subseteq> in_use (portAlloc r') \<and> attempts r' = attempts r \<and>
    (e \<noteq> None \<longrightarrow> e \<noteq> Some ErrMaxAttemptsReached \<longrightarrow> attempts r (Id ins) < 5)"
proof (cases "attempts r (Id ins) < 5 \<and> due (wl (store r) (Id ins)) \<and> cp (store r) (Id ins) = None")
  case True
  then have t: "cp (store r) (Id ins) = None" "attempts r (Id ins) < 5" "due (wl (store r) (Id ins))" by simp_all
  from r t show ?thesis
  proof (cases rule: creation_cases [where cfg = cfg and V = V])
    case (no_port s g)
    then show ?thesis using h r t by (auto simp: rec_ok_def)
  next
    case (failed s g p e w w')
    then show ?thesis using h r t by (auto simp: rec_ok_def)
  next
    case (runs s s' g p w)
    then show ?thesis using h creation_rec_ok [OF r runs(6,2)] by (auto simp: in_use_def)
  qed
next
  case False
  have skip: "(case get S (Id ins) (store r) of Some (Some w, _) \<Rightarrow> WState w \<noteq> WorkloadStateCreating | _ \<Rightarrow> False) =
      (\<not> due (wl (store r) (Id ins)))"
    using r by (simp add: get_parts rec_ok_def due_def split: option.split)
  have panic: "set_state S (Id ins) x r = None" if "cp (store r) (Id ins) \<noteq> None" for x
    using upd_panic(1) [of "store r"] r that by (simp add: set_state_def rec_ok_def)
  have "handleInstanceCreation cfg S IntN V ins r = None" if "attempts r (Id ins) < 5" "due (wl (store r) (Id ins))"
  proof -
    have "set_state S (Id ins) WorkloadStateCreating r = None" using False that panic by blast
    then show ?thesis using that skip by (simp add: handleInstanceCreation_def Let_def)
  qed
  with h consider "5 \<le> attempts r (Id ins)" | "attempts r (Id ins) < 5" "\<not> due (wl (store r) (Id ins))"
    using not_less by fastforce
  then show ?thesis
  proof cases
    case 1
    then have "set_state S (Id ins) WorkloadStateCreationFailed r = Some r'" "e = Some ErrMaxAttemptsReached"
      using h by (auto simp: handleInstanceCreation_def Let_def bind_eq_Some_conv)
    then show ?thesis using set_state_Some [OF r] set_state_sel(1) by fastforce
  next
    case 2
    then have "r' = r" "e = None" using h skip by (simp_all add: handleInstanceCreation_def Let_def)
    then show ?thesis using r by simp
  qed
qed

lemma reconcile_creation:
  "State ins = PENDING \<or> State ins = CREATING \<Longrightarrow> reconcile cfg S IntN V ins r =
     map_option (\<lambda>(e, r). if e = None \<or> e = Some ErrMaxAttemptsReached then r
       else r\<lparr>attempts := (attempts r)(Id ins := attempts r (Id ins) + 1)\<rparr>) (handleInstanceCreation cfg S IntN V ins r)"
  by (cases "handleInstanceCreation cfg S IntN V ins r") (auto simp: reconcile_def Let_def split: option.split)

lemma reconcile_inv:
  assumes r: "rec_ok ok r" and h: "reconcile cfg S IntN V ins r = Some r'"
  shows "rec_step_ok ok r r'"
proof (cases "State ins = PENDING \<or> State ins = CREATING")
  case True
  then obtain e r1 where c: "handleInstanceCreation cfg S IntN V ins r = Some (e, r1)"
    and r': "r' = (if e = None \<or> e = Some ErrMaxAttemptsReached then r1
        else r1\<lparr>attempts := (attempts r1)(Id ins := attempts r1 (Id ins) + 1)\<rparr>)"
    using h unfolding reconcile_creation [OF True] map_option_eq_Some by auto
  show ?thesis using creation_inv [OF r c] by (auto simp: rec_step_ok_def r')
next
  case False
  have rm: "rec_step_ok ok r r''" if "remove_and_record S V k (r\<lparr>world := w\<rparr>) = Some (e, r'')" for k w e r''
    using remove_and_record_ok [OF _ that] remove_and_record_sel [OF that] r by (simp add: rec_step_ok_def)
  have st: "rec_step_ok ok r r''" if "set_state S k x (r\<lparr>world := w\<rparr>) = Some r''" for k x w r''
    using set_state_Some [OF _ that] set_state_sel(1) [OF that] r by (simp add: rec_step_ok_def)
  have w: "rec_step_ok ok r (r\<lparr>world := x\<rparr>)" "rec_step_ok ok r r" for x using r by (simp_all add: rec_step_ok_def)
  have rm': "rec_step_ok ok r r''" if "remove_and_record S V k r = Some (e, r'')" for k e r''
    using rm [of k "world r" e r''] that by simp
  show ?thesis using h False w(2)
    by (auto simp: reconcile_def Let_def handleInstanceDeleting_def handleInstanceRunning_def
        intro: rm rm' st w split: if_splits prod.splits sum.splits option.splits)
qed

lemma reconcile_all_inv:
  "reconcile_all cfg S IntN V inss r = Some r' \<Longrightarrow> rec_ok ok r \<Longrightarrow> rec_step_ok ok r r'"
proof (induction inss arbitrary: r)
  case (Cons ins inss)
  then obtain r1 where r1: "reconcile cfg S IntN V ins r = Some r1" "reconcile_all cfg S IntN V inss r1 = Some r'"
    by (auto simp: bind_eq_Some_conv)
  then have "rec_step_ok ok r r1" using reconcile_inv Cons.prems(2) by blast
  moreover from this have "rec_step_ok ok r1 r'" using Cons.IH [OF r1(2)] by (simp add: rec_step_ok_def)
  ultimately show ?case by (auto simp: rec_step_ok_def)
qed (simp add: rec_step_ok_def)

text \<open>An instance whose workload never starts.\<close>

lemma reconcile_fails:
  assumes r: "rec_ok ok r" "cp (store r) (Id ins) = None" "attempts r (Id ins) < 5" "due (wl (store r) (Id ins))"
    and ins: "State ins = PENDING \<or> State ins = CREATING"
    and V: "\<And>p n s x. fst (RunWorkload V (instance_workload cfg ins p) n s x) \<noteq> None"
  shows "\<exists>r'. reconcile cfg S IntN V ins r = Some r' \<and> rec_ok ok r' \<and> cp (store r') (Id ins) = None \<and>
    wl (store r') (Id ins) \<noteq> None \<and> due (wl (store r') (Id ins)) \<and> attempts r' = (attempts r)(Id ins := Suc (attempts r (Id ins))) \<and> portAlloc r' = portAlloc r"
  using r
proof (cases rule: creation_cases [where cfg = cfg and V = V])
  case (no_port s g)
  then show ?thesis using r by (simp add: reconcile_creation [OF ins] rec_ok_def)
next
  case (failed s g p e w w')
  then show ?thesis using r by (simp add: reconcile_creation [OF ins] rec_ok_def due_def)
next
  case (runs s s' g p w)
  then show ?thesis using V by (metis fst_conv)
qed

lemma reconcile_five:
  assumes ins: "State ins = PENDING" and V: "\<And>w n s x. fst (RunWorkload V w n s x) \<noteq> None"
  shows "rec_ok ok r \<Longrightarrow> cp (store r) (Id ins) = None \<Longrightarrow> due (wl (store r) (Id ins)) \<Longrightarrow> n + attempts r (Id ins) = 5 \<Longrightarrow>
    \<exists>r'. reconcile_all cfg S IntN V (replicate n ins) r = Some r' \<and> rec_ok ok r' \<and> cp (store r') (Id ins) = None \<and>
      attempts r' (Id ins) = 5 \<and> portAlloc r' = portAlloc r"
proof (induction n arbitrary: r)
  case (Suc n)
  then obtain r1 where "reconcile cfg S IntN V ins r = Some r1" "rec_ok ok r1" "cp (store r1) (Id ins) = None"
    "due (wl (store r1) (Id ins))" "attempts r1 = (attempts r)(Id ins := Suc (attempts r (Id ins)))" "portAlloc r1 = portAlloc r"
    using reconcile_fails [OF Suc.prems(1,2) _ Suc.prems(3) disjI1 [OF ins] V, of cfg] by auto
  then show ?case using Suc.IH [of r1] Suc.prems(4) by simp
qed simp

lemma reconcile_given_up:
  assumes "State ins = PENDING \<or> State ins = CREATING"
  shows "rec_ok ok r \<Longrightarrow> cp (store r) (Id ins) = None \<Longrightarrow> 5 \<le> attempts r (Id ins) \<Longrightarrow>
    \<exists>s st. reconcile_all cfg S IntN V (replicate (Suc n) ins) r = Some (r\<lparr>store := s\<rparr>) \<and>
      wl s (Id ins) = Some st \<and> WState st = WorkloadStateCreationFailed"
proof (induction n arbitrary: r)
  case (0 r)
  then obtain s where "set_state S (Id ins) WorkloadStateCreationFailed r = Some (r\<lparr>store := s\<rparr>)" "ok s" "cp s = cp (store r)"
    "wl s = (wl (store r))(Id ins \<mapsto> merged_wl \<lparr>WState = WorkloadStateCreationFailed, WPort = 0\<rparr> (wl (store r) (Id ins)))"
    using set_state_ok unfolding rec_ok_def by metis
  then show ?case using 0 assms
    by (intro exI [of _ s]) (simp add: reconcile_creation handleInstanceCreation_def Let_def merged_set wl_states)
next
  case (Suc n r)
  then obtain s where s: "set_state S (Id ins) WorkloadStateCreationFailed r = Some (r\<lparr>store := s\<rparr>)" "ok s" "cp s = cp (store r)"
    using set_state_ok unfolding rec_ok_def by metis
  then have "reconcile cfg S IntN V ins r = Some (r\<lparr>store := s\<rparr>)"
    using Suc.prems(3) assms by (simp add: reconcile_creation handleInstanceCreation_def Let_def)
  moreover have "rec_ok ok (r\<lparr>store := s\<rparr>)" using Suc.prems(1) s(2) by (simp add: rec_ok_def)
  ultimately show ?case using Suc.IH [of "r\<lparr>store := s\<rparr>"] Suc.prems s by simp
qed

lemma foldl_del:
  "ok s \<Longrightarrow> ok (foldl (\<lambda>s k. if P k then del S k s else s) s ks) \<and>
     wl (foldl (\<lambda>s k. if P k then del S k s else s) s ks) = (\<lambda>k. if k \<in> set ks \<and> P k then None else wl s k) \<and>
     cp (foldl (\<lambda>s k. if P k then del S k s else s) s ks) = (\<lambda>k. if k \<in> set ks \<and> P k then None else cp s k)"
proof (induction ks arbitrary: s)
  case (Cons k ks)
  have "ok (if P k then del S k s else s)" using del_ok [OF Cons.prems] Cons.prems by simp
  from Cons.IH [OF this] show ?case using del_ok [OF Cons.prems] by (auto simp: fun_eq_iff)
qed simp

lemma view_workloads: "ok s \<Longrightarrow> Option.bind (view S s k) fst = wl s k"
  by (simp add: view_get get_parts)

lemma reports_exact:
  assumes "ok s" "map_order order"
  shows "set (reports (view S s) (order (view S s))) = {workload_report k w | k w. wl s k = Some w}"
    and "distinct (map InstanceId (reports (view S s) (order (view S s))))"
proof -
  have o: "distinct (order (view S s))" "set (order (view S s)) = dom (view S s)"
    using assms view_finite by (simp_all add: map_order_def)
  have v: "k \<in> dom (view S s)" if "wl s k = Some w" for k w
    using view_workloads [OF assms(1), of k] that by (auto simp: bind_eq_Some_conv)
  show "set (reports (view S s) (order (view S s))) = {workload_report k w | k w. wl s k = Some w}"
    unfolding reports_def set_map_filter o(2) view_workloads [OF assms(1)] by (auto dest: v)
  have "distinct ks \<Longrightarrow> distinct (map InstanceId (reports m ks)) \<and> InstanceId ` set (reports m ks) \<subseteq> set ks" for m ks
    by (induction ks) (auto simp: reports_def List.map_filter_simps workload_report_def split: option.split)
  then show "distinct (map InstanceId (reports (view S s) (order (view S s))))" using o(1) by blast
qed

lemma view_finished: "finished (view S s k) \<Longrightarrow> k \<in> dom (view S s)"
  by (auto simp: finished_def split: option.splits)

lemma finished_view:
  "ok s \<Longrightarrow> finished (view S s k) \<longleftrightarrow> (\<exists>st. wl s k = Some st \<and> WState st \<in> {WorkloadStateDeleted, WorkloadStateCreationFailed})"
  using get_parts [of s k] by (auto simp: view_get finished_def split: option.splits)

lemma tick_result:
  assumes "map_order order1" "map_order order2" "rec_ok ok r"
    and "DiscoverInstances V (NodeID cfg) (world r) = (Some inss, w)"
    and "reconcile_all cfg S IntN V inss (r\<lparr>world := w\<rparr>) = Some r1"
  obtains rs r' where "set rs = {workload_report k st | k st. wl (store r1) k = Some st}" "distinct (map InstanceId rs)"
    "tick cfg S IntN V order1 order2 r = Some r'" "ok (store r')" "world r' = snd (ReceiveReports V rs (world r1))"
    "rec_ok ok r'" "attempts r' = attempts r1" "\<forall>k. cp (store r1) k = None \<longrightarrow> cp (store r') k = None"
    "wl (store r') = (\<lambda>k. if fst (ReceiveReports V rs (world r1)) \<and>
        (\<exists>st. wl (store r1) k = Some st \<and> WState st \<in> {WorkloadStateDeleted, WorkloadStateCreationFailed})
      then None else wl (store r1) k)"
proof -
  have r1: "rec_ok ok r1" using reconcile_all_inv [OF assms(5)] assms(3) by (simp add: rec_step_ok_def)
  then have o: "ok (store r1)" by (simp add: rec_ok_def)
  let ?v = "view S (store r1)"
  let ?rs = "reports ?v (order1 ?v)" and ?s = "foldl (\<lambda>s k. if finished (?v k) then del S k s else s) (store r1) (order2 ?v)"
  have k2: "set (order2 ?v) = dom ?v" using assms(2) view_finite [OF o] by (simp add: map_order_def)
  let ?r' = "r1\<lparr>world := snd (ReceiveReports V ?rs (world r1)), store := if fst (ReceiveReports V ?rs (world r1)) then ?s else store r1\<rparr>"
  have t: "tick cfg S IntN V order1 order2 r = Some ?r'" using assms(4,5) by (simp add: tick_def Let_def case_prod_beta)
  have "k \<in> dom ?v \<and> finished (?v k) \<longleftrightarrow> finished (?v k)" for k using view_finished by blast
  then have s: "ok ?s" "wl ?s = (\<lambda>k. if finished (?v k) then None else wl (store r1) k)"
    "cp ?s = (\<lambda>k. if finished (?v k) then None else cp (store r1) k)"
    using foldl_del [OF o] by (simp_all add: k2)
  show thesis
    using reports_exact [OF o assms(1)] o s r1
    by (intro that [of ?rs ?r'] t) (simp_all add: fun_eq_iff finished_view [OF o] rec_ok_def)
qed

text \<open>A handler leaves the statuses of other instances alone, and those of checkpoints.\<close>

lemma set_state_frame:
  assumes "rec_ok ok r" "set_state S k x r = Some r'"
  shows "cp (store r') = cp (store r) \<and> (\<forall>i. i \<noteq> k \<longrightarrow> wl (store r') i = wl (store r) i) \<and> world r' = world r"
proof (cases "cp (store r) k")
  case None
  then show ?thesis using assms upd_wl_ok [of "store r" k "\<lparr>WState = x, WPort = 0\<rparr>"] by (auto simp: rec_ok_def set_state_def)
next
  case (Some c)
  then show ?thesis using upd_panic(1) [of "store r" k] assms by (auto simp: rec_ok_def set_state_def)
qed

end

interpretation mem_rec: reconciler_env mem_ops store_ok wl_val cp_val list_rand
  by unfold_locales

lemma sample_rec_simps [simp]:
  "rec_ok store_ok sample_rec" "cp_val (store sample_rec) k = None" "wl_val (store sample_rec) k = None"
  "attempts sample_rec k = 0" "world sample_rec = 0" "Id (sample_instance x) = ''i''" "State (sample_instance x) = x"
  by (simp_all add: rec_ok_def sample_rec_def alloc_ok_def NewPortAllocator_def NewMemStore_ok sample_instance_def)

section \<open>Properties\<close>

text \<open>
  C12. One attempt to create an instance that is due never panics and has one of two outcomes. It
  succeeds: \<^verbatim>\<open>RunWorkload\<close> ran while the store had the instance as creating with its port, the port was
  free before and is marked now, and the store has the instance running with that port. Or it fails: no
  port is marked that was not marked before, and the instance is still due.
\<close>

theorem creation_outcome:
  assumes "reconciler_env S ok wl cp IntN" "rec_ok ok r" "cp (store r) (Id ins) = None"
    and "attempts r (Id ins) < 5" "due (wl (store r) (Id ins))"
  shows "\<exists>e r'. handleInstanceCreation cfg S IntN V ins r = Some (e, r') \<and> rec_ok ok r' \<and>
    (e = None \<longrightarrow> (\<exists>p s. p \<notin> in_use (portAlloc r) \<and> in_use (portAlloc r') = insert p (in_use (portAlloc r)) \<and>
       wl s (Id ins) = Some \<lparr>WState = WorkloadStateCreating, WPort = p\<rparr> \<and>
       RunWorkload V (instance_workload cfg ins p) (Suc (attempts r (Id ins))) s (world r) = (None, world r') \<and>
       wl (store r') (Id ins) = Some \<lparr>WState = WorkloadStateRunning, WPort = p\<rparr>)) \<and>
    (e \<noteq> None \<longrightarrow> portAlloc r' = portAlloc r \<and> due (wl (store r') (Id ins)))"
  by (rule reconciler_env.creation_cases [OF assms, where cfg = cfg and V = V])
    (use assms(2) in \<open>fastforce simp: rec_ok_def alloc_ok_def due_def in_use_def word_uint_eq_iff\<close>)+

theorem creation_outcome_witness:
  "\<exists>e r'. handleInstanceCreation sample_cfg mem_ops list_rand (sample_services False []) (sample_instance PENDING) sample_rec =
       Some (e, r') \<and> (e \<noteq> None \<longrightarrow> portAlloc r' = portAlloc sample_rec)"
  using creation_outcome [OF mem_rec.reconciler_env_axioms, of sample_rec "sample_instance PENDING" sample_cfg
      "sample_services False []"]
  by (auto simp: due_def)

text \<open>
  Creation is given up: if \<^verbatim>\<open>RunWorkload\<close> keeps failing for a pending instance, then after five syncs
  no more calls are made, from the sixth sync on the store has the instance as failed, and all ports the
  attempts took are free again.
\<close>

theorem creation_given_up:
  assumes "reconciler_env S ok wl cp IntN" "rec_ok ok r" "cp (store r) (Id ins) = None" "wl (store r) (Id ins) = None"
    and "attempts r (Id ins) = 0" "State ins = PENDING" "\<And>w n s x. fst (RunWorkload V w n s x) \<noteq> None"
  shows "\<exists>r5 s st. reconcile_all cfg S IntN V (replicate 5 ins) r = Some r5 \<and>
    reconcile_all cfg S IntN V (replicate (Suc m) ins) r5 = Some (r5\<lparr>store := s\<rparr>) \<and>
    wl s (Id ins) = Some st \<and> WState st = WorkloadStateCreationFailed \<and> portAlloc r5 = portAlloc r"
proof -
  obtain r5 where r5: "reconcile_all cfg S IntN V (replicate 5 ins) r = Some r5" "rec_ok ok r5" "cp (store r5) (Id ins) = None"
    "attempts r5 (Id ins) = 5" "portAlloc r5 = portAlloc r"
    using reconciler_env.reconcile_five [OF assms(1,6,7,2,3), of 5] assms(4,5) by (auto simp: due_def)
  show ?thesis using reconciler_env.reconcile_given_up [OF assms(1) _ r5(2,3)] assms(6) r5(1,4,5) by simp
qed

theorem creation_given_up_witness:
  "\<exists>r5 s st. reconcile_all sample_cfg mem_ops list_rand (sample_services False [])
       (replicate 5 (sample_instance PENDING)) sample_rec = Some r5 \<and>
     reconcile_all sample_cfg mem_ops list_rand (sample_services False [])
       (replicate (Suc 2) (sample_instance PENDING)) r5 = Some (r5\<lparr>store := s\<rparr>) \<and>
     wl_val s ''i'' = Some st \<and> WState st = WorkloadStateCreationFailed"
  using creation_given_up [OF mem_rec.reconciler_env_axioms, of sample_rec "sample_instance PENDING"
      "sample_services False []" sample_cfg 2]
  by (simp add: sample_services_def) blast

text \<open>
  C22. Whatever instances are reconciled in whatever order, and whatever the services answer: the store and
  the allocator keep their invariants, no instance has more than five attempts, and a port that is marked
  stays marked. So a port is not handed out again after its workload was deleted: only a failing
  \<^verbatim>\<open>RunWorkload\<close> gives a port back, removing a workload does not.
\<close>

theorem reconcile_invariant:
  assumes "reconciler_env S ok wl cp IntN" "rec_ok ok r" "reconcile_all cfg S IntN V inss r = Some r'"
  shows "rec_ok ok r' \<and> in_use (portAlloc r) \<subseteq> in_use (portAlloc r') \<and>
    ((\<forall>k. attempts r k \<le> 5) \<longrightarrow> (\<forall>k. attempts r' k \<le> 5))"
  using reconciler_env.reconcile_all_inv [OF assms(1,3,2)] unfolding rec_step_ok_def by blast

theorem reconcile_invariant_witness:
  "\<exists>r'. reconcile_all sample_cfg mem_ops list_rand (sample_services True []) [sample_instance DELETING]
       (sample_rec\<lparr>portAlloc := \<lparr>portMin = 30000, portMax = 30009, allocated = [30003 \<mapsto> True]\<rparr>\<rparr>) = Some r' \<and>
     30003 \<in> in_use (portAlloc r')"
proof -
  let ?r = "sample_rec\<lparr>portAlloc := \<lparr>portMin = 30000, portMax = 30009, allocated = [30003 \<mapsto> True]\<rparr>\<rparr>"
  let ?V = "sample_services True []"
  have r: "rec_ok store_ok ?r" using sample_rec_simps(1) by (simp add: rec_ok_def alloc_ok_def)
  obtain r' where r': "reconcile_all sample_cfg mem_ops list_rand ?V [sample_instance DELETING] ?r = Some r'"
    using mem.upd_wl_ok [of "store ?r" "''i''" "\<lparr>WState = WorkloadStateDeleted, WPort = 0\<rparr>"] r
    by (auto simp: reconcile_def handleInstanceDeleting_def remove_and_record_def set_state_def sample_services_def rec_ok_def)
  moreover have "30003 \<in> in_use (portAlloc ?r)" by (simp add: in_use_def)
  ultimately show ?thesis using reconcile_invariant [OF mem_rec.reconciler_env_axioms r r'] by blast
qed

text \<open>
  C32. A sync whose instances were reconciled sends one report for every workload in the store, with its
  port and state. If the control plane takes them, exactly the statuses of deleted workloads and of failed
  creations are removed; if not, the store stays as it is, and so they are sent again.
\<close>

theorem tick_reports:
  assumes "reconciler_env S ok wl cp IntN" "map_order order1" "map_order order2" "rec_ok ok r"
    and "DiscoverInstances V (NodeID cfg) (world r) = (Some inss, w)"
    and "reconcile_all cfg S IntN V inss (r\<lparr>world := w\<rparr>) = Some r1"
  shows "\<exists>rs r'. set rs = {workload_report k st | k st. wl (store r1) k = Some st} \<and> distinct (map InstanceId rs) \<and>
    tick cfg S IntN V order1 order2 r = Some r' \<and> ok (store r') \<and>
    wl (store r') = (\<lambda>k. if fst (ReceiveReports V rs (world r1)) \<and>
        (\<exists>st. wl (store r1) k = Some st \<and> WState st \<in> {WorkloadStateDeleted, WorkloadStateCreationFailed})
      then None else wl (store r1) k)"
  by (rule reconciler_env.tick_result [OF assms], intro exI conjI; assumption)

theorem tick_reports_witness:
  "\<exists>r'. tick sample_cfg mem_ops list_rand (sample_services True [sample_instance DELETING]) sample_order sample_order
       sample_rec = Some r' \<and> wl_val (store r') ''i'' = None"
proof -
  let ?V = "sample_services True [sample_instance DELETING]"
  obtain s where s: "update_workload ''i'' \<lparr>WState = WorkloadStateDeleted, WPort = 0\<rparr> (store sample_rec) = Some s"
    "wl_val s ''i'' = Some \<lparr>WState = WorkloadStateDeleted, WPort = 0\<rparr>"
    using mem.upd_wl_ok [of "store sample_rec" "''i''" "\<lparr>WState = WorkloadStateDeleted, WPort = 0\<rparr>"] sample_rec_simps(1-3)
    by (auto simp: rec_ok_def mem_ops_def merged_wl_def)
  have V: "DiscoverInstances ?V n x = (Some [sample_instance DELETING], x)" "ReceiveReports ?V rs x = (True, x)" for n x rs
    by (simp_all add: sample_services_def)
  have rec: "reconcile_all sample_cfg mem_ops list_rand ?V [sample_instance DELETING] (sample_rec\<lparr>world := 0\<rparr>) =
      Some (sample_rec\<lparr>store := s\<rparr>)"
    using s by (simp add: reconcile_def handleInstanceDeleting_def remove_and_record_def set_state_def mem_ops_def
        sample_services_def sample_rec_def)
  obtain r' rs where t: "tick sample_cfg mem_ops list_rand ?V sample_order sample_order sample_rec = Some r'"
    and w: "wl_val (store r') = (\<lambda>k. if fst (ReceiveReports ?V rs (world (sample_rec\<lparr>store := s\<rparr>))) \<and>
        (\<exists>st. wl_val (store (sample_rec\<lparr>store := s\<rparr>)) k = Some st \<and> WState st \<in> {WorkloadStateDeleted, WorkloadStateCreationFailed})
      then None else wl_val (store (sample_rec\<lparr>store := s\<rparr>)) k)"
    using tick_reports [OF mem_rec.reconciler_env_axioms sample_order_ok sample_order_ok sample_rec_simps(1) V(1)
        rec [folded sample_rec_simps(5)]] by blast
  have "wl_val (store r') ''i'' = None" using s(2) by (simp add: w V)
  with t show ?thesis by blast
qed

end
