(* ===== verification/Workload_Service.thy ===== *)
theory Workload_Service
  imports Reconciler "HOL-Library.Multiset"
begin

text \<open>
  How platformd runs pods: the client of the container runtime (\<^verbatim>\<open>platformd/cri/service.go\<close>), the workload
  service on it (\<^verbatim>\<open>platformd/workload/service.go\<close>) and the RPC server in front of service and status store
  (\<^verbatim>\<open>platformd/workload/server.go\<close>, \<^verbatim>\<open>codec.go\<close>). The runtime behind its API, the file system and signals are
  a parameter \<open>cri_api\<close> that acts on a world of its own; what its API documents of pods is the locale
  \<open>container_runtime\<close>. Log output and the pause after a restart of the runtime are left out.
\<close>

section \<open>Configurations\<close>

record RegistryAuth =
  Username :: string
  Password :: string

definition Unauthenticated :: RegistryAuth where
  "Unauthenticated = \<lparr>Username = [], Password = []\<rparr>"

record PodSandboxConfig =
  PodName :: string
  PodUid :: string
  PodNamespace :: string
  PodAttempt :: u32
  PodAnnotations :: "string \<rightharpoonup> string"
  PodHostname :: string
  PodLabels :: "string \<rightharpoonup> string"
  LogDirectory :: string
  DnsServers :: "string list"
  DnsOptions :: "string list"
  DnsSearches :: "string list"
  CpuPeriodLimit :: u64
  CpuQuotaLimit :: u64
  MemoryLimit :: u64
  Sysctls :: "string \<rightharpoonup> string"

record ContainerConfig =
  CtrName :: string
  CtrImage :: string
  CtrLabels :: "string \<rightharpoonup> string"
  LogPath :: string
  Mounts :: "(string \<times> string) list"
  RunAs :: "(u64 \<times> u64) option"
  Envs :: "(string \<times> string) list"

datatype ContainerState = CONTAINER_CREATED | CONTAINER_RUNNING | CONTAINER_EXITED | CONTAINER_UNKNOWN
  | OtherContainerState int

record Container =
  CtrId :: string
  CtrState :: ContainerState

record PodSandbox =
  SandboxId :: string
  SandboxAnnotations :: "string \<rightharpoonup> string"

datatype ctr_filter = ByLabel string string | ByPod string

record workload_config =
  MCManagementAPIToken :: string
  ServerMonImage :: string
  ListenSockURL :: string
  ListenSockPath :: string
  PlatformdSocketUID :: u64
  PlatformdSocketGID :: u64
  EnableCrioRestart :: bool

section \<open>The runtime\<close>

text \<open>
  The calls that leave platformd. An error keeps whether it is a missing object, as the status codes of the
  API do; errors of the operating system are no such errors.
\<close>

record 'w cri_api =
  ListImages :: "'w \<Rightarrow> (svc_error + string list list) \<times> 'w"
  PullImage :: "string \<Rightarrow> RegistryAuth \<Rightarrow> 'w \<Rightarrow> (svc_error + unit) \<times> 'w"
  ListPodSandbox :: "string \<Rightarrow> string \<Rightarrow> 'w \<Rightarrow> (svc_error + PodSandbox list) \<times> 'w"
  RunPodSandbox :: "PodSandboxConfig \<Rightarrow> 'w \<Rightarrow> (svc_error + string) \<times> 'w"
  StopPod :: "string \<Rightarrow> 'w \<Rightarrow> (svc_error + unit) \<times> 'w"
  RemovePod :: "string \<Rightarrow> 'w \<Rightarrow> (svc_error + unit) \<times> 'w"
  CreateContainer :: "string \<Rightarrow> ContainerConfig \<Rightarrow> PodSandboxConfig \<Rightarrow> 'w \<Rightarrow> (svc_error + string) \<times> 'w"
  StartContainer :: "string \<Rightarrow> 'w \<Rightarrow> (svc_error + unit) \<times> 'w"
  RemoveContainer :: "string \<Rightarrow> 'w \<Rightarrow> (svc_error + unit) \<times> 'w"
  ListContainers :: "ctr_filter \<Rightarrow> 'w \<Rightarrow> (svc_error + Container list) \<times> 'w"
  ContainerStatusInfo :: "string \<Rightarrow> 'w \<Rightarrow> (svc_error + (string \<rightharpoonup> string)) \<times> 'w"
  SignalContinue :: "int \<Rightarrow> 'w \<Rightarrow> (svc_error + unit) \<times> 'w"
  RestartCrio :: "'w \<Rightarrow> (svc_error + unit) \<times> 'w"
  ReadDir :: "string \<Rightarrow> 'w \<Rightarrow> (svc_error + string list) \<times> 'w"
  RemoveAll :: "string \<Rightarrow> 'w \<Rightarrow> (svc_error + unit) \<times> 'w"
  InfoPid :: "string \<Rightarrow> int option"
  MarshalInstance :: "Instance \<Rightarrow> string option"
  UnmarshalInstance :: "string \<Rightarrow> Instance option"

text \<open>An error with the texts it was wrapped in, outermost first.\<close>

datatype wl_error = WlErr "string list" svc_error

definition rpc :: "string \<Rightarrow> ('w \<Rightarrow> (svc_error + 'a) \<times> 'w) \<Rightarrow> 'w \<Rightarrow> (wl_error + 'a) \<times> 'w" where
  "rpc msg f w = (case f w of (Inl e, w) \<Rightarrow> (Inl (WlErr [msg] e), w) | (Inr x, w) \<Rightarrow> (Inr x, w))"

definition wrapping :: "string \<Rightarrow> ('w \<Rightarrow> (wl_error + 'a) \<times> 'w) \<Rightarrow> 'w \<Rightarrow> (wl_error + 'a) \<times> 'w" where
  "wrapping msg f w = (case f w of (Inl (WlErr ms e), w) \<Rightarrow> (Inl (WlErr (msg # ms) e), w) | (Inr x, w) \<Rightarrow> (Inr x, w))"

section \<open>The runtime client\<close>

definition PodLogDir :: string where
  "PodLogDir = ''/var/log/platformd/pods''"

definition LabelPodUID :: string where
  "LabelPodUID = ''io.kubernetes.pod.uid''"

definition RunContainer ::
  "'w cri_api \<Rightarrow> string \<Rightarrow> ContainerConfig \<Rightarrow> PodSandboxConfig \<Rightarrow> 'w \<Rightarrow> (wl_error + string) \<times> 'w" where
  "RunContainer C pod cfg sbox =
     ebind (rpc ''create container'' (CreateContainer C pod cfg sbox)) (\<lambda>ctr.
     ebind (rpc ''start container'' (StartContainer C ctr)) (\<lambda>_.
     ereturn ctr))"

definition EnsureImage :: "'w cri_api \<Rightarrow> string \<Rightarrow> RegistryAuth \<Rightarrow> 'w \<Rightarrow> (wl_error + bool) \<times> 'w" where
  "EnsureImage C imageURL auth =
     ebind (rpc ''list images'' (ListImages C)) (\<lambda>images.
     if list_ex (\<lambda>tags. imageURL \<in> set tags) images then ereturn False
     else ebind (rpc ''pull image'' (PullImage C imageURL auth)) (\<lambda>_. ereturn True))"

definition EnsurePod ::
  "'w cri_api \<Rightarrow> PodSandboxConfig \<Rightarrow> ContainerConfig \<Rightarrow> RegistryAuth \<Rightarrow> 'w \<Rightarrow> (wl_error + unit) \<times> 'w" where
  "EnsurePod C pod ctr auth =
     ebind (rpc ''list pod sandbox'' (ListPodSandbox C LabelPodUID (PodUid pod))) (\<lambda>items.
     if items \<noteq> [] then ereturn ()
     else ebind (rpc ''create pod'' (RunPodSandbox C pod)) (\<lambda>podID.
       ebind (wrapping ''ensure image'' (EnsureImage C (CtrImage ctr) auth)) (\<lambda>_.
       ebind (wrapping ''run container''
         (RunContainer C podID (ctr\<lparr>LogPath := PodNamespace pod @ ''_'' @ PodName pod, CtrName := PodName pod\<rparr>) pod)) (\<lambda>_.
       ereturn ()))))"

text \<open>Only the process number of the information is used here.\<close>

definition ContainerInfo_Pid :: "'w cri_api \<Rightarrow> string \<Rightarrow> 'w \<Rightarrow> (wl_error + int) \<times> 'w" where
  "ContainerInfo_Pid C ctr =
     ebind (rpc ''get container status'' (ContainerStatusInfo C ctr)) (\<lambda>info.
     case info ''info'' of
       None \<Rightarrow> efail (WlErr [''info key missing''] OtherError)
     | Some d \<Rightarrow> (case InfoPid C d of None \<Rightarrow> efail (WlErr [''unmarshal''] OtherError) | Some pid \<Rightarrow> ereturn pid))"

section \<open>The workload service\<close>

definition AnnotationInstance :: string where
  "AnnotationInstance = ''explorer.chunks.cloud/instance''"

definition podLogDir :: "Instance \<Rightarrow> string" where
  "podLogDir ins =
     (let cName = ReplaceAll (mc_Name (InsChunk ins)) '' '' ''-'';
          fName = ReplaceAll (mf_Name (InsFlavor ins)) '' '' ''-'';
          cName = ReplaceAll cName ''_'' ''-'';
          fName = ReplaceAll fName ''_'' ''-''
      in PodLogDir @ ''/'' @ join_with (CHR ''_'') [cName, fName, m_Version (InsFlavorVersion ins), mc_Id (InsChunk ins),
           m_Id (InsFlavorVersion ins), Id ins, mu_Id (Owner ins)])"

definition workload_sandbox :: "Workload \<Rightarrow> nat \<Rightarrow> string \<Rightarrow> PodSandboxConfig" where
  "workload_sandbox w attempt insData =
     \<lparr>PodName = Name w, PodUid = ID w, PodNamespace = Namespace w, PodAttempt = of_nat attempt,
      PodAnnotations = [AnnotationInstance \<mapsto> insData], PodHostname = Hostname w, PodLabels = Labels w,
      LogDirectory = podLogDir (WInstance w), DnsServers = [''10.0.0.53''], DnsOptions = [''edns0'', ''trust-ad''],
      DnsSearches = [''.''], CpuPeriodLimit = CPUPeriod w, CpuQuotaLimit = CPUQuota w, MemoryLimit = MemoryLimitBytes w,
      Sysctls = [''net.ipv4.ip_unprivileged_port_start'' \<mapsto> ''0'']\<rparr>"

definition server_container :: "Workload \<Rightarrow> ContainerConfig" where
  "server_container w =
     \<lparr>CtrName = Name w, CtrImage = CheckpointImage w, CtrLabels = Labels w, LogPath = ''mcserver.log'', Mounts = [],
      RunAs = None, Envs = []\<rparr>"

definition monitor_container :: "workload_config \<Rightarrow> Workload \<Rightarrow> ContainerConfig" where
  "monitor_container cfg w =
     \<lparr>CtrName = ''servermon'', CtrImage = ServerMonImage cfg, CtrLabels = [LabelWorkloadID \<mapsto> ID w],
      LogPath = ''servermon.slog'', Mounts = [(Dir (ListenSockPath cfg), Dir (ListenSockPath cfg))],
      RunAs = Some (PlatformdSocketUID cfg, PlatformdSocketGID cfg),
      Envs = [(''PLATFORMD_WORKLOAD_ID'', ID w), (''SERVERMON_MC_SERVER_MANAGEMENT_API_TOKEN'', MCManagementAPIToken cfg),
        (''SERVERMON_PLATFORMD_LISTEN_SOCK'', ListenSockURL cfg)]\<rparr>"

text \<open>\<^verbatim>\<open>RunWorkload\<close>, first what follows once the pod runs. Finding a process by number never fails on Linux.\<close>

definition run_containers ::
  "'w cri_api \<Rightarrow> workload_config \<Rightarrow> RegistryAuth \<Rightarrow> Workload \<Rightarrow> PodSandboxConfig \<Rightarrow> string \<Rightarrow> 'w \<Rightarrow> (wl_error + unit) \<times> 'w" where
  "run_containers C cfg auth w sbox pod =
     ebind (wrapping ''pull checkpoint image if not present'' (EnsureImage C (CheckpointImage w) auth)) (\<lambda>_.
     ebind (wrapping ''pull servermon image if not present'' (EnsureImage C (ServerMonImage cfg) Unauthenticated)) (\<lambda>_.
     ebind (wrapping ''run mc server container'' (RunContainer C pod (server_container w) sbox)) (\<lambda>mc.
     ebind (wrapping ''run servermon container'' (RunContainer C pod (monitor_container cfg w) sbox)) (\<lambda>_.
     ebind (wrapping ''container info'' (ContainerInfo_Pid C mc)) (\<lambda>pid.
     rpc ''signal process'' (SignalContinue C pid))))))"

definition svc_RunWorkload ::
  "'w cri_api \<Rightarrow> workload_config \<Rightarrow> RegistryAuth \<Rightarrow> Workload \<Rightarrow> nat \<Rightarrow> 'w \<Rightarrow> (wl_error + unit) \<times> 'w" where
  "svc_RunWorkload C cfg auth w attempt =
     (case MarshalInstance C (WInstance w) of
        None \<Rightarrow> efail (WlErr [''marshalling instance''] OtherError)
      | Some insData \<Rightarrow>
          let sbox = workload_sandbox w attempt insData in
          ebind (wrapping ''pull image if not present'' (EnsureImage C (BaseImage w) auth)) (\<lambda>pulled.
          ebind (if EnableCrioRestart cfg \<and> pulled then rpc ''systemctl restart crio'' (RestartCrio C) else ereturn ()) (\<lambda>_.
          ebind (rpc ''create pod'' (RunPodSandbox C sbox)) (\<lambda>pod.
          run_containers C cfg auth w sbox pod))))"

text \<open>The two loops of \<^verbatim>\<open>RemoveWorkload\<close>; a container that cannot be removed is only logged.\<close>

fun remove_containers :: "'w cri_api \<Rightarrow> Container list \<Rightarrow> 'w \<Rightarrow> 'w" where
  "remove_containers C [] w = w"
| "remove_containers C (c # cs) w = remove_containers C cs (snd (RemoveContainer C (CtrId c) w))"

fun remove_dirs :: "'w cri_api \<Rightarrow> string \<Rightarrow> string list \<Rightarrow> 'w \<Rightarrow> (wl_error + unit) \<times> 'w" where
  "remove_dirs C k [] = ereturn ()"
| "remove_dirs C k (d # ds) =
     (if \<not> Contains d k then remove_dirs C k ds
      else ebind (rpc ''remove'' (RemoveAll C (path_Join [PodLogDir, d]))) (\<lambda>_. remove_dirs C k ds))"

definition removeLogDir :: "'w cri_api \<Rightarrow> string \<Rightarrow> 'w \<Rightarrow> (wl_error + unit) \<times> 'w" where
  "removeLogDir C k = ebind (rpc ''read dir'' (ReadDir C PodLogDir)) (remove_dirs C k)"

definition svc_RemoveWorkload :: "'w cri_api \<Rightarrow> string \<Rightarrow> 'w \<Rightarrow> (wl_error + unit) \<times> 'w" where
  "svc_RemoveWorkload C k =
     ebind (rpc ''list pod sandbox'' (ListPodSandbox C LabelWorkloadID k)) (\<lambda>items.
     case items of
       [] \<Rightarrow> ereturn ()
     | item # _ \<Rightarrow>
         let podID = SandboxId item in
         ebind (rpc ''stop pod sandbox'' (StopPod C podID)) (\<lambda>_.
         ebind (rpc ''remove pod sandbox'' (RemovePod C podID)) (\<lambda>_.
         ebind (rpc ''list containers'' (ListContainers C (ByPod podID))) (\<lambda>cs w.
         (Inr (), snd (removeLogDir C k (remove_containers C cs w)))))))"

text \<open>The loop over the containers of a workload; other numbers than the four states are skipped.\<close>

fun health_of :: "ContainerState list \<Rightarrow> WorkloadHealthStatus" where
  "health_of [] = WorkloadHealthStatusHealthy"
| "health_of (CONTAINER_RUNNING # _) = WorkloadHealthStatusHealthy"
| "health_of (OtherContainerState _ # cs) = health_of cs"
| "health_of (_ # _) = WorkloadHealthStatusUnhealthy"

definition svc_GetWorkloadHealth :: "'w cri_api \<Rightarrow> string \<Rightarrow> 'w \<Rightarrow> (wl_error + WorkloadHealthStatus) \<times> 'w" where
  "svc_GetWorkloadHealth C k =
     ebind (rpc ''list containers'' (ListContainers C (ByLabel LabelWorkloadID k))) (\<lambda>cs.
     if cs = [] then ereturn WorkloadHealthStatusUnhealthy else ereturn (health_of (map CtrState cs)))"

record Metadata =
  MetaID :: string
  MetaChunk :: Chunk
  MetaFlavorVersion :: FlavorVersion
  MetaOrderedBy :: string

definition instance_metadata :: "Instance \<Rightarrow> Metadata" where
  "instance_metadata ins =
     (let c = InsChunk ins in
      \<lparr>MetaID = Id ins,
       MetaChunk = \<lparr>c_ID = mc_Id c, c_Name = mc_Name c, c_Description = mc_Description c, c_Tags = mc_Tags c,
         c_Flavors = [],
         c_Owner = \<lparr>u_ID = [], u_Nickname = [], u_Email = [], u_CreatedAt = 0, u_UpdatedAt = 0\<rparr>,
         c_CreatedAt = mc_CreatedAt c, c_UpdatedAt = mc_CreatedAt c, c_ThumbnailHash = [], c_DeletedAt = None\<rparr>,
       MetaFlavorVersion = FlavorVersionToDomain (InsFlavorVersion ins), MetaOrderedBy = OrderedBy ins\<rparr>)"

definition svc_WorkloadMetadata :: "'w cri_api \<Rightarrow> string \<Rightarrow> 'w \<Rightarrow> (wl_error + Metadata) \<times> 'w" where
  "svc_WorkloadMetadata C k =
     ebind (rpc ''list pod sandbox'' (ListPodSandbox C LabelWorkloadID k)) (\<lambda>items.
     case items of
       [] \<Rightarrow> efail (WlErr [''workload not found''] NotFound)
     | item # _ \<Rightarrow>
         (case SandboxAnnotations item AnnotationInstance of
            None \<Rightarrow> efail (WlErr [''invalid instance data''] OtherError)
          | Some d \<Rightarrow>
              if d = [] then efail (WlErr [''invalid instance data''] OtherError)
              else (case UnmarshalInstance C d of
                      None \<Rightarrow> efail (WlErr [''unmarshal instance data''] OtherError)
                    | Some ins \<Rightarrow> ereturn (instance_metadata ins))))"

section \<open>The server\<close>

definition WorkloadState_value :: "string \<rightharpoonup> int" where
  "WorkloadState_value =
     [''UNKNOWN'' \<mapsto> 0, ''STARTING'' \<mapsto> 1, ''RUNNING'' \<mapsto> 2, ''DELETING'' \<mapsto> 3, ''DELETED'' \<mapsto> 4, ''CREATION_FAILED'' \<mapsto> 5]"

record WorkloadStatusMsg =
  msg_State :: int
  msg_Port :: u32

definition StateToTransport :: "string \<Rightarrow> int" where
  "StateToTransport x = (case WorkloadState_value x of None \<Rightarrow> 0 | Some n \<Rightarrow> n)"

definition StatusToTransport :: "WorkloadStatus option \<times> CheckpointStatus option \<Rightarrow> WorkloadStatusMsg" where
  "StatusToTransport st =
     (case st of
        (Some w, _) \<Rightarrow> \<lparr>msg_State = StateToTransport (WState w), msg_Port = ucast (WPort w)\<rparr>
      | (None, Some c) \<Rightarrow> \<lparr>msg_State = 0, msg_Port = ucast (CPort c)\<rparr>
      | (None, None) \<Rightarrow> \<lparr>msg_State = 0, msg_Port = 0\<rparr>)"

definition srv_WorkloadStatus :: "'s store_ops \<Rightarrow> string \<Rightarrow> 's \<Rightarrow> string + WorkloadStatusMsg" where
  "srv_WorkloadStatus S k s =
     (if k = [] then Inl ''workload id required''
      else case get S k s of None \<Rightarrow> Inl ''workload not found'' | Some st \<Rightarrow> Inr (StatusToTransport st))"

text \<open>None is a panic of the store; otherwise the error, the store and the world.\<close>

definition srv_StopWorkload ::
  "'s store_ops \<Rightarrow> 'w cri_api \<Rightarrow> string \<Rightarrow> 's \<Rightarrow> 'w \<Rightarrow> (wl_error option \<times> 's \<times> 'w) option" where
  "srv_StopWorkload S C k s w =
     (if k = [] then Some (Some (WlErr [''workload id required''] OtherError), s, w)
      else case wrapping ''remove workload'' (svc_RemoveWorkload C k) w of
          (Inl e, w) \<Rightarrow> Some (Some e, s, w)
        | (Inr _, w) \<Rightarrow> map_option (\<lambda>s. (None, s, w)) (upd_wl S k \<lparr>WState = WorkloadStateDeleted, WPort = 0\<rparr> s))"

record WorkloadMetadataMsg =
  meta_Id :: string
  meta_Chunk :: ChunkMsg
  meta_FlavorVersion :: FlavorVersionMsg
  meta_OrderedBy :: string

definition MetadataToTransport :: "Metadata \<Rightarrow> WorkloadMetadataMsg" where
  "MetadataToTransport meta =
     \<lparr>meta_Id = MetaID meta, meta_Chunk = ChunkToTransport (MetaChunk meta),
      meta_FlavorVersion = FlavorVersionToTransport (MetaFlavorVersion meta), meta_OrderedBy = MetaOrderedBy meta\<rparr>"

definition srv_WorkloadMetadata :: "'w cri_api \<Rightarrow> string \<Rightarrow> 'w \<Rightarrow> (wl_error + WorkloadMetadataMsg) \<times> 'w" where
  "srv_WorkloadMetadata C k =
     (if k = [] then efail (WlErr [''workload id required''] OtherError)
      else ebind (wrapping ''workload metadata'' (svc_WorkloadMetadata C k)) (\<lambda>meta. ereturn (MetadataToTransport meta)))"

text \<open>The service as the reconciler's interface.\<close>

fun error_kind :: "wl_error + 'a \<Rightarrow> svc_error option" where
  "error_kind (Inl (WlErr _ e)) = Some e"
| "error_kind (Inr _) = None"

text \<open>The four states of the API.\<close>

definition known_ctr :: "ContainerState \<Rightarrow> bool" where
  "known_ctr c \<longleftrightarrow> (case c of OtherContainerState _ \<Rightarrow> False | _ \<Rightarrow> True)"

section \<open>Lemmas\<close>

lemma health_of_Cons: "known_ctr c \<Longrightarrow> health_of (c # cs) = WorkloadHealthStatusHealthy \<longleftrightarrow> c = CONTAINER_RUNNING"
  by (cases c) (auto simp: known_ctr_def)

lemma perm_to_front: "c \<in> set cs \<Longrightarrow> \<exists>ds. mset (c # ds) = mset cs"
  by (rule exI [of _ "remove1 c cs"]) simp

section \<open>Properties\<close>

text \<open>
  The health of a workload does not depend on the order in which the runtime lists its containers
  exactly if all of them run or none does: with the server exited and its monitor running, or the other
  way round, the one listed first decides, although the comment of \<^verbatim>\<open>GetWorkloadHealth\<close> calls a workload
  with an exited container unhealthy.
\<close>

theorem health_depends_on_order:
  assumes "cs \<noteq> []" "\<forall>c \<in> set cs. known_ctr c"
  shows "(\<forall>ds. mset ds = mset cs \<longrightarrow> health_of ds = health_of cs) \<longleftrightarrow>
    (\<forall>c \<in> set cs. c = CONTAINER_RUNNING) \<or> (\<forall>c \<in> set cs. c \<noteq> CONTAINER_RUNNING)"
proof -
  have hd: "health_of ds = WorkloadHealthStatusHealthy \<longleftrightarrow> hd ds = CONTAINER_RUNNING" "hd ds \<in> set cs" if "mset ds = mset cs" for ds
  proof -
    have ds: "ds \<noteq> []" "set ds = set cs" using that assms(1) mset_eq_setD [OF that] by auto
    then show "hd ds \<in> set cs" using hd_in_set by metis
    with assms(2) have "known_ctr (hd ds)" by blast
    then show "health_of ds = WorkloadHealthStatusHealthy \<longleftrightarrow> hd ds = CONTAINER_RUNNING"
      using health_of_Cons [of "hd ds" "tl ds"] ds(1) by simp
  qed
  have front: "\<exists>ds. mset ds = mset cs \<and> hd ds = c" if "c \<in> set cs" for c using perm_to_front [OF that] by (metis list.sel(1))
  have eq: "x = y \<longleftrightarrow> (x = WorkloadHealthStatusHealthy) = (y = WorkloadHealthStatusHealthy)" for x y
    by (cases x; cases y) auto
  have same: "health_of ds = health_of cs \<longleftrightarrow> (hd ds = CONTAINER_RUNNING) = (hd cs = CONTAINER_RUNNING)" if "mset ds = mset cs" for ds
    using eq [of "health_of ds" "health_of cs"] hd(1) [OF that] hd(1) [OF refl] by argo
  have "(\<forall>ds. mset ds = mset cs \<longrightarrow> health_of ds = health_of cs) \<longleftrightarrow>
      (\<forall>ds. mset ds = mset cs \<longrightarrow> (hd ds = CONTAINER_RUNNING) = (hd cs = CONTAINER_RUNNING))"
    using same by (intro all_cong1 imp_cong) auto
  also have "\<dots> \<longleftrightarrow> (\<forall>c \<in> set cs. (c = CONTAINER_RUNNING) = (hd cs = CONTAINER_RUNNING))"
    using hd(2) front by metis
  also have "\<dots> \<longleftrightarrow> (\<forall>c \<in> set cs. c = CONTAINER_RUNNING) \<or> (\<forall>c \<in> set cs. c \<noteq> CONTAINER_RUNNING)"
    using hd_in_set [OF assms(1)] by blast
  finally show ?thesis .
qed

theorem health_depends_on_order_witness:
  "\<exists>ds. mset ds = mset [CONTAINER_RUNNING, CONTAINER_EXITED] \<and> health_of ds \<noteq> health_of [CONTAINER_RUNNING, CONTAINER_EXITED]"
  using health_depends_on_order [of "[CONTAINER_RUNNING, CONTAINER_EXITED]"] by (auto simp: known_ctr_def)

end
