(* ===== verification/Workload_Pods.thy ===== *)
theory Workload_Pods
  imports Workload_Service
begin

text \<open>
  What the workload service does to the pods of the node, on its own and behind the reconciler. The locale
  \<open>container_runtime\<close> has what the runtime's API documents: listing filters by label, a started sandbox is a
  new one with the given configuration, a removed one is gone, and no other call changes the sandboxes.
\<close>

section \<open>Pods of a workload\<close>

text \<open>The pods of a workload, by the label.\<close>

definition of_workload :: "string \<Rightarrow> (string \<rightharpoonup> PodSandboxConfig) \<Rightarrow> string set" where
  "of_workload k ps = {p. \<exists>cfg. ps p = Some cfg \<and> PodLabels cfg LabelWorkloadID = Some k}"

text \<open>The workload service as the interface the reconciler uses, beside two calls of the control plane.\<close>

definition cri_services ::
  "'w cri_api \<Rightarrow> workload_config \<Rightarrow> RegistryAuth \<Rightarrow> (string \<Rightarrow> 'w \<Rightarrow> Instance list option \<times> 'w) \<Rightarrow>
   (InstanceStatusReport list \<Rightarrow> 'w \<Rightarrow> bool \<times> 'w) \<Rightarrow> ('s, 'w) services" where
  "cri_services C cfg auth discover receive =
     \<lparr>RunWorkload = (\<lambda>wl n _ w. apfst error_kind (svc_RunWorkload C cfg auth wl n w)),
      RemoveWorkload = (\<lambda>k _ w. apfst error_kind (svc_RemoveWorkload C k w)),
      GetWorkloadHealth = (\<lambda>k w. apfst (map_sum (\<lambda>e. case e of WlErr _ x \<Rightarrow> x) (\<lambda>h. h)) (svc_GetWorkloadHealth C k w)),
      DiscoverInstances = discover, ReceiveReports = receive\<rparr>"

section \<open>The runtime's contract\<close>

locale container_runtime =
  fixes C :: "'w cri_api" and pods :: "'w \<Rightarrow> string \<rightharpoonup> PodSandboxConfig"
  assumes list_pods: "ListPodSandbox C k v w = (Inr items, w') \<Longrightarrow>
      distinct (map SandboxId items) \<and>
      SandboxId ` set items = {p. \<exists>cfg. pods w p = Some cfg \<and> PodLabels cfg k = Some v} \<and>
      (\<forall>it \<in> set items. \<forall>cfg. pods w (SandboxId it) = Some cfg \<longrightarrow> SandboxAnnotations it = PodAnnotations cfg)"
    and run_ok: "RunPodSandbox C cfg w = (Inr p, w') \<Longrightarrow> pods w p = None \<and> pods w' = (pods w)(p \<mapsto> cfg)"
    and run_err: "RunPodSandbox C cfg w = (Inl e, w') \<Longrightarrow>
      pods w' = pods w \<or> (\<exists>p. pods w p = None \<and> pods w' = (pods w)(p \<mapsto> cfg))"
    and remove_ok: "RemovePod C p w = (Inr u, w') \<Longrightarrow> pods w' = (pods w)(p := None)"
    and remove_err: "RemovePod C p w = (Inl e, w') \<Longrightarrow> pods w' = pods w \<or> pods w' = (pods w)(p := None)"
    and same_pods: "pods (snd (ListPodSandbox C k v w)) = pods w" "pods (snd (StopPod C p w)) = pods w"
      "pods (snd (ListImages C w)) = pods w" "pods (snd (PullImage C i a w)) = pods w"
      "pods (snd (CreateContainer C p cc cfg w)) = pods w" "pods (snd (StartContainer C c w)) = pods w"
      "pods (snd (RemoveContainer C c w)) = pods w" "pods (snd (ListContainers C f w)) = pods w"
      "pods (snd (ContainerStatusInfo C c w)) = pods w" "pods (snd (SignalContinue C n w)) = pods w"
      "pods (snd (RestartCrio C w)) = pods w" "pods (snd (ReadDir C d w)) = pods w" "pods (snd (RemoveAll C d w)) = pods w"
begin

text \<open>A step that leaves the pods alone.\<close>

definition quiet_step :: "('w \<Rightarrow> 'x \<times> 'w) \<Rightarrow> bool" where
  "quiet_step f \<longleftrightarrow> (\<forall>w. pods (snd (f w)) = pods w)"

lemma quiet_rpc: "(\<And>w. pods (snd (f w)) = pods w) \<Longrightarrow> quiet_step (rpc msg f)"
  by (simp add: quiet_step_def rpc_def split: prod.split sum.split) (metis snd_conv)

lemma quiet_wrapping: "quiet_step f \<Longrightarrow> quiet_step (wrapping msg f)"
  by (simp add: quiet_step_def wrapping_def split: prod.split sum.split wl_error.split) (metis snd_conv)

lemma quiet_ebind: "quiet_step f \<Longrightarrow> (\<And>x. quiet_step (g x)) \<Longrightarrow> quiet_step (ebind f g)"
  by (simp add: quiet_step_def ebind_def split: prod.split sum.split) (metis snd_conv)

lemma quiet_return [simp]: "quiet_step (ereturn x)" "quiet_step (efail e)"
  by (simp_all add: quiet_step_def ereturn_def efail_def)

lemmas quiet_rules = quiet_ebind quiet_wrapping quiet_rpc

lemma quiet_EnsureImage: "quiet_step (EnsureImage C i a)"
  unfolding EnsureImage_def by (intro quiet_rules) (auto simp: same_pods intro!: quiet_rules)

lemma quiet_RunContainer: "quiet_step (RunContainer C p cc cfg)"
  unfolding RunContainer_def by (intro quiet_rules) (simp_all add: same_pods)

lemma quiet_Pid: "quiet_step (ContainerInfo_Pid C c)"
  unfolding ContainerInfo_Pid_def by (intro quiet_rules) (auto simp: same_pods split: option.split)

lemma quiet_run_containers: "quiet_step (run_containers C cfg auth wl sbox p)"
  unfolding run_containers_def
  by (intro quiet_rules quiet_EnsureImage quiet_RunContainer quiet_Pid) (simp add: same_pods)

lemma quiet_remove_dirs: "quiet_step (remove_dirs C k ds)"
  by (induction ds) (auto simp: same_pods intro!: quiet_rules)

lemma quiet_removeLogDir: "quiet_step (removeLogDir C k)"
  unfolding removeLogDir_def by (intro quiet_rules quiet_remove_dirs) (simp add: same_pods)

lemma pods_remove_containers: "pods (remove_containers C cs w) = pods w"
  by (induction cs arbitrary: w) (simp_all add: same_pods)

lemma quietD: "quiet_step f \<Longrightarrow> f w = (x, w') \<Longrightarrow> pods w' = pods w"
  by (metis quiet_step_def snd_conv)

lemma rpc_Inr: "rpc msg f w = (Inr x, w') \<longleftrightarrow> f w = (Inr x, w')"
  by (auto simp: rpc_def split: prod.split sum.split)

lemma rpc_Inl: "rpc msg f w = (Inl e, w') \<Longrightarrow> \<exists>e'. e = WlErr [msg] e' \<and> f w = (Inl e', w')"
  by (auto simp: rpc_def split: prod.splits sum.splits)

section \<open>Running and removing\<close>

lemma quiet_ebindE:
  assumes "ebind m f w = (r, w')" "quiet_step m"
  obtains (fails) e where "r = Inl e" "pods w' = pods w"
  | (goes) x w1 where "m w = (Inr x, w1)" "pods w1 = pods w" "f x w1 = (r, w')"
  using assms(1) by (cases rule: ebindE) (use quietD [OF assms(2)] in \<open>auto intro: that\<close>)

lemma run_pods:
  assumes "svc_RunWorkload C cfg auth wl n w = (res, w')"
  obtains (same) "res \<noteq> Inr ()" "pods w' = pods w"
  | (new) p d where "pods w p = None" "MarshalInstance C (WInstance wl) = Some d" "pods w' = (pods w)(p \<mapsto> workload_sandbox wl n d)"
proof (cases "MarshalInstance C (WInstance wl)")
  case None
  then show thesis using same assms by (auto simp: svc_RunWorkload_def efail_def)
next
  case (Some d)
  let ?sb = "workload_sandbox wl n d"
  have restart: "quiet_step (if EnableCrioRestart cfg \<and> b then rpc ''systemctl restart crio'' (RestartCrio C) else ereturn ())" for b
    by (simp add: quiet_rpc same_pods)
  from assms [unfolded svc_RunWorkload_def Some option.case Let_def] quiet_wrapping [OF quiet_EnsureImage] show thesis
  proof (cases rule: quiet_ebindE)
    case fails
    then show thesis using same by blast
  next
    case 1: (goes b w1)
    from 1(3) restart show thesis
    proof (cases rule: quiet_ebindE)
      case fails
      then show thesis using same 1(2) by simp
    next
      case 2: (goes u w2)
      from 2(3) show thesis
      proof (cases rule: ebindE)
        case (fails e)
        then obtain e' where "RunPodSandbox C ?sb w2 = (Inl e', w')" by (auto dest: rpc_Inl)
        with run_err [OF this] fails(1) show thesis using same new [OF _ Some] 1(2) 2(2) by auto
      next
        case 3: (goes p w3)
        from 3(1) have "RunPodSandbox C ?sb w2 = (Inr p, w3)" by (simp add: rpc_Inr)
        from run_ok [OF this] show thesis
          using new [of p, OF _ Some] quietD [OF quiet_run_containers 3(2)] 1(2) 2(2) by simp
      qed
    qed
  qed
qed

lemma run_success_pod:
  assumes "svc_RunWorkload C cfg auth wl n w = (Inr (), w')"
  obtains p d where "pods w p = None" "MarshalInstance C (WInstance wl) = Some d" "pods w' = (pods w)(p \<mapsto> workload_sandbox wl n d)"
  using run_pods [OF assms] by blast

lemma remove_pods:
  assumes "svc_RemoveWorkload C k w = (res, w')"
  obtains (same) "res \<noteq> Inr ()" "pods w' = pods w"
  | (none) "res = Inr ()" "pods w' = pods w" "of_workload k (pods w) = {}"
  | (one) p where "p \<in> of_workload k (pods w)" "pods w' = (pods w)(p := None)"
proof -
  have quiet: "quiet_step (rpc m (ListPodSandbox C l x))" "quiet_step (rpc m (StopPod C p))"
    "quiet_step (rpc m (ListContainers C f))" for m l x p f by (simp_all add: quiet_rpc same_pods)
  from assms [unfolded svc_RemoveWorkload_def] quiet(1) show thesis
  proof (cases rule: quiet_ebindE)
    case fails
    then show thesis using same by blast
  next
    case 1: (goes items w1)
    have L: "SandboxId ` set items = of_workload k (pods w)"
      using list_pods 1(1) by (auto simp: rpc_Inr of_workload_def)
    show thesis
    proof (cases items)
      case Nil
      then show thesis using none 1 L by (simp add: ereturn_def)
    next
      case (Cons it its)
      then have p: "SandboxId it \<in> of_workload k (pods w)" using L by auto
      from 1(3) [unfolded Cons list.case Let_def] quiet(2) show thesis
      proof (cases rule: quiet_ebindE)
        case fails
        then show thesis using same 1(2) by simp
      next
        case 2: (goes u w2)
        from 2(3) show thesis
        proof (cases rule: ebindE)
          case (fails e)
          then show thesis using same one [OF p] 1(2) 2(2) by (auto dest!: rpc_Inl remove_err)
        next
          case 3: (goes v w3)
          have "pods w' = pods w3"
            using 3(2) quiet(3) by (cases rule: quiet_ebindE)
              (use quiet_removeLogDir pods_remove_containers in \<open>auto simp: quiet_step_def\<close>)
          then show thesis using one [OF p] 3(1) 1(2) 2(2) by (auto simp: rpc_Inr dest!: remove_ok)
        qed
      qed
    qed
  qed
qed

lemma metadata_of_run:
  assumes run: "svc_RunWorkload C cfg auth wl n w = (Inr (), w')" and fresh: "of_workload (ID wl) (pods w) = {}"
    and label: "Labels wl LabelWorkloadID = Some (ID wl)"
    and codec: "\<And>d. MarshalInstance C (WInstance wl) = Some d \<Longrightarrow> d \<noteq> [] \<and> UnmarshalInstance C d = Some (WInstance wl)"
    and meta: "svc_WorkloadMetadata C (ID wl) w' = (res, w'')"
  shows "res = Inr (instance_metadata (WInstance wl)) \<or> (\<exists>e. res = Inl (WlErr [''list pod sandbox''] e))"
proof -
  from run obtain p d where p: "pods w p = None" "MarshalInstance C (WInstance wl) = Some d"
    "pods w' = (pods w)(p \<mapsto> workload_sandbox wl n d)" by (rule run_success_pod)
  from p(3) fresh label have one: "{q. \<exists>c. pods w' q = Some c \<and> PodLabels c LabelWorkloadID = Some (ID wl)} = {p}"
    by (auto simp: of_workload_def workload_sandbox_def)
  from meta [unfolded svc_WorkloadMetadata_def] show ?thesis
  proof (cases rule: ebindE)
    case fails
    then show ?thesis by (auto dest: rpc_Inl)
  next
    case (goes items w1)
    then have L: "SandboxId ` set items = {p}" "\<forall>it \<in> set items. \<forall>c. pods w' (SandboxId it) = Some c \<longrightarrow> SandboxAnnotations it = PodAnnotations c"
      using list_pods [of LabelWorkloadID "ID wl" w' items w1] one by (simp_all add: rpc_Inr)
    then have "\<forall>it \<in> set items. SandboxAnnotations it = PodAnnotations (workload_sandbox wl n d)"
      using p(3) by (metis (no_types, lifting) fun_upd_same imageI singletonD)
    moreover from L(1) obtain it its where "items = it # its" by (cases items) auto
    ultimately show ?thesis using goes(2) codec [OF p(2)] by (auto simp: workload_sandbox_def ereturn_def)
  qed
qed

end

section \<open>Behind the reconciler\<close>

lemma of_workload_upd:
  "of_workload k (ps(p := None)) = of_workload k ps - {p}"
  "of_workload k (ps(p \<mapsto> cfg)) = (if PodLabels cfg LabelWorkloadID = Some k then insert p (of_workload k ps) else of_workload k ps - {p})"
  by (auto simp: of_workload_def)

lemma workload_sandbox_labels [simp]:
  "PodLabels (workload_sandbox (instance_workload cfg ins port) n d) LabelWorkloadID = Some (Id ins)"
  "PodLabels (workload_sandbox (instance_workload cfg ins port) n d) LabelWorkloadPort = Some (Itoa (unat port))"
  "PodUid (workload_sandbox (instance_workload cfg ins port) n d) = Id ins"
  "PodAttempt (workload_sandbox (instance_workload cfg ins port) n d) = of_nat n"
  by (simp_all add: workload_sandbox_def instance_workload_def InstanceLabels_def LabelWorkloadID_def LabelWorkloadPort_def Let_def
      map_add_def)

lemma error_kind_None [simp]: "error_kind r = None \<longleftrightarrow> r = Inr ()" "error_kind r = Some e \<longleftrightarrow> (\<exists>ms. r = Inl (WlErr ms e))"
  by (cases r rule: error_kind.cases; simp)+

lemma cri_services_sel [simp]:
  "RunWorkload (cri_services C wcfg auth disc recv) wl n s w = apfst error_kind (svc_RunWorkload C wcfg auth wl n w)"
  "RemoveWorkload (cri_services C wcfg auth disc recv) k s w = apfst error_kind (svc_RemoveWorkload C k w)"
  by (simp_all add: cri_services_def)

locale pod_reconciler = reconciler_env S ok wl cp IntN + container_runtime C pods
  for S :: "'s store_ops" and ok wl cp and IntN :: "int \<Rightarrow> 'r \<Rightarrow> int \<times> 'r" and C :: "'w cri_api" and pods
begin

text \<open>
  One attempt to create an instance that is due: one pod more, with the port in its label, or none more
  unless the clean-up failed too.
\<close>

lemma creation_pod:
  assumes r: "rec_ok ok r" and c: "cp (store r) (Id ins) = None" and a: "attempts r (Id ins) < 5"
    and d: "due (wl (store r) (Id ins))" and fresh: "of_workload (Id ins) (pods (world r)) = {}"
    and H: "handleInstanceCreation cfg S IntN (cri_services C wcfg auth disc recv) ins r = Some (e, r')"
  shows "e = None \<Longrightarrow> \<exists>p port d. pods (world r) p = None \<and> port \<notin> in_use (portAlloc r) \<and> port \<in> in_use (portAlloc r') \<and>
      wl (store r') (Id ins) = Some \<lparr>WState = WorkloadStateRunning, WPort = port\<rparr> \<and>
      pods (world r') = (pods (world r))(p \<mapsto> workload_sandbox (instance_workload cfg ins port) (Suc (attempts r (Id ins))) d)"
    and "e \<noteq> None \<Longrightarrow> pods (world r') = pods (world r) \<or>
      (\<exists>w err. svc_RemoveWorkload C (Id ins) w = (Inl err, world r') \<and> of_workload (Id ins) (pods w) \<noteq> {})"
proof -
  let ?V = "cri_services C wcfg auth disc recv" and ?n = "Suc (attempts r (Id ins))"
  show "e = None \<Longrightarrow> \<exists>p port d. pods (world r) p = None \<and> port \<notin> in_use (portAlloc r) \<and> port \<in> in_use (portAlloc r') \<and>
      wl (store r') (Id ins) = Some \<lparr>WState = WorkloadStateRunning, WPort = port\<rparr> \<and>
      pods (world r') = (pods (world r))(p \<mapsto> workload_sandbox (instance_workload cfg ins port) ?n d)"
    using r c a d
  proof (cases rule: creation_cases [where cfg = cfg and V = ?V])
    case (runs s s' g port w)
    then have "svc_RunWorkload C wcfg auth (instance_workload cfg ins port) ?n (world r) = (Inr (), w)"
      by (auto simp: apfst_def map_prod_def split: prod.splits)
    then obtain p d where "pods (world r) p = None"
      "pods w = (pods (world r))(p \<mapsto> workload_sandbox (instance_workload cfg ins port) ?n d)" by (rule run_success_pod)
    then show ?thesis using runs H by (auto simp: in_use_def)
  qed (use H in auto)
  show "e \<noteq> None \<Longrightarrow> pods (world r') = pods (world r) \<or>
      (\<exists>w err. svc_RemoveWorkload C (Id ins) w = (Inl err, world r') \<and> of_workload (Id ins) (pods w) \<noteq> {})"
    using r c a d
  proof (cases rule: creation_cases [where cfg = cfg and V = ?V])
    case (failed s g port x w w')
    obtain res w2 where R: "svc_RemoveWorkload C (Id ins) w = (res, w2)" by (rule prod.exhaust)
    with failed H have w2: "world r' = w2" by auto
    from failed(3) obtain err where "svc_RunWorkload C wcfg auth (instance_workload cfg ins port) ?n (world r) = (Inl err, w)"
      by (auto simp: apfst_def map_prod_def split: prod.splits)
    then have w: "pods w = pods (world r) \<or>
        (\<exists>p d. pods (world r) p = None \<and> pods w = (pods (world r))(p \<mapsto> workload_sandbox (instance_workload cfg ins port) ?n d))"
      by (rule run_pods) auto
    from R show ?thesis
    proof (cases rule: remove_pods)
      case same
      then show ?thesis using w w2 R fresh by (cases res) (auto simp: of_workload_upd)
    next
      case none
      then show ?thesis using w w2 by (auto simp: of_workload_upd)
    next
      case (one p)
      then show ?thesis using w w2 fresh by (auto simp: of_workload_upd)
    qed
  qed (use H in auto)
qed

lemma deleting_pod:
  assumes r: "rec_ok ok r" and c: "cp (store r) (Id ins) = None"
    and nf: "\<And>ms. fst (svc_RemoveWorkload C (Id ins) (world r)) \<noteq> Inl (WlErr ms NotFound)"
    and H: "handleInstanceDeleting S (cri_services C wcfg auth disc recv) ins r = Some (None, r')"
  shows "\<exists>st. wl (store r') (Id ins) = Some st \<and> WState st = WorkloadStateDeleted"
    and "(of_workload (Id ins) (pods (world r)) = {} \<and> pods (world r') = pods (world r)) \<or>
      (\<exists>p \<in> of_workload (Id ins) (pods (world r)). pods (world r') = (pods (world r))(p := None))"
proof -
  obtain res w where R: "svc_RemoveWorkload C (Id ins) (world r) = (res, w)" by (rule prod.exhaust)
  have res: "res = Inr ()"
  proof (cases res)
    case (Inl e)
    then show ?thesis using H R nf by (cases e) (auto simp: handleInstanceDeleting_def remove_and_record_def isNotFound_def split: if_splits)
  qed simp
  then have set: "set_state S (Id ins) WorkloadStateDeleted (r\<lparr>world := w\<rparr>) = Some r'"
    using H R by (auto simp: handleInstanceDeleting_def remove_and_record_def bind_eq_Some_conv)
  have "ok (store (r\<lparr>world := w\<rparr>))" "cp (store (r\<lparr>world := w\<rparr>)) (Id ins) = None" using r c by (simp_all add: rec_ok_def)
  then obtain s where s: "set_state S (Id ins) WorkloadStateDeleted (r\<lparr>world := w\<rparr>) = Some (r\<lparr>world := w, store := s\<rparr>)"
    "wl s = (wl (store (r\<lparr>world := w\<rparr>)))(Id ins \<mapsto>
       merged_wl \<lparr>WState = WorkloadStateDeleted, WPort = 0\<rparr> (wl (store (r\<lparr>world := w\<rparr>)) (Id ins)))"
    by (rule set_state_ok)
  then show "\<exists>st. wl (store r') (Id ins) = Some st \<and> WState st = WorkloadStateDeleted"
    using set by (auto simp: merged_set wl_states)
  have "world r' = w" using s(1) set by auto
  with R res show "(of_workload (Id ins) (pods (world r)) = {} \<and> pods (world r') = pods (world r)) \<or>
      (\<exists>p \<in> of_workload (Id ins) (pods (world r)). pods (world r') = (pods (world r))(p := None))"
    by (auto elim: remove_pods)
qed

end

section \<open>A runtime in memory\<close>

text \<open>
  A runtime that keeps its sandboxes in a list and has every image and container; a new sandbox gets a
  name longer than all names in use.
\<close>

type_synonym mem_world = "(string \<times> PodSandboxConfig) list"

definition mem_pods :: "mem_world \<Rightarrow> string \<rightharpoonup> PodSandboxConfig" where
  "mem_pods w = map_of w"

definition mem_list :: "string \<Rightarrow> string \<Rightarrow> mem_world \<Rightarrow> PodSandbox list" where
  "mem_list k v w =
     map (\<lambda>p. \<lparr>SandboxId = p, SandboxAnnotations = PodAnnotations (the (map_of w p))\<rparr>)
       (filter (\<lambda>p. PodLabels (the (map_of w p)) k = Some v) (remdups (map fst w)))"

definition mem_cri :: "mem_world cri_api" where
  "mem_cri =
     \<lparr>ListImages = (\<lambda>w. (Inr [], w)), PullImage = (\<lambda>_ _ w. (Inr (), w)), ListPodSandbox = (\<lambda>k v w. (Inr (mem_list k v w), w)),
      RunPodSandbox = (\<lambda>cfg w. let p = replicate (Suc (sum_list (map (length \<circ> fst) w))) (CHR ''p'') in (Inr p, (p, cfg) # w)),
      StopPod = (\<lambda>_ w. (Inr (), w)), RemovePod = (\<lambda>p w. (Inr (), filter (\<lambda>x. fst x \<noteq> p) w)),
      CreateContainer = (\<lambda>_ _ _ w. (Inr ''c'', w)), StartContainer = (\<lambda>_ w. (Inr (), w)), RemoveContainer = (\<lambda>_ w. (Inr (), w)),
      ListContainers = (\<lambda>_ w. (Inr [], w)), ContainerStatusInfo = (\<lambda>_ w. (Inr [''info'' \<mapsto> ''1''], w)),
      SignalContinue = (\<lambda>_ w. (Inr (), w)), RestartCrio = (\<lambda>w. (Inr (), w)), ReadDir = (\<lambda>_ w. (Inr [], w)),
      RemoveAll = (\<lambda>_ w. (Inr (), w)), InfoPid = (\<lambda>_. Some 1),
      MarshalInstance = (\<lambda>ins. if ins = sample_instance PENDING then Some ''{}'' else None),
      UnmarshalInstance = (\<lambda>d. if d = ''{}'' then Some (sample_instance PENDING) else None)\<rparr>"

lemma mem_cri_sel [simp]:
  "ListPodSandbox mem_cri k v w = (Inr (mem_list k v w), w)"
  "RunPodSandbox mem_cri cfg w = (let p = replicate (Suc (sum_list (map (length \<circ> fst) w))) (CHR ''p'') in (Inr p, (p, cfg) # w))"
  "RemovePod mem_cri p w = (Inr (), filter (\<lambda>x. fst x \<noteq> p) w)"
  "ListImages mem_cri w = (Inr [], w)" "PullImage mem_cri i a w = (Inr (), w)" "StopPod mem_cri p w = (Inr (), w)"
  "CreateContainer mem_cri p cc cfg w = (Inr ''c'', w)" "StartContainer mem_cri c w = (Inr (), w)"
  "ListContainers mem_cri f w = (Inr [], w)" "ContainerStatusInfo mem_cri c w = (Inr [''info'' \<mapsto> ''1''], w)"
  "SignalContinue mem_cri n w = (Inr (), w)" "InfoPid mem_cri d = Some 1"
  by (simp_all add: mem_cri_def)

lemma mem_codec:
  "MarshalInstance mem_cri (sample_instance PENDING) = Some ''{}''" "UnmarshalInstance mem_cri ''{}'' = Some (sample_instance PENDING)"
  by (simp_all add: mem_cri_def)

lemma mem_remove: "fst (svc_RemoveWorkload mem_cri k w) = Inr ()"
  by (simp add: svc_RemoveWorkload_def ebind_def rpc_def ereturn_def Let_def split: list.split)

lemma mem_fresh: "map_of w (replicate (Suc (sum_list (map (length \<circ> fst) w))) (CHR ''p'')) = None"
proof -
  have "length p \<le> sum_list (map (length \<circ> fst) w)" if "p \<in> fst ` set w" for p
    using that member_le_sum_list [of "length p" "map (length \<circ> fst) w"] by auto
  then show ?thesis by (metis Suc_n_not_le_n length_replicate map_of_eq_None_iff)
qed

lemma map_of_filter_key: "map_of (filter (\<lambda>x. fst x \<noteq> p) w) = (map_of w)(p := None)"
  by (induction w) auto

interpretation mem_rt: container_runtime mem_cri mem_pods
proof
  fix k v w w' items
  assume "ListPodSandbox mem_cri k v w = (Inr items, w')"
  then have "items = mem_list k v w" by auto
  moreover have "SandboxId ` set (mem_list k v w) = {p. \<exists>cfg. mem_pods w p = Some cfg \<and> PodLabels cfg k = Some v}"
    by (auto simp: mem_list_def mem_pods_def image_image simp flip: dom_map_of_conv_image_fst)
  ultimately show "distinct (map SandboxId items) \<and>
      SandboxId ` set items = {p. \<exists>cfg. mem_pods w p = Some cfg \<and> PodLabels cfg k = Some v} \<and>
      (\<forall>it \<in> set items. \<forall>cfg. mem_pods w (SandboxId it) = Some cfg \<longrightarrow> SandboxAnnotations it = PodAnnotations cfg)"
    by (auto simp: mem_list_def mem_pods_def comp_def)
next
  fix cfg w p w'
  assume "RunPodSandbox mem_cri cfg w = (Inr p, w')"
  then show "mem_pods w p = None \<and> mem_pods w' = (mem_pods w)(p \<mapsto> cfg)" using mem_fresh [of w] by (auto simp: Let_def mem_pods_def)
qed (auto simp: mem_cri_def mem_pods_def map_of_filter_key Let_def)

interpretation mem_pr: pod_reconciler mem_ops store_ok wl_val cp_val list_rand mem_cri mem_pods
  by unfold_locales

definition sample_pod_rec :: "(MemStore, int list, mem_world) reconciler" where
  "sample_pod_rec = \<lparr>store = NewMemStore, portAlloc = NewPortAllocator 30000 30009, rand = [3, 1, 4],
     attempts = (\<lambda>_. 0), world = []\<rparr>"

definition sample_wcfg :: workload_config where
  "sample_wcfg = \<lparr>MCManagementAPIToken = ''t'', ServerMonImage = ''mon'', ListenSockURL = ''unix:///run/platformd.sock'',
     ListenSockPath = ''/run/platformd.sock'', PlatformdSocketUID = 9012, PlatformdSocketGID = 9012, EnableCrioRestart = False\<rparr>"

definition sample_two_pods :: "(MemStore, int list, mem_world) reconciler" where
  "sample_two_pods = sample_pod_rec\<lparr>world :=
     [(''a'', workload_sandbox (instance_workload sample_cfg (sample_instance DELETING) 30003) 1 ''{}''),
      (''b'', workload_sandbox (instance_workload sample_cfg (sample_instance DELETING) 30001) 2 ''{}'')]\<rparr>"

abbreviation sample_cri_services :: "(MemStore, mem_world) services" where
  "sample_cri_services \<equiv> cri_services mem_cri sample_wcfg Unauthenticated (\<lambda>_ w. (Some [], w)) (\<lambda>_ w. (True, w))"

lemma sample_pod_rec_ok:
  "rec_ok store_ok sample_pod_rec" "cp_val (store sample_pod_rec) k = None" "wl_val (store sample_pod_rec) k = None"
  "attempts sample_pod_rec k = 0" "of_workload k (mem_pods (world sample_pod_rec)) = {}"
  by (simp_all add: rec_ok_def sample_pod_rec_def alloc_ok_def NewPortAllocator_def NewMemStore_ok mem_pods_def of_workload_def)

section \<open>Properties\<close>



text \<open>
  C40. Deleting an instance removes one of its pods: when the handler succeeds, and the runtime did not call
  anything missing, the store has the instance as deleted, exactly one pod of it is gone if it had any, and
  no pod of another workload is touched. So an instance that has two pods, from an attempt whose clean-up
  failed, keeps one although it is reported as deleted.
\<close>

theorem deleted_pods:
  assumes "pod_reconciler S ok wl cp IntN C pods" "rec_ok ok r" "cp (store r) (Id ins) = None"
    and "\<And>ms. fst (svc_RemoveWorkload C (Id ins) (world r)) \<noteq> Inl (WlErr ms NotFound)"
    and "handleInstanceDeleting S (cri_services C wcfg auth disc recv) ins r = Some (None, r')"
  shows "(\<exists>st. wl (store r') (Id ins) = Some st \<and> WState st = WorkloadStateDeleted) \<and>
    card (of_workload (Id ins) (pods (world r'))) = card (of_workload (Id ins) (pods (world r))) - 1 \<and>
    (\<forall>p. p \<notin> of_workload (Id ins) (pods (world r)) \<longrightarrow> pods (world r') p = pods (world r) p)"
  using pod_reconciler.deleting_pod [OF assms] by (auto simp: of_workload_upd card_Diff_singleton)

theorem deleted_pods_witness:
  "\<exists>r'. handleInstanceDeleting mem_ops sample_cri_services (sample_instance DELETING) sample_two_pods = Some (None, r') \<and>
    card (of_workload ''i'' (mem_pods (world sample_two_pods))) = 2 \<and> card (of_workload ''i'' (mem_pods (world r'))) = 1"
proof -
  let ?r = sample_two_pods and ?i = "sample_instance DELETING"
  have two: "of_workload ''i'' (mem_pods (world ?r)) = {''a'', ''b''}"
    using workload_sandbox_labels(1) [of sample_cfg ?i]
    by (auto simp: of_workload_def mem_pods_def sample_two_pods_def sample_instance_def split: if_splits)
  have ok: "rec_ok store_ok ?r" "cp_val (store ?r) (Id ?i) = None" "Id ?i = ''i''"
    using sample_pod_rec_ok by (simp_all add: sample_two_pods_def sample_instance_def)
  obtain w where R: "svc_RemoveWorkload mem_cri ''i'' (world ?r) = (Inr (), w)"
    using mem_remove [of "''i''" "world ?r"] by (metis prod.collapse)
  have "store_ok (store (?r\<lparr>world := w\<rparr>))" "cp_val (store (?r\<lparr>world := w\<rparr>)) ''i'' = None" using ok by (simp_all add: rec_ok_def)
  then obtain s where "set_state mem_ops ''i'' WorkloadStateDeleted (?r\<lparr>world := w\<rparr>) = Some (?r\<lparr>world := w, store := s\<rparr>)"
    by (rule mem_rec.set_state_ok)
  then have H: "handleInstanceDeleting mem_ops sample_cri_services ?i ?r = Some (None, ?r\<lparr>world := w, store := s\<rparr>)"
    using R ok(3) by (simp add: handleInstanceDeleting_def remove_and_record_def)
  have "fst (svc_RemoveWorkload mem_cri (Id ?i) (world ?r)) \<noteq> Inl (WlErr ms NotFound)" for ms using R ok(3) by simp
  from deleted_pods [OF mem_pr.pod_reconciler_axioms ok(1,2) this H] H two ok(3) show ?thesis by simp
qed



end
