(* ===== verification/Servermon.thy ===== *)
theory Servermon
  imports Go_Lib
begin

text \<open>
  The monitor in a pod, \<^verbatim>\<open>servermon/monitor.go\<close>: one goroutine asks the server for its players and remembers
  in an atomic flag that there were some, another checks the flag at a longer interval, clears it, and stops
  the workload where it is not set. The two run in any interleaving of their atomic steps; connecting to the
  server is left out.
\<close>

section \<open>The two loops\<close>

text \<open>Where the checking goroutine is: before its next tick, after reading a set flag, after reading an unset one.\<close>

datatype check_pc = Waiting | Clearing | Stopping

record monitor =
  joined :: bool
  check_pc :: check_pc

definition monitor_init :: monitor where
  "monitor_init = \<lparr>joined = False, check_pc = Waiting\<rparr>"

text \<open>What happens, in order: an answer with its number of players, a call that failed, the atomic steps of the
  check, and a call of \<^verbatim>\<open>StopWorkload\<close> with its outcome.\<close>

datatype mon_event = Listed nat | ListFailed | Loaded bool | Cleared | Stopped bool

inductive mon_step :: "monitor \<Rightarrow> mon_event \<Rightarrow> monitor \<Rightarrow> bool" where
  listed: "mon_step s (Listed n) (if 0 < n then s\<lparr>joined := True\<rparr> else s)"
| list_failed: "mon_step s ListFailed s"
| loaded: "check_pc s = Waiting \<Longrightarrow> mon_step s (Loaded (joined s)) (s\<lparr>check_pc := if joined s then Clearing else Stopping\<rparr>)"
| cleared: "check_pc s = Clearing \<Longrightarrow> mon_step s Cleared (s\<lparr>joined := False, check_pc := Waiting\<rparr>)"
| stopped: "check_pc s = Stopping \<Longrightarrow> mon_step s (Stopped b) (s\<lparr>check_pc := Waiting\<rparr>)"

inductive mon_steps :: "mon_event list \<Rightarrow> monitor \<Rightarrow> bool" where
  start: "mon_steps [] monitor_init"
| step: "mon_steps es s \<Longrightarrow> mon_step s e s' \<Longrightarrow> mon_steps (es @ [e]) s'"

text \<open>The same steps as a function, to run a sequence of events.\<close>

fun mon_next :: "mon_event \<Rightarrow> monitor \<Rightarrow> monitor option" where
  "mon_next (Listed n) s = Some (if 0 < n then s\<lparr>joined := True\<rparr> else s)"
| "mon_next ListFailed s = Some s"
| "mon_next (Loaded b) s =
     (if check_pc s = Waiting \<and> b = joined s then Some (s\<lparr>check_pc := if joined s then Clearing else Stopping\<rparr>) else None)"
| "mon_next Cleared s = (if check_pc s = Clearing then Some (s\<lparr>joined := False, check_pc := Waiting\<rparr>) else None)"
| "mon_next (Stopped b) s = (if check_pc s = Stopping then Some (s\<lparr>check_pc := Waiting\<rparr>) else None)"

fun mon_exec :: "mon_event list \<Rightarrow> monitor \<Rightarrow> monitor option" where
  "mon_exec [] s = Some s"
| "mon_exec (e # es) s = (case mon_next e s of None \<Rightarrow> None | Some s \<Rightarrow> mon_exec es s)"

inductive_cases mon_step_cases: "mon_step s e s'"
inductive_simps mon_step_simps [simp]:
  "mon_step s (Listed n) s'" "mon_step s ListFailed s'" "mon_step s (Loaded b) s'" "mon_step s Cleared s'" "mon_step s (Stopped b) s'"

lemma mon_next_step: "mon_next e s = Some s' \<longleftrightarrow> mon_step s e s'"
  by (cases e) auto

lemma mon_exec_steps: "mon_exec es s = Some s' \<Longrightarrow> mon_steps pre s \<Longrightarrow> mon_steps (pre @ es) s'"
proof (induction es arbitrary: s pre)
  case (Cons e es)
  then obtain s1 where "mon_step s e s1" "mon_exec es s1 = Some s'" by (auto simp: mon_next_step split: option.splits)
  then show ?case using Cons.IH [of s1 "pre @ [e]"] Cons.prems(2) mon_steps.step by simp
qed simp

lemmas mon_run = mon_exec_steps [OF _ start, simplified]

section \<open>What the flag means\<close>

text \<open>The answers since the flag was last cleared, and the last step of the check.\<close>

definition since_clear :: "mon_event list \<Rightarrow> mon_event list" where
  "since_clear es = takeWhile (\<lambda>e. e \<noteq> Cleared) (rev es)"

definition players_seen :: "mon_event list \<Rightarrow> bool" where
  "players_seen es \<longleftrightarrow> (\<exists>n > 0. Listed n \<in> set es)"

fun listing :: "mon_event \<Rightarrow> bool" where
  "listing (Listed _) = True"
| "listing ListFailed = True"
| "listing _ = False"

fun last_check :: "mon_event list \<Rightarrow> mon_event option" where
  "last_check es = find (\<lambda>e. \<not> listing e) (rev es)"

lemma since_clear_snoc [simp]: "since_clear (es @ [e]) = (if e = Cleared then [] else e # since_clear es)"
  by (simp add: since_clear_def)

lemma players_seen_simps [simp]: "\<not> players_seen []" "players_seen (e # es) \<longleftrightarrow> (\<exists>n > 0. e = Listed n) \<or> players_seen es"
  by (auto simp: players_seen_def)

lemma last_check_split:
  "last_check es = Some e \<Longrightarrow> \<exists>pre mid. es = pre @ e # mid \<and> list_all listing mid"
proof (induction es rule: rev_induct)
  case (snoc x es)
  show ?case
  proof (cases "listing x")
    case True
    with snoc obtain pre mid where "es = pre @ e # mid" "list_all listing mid" by auto
    then show ?thesis using True by (intro exI [of _ pre] exI [of _ "mid @ [x]"]) simp
  next
    case False
    then show ?thesis using snoc by (intro exI [of _ es] exI [of _ "[]"]) simp
  qed
qed simp

text \<open>
  The flag is set exactly if some answer had players since it was last cleared, and the checking goroutine is
  where its last step put it; where it is about to stop the workload, that step read an unset flag.
\<close>

lemma monitor_inv:
  "mon_steps es s \<Longrightarrow> (joined s \<longleftrightarrow> players_seen (since_clear es)) \<and>
    (check_pc s = Stopping \<longleftrightarrow> last_check es = Some (Loaded False)) \<and>
    (check_pc s = Clearing \<longleftrightarrow> last_check es = Some (Loaded True)) \<and>
    (\<forall>pre mid. es = pre @ Loaded False # mid \<longrightarrow> \<not> players_seen (since_clear pre))"
proof (induction rule: mon_steps.induct)
  case start
  then show ?case by (simp add: monitor_init_def since_clear_def)
next
  case (step es s e s')
  have split: "\<not> players_seen (since_clear pre)" if "es @ [e] = pre @ Loaded False # mid" for pre mid
  proof (cases mid rule: rev_cases)
    case Nil
    then have "e = Loaded False" "pre = es" using that by auto
    then show ?thesis using step by auto
  next
    case (snoc ys y)
    then have "es = pre @ Loaded False # ys" using that by simp
    then show ?thesis using step.IH by blast
  qed
  show ?case
  proof (cases e)
    case (Loaded b)
    then show ?thesis using step split by auto
  next
    case (Listed n)
    then show ?thesis using step split by (auto split: if_splits)
  qed (use step split in auto)
qed

section \<open>Properties\<close>

text \<open>
  C26. The monitor stops a workload only when it is empty: every call of \<^verbatim>\<open>StopWorkload\<close> in any interleaving
  follows a check that read the flag unset, with only answers of the server in between, and before that
  check no answer had players since the flag was last cleared, or since the start.
\<close>

theorem stop_justified:
  assumes "mon_steps (es @ [Stopped b]) s"
  shows "\<exists>pre mid. es = pre @ Loaded False # mid \<and> list_all listing mid \<and> \<not> players_seen (since_clear pre)"
proof -
  from assms obtain s0 where s0: "mon_steps es s0" "check_pc s0 = Stopping"
    by (cases rule: mon_steps.cases) auto
  note I = monitor_inv [OF s0(1)]
  then obtain pre mid where "es = pre @ Loaded False # mid" "list_all listing mid" using s0(2) last_check_split by blast
  then show ?thesis using I by blast
qed

theorem stop_justified_witness:
  "\<exists>pre mid. [Listed 0, Loaded False] = pre @ Loaded False # mid \<and> list_all listing mid \<and> \<not> players_seen (since_clear pre)"
  using stop_justified [of "[Listed 0, Loaded False]" True monitor_init]
    mon_run [of "[Listed 0, Loaded False, Stopped True]" monitor_init] by (simp add: monitor_init_def)

text \<open>
  A player can be forgotten: reading and clearing the flag are two steps, so an answer with players that
  arrives between them is lost, and the next check stops the workload although an answer since the check
  before it had players.
\<close>

theorem join_lost:
  "mon_steps ([Listed 1, Loaded True] @ [Listed 2] @ [Cleared, Loaded False, Stopped True]) monitor_init"
  by (rule mon_run) (simp add: monitor_init_def)

end
