(* ===== verification/Cp_Db.thy ===== *)
theory Cp_Db
  imports Resources "HOL-Library.Monad_Syntax"
begin

text \<open>
  The database of the control plane, \<^verbatim>\<open>controlplane/postgres\<close>: its tables as lists of rows in an order without
  meaning, the constraints of \<^verbatim>\<open>schema.sql\<close>, and the statements of \<^verbatim>\<open>query.sql\<close> on them. A statement that
  violates a constraint is None. Left out are columns no modelled code reads (the name of a node, the times of a
  thumbnail and of a file, the time a row was archived) and the limits on the length of texts. Of the endpoint of
  a node there is only whether it parses as address and port.
\<close>

section \<open>Tables\<close>

record node_row =
  nd_id :: string
  nd_address :: string
  nd_slots :: nat
  nd_endpoint :: bool

record chunk_row =
  ch_id :: string
  ch_name :: string
  ch_description :: string
  ch_tags :: "string list"
  ch_created :: nat
  ch_updated :: nat
  ch_owner :: string
  ch_thumbnail :: "string option"
  ch_deleted :: "nat option"

record flavor_row =
  fl_id :: string
  fl_chunk :: string
  fl_name :: string
  fl_created :: nat
  fl_updated :: nat
  fl_deleted :: "nat option"

record version_row =
  ve_id :: string
  ve_flavor :: string
  ve_hash :: string
  ve_status :: string
  ve_version :: string
  ve_uploaded :: bool
  ve_prev :: "string option"
  ve_created :: nat
  ve_expiry :: "nat option"
  ve_url :: "string option"
  ve_mc :: string
  ve_min :: u32
  ve_max :: u32

record file_row =
  fi_version :: string
  fi_hash :: string
  fi_path :: string

record instance_row =
  row_id :: string
  row_version :: string
  row_node :: string
  row_port :: "u32 option"
  row_state :: string
  row_created :: nat
  row_updated :: nat
  row_owner :: string
  row_orderedBy :: string

text \<open>The jobs of \<^verbatim>\<open>controlplane/job\<close> as they are handed to the queue, without the context for tracing.\<close>

datatype job = CreateImage string string string | CreateCheckpoint string string

record cp_db =
  nodes :: "node_row list"
  users :: "User list"
  chunks :: "chunk_row list"
  flavors :: "flavor_row list"
  versions :: "version_row list"
  files :: "file_row list"
  mc_versions :: "(string \<times> string) list"
  instances :: "instance_row list"
  chunk_archive :: "(string \<times> Chunk) list"
  flavor_archive :: "(string \<times> string \<times> Flavor) list"
  version_archive :: "(string \<times> string \<times> FlavorVersion) list"
  jobs :: "job list"

text \<open>The errors of \<^verbatim>\<open>controlplane/errors\<close>, and what the services only wrap: a failing statement or call.\<close>

record InvalidPathViolation =
  iv_Field :: string
  iv_Path :: string

datatype cp_error =
    ErrNotFound | ErrAlreadyExists | ErrInvalidPageSize | ErrInvalidPageToken | ErrPermissionDenied
  | ErrChunkNotFound | ErrTooManyTags | ErrNameTooLong | ErrDescriptionTooLong
  | ErrInvalidThumbnailFormat | ErrInvalidThumbnailDimensions | ErrInvalidThumbnailSize
  | ErrFlavorNameExists | ErrFlavorVersionExists | ErrMinecraftVersionNotSupported | ErrHashMismatch
  | ErrFlavorFilesNotUploaded | ErrFlavorFilesUploaded | ErrChangeSetTarballTooBig
  | InvalidPath "InvalidPathViolation list"
  | ErrInstanceNotFound | ErrNodeKeyMissing | ErrNoSlotsAvailable
  | ErrNoActor | ErrDatabase | ErrNodeEndpoint | ErrObjectStore | ErrHashTree | ErrImage | ErrNilPointer

definition look :: "('a \<Rightarrow> string) \<Rightarrow> 'a list \<Rightarrow> string \<rightharpoonup> 'a" where
  "look key rows k = find (\<lambda>r. key r = k) rows"

definition has :: "('a \<Rightarrow> string) \<Rightarrow> 'a list \<Rightarrow> string \<Rightarrow> bool" where
  "has key rows k \<longleftrightarrow> k \<in> key ` set rows"

text \<open>Primary keys, the other uniqueness constraint, and the foreign keys.\<close>

definition pk_ok :: "cp_db \<Rightarrow> bool" where
  "pk_ok db \<longleftrightarrow> distinct (map nd_id (nodes db)) \<and> distinct (map u_ID (users db)) \<and> distinct (map ch_id (chunks db)) \<and>
     distinct (map fl_id (flavors db)) \<and> distinct (map ve_id (versions db)) \<and> distinct (map row_id (instances db)) \<and>
     distinct (map fst (mc_versions db)) \<and> distinct (map (\<lambda>v. (ve_flavor v, ve_version v)) (versions db)) \<and>
     distinct (map fst (chunk_archive db)) \<and> distinct (map fst (flavor_archive db)) \<and> distinct (map fst (version_archive db))"

definition fk_ok :: "cp_db \<Rightarrow> bool" where
  "fk_ok db \<longleftrightarrow>
     (\<forall>i \<in> set (instances db). has ve_id (versions db) (row_version i) \<and> has nd_id (nodes db) (row_node i) \<and>
        has u_ID (users db) (row_owner i)) \<and>
     (\<forall>v \<in> set (versions db). has fl_id (flavors db) (ve_flavor v) \<and> has fst (mc_versions db) (ve_mc v)) \<and>
     (\<forall>f \<in> set (flavors db). has ch_id (chunks db) (fl_chunk f)) \<and>
     (\<forall>c \<in> set (chunks db). has u_ID (users db) (ch_owner c)) \<and>
     (\<forall>f \<in> set (files db). has ve_id (versions db) (fi_version f))"

definition db_ok :: "cp_db \<Rightarrow> bool" where
  "db_ok db \<longleftrightarrow> pk_ok db \<and> fk_ok db"

section \<open>Statements\<close>

definition insert_chunk :: "chunk_row \<Rightarrow> cp_db \<Rightarrow> cp_db option" where
  "insert_chunk c db =
     (if has ch_id (chunks db) (ch_id c) \<or> \<not> has u_ID (users db) (ch_owner c) then None
      else Some (db\<lparr>chunks := chunks db @ [c]\<rparr>))"

definition insert_flavor :: "flavor_row \<Rightarrow> cp_db \<Rightarrow> cp_db option" where
  "insert_flavor f db =
     (if has fl_id (flavors db) (fl_id f) \<or> \<not> has ch_id (chunks db) (fl_chunk f) then None
      else Some (db\<lparr>flavors := flavors db @ [f]\<rparr>))"

text \<open>A version together with its files, as one transaction inserts them.\<close>

definition insert_version :: "version_row \<Rightarrow> Hash list \<Rightarrow> cp_db \<Rightarrow> cp_db option" where
  "insert_version v hs db =
     (if has ve_id (versions db) (ve_id v) \<or> (ve_flavor v, ve_version v) \<in> set (map (\<lambda>v. (ve_flavor v, ve_version v)) (versions db)) \<or>
         \<not> has fl_id (flavors db) (ve_flavor v) \<or> \<not> has fst (mc_versions db) (ve_mc v) then None
      else Some (db\<lparr>versions := versions db @ [v],
        files := files db @ map (\<lambda>h. \<lparr>fi_version = ve_id v, fi_hash = h_Hash h, fi_path = h_Path h\<rparr>) hs\<rparr>))"

definition insert_instance :: "instance_row \<Rightarrow> cp_db \<Rightarrow> cp_db option" where
  "insert_instance r db =
     (if has row_id (instances db) (row_id r) \<or> \<not> has ve_id (versions db) (row_version r) \<or> \<not> has nd_id (nodes db) (row_node r) \<or>
         \<not> has u_ID (users db) (row_owner r) then None
      else Some (db\<lparr>instances := instances db @ [r]\<rparr>))"

definition update_chunk :: "string \<Rightarrow> (chunk_row \<Rightarrow> chunk_row) \<Rightarrow> cp_db \<Rightarrow> cp_db" where
  "update_chunk k g db = db\<lparr>chunks := map (\<lambda>c. if ch_id c = k then g c else c) (chunks db)\<rparr>"

definition update_flavor :: "string \<Rightarrow> (flavor_row \<Rightarrow> flavor_row) \<Rightarrow> cp_db \<Rightarrow> cp_db" where
  "update_flavor k g db = db\<lparr>flavors := map (\<lambda>f. if fl_id f = k then g f else f) (flavors db)\<rparr>"

definition update_version :: "string \<Rightarrow> (version_row \<Rightarrow> version_row) \<Rightarrow> cp_db \<Rightarrow> cp_db" where
  "update_version k g db = db\<lparr>versions := map (\<lambda>v. if ve_id v = k then g v else v) (versions db)\<rparr>"

text \<open>Deleting a version deletes its files, deleting a flavor its versions; instances and flavors hold what they refer to.\<close>

definition delete_version :: "string \<Rightarrow> cp_db \<Rightarrow> cp_db option" where
  "delete_version k db =
     (if has row_version (instances db) k then None
      else Some (db\<lparr>versions := filter (\<lambda>v. ve_id v \<noteq> k) (versions db), files := filter (\<lambda>f. fi_version f \<noteq> k) (files db)\<rparr>))"

definition delete_flavor :: "string \<Rightarrow> cp_db \<Rightarrow> cp_db option" where
  "delete_flavor k db =
     (let gone = map ve_id (filter (\<lambda>v. ve_flavor v = k) (versions db)) in
      if list_ex (\<lambda>i. row_version i \<in> set gone) (instances db) then None
      else Some (db\<lparr>flavors := filter (\<lambda>f. fl_id f \<noteq> k) (flavors db), versions := filter (\<lambda>v. ve_flavor v \<noteq> k) (versions db),
        files := filter (\<lambda>f. fi_version f \<notin> set gone) (files db)\<rparr>))"

definition delete_chunk :: "string \<Rightarrow> cp_db \<Rightarrow> cp_db option" where
  "delete_chunk k db =
     (if has fl_chunk (flavors db) k then None else Some (db\<lparr>chunks := filter (\<lambda>c. ch_id c \<noteq> k) (chunks db)\<rparr>))"

section \<open>Lemmas\<close>

lemma look_Some: "look key rows k = Some r \<Longrightarrow> r \<in> set rows \<and> key r = k"
  by (auto simp: look_def find_Some_iff)

lemma look_has: "has key rows k \<longleftrightarrow> look key rows k \<noteq> None"
  by (auto simp: look_def has_def find_None_iff)

lemma look_in: "distinct (map key rows) \<Longrightarrow> r \<in> set rows \<Longrightarrow> look key rows (key r) = Some r"
  by (induction rows) (auto simp: look_def)

lemma look_simps [simp]: "look key [] k = None" "look key (r # rs) k = (if key r = k then Some r else look key rs k)"
  by (simp_all add: look_def)

lemma look_append: "look key (xs @ ys) k = (case look key xs k of None \<Rightarrow> look key ys k | Some r \<Rightarrow> Some r)"
  by (induction xs) (auto simp: look_def)

lemma look_map: "(\<And>r. key (g r) = key r) \<Longrightarrow> look key (map (\<lambda>r. if key r = i then g r else r) rows) k =
    map_option (\<lambda>r. if k = i then g r else r) (look key rows k)"
  by (induction rows) (auto simp: look_def)

lemma look_filter: "look key (filter (\<lambda>r. key r \<noteq> i) rows) k = (if k = i then None else look key rows k)"
  by (induction rows) (auto simp: look_def)

lemma has_simps [simp]: "has key (xs @ ys) k \<longleftrightarrow> has key xs k \<or> has key ys k" "has key [] k = False"
  "has key (x # xs) k \<longleftrightarrow> key x = k \<or> has key xs k"
  by (auto simp: has_def)

lemma has_iff: "has key rows k \<longleftrightarrow> (\<exists>r \<in> set rows. key r = k)"
  by (auto simp: has_def)

lemma has_filter: "has key (filter P rows) k \<longleftrightarrow> (\<exists>r \<in> set rows. P r \<and> key r = k)"
  by (auto simp: has_def)

lemma map_key: "(\<And>r. key (g r) = key r) \<Longrightarrow> map key (map (\<lambda>r. if P r then g r else r) rows) = map key rows"
  by simp

lemma has_map: "(\<And>r. key (g r) = key r) \<Longrightarrow> has key (map (\<lambda>r. if P r then g r else r) rows) k = has key rows k"
  by (induction rows) auto

lemmas db_ok_defs = db_ok_def pk_ok_def fk_ok_def

text \<open>Every statement keeps the constraints.\<close>

lemma insert_Some:
  "insert_chunk c db = Some db' \<longleftrightarrow> \<not> has ch_id (chunks db) (ch_id c) \<and> has u_ID (users db) (ch_owner c) \<and> db' = db\<lparr>chunks := chunks db @ [c]\<rparr>"
  "insert_flavor f db = Some db' \<longleftrightarrow> \<not> has fl_id (flavors db) (fl_id f) \<and> has ch_id (chunks db) (fl_chunk f) \<and>
    db' = db\<lparr>flavors := flavors db @ [f]\<rparr>"
  "insert_version v hs db = Some db' \<longleftrightarrow> \<not> has ve_id (versions db) (ve_id v) \<and>
    (ve_flavor v, ve_version v) \<notin> (\<lambda>v. (ve_flavor v, ve_version v)) ` set (versions db) \<and>
    has fl_id (flavors db) (ve_flavor v) \<and> has fst (mc_versions db) (ve_mc v) \<and> db' = db\<lparr>versions := versions db @ [v],
      files := files db @ map (\<lambda>h. \<lparr>fi_version = ve_id v, fi_hash = h_Hash h, fi_path = h_Path h\<rparr>) hs\<rparr>"
  "insert_instance i db = Some db' \<longleftrightarrow> \<not> has row_id (instances db) (row_id i) \<and> has ve_id (versions db) (row_version i) \<and>
    has nd_id (nodes db) (row_node i) \<and> has u_ID (users db) (row_owner i) \<and> db' = db\<lparr>instances := instances db @ [i]\<rparr>"
  by (auto simp: insert_chunk_def insert_flavor_def insert_version_def insert_instance_def)

lemma delete_Some:
  "delete_version k db = Some db' \<longleftrightarrow> \<not> has row_version (instances db) k \<and>
    db' = db\<lparr>versions := filter (\<lambda>v. ve_id v \<noteq> k) (versions db), files := filter (\<lambda>f. fi_version f \<noteq> k) (files db)\<rparr>"
  "delete_flavor k db = Some db' \<longleftrightarrow> (\<forall>i \<in> set (instances db). \<forall>v \<in> set (versions db). ve_flavor v = k \<longrightarrow> row_version i \<noteq> ve_id v) \<and>
    db' = db\<lparr>flavors := filter (\<lambda>f. fl_id f \<noteq> k) (flavors db), versions := filter (\<lambda>v. ve_flavor v \<noteq> k) (versions db),
      files := filter (\<lambda>f. fi_version f \<notin> ve_id ` {v \<in> set (versions db). ve_flavor v = k}) (files db)\<rparr>"
  "delete_chunk k db = Some db' \<longleftrightarrow> \<not> has fl_chunk (flavors db) k \<and> db' = db\<lparr>chunks := filter (\<lambda>c. ch_id c \<noteq> k) (chunks db)\<rparr>"
  by (auto simp: delete_version_def delete_flavor_def delete_chunk_def Let_def list_ex_iff)

lemma insert_ok:
  assumes db: "db_ok db"
  shows "insert_chunk c db = Some db' \<Longrightarrow> db_ok db'" "insert_flavor f db = Some db' \<Longrightarrow> db_ok db'"
    "insert_version v hs db = Some db' \<Longrightarrow> db_ok db'" "insert_instance i db = Some db' \<Longrightarrow> db_ok db'"
  using db unfolding insert_Some
  by (elim conjE; hypsubst; simp add: db_ok_defs has_def ball_Un; blast?)+

lemma update_ok:
  assumes db: "db_ok db"
  shows "(\<And>c. ch_id (g c) = ch_id c \<and> ch_owner (g c) = ch_owner c) \<Longrightarrow> db_ok (update_chunk k g db)"
  "(\<And>f. fl_id (g' f) = fl_id f \<and> fl_chunk (g' f) = fl_chunk f) \<Longrightarrow> db_ok (update_flavor k g' db)"
  "(\<And>v. ve_id (g'' v) = ve_id v \<and> ve_flavor (g'' v) = ve_flavor v \<and> ve_version (g'' v) = ve_version v \<and> ve_mc (g'' v) = ve_mc v) \<Longrightarrow>
    db_ok (update_version k g'' db)"
  using db by (simp_all add: update_chunk_def update_flavor_def update_version_def db_ok_defs has_map o_def if_distrib ball_Un cong: if_cong)

lemma db_okD:
  assumes "db_ok db"
  shows "i \<in> set (instances db) \<Longrightarrow> has ve_id (versions db) (row_version i)" "i \<in> set (instances db) \<Longrightarrow> has nd_id (nodes db) (row_node i)"
    "i \<in> set (instances db) \<Longrightarrow> has u_ID (users db) (row_owner i)" "v \<in> set (versions db) \<Longrightarrow> has fl_id (flavors db) (ve_flavor v)"
    "v \<in> set (versions db) \<Longrightarrow> has fst (mc_versions db) (ve_mc v)" "f \<in> set (flavors db) \<Longrightarrow> has ch_id (chunks db) (fl_chunk f)"
    "c \<in> set (chunks db) \<Longrightarrow> has u_ID (users db) (ch_owner c)" "h \<in> set (files db) \<Longrightarrow> has ve_id (versions db) (fi_version h)"
  using assms by (simp_all add: db_ok_defs)

lemma db_ok_pk:
  assumes "db_ok db"
  shows "distinct (map ch_id (chunks db))" "distinct (map fl_id (flavors db))" "distinct (map ve_id (versions db))"
    "distinct (map row_id (instances db))" "distinct (map nd_id (nodes db))" "distinct (map u_ID (users db))"
  using assms by (simp_all add: db_ok_defs)

lemma has_ne: "has key (filter (\<lambda>r. key r \<noteq> k) rows) x \<longleftrightarrow> x \<noteq> k \<and> has key rows x"
  by (auto simp: has_def)

lemma delete_ok:
  assumes db: "db_ok db"
  shows "delete_version k db = Some db' \<Longrightarrow> db_ok db'" "delete_flavor k db = Some db' \<Longrightarrow> db_ok db'" "delete_chunk k db = Some db' \<Longrightarrow> db_ok db'"
proof -
  assume d: "delete_version k db = Some db'"
  then have "\<forall>i \<in> set (instances db). row_version i \<noteq> k" by (simp add: delete_Some has_iff)
  then show "db_ok db'" using db d [unfolded delete_Some] by (simp add: db_ok_defs distinct_map_filter has_ne)
next
  assume d: "delete_chunk k db = Some db'"
  then have "\<forall>f \<in> set (flavors db). fl_chunk f \<noteq> k" by (simp add: delete_Some has_iff)
  then show "db_ok db'" using db d [unfolded delete_Some] by (simp add: db_ok_defs distinct_map_filter has_ne)
next
  assume d: "delete_flavor k db = Some db'"
  let ?vs = "filter (\<lambda>v. ve_flavor v \<noteq> k) (versions db)"
  have "has ve_id ?vs (row_version i)" if i: "i \<in> set (instances db)" for i
  proof -
    obtain v where v: "v \<in> set (versions db)" "ve_id v = row_version i" using db_okD(1) [OF db i] by (auto simp: has_iff)
    moreover have "ve_flavor v \<noteq> k" using d i v by (simp add: delete_Some) metis
    ultimately show ?thesis by (auto simp: has_filter)
  qed
  moreover have "has ve_id ?vs (fi_version h)" if h: "h \<in> set (files db)" "fi_version h \<notin> ve_id ` {v \<in> set (versions db). ve_flavor v = k}" for h
  proof -
    obtain v where v: "v \<in> set (versions db)" "ve_id v = fi_version h" using db_okD(8) [OF db h(1)] by (auto simp: has_iff)
    then have "ve_flavor v \<noteq> k" using h(2) by (auto simp: image_iff)
    with v show ?thesis unfolding has_filter by (intro bexI [of _ v]) simp_all
  qed
  ultimately show "db_ok db'" using db d [unfolded delete_Some]
    by (simp add: db_ok_defs distinct_map_filter has_ne)
qed

end
