(* ===== verification/Chunk_Repo.thy ===== *)
theory Chunk_Repo
  imports Cp_Db "HOL-Library.Multiset"
begin

text \<open>
  The repositories over the database: \<^verbatim>\<open>postgres/flavor.go\<close>, \<^verbatim>\<open>postgres/chunk.go\<close>, \<^verbatim>\<open>postgres/authz.go\<close> and
  \<^verbatim>\<open>postgres/archive.go\<close>. New identifiers and the time are arguments. A method that changes rows gives the
  database with its result; the database answers, so a method fails where a row is missing or a constraint is
  violated. What \<^verbatim>\<open>collectChunks\<close> makes of the rows of a join is shown to be the chunk with its flavors,
  their versions and their files.
\<close>

section \<open>Values of rows\<close>

definition zero_user :: User where
  "zero_user = \<lparr>u_ID = [], u_Nickname = [], u_Email = [], u_CreatedAt = 0, u_UpdatedAt = 0\<rparr>"

definition zero_flavor :: Flavor where
  "zero_flavor = \<lparr>f_ID = [], f_Name = [], f_Versions = [], f_CreatedAt = 0, f_UpdatedAt = 0, f_DeletedAt = None\<rparr>"

definition zero_version :: FlavorVersion where
  "zero_version = \<lparr>v_ID = [], v_Version = [], v_MinecraftVersion = [], v_Hash = [], v_FileHashes = [], v_FilesUploaded = False,
     v_BuildStatus = [], v_CreatedAt = 0, v_PresignedURLExpiryDate = None, v_PresignedURL = None, v_MinPlayers = 0, v_MaxPlayers = 0\<rparr>"

definition version_domain :: "version_row \<Rightarrow> FlavorVersion" where
  "version_domain v = \<lparr>v_ID = ve_id v, v_Version = ve_version v, v_MinecraftVersion = ve_mc v, v_Hash = ve_hash v, v_FileHashes = [],
     v_FilesUploaded = ve_uploaded v, v_BuildStatus = ve_status v, v_CreatedAt = ve_created v, v_PresignedURLExpiryDate = ve_expiry v,
     v_PresignedURL = ve_url v, v_MinPlayers = ve_min v, v_MaxPlayers = ve_max v\<rparr>"

definition flavor_domain :: "flavor_row \<Rightarrow> Flavor" where
  "flavor_domain f = \<lparr>f_ID = fl_id f, f_Name = fl_name f, f_Versions = [], f_CreatedAt = fl_created f, f_UpdatedAt = fl_updated f,
     f_DeletedAt = fl_deleted f\<rparr>"

definition hash_domain :: "file_row \<Rightarrow> Hash" where
  "hash_domain h = \<lparr>h_Path = fi_path h, h_Hash = fi_hash h\<rparr>"

text \<open>\<^verbatim>\<open>sort.Slice\<close> by creation, the latest first.\<close>

definition latest_first :: "('a \<Rightarrow> nat) \<Rightarrow> 'a list \<Rightarrow> 'a list" where
  "latest_first created xs = rev (sort_key created xs)"

definition chunk_flavors :: "cp_db \<Rightarrow> string \<Rightarrow> flavor_row list" where
  "chunk_flavors db k = filter (\<lambda>f. fl_chunk f = k) (flavors db)"

definition flavor_versions :: "cp_db \<Rightarrow> string \<Rightarrow> version_row list" where
  "flavor_versions db k = filter (\<lambda>v. ve_flavor v = k) (versions db)"

definition version_files :: "cp_db \<Rightarrow> string \<Rightarrow> file_row list" where
  "version_files db k = filter (\<lambda>h. fi_version h = k) (files db)"

section \<open>Flavors and their versions\<close>

definition repo_CreateFlavor :: "string \<Rightarrow> nat \<Rightarrow> string \<Rightarrow> string \<Rightarrow> cp_db \<Rightarrow> (cp_error + Flavor) \<times> cp_db" where
  "repo_CreateFlavor k now chunkID name db =
     (case insert_flavor \<lparr>fl_id = k, fl_chunk = chunkID, fl_name = name, fl_created = now, fl_updated = now, fl_deleted = None\<rparr> db of
        None \<Rightarrow> (Inl ErrDatabase, db)
      | Some db' \<Rightarrow> (Inr (zero_flavor\<lparr>f_ID := k, f_Name := name, f_CreatedAt := now, f_UpdatedAt := now\<rparr>), db'))"

definition FlavorNameExists :: "string \<Rightarrow> string \<Rightarrow> cp_db \<Rightarrow> bool" where
  "FlavorNameExists chunkID name db = list_ex (\<lambda>f. fl_name f = name \<and> fl_chunk f = chunkID) (flavors db)"

definition FlavorVersionExists :: "string \<Rightarrow> string \<Rightarrow> cp_db \<Rightarrow> bool" where
  "FlavorVersionExists flavorID version db = list_ex (\<lambda>v. ve_version v = version \<and> ve_flavor v = flavorID) (versions db)"

text \<open>No version gives the zero value.\<close>

definition LatestFlavorVersion :: "string \<Rightarrow> cp_db \<Rightarrow> FlavorVersion" where
  "LatestFlavorVersion flavorID db =
     (case latest_first ve_created (flavor_versions db flavorID) of
        [] \<Rightarrow> zero_version
      | v # _ \<Rightarrow> zero_version\<lparr>v_ID := ve_id v, v_Version := ve_version v, v_Hash := ve_hash v,
          v_FileHashes := sort_key h_Path (map hash_domain (version_files db (ve_id v))), v_CreatedAt := ve_created v,
          v_MinPlayers := ve_min v, v_MaxPlayers := ve_max v\<rparr>)"

definition repo_CreateFlavorVersion ::
  "string \<Rightarrow> nat \<Rightarrow> string \<Rightarrow> FlavorVersion \<Rightarrow> string \<Rightarrow> cp_db \<Rightarrow> (cp_error + FlavorVersion) \<times> cp_db" where
  "repo_CreateFlavorVersion k now flavorID version prevVersionID db =
     (case insert_version
         \<lparr>ve_id = k, ve_flavor = flavorID, ve_hash = v_Hash version, ve_status = ''PENDING'', ve_version = v_Version version,
          ve_uploaded = False, ve_prev = (if prevVersionID \<noteq> [] then Some prevVersionID else None), ve_created = now,
          ve_expiry = None, ve_url = None, ve_mc = v_MinecraftVersion version, ve_min = v_MinPlayers version,
          ve_max = v_MaxPlayers version\<rparr> (v_FileHashes version) db of
        None \<Rightarrow> (Inl ErrDatabase, db)
      | Some db' \<Rightarrow> (Inr (version\<lparr>v_ID := k, v_CreatedAt := now\<rparr>), db'))"

definition MarkFlavorVersionFilesUploaded :: "string \<Rightarrow> cp_db \<Rightarrow> cp_db" where
  "MarkFlavorVersionFilesUploaded k = update_version k (\<lambda>v. v\<lparr>ve_uploaded := True\<rparr>)"

text \<open>The join with the files is an inner one: a version without files is not found.\<close>

definition FlavorVersionByID :: "string \<Rightarrow> cp_db \<Rightarrow> cp_error + FlavorVersion" where
  "FlavorVersionByID k db =
     (case look ve_id (versions db) k of
        None \<Rightarrow> Inl ErrNotFound
      | Some v \<Rightarrow>
          let hs = version_files db k in
          if hs = [] then Inl ErrNotFound else Inr ((version_domain v)\<lparr>v_FileHashes := map hash_domain hs\<rparr>))"

definition UpdateFlavorVersionBuildStatus :: "string \<Rightarrow> string \<Rightarrow> cp_db \<Rightarrow> cp_db" where
  "UpdateFlavorVersionBuildStatus k status = update_version k (\<lambda>v. v\<lparr>ve_status := status\<rparr>)"

definition UpdateFlavorVersionPresignedURLData :: "string \<Rightarrow> nat \<Rightarrow> string \<Rightarrow> cp_db \<Rightarrow> cp_db" where
  "UpdateFlavorVersionPresignedURLData k date url = update_version k (\<lambda>v. v\<lparr>ve_expiry := Some date, ve_url := Some url\<rparr>)"

definition AllDeletedFlavors :: "cp_db \<Rightarrow> string \<rightharpoonup> string" where
  "AllDeletedFlavors db = map_option fl_chunk \<circ> map_by fl_id (filter (\<lambda>f. fl_deleted f \<noteq> None) (flavors db))"

definition FlavorIDByFlavorVersionID :: "string \<Rightarrow> cp_db \<Rightarrow> cp_error + string" where
  "FlavorIDByFlavorVersionID k db = (case look ve_id (versions db) k of None \<Rightarrow> Inl ErrNotFound | Some v \<Rightarrow> Inr (ve_flavor v))"

definition MarkFlavorDeleted :: "nat \<Rightarrow> string \<Rightarrow> cp_db \<Rightarrow> cp_db" where
  "MarkFlavorDeleted now k = update_flavor k (\<lambda>f. f\<lparr>fl_deleted := Some now\<rparr>)"

text \<open>The link to upload of every version is the one in the first row.\<close>

definition FlavorByID :: "string \<Rightarrow> cp_db \<Rightarrow> cp_error + Flavor" where
  "FlavorByID k db =
     (case look fl_id (flavors db) k of
        None \<Rightarrow> Inl ErrNotFound
      | Some f \<Rightarrow>
          let vs = flavor_versions db k in
          Inr ((flavor_domain f)\<lparr>f_Versions := latest_first v_CreatedAt (map (\<lambda>v. (version_domain v)
            \<lparr>v_PresignedURLExpiryDate := ve_expiry (hd vs), v_PresignedURL := ve_url (hd vs)\<rparr>) vs)\<rparr>))"

definition InsertJob :: "string \<Rightarrow> string \<Rightarrow> job \<Rightarrow> cp_db \<Rightarrow> cp_db" where
  "InsertJob k status j db = (UpdateFlavorVersionBuildStatus k status db)\<lparr>jobs := jobs db @ [j]\<rparr>"

definition GetMinecraftVersionByVersion :: "string \<Rightarrow> cp_db \<Rightarrow> string option" where
  "GetMinecraftVersionByVersion version db = map_of (mc_versions db) version"

definition SupportedMinecraftVersions :: "cp_db \<Rightarrow> string list" where
  "SupportedMinecraftVersions db = map fst (mc_versions db)"

section \<open>Chunks\<close>

text \<open>A row of the outer joins from a chunk to the files of the versions of its flavors.\<close>

record chunkRelationsRow =
  rel_chunk :: chunk_row
  rel_flavor :: "flavor_row option"
  rel_version :: "version_row option"
  rel_file :: "file_row option"
  rel_user :: "User option"

definition outer :: "'a list \<Rightarrow> 'a option list" where
  "outer xs = (if xs = [] then [None] else map Some xs)"

definition chunk_relations :: "(flavor_row \<Rightarrow> bool) \<Rightarrow> cp_db \<Rightarrow> chunk_row \<Rightarrow> chunkRelationsRow list" where
  "chunk_relations P db c =
     concat (map (\<lambda>f. concat (map (\<lambda>v. map (\<lambda>h.
         \<lparr>rel_chunk = c, rel_flavor = f, rel_version = v, rel_file = h, rel_user = look u_ID (users db) (ch_owner c)\<rparr>)
       (outer (case v of None \<Rightarrow> [] | Some v \<Rightarrow> version_files db (ve_id v))))
       (outer (case f of None \<Rightarrow> [] | Some f \<Rightarrow> flavor_versions db (fl_id f)))))
       (outer (filter P (chunk_flavors db (ch_id c)))))"

text \<open>The orders in which Go ranges over the two maps of \<^verbatim>\<open>collectChunks\<close>.\<close>

record orders =
  ord_versions :: "(string \<rightharpoonup> FlavorVersion) \<Rightarrow> string list"
  ord_flavors :: "(string \<rightharpoonup> Flavor) \<Rightarrow> string list"

definition orders_ok :: "orders \<Rightarrow> bool" where
  "orders_ok ord \<longleftrightarrow> map_order (ord_versions ord) \<and> map_order (ord_flavors ord)"

definition put_new :: "string \<Rightarrow> 'v \<Rightarrow> (string \<rightharpoonup> 'v) \<Rightarrow> string \<rightharpoonup> 'v" where
  "put_new k x m = (if m k = None then m(k \<mapsto> x) else m)"

definition flavorMap :: "chunkRelationsRow list \<Rightarrow> string \<rightharpoonup> Flavor" where
  "flavorMap rows = fold (\<lambda>r m. case rel_flavor r of None \<Rightarrow> m | Some f \<Rightarrow> put_new (fl_id f) (flavor_domain f) m) rows Map.empty"

definition versionMap :: "chunkRelationsRow list \<Rightarrow> string \<rightharpoonup> FlavorVersion" where
  "versionMap rows = fold (\<lambda>r m. case rel_version r of None \<Rightarrow> m | Some v \<Rightarrow> put_new (ve_id v) (version_domain v) m) rows Map.empty"

definition versionToFlavorMap :: "chunkRelationsRow list \<Rightarrow> string \<rightharpoonup> string" where
  "versionToFlavorMap rows = fold (\<lambda>r m. case rel_version r of None \<Rightarrow> m
     | Some v \<Rightarrow> put_new (ve_id v) (case rel_flavor r of None \<Rightarrow> [] | Some f \<Rightarrow> fl_id f) m) rows Map.empty"

text \<open>The columns of a missing file are empty texts.\<close>

definition row_hash :: "file_row option \<Rightarrow> Hash" where
  "row_hash h = (case h of None \<Rightarrow> \<lparr>h_Path = [], h_Hash = []\<rparr> | Some h \<Rightarrow> hash_domain h)"

definition add_path :: "Hash \<Rightarrow> Hash list \<Rightarrow> Hash list" where
  "add_path h hs = (if list_ex (\<lambda>x. h_Path x = h_Path h) hs then hs else hs @ [h])"

definition fhMap :: "chunkRelationsRow list \<Rightarrow> string \<Rightarrow> Hash list" where
  "fhMap rows = fold (\<lambda>r m. case rel_version r of None \<Rightarrow> m
     | Some v \<Rightarrow> m(ve_id v := add_path (row_hash (rel_file r)) (m (ve_id v)))) rows (\<lambda>_. [])"

definition add_version :: "(string \<rightharpoonup> string) \<Rightarrow> FlavorVersion \<Rightarrow> (string \<rightharpoonup> Flavor) \<Rightarrow> string \<rightharpoonup> Flavor" where
  "add_version to_flavor v m =
     (let k = (case to_flavor (v_ID v) of None \<Rightarrow> [] | Some k \<Rightarrow> k);
          f = (case m k of None \<Rightarrow> zero_flavor | Some f \<Rightarrow> f)
      in m(k \<mapsto> f\<lparr>f_Versions := f_Versions f @ [v]\<rparr>))"

definition collectChunks :: "orders \<Rightarrow> chunkRelationsRow list \<Rightarrow> cp_error + Chunk" where
  "collectChunks ord rows =
     (case rows of
        [] \<Rightarrow> Inl ErrNilPointer
      | r # _ \<Rightarrow>
          (case rel_user r of
             None \<Rightarrow> Inl ErrNilPointer
           | Some u \<Rightarrow>
               let row = rel_chunk r;
                   vm = (\<lambda>k. map_option (\<lambda>v. v\<lparr>v_FileHashes := sort_key h_Path (fhMap rows k)\<rparr>) (versionMap rows k));
                   fm = fold (add_version (versionToFlavorMap rows)) (vals_in (ord_versions ord vm) vm) (flavorMap rows);
                   fm' = (\<lambda>k. map_option (\<lambda>f. f\<lparr>f_Versions := latest_first v_CreatedAt (f_Versions f)\<rparr>) (fm k))
               in Inr \<lparr>c_ID = ch_id row, c_Name = ch_name row, c_Description = ch_description row, c_Tags = ch_tags row,
                    c_Flavors = latest_first f_CreatedAt (vals_in (ord_flavors ord fm') fm'), c_Owner = u,
                    c_CreatedAt = ch_created row, c_UpdatedAt = ch_updated row,
                    c_ThumbnailHash = (case ch_thumbnail row of None \<Rightarrow> [] | Some h \<Rightarrow> h), c_DeletedAt = ch_deleted row\<rparr>))"

definition getChunkByID :: "orders \<Rightarrow> string \<Rightarrow> cp_db \<Rightarrow> cp_error + Chunk" where
  "getChunkByID ord k db =
     (case look ch_id (chunks db) k of None \<Rightarrow> Inl ErrChunkNotFound | Some c \<Rightarrow> collectChunks ord (chunk_relations (\<lambda>_. True) db c))"

definition repo_CreateChunk :: "orders \<Rightarrow> string \<Rightarrow> nat \<Rightarrow> Chunk \<Rightarrow> cp_db \<Rightarrow> (cp_error + Chunk) \<times> cp_db" where
  "repo_CreateChunk ord k now c db =
     (case insert_chunk \<lparr>ch_id = k, ch_name = c_Name c, ch_description = c_Description c, ch_tags = c_Tags c, ch_created = now,
         ch_updated = now, ch_owner = u_ID (c_Owner c), ch_thumbnail = None, ch_deleted = None\<rparr> db of
        None \<Rightarrow> (Inl ErrDatabase, db)
      | Some db' \<Rightarrow> (case getChunkByID ord k db' of Inl e \<Rightarrow> (Inl e, db) | Inr c' \<Rightarrow> (Inr c', db')))"

definition repo_UpdateChunk :: "orders \<Rightarrow> nat \<Rightarrow> Chunk \<Rightarrow> cp_db \<Rightarrow> (cp_error + Chunk) \<times> cp_db" where
  "repo_UpdateChunk ord now c db =
     (let db' = update_chunk (c_ID c) (\<lambda>r. r\<lparr>ch_name := c_Name c, ch_description := c_Description c, ch_tags := c_Tags c,
        ch_updated := now\<rparr>) db
      in case getChunkByID ord (c_ID c) db' of Inl e \<Rightarrow> (Inl e, db) | Inr c' \<Rightarrow> (Inr c', db'))"

definition live :: "flavor_row \<Rightarrow> bool" where
  "live f \<longleftrightarrow> fl_deleted f = None"

text \<open>The keys of a page.\<close>

definition page_ids :: "nat \<Rightarrow> string option \<Rightarrow> string list \<Rightarrow> string list" where
  "page_ids limit afterID ks = take limit (sort (filter (\<lambda>k. case afterID of None \<Rightarrow> True | Some a \<Rightarrow> a < k) ks))"

text \<open>The keys of rows in the order in which they first come.\<close>

definition first_seen :: "('a \<Rightarrow> string) \<Rightarrow> 'a list \<Rightarrow> string list" where
  "first_seen key rows = fold (\<lambda>r ks. if key r \<in> set ks then ks else ks @ [key r]) rows []"

primrec those_ok :: "('e + 'a) list \<Rightarrow> 'e + 'a list" where
  "those_ok [] = Inr []"
| "those_ok (x # xs) = (case x of Inl e \<Rightarrow> Inl e | Inr y \<Rightarrow> map_sum id ((#) y) (those_ok xs))"

definition live_chunks :: "cp_db \<Rightarrow> string list" where
  "live_chunks db = map ch_id (filter (\<lambda>c. ch_deleted c = None) (chunks db))"

text \<open>One page of chunks that are not deleted, with their flavors that are not.\<close>

definition repo_ListChunks :: "orders \<Rightarrow> nat \<Rightarrow> string option \<Rightarrow> cp_db \<Rightarrow> cp_error + Chunk list" where
  "repo_ListChunks ord limit afterID db =
     (let ids = page_ids limit afterID (live_chunks db);
          rows = concat (map (\<lambda>k. concat (map (chunk_relations live db) (filter (\<lambda>c. ch_id c = k) (chunks db)))) ids)
      in those_ok (map (\<lambda>k. collectChunks ord (filter (\<lambda>r. ch_id (rel_chunk r) = k) rows)) (first_seen (ch_id \<circ> rel_chunk) rows)))"

text \<open>The chunk a page has under an identifier.\<close>

definition page_chunk :: "orders \<Rightarrow> cp_db \<Rightarrow> string \<Rightarrow> Chunk" where
  "page_chunk ord db k = projr (collectChunks ord (concat (map (chunk_relations live db) (filter (\<lambda>c. ch_id c = k) (chunks db)))))"

definition repo_UpdateThumbnail :: "string \<Rightarrow> string \<Rightarrow> cp_db \<Rightarrow> cp_db" where
  "repo_UpdateThumbnail k hash = update_chunk k (\<lambda>c. c\<lparr>ch_thumbnail := Some hash\<rparr>)"

definition MarkChunkAndFlavorsDeleted :: "orders \<Rightarrow> nat \<Rightarrow> string \<Rightarrow> cp_db \<Rightarrow> (cp_error + unit) \<times> cp_db" where
  "MarkChunkAndFlavorsDeleted ord now k db =
     (case getChunkByID ord k db of
        Inl e \<Rightarrow> (Inl e, db)
      | Inr c \<Rightarrow> (Inr (), fold (\<lambda>f. MarkFlavorDeleted now (f_ID f)) (c_Flavors c) (update_chunk k (\<lambda>r. r\<lparr>ch_deleted := Some now\<rparr>) db)))"

section \<open>Owners\<close>

text \<open>A query without a row, like any that fails, gives the zero user and no error.\<close>

definition getOwner :: "User option \<Rightarrow> User" where
  "getOwner res = (case res of None \<Rightarrow> zero_user | Some u \<Rightarrow> u)"

definition ChunkOwner :: "string \<Rightarrow> cp_db \<Rightarrow> User" where
  "ChunkOwner k db = getOwner (do {c \<leftarrow> look ch_id (chunks db) k; look u_ID (users db) (ch_owner c)})"

definition FlavorOwner :: "string \<Rightarrow> cp_db \<Rightarrow> User" where
  "FlavorOwner k db = getOwner (do {f \<leftarrow> look fl_id (flavors db) k; c \<leftarrow> look ch_id (chunks db) (fl_chunk f);
     look u_ID (users db) (ch_owner c)})"

definition FlavorVersionOwner :: "string \<Rightarrow> cp_db \<Rightarrow> User" where
  "FlavorVersionOwner k db = getOwner (do {v \<leftarrow> look ve_id (versions db) k; f \<leftarrow> look fl_id (flavors db) (ve_flavor v);
     c \<leftarrow> look ch_id (chunks db) (fl_chunk f); look u_ID (users db) (ch_owner c)})"

section \<open>The archive\<close>

text \<open>Each is one transaction: the row of the archive and the deletion.\<close>

definition ArchiveFlavorVersion :: "string \<Rightarrow> FlavorVersion \<Rightarrow> cp_db \<Rightarrow> cp_db option" where
  "ArchiveFlavorVersion flavorID v db =
     (if has fst (version_archive db) (v_ID v) then None
      else delete_version (v_ID v) (db\<lparr>version_archive := version_archive db @ [(v_ID v, flavorID, v)]\<rparr>))"

definition ArchiveFlavor :: "string \<Rightarrow> Flavor \<Rightarrow> cp_db \<Rightarrow> cp_db option" where
  "ArchiveFlavor chunkID f db =
     (if has fst (flavor_archive db) (f_ID f) then None
      else delete_flavor (f_ID f) (db\<lparr>flavor_archive := flavor_archive db @ [(f_ID f, chunkID, f)]\<rparr>))"

definition ArchiveChunk :: "Chunk \<Rightarrow> cp_db \<Rightarrow> cp_db option" where
  "ArchiveChunk c db =
     (if has fst (chunk_archive db) (c_ID c) then None
      else delete_chunk (c_ID c) (db\<lparr>chunk_archive := chunk_archive db @ [(c_ID c, c)]\<rparr>))"

section \<open>A small database\<close>

definition sample_chunk :: chunk_row where
  "sample_chunk = \<lparr>ch_id = ''c'', ch_name = ''chunk'', ch_description = ''d'', ch_tags = [], ch_created = 1, ch_updated = 1, ch_owner = ''u'',
     ch_thumbnail = None, ch_deleted = None\<rparr>"

definition sample_flavor :: flavor_row where
  "sample_flavor = \<lparr>fl_id = ''fl'', fl_chunk = ''c'', fl_name = ''flavor'', fl_created = 1, fl_updated = 1, fl_deleted = None\<rparr>"

definition sample_version :: version_row where
  "sample_version = \<lparr>ve_id = ''v'', ve_flavor = ''fl'', ve_hash = ''h'', ve_status = ''COMPLETED'', ve_version = ''v1'', ve_uploaded = True,
     ve_prev = None, ve_created = 1, ve_expiry = None, ve_url = None, ve_mc = ''1.21'', ve_min = 1, ve_max = 8\<rparr>"

definition sample_cp :: cp_db where
  "sample_cp =
     \<lparr>nodes = [\<lparr>nd_id = ''node'', nd_address = ''192.0.2.1'', nd_slots = 1, nd_endpoint = True\<rparr>],
      users = [\<lparr>u_ID = ''u'', u_Nickname = ''nick'', u_Email = ''e'', u_CreatedAt = 1, u_UpdatedAt = 1\<rparr>],
      chunks = [sample_chunk], flavors = [sample_flavor], versions = [sample_version],
      files = [\<lparr>fi_version = ''v'', fi_hash = ''h1'', fi_path = ''a''\<rparr>, \<lparr>fi_version = ''v'', fi_hash = ''h2'', fi_path = ''b''\<rparr>],
      mc_versions = [(''1.21'', ''image'')], instances = [], chunk_archive = [], flavor_archive = [], version_archive = [], jobs = []\<rparr>"

definition sample_orders :: orders where
  "sample_orders = \<lparr>ord_versions = sample_order, ord_flavors = sample_order\<rparr>"

lemma sample_cp_ok: "db_ok sample_cp"
  by (simp add: db_ok_defs sample_cp_def sample_chunk_def sample_flavor_def sample_version_def)

lemma sample_orders_ok: "orders_ok sample_orders"
  by (simp add: orders_ok_def sample_orders_def sample_order_ok)

lemma sample_cp_look: "look ch_id (chunks sample_cp) ''c'' = Some sample_chunk" "look fl_id (flavors sample_cp) ''fl'' = Some sample_flavor"
  "look ve_id (versions sample_cp) ''v'' = Some sample_version"
  by (simp_all add: look_def sample_cp_def sample_chunk_def sample_flavor_def sample_version_def)

section \<open>What a chunk read from the database is\<close>

definition once :: "Hash list \<Rightarrow> Hash list" where
  "once hs = fold add_path hs []"

definition version_tree :: "cp_db \<Rightarrow> version_row \<Rightarrow> FlavorVersion" where
  "version_tree db v = (version_domain v)\<lparr>v_FileHashes := sort_key h_Path (once (map row_hash (outer (version_files db (ve_id v)))))\<rparr>"

definition newest :: "('a \<Rightarrow> nat) \<Rightarrow> 'a list \<Rightarrow> bool" where
  "newest created xs \<longleftrightarrow> sorted_wrt (\<lambda>x y. created y \<le> created x) xs"

text \<open>The chunk of a row, with the flavors that \<open>P\<close> keeps, the latest first, and so their versions.\<close>

definition chunk_tree :: "(flavor_row \<Rightarrow> bool) \<Rightarrow> cp_db \<Rightarrow> chunk_row \<Rightarrow> Chunk \<Rightarrow> bool" where
  "chunk_tree P db c ch \<longleftrightarrow>
     c_ID ch = ch_id c \<and> c_Name ch = ch_name c \<and> c_Description ch = ch_description c \<and> c_Tags ch = ch_tags c \<and>
     c_CreatedAt ch = ch_created c \<and> c_UpdatedAt ch = ch_updated c \<and> c_DeletedAt ch = ch_deleted c \<and>
     c_ThumbnailHash ch = (case ch_thumbnail c of None \<Rightarrow> [] | Some h \<Rightarrow> h) \<and>
     look u_ID (users db) (ch_owner c) = Some (c_Owner ch) \<and> newest f_CreatedAt (c_Flavors ch) \<and>
     mset (map (\<lambda>f. f\<lparr>f_Versions := []\<rparr>) (c_Flavors ch)) = mset (map flavor_domain (filter P (chunk_flavors db (ch_id c)))) \<and>
     (\<forall>f \<in> set (c_Flavors ch). newest v_CreatedAt (f_Versions f) \<and>
        mset (f_Versions f) = mset (map (version_tree db) (flavor_versions db (f_ID f))))"

section \<open>Lemmas\<close>

lemma newest_latest_first: "newest created (latest_first created xs)"
  using sorted_sort_key [of created xs] by (simp only: newest_def latest_first_def sorted_wrt_rev sorted_map)

lemma mset_latest_first [simp]: "mset (latest_first created xs) = mset xs" "set (latest_first created xs) = set xs"
  by (simp_all add: latest_first_def)

lemma outer_set: "x \<in> set (outer xs) \<longleftrightarrow> (xs = [] \<and> x = None) \<or> (\<exists>y \<in> set xs. x = Some y)"
  by (auto simp: outer_def)

lemma put_new_fold:
  "fold (\<lambda>r m. case g r of None \<Rightarrow> m | Some y \<Rightarrow> put_new (key r y) (val r y) m) rows m0 k =
     (case m0 k of Some x \<Rightarrow> Some x | None \<Rightarrow> map_option (\<lambda>r. val r (the (g r))) (find (\<lambda>r. \<exists>y. g r = Some y \<and> key r y = k) rows))"
  by (induction rows arbitrary: m0) (auto simp: put_new_def split: option.splits)

text \<open>A map filled with the first value of a key, where the rows with a key agree.\<close>

lemma put_new_iff:
  assumes "\<And>r y r' y'. r \<in> set rows \<Longrightarrow> g r = Some y \<Longrightarrow> r' \<in> set rows \<Longrightarrow> g r' = Some y' \<Longrightarrow> key r y = key r' y' \<Longrightarrow>
    val r y = val r' y'"
  shows "fold (\<lambda>r m. case g r of None \<Rightarrow> m | Some y \<Rightarrow> put_new (key r y) (val r y) m) rows Map.empty k = Some x \<longleftrightarrow>
    (\<exists>r \<in> set rows. \<exists>y. g r = Some y \<and> key r y = k \<and> val r y = x)"
proof (cases "find (\<lambda>r. \<exists>y. g r = Some y \<and> key r y = k) rows")
  case None
  then have "\<not> (\<exists>r \<in> set rows. \<exists>y. g r = Some y \<and> key r y = k)" by (auto simp: find_None_iff)
  then show ?thesis unfolding put_new_fold None by auto
next
  case (Some r)
  then obtain y where r: "r \<in> set rows" "g r = Some y" "key r y = k" by (auto simp: find_Some_iff)
  have "val r y = x \<longleftrightarrow> (\<exists>r \<in> set rows. \<exists>y. g r = Some y \<and> key r y = k \<and> val r y = x)" using assms r by metis
  then show ?thesis using r(2) unfolding put_new_fold Some by simp
qed

lemma fhMap_fold:
  "fold (\<lambda>r m. case rel_version r of None \<Rightarrow> m | Some v \<Rightarrow> m(ve_id v := add_path (row_hash (rel_file r)) (m (ve_id v)))) rows m0 k =
     fold add_path (map (\<lambda>r. row_hash (rel_file r)) (filter (\<lambda>r. \<exists>v. rel_version r = Some v \<and> ve_id v = k) rows)) (m0 k)"
  by (induction rows arbitrary: m0) (auto split: option.splits)

lemma add_versions:
  assumes "\<forall>v \<in> set vs. tf (v_ID v) \<in> Some ` dom m"
  shows "fold (add_version tf) vs m k = map_option (\<lambda>f. f\<lparr>f_Versions := f_Versions f @ filter (\<lambda>v. tf (v_ID v) = Some k) vs\<rparr>) (m k)"
  using assms
proof (induction vs arbitrary: m)
  case (Cons v vs)
  obtain k' f where k': "tf (v_ID v) = Some k'" "m k' = Some f" using Cons.prems by auto
  have m: "add_version tf v m = m(k' \<mapsto> f\<lparr>f_Versions := f_Versions f @ [v]\<rparr>)" using k' by (simp add: add_version_def)
  then have "\<forall>w \<in> set vs. tf (v_ID w) \<in> Some ` dom (add_version tf v m)" using Cons.prems by simp
  from Cons.IH [OF this] show ?case using k' by (cases "k = k'") (simp_all add: m del: fun_upd_apply, simp_all)
qed (simp add: option.map_ident)

lemma look_rows: "distinct (map key rows) \<Longrightarrow> look key rows k = Some r \<longleftrightarrow> r \<in> set rows \<and> key r = k"
  using look_Some look_in by metis

subsection \<open>The rows of the join\<close>

lemma relations_set:
  "r \<in> set (chunk_relations P db c) \<longleftrightarrow>
     (\<exists>f v h. f \<in> set (outer (filter P (chunk_flavors db (ch_id c)))) \<and>
        v \<in> set (outer (case f of None \<Rightarrow> [] | Some f \<Rightarrow> flavor_versions db (fl_id f))) \<and>
        h \<in> set (outer (case v of None \<Rightarrow> [] | Some v \<Rightarrow> version_files db (ve_id v))) \<and>
        r = \<lparr>rel_chunk = c, rel_flavor = f, rel_version = v, rel_file = h, rel_user = look u_ID (users db) (ch_owner c)\<rparr>)"
  by (auto simp: chunk_relations_def)

lemma outer_ex: "\<exists>x. x \<in> set (outer xs)"
  by (cases xs) (auto simp: outer_def)

lemma rel_flavor_iff:
  "(\<exists>r \<in> set (chunk_relations P db c). rel_flavor r = Some f) \<longleftrightarrow> f \<in> set (filter P (chunk_flavors db (ch_id c)))"
proof
  assume "f \<in> set (filter P (chunk_flavors db (ch_id c)))"
  then have "Some f \<in> set (outer (filter P (chunk_flavors db (ch_id c))))" unfolding outer_set by blast
  moreover obtain v where "v \<in> set (outer (flavor_versions db (fl_id f)))" using outer_ex by blast
  moreover obtain h where "h \<in> set (outer (case v of None \<Rightarrow> [] | Some v \<Rightarrow> version_files db (ve_id v)))" using outer_ex by blast
  ultimately show "\<exists>r \<in> set (chunk_relations P db c). rel_flavor r = Some f"
    unfolding Bex_def relations_set by fastforce
next
  assume "\<exists>r \<in> set (chunk_relations P db c). rel_flavor r = Some f"
  then have "Some f \<in> set (outer (filter P (chunk_flavors db (ch_id c))))" unfolding Bex_def relations_set by auto
  then show "f \<in> set (filter P (chunk_flavors db (ch_id c)))" unfolding outer_set by blast
qed

lemma rel_version_iff:
  "(\<exists>r \<in> set (chunk_relations P db c). rel_version r = Some v \<and> rel_flavor r = Some f) \<longleftrightarrow>
     f \<in> set (filter P (chunk_flavors db (ch_id c))) \<and> v \<in> set (flavor_versions db (fl_id f))"
proof
  assume "f \<in> set (filter P (chunk_flavors db (ch_id c))) \<and> v \<in> set (flavor_versions db (fl_id f))"
  then have "Some f \<in> set (outer (filter P (chunk_flavors db (ch_id c))))" "Some v \<in> set (outer (flavor_versions db (fl_id f)))"
    unfolding outer_set by blast+
  moreover obtain h where "h \<in> set (outer (version_files db (ve_id v)))" using outer_ex by blast
  ultimately show "\<exists>r \<in> set (chunk_relations P db c). rel_version r = Some v \<and> rel_flavor r = Some f"
    unfolding Bex_def relations_set by fastforce
next
  assume "\<exists>r \<in> set (chunk_relations P db c). rel_version r = Some v \<and> rel_flavor r = Some f"
  then have "Some f \<in> set (outer (filter P (chunk_flavors db (ch_id c)))) \<and> Some v \<in> set (outer (flavor_versions db (fl_id f)))"
    unfolding Bex_def relations_set by auto
  then show "f \<in> set (filter P (chunk_flavors db (ch_id c))) \<and> v \<in> set (flavor_versions db (fl_id f))"
    unfolding outer_set by blast
qed

text \<open>A row with a version has its flavor.\<close>

lemma rel_version_flavor:
  "r \<in> set (chunk_relations P db c) \<Longrightarrow> rel_version r = Some v \<Longrightarrow> \<exists>f. rel_flavor r = Some f \<and> ve_flavor v = fl_id f \<and> v \<in> set (versions db)"
  by (auto simp: relations_set outer_set flavor_versions_def split: option.splits)

lemma rows_unique:
  assumes "db_ok db"
  shows "f \<in> set (flavors db) \<Longrightarrow> f' \<in> set (flavors db) \<Longrightarrow> fl_id f = fl_id f' \<Longrightarrow> f = f'"
    "v \<in> set (versions db) \<Longrightarrow> v' \<in> set (versions db) \<Longrightarrow> ve_id v = ve_id v' \<Longrightarrow> v = v'"
  using assms by (auto simp: db_ok_def pk_ok_def distinct_map inj_on_def)

lemma in_flavors: "f \<in> set (filter P (chunk_flavors db k)) \<Longrightarrow> f \<in> set (flavors db)" "v \<in> set (flavor_versions db k) \<Longrightarrow> v \<in> set (versions db)"
  "v \<in> set (flavor_versions db k) \<Longrightarrow> ve_flavor v = k"
  by (simp_all add: chunk_flavors_def flavor_versions_def)

lemma flavorMap_rows:
  assumes db: "db_ok db"
  shows "flavorMap (chunk_relations P db c) k = Some x \<longleftrightarrow>
    (\<exists>f \<in> set (filter P (chunk_flavors db (ch_id c))). fl_id f = k \<and> flavor_domain f = x)"
proof -
  let ?R = "chunk_relations P db c"
  have "flavorMap ?R k = Some x \<longleftrightarrow> (\<exists>r \<in> set ?R. \<exists>f. rel_flavor r = Some f \<and> fl_id f = k \<and> flavor_domain f = x)"
    unfolding flavorMap_def
  proof (rule put_new_iff)
    fix r f r' f' assume "r \<in> set ?R" "rel_flavor r = Some f" "r' \<in> set ?R" "rel_flavor r' = Some f'" "fl_id f = fl_id f'"
    then show "flavor_domain f = flavor_domain f'" using rel_flavor_iff rows_unique(1) [OF db] in_flavors(1) by metis
  qed
  also have "\<dots> \<longleftrightarrow> (\<exists>f. (\<exists>r \<in> set ?R. rel_flavor r = Some f) \<and> fl_id f = k \<and> flavor_domain f = x)" by blast
  finally show ?thesis unfolding rel_flavor_iff by blast
qed

text \<open>The versions of the flavors of a chunk.\<close>

definition chunk_versions :: "(flavor_row \<Rightarrow> bool) \<Rightarrow> cp_db \<Rightarrow> chunk_row \<Rightarrow> version_row set" where
  "chunk_versions P db c = {v. \<exists>f \<in> set (filter P (chunk_flavors db (ch_id c))). v \<in> set (flavor_versions db (fl_id f))}"

lemma rel_versions: "(\<exists>r \<in> set (chunk_relations P db c). rel_version r = Some v) \<longleftrightarrow> v \<in> chunk_versions P db c"
  using rel_version_iff [of P db c v] rel_version_flavor [of _ P db c v] unfolding chunk_versions_def by blast

lemma versionMap_rows:
  assumes db: "db_ok db"
  shows "versionMap (chunk_relations P db c) k = Some x \<longleftrightarrow> (\<exists>v \<in> chunk_versions P db c. ve_id v = k \<and> version_domain v = x)"
    and "versionToFlavorMap (chunk_relations P db c) k = Some y \<longleftrightarrow> (\<exists>v \<in> chunk_versions P db c. ve_id v = k \<and> ve_flavor v = y)"
proof -
  let ?R = "chunk_relations P db c"
  have u: "v = v'" if "r \<in> set ?R" "rel_version r = Some v" "r' \<in> set ?R" "rel_version r' = Some v'" "ve_id v = ve_id v'" for r v r' v'
    using that rel_version_flavor rows_unique(2) [OF db] by metis
  have "versionMap ?R k = Some x \<longleftrightarrow> (\<exists>r \<in> set ?R. \<exists>v. rel_version r = Some v \<and> ve_id v = k \<and> version_domain v = x)"
    unfolding versionMap_def by (rule put_new_iff) (use u in metis)
  then show "versionMap ?R k = Some x \<longleftrightarrow> (\<exists>v \<in> chunk_versions P db c. ve_id v = k \<and> version_domain v = x)"
    using rel_versions [of P db c] by blast
  let ?fl = "\<lambda>r. case rel_flavor r of None \<Rightarrow> [] | Some f \<Rightarrow> fl_id f"
  have fl: "?fl r = ve_flavor v" if "r \<in> set ?R" "rel_version r = Some v" for r v using rel_version_flavor [OF that] by auto
  have "versionToFlavorMap ?R k = Some y \<longleftrightarrow> (\<exists>r \<in> set ?R. \<exists>v. rel_version r = Some v \<and> ve_id v = k \<and> ?fl r = y)"
    unfolding versionToFlavorMap_def by (rule put_new_iff) (use u fl in metis)
  also have "\<dots> \<longleftrightarrow> (\<exists>r \<in> set ?R. \<exists>v. rel_version r = Some v \<and> ve_id v = k \<and> ve_flavor v = y)" using fl by metis
  finally show "versionToFlavorMap ?R k = Some y \<longleftrightarrow> (\<exists>v \<in> chunk_versions P db c. ve_id v = k \<and> ve_flavor v = y)"
    using rel_versions [of P db c] by blast
qed

lemma filter_concat_one:
  assumes "distinct xs" "x \<in> set xs" "\<And>y. y \<in> set xs \<Longrightarrow> y \<noteq> x \<Longrightarrow> filter Q (g y) = []"
  shows "filter Q (concat (map g xs)) = filter Q (g x)"
proof -
  obtain as bs where xs: "xs = as @ x # bs" "x \<notin> set as" "x \<notin> set bs"
    using assms(1,2) by (metis split_list distinct.simps(2) distinct_append not_distinct_conv_prefix)
  have "filter Q (concat (map g ys)) = []" if "set ys \<subseteq> set xs - {x}" for ys
    using that assms(3) by (induction ys) auto
  from this [of as] this [of bs] show ?thesis using xs by auto
qed

lemma distinct_outer: "distinct xs \<Longrightarrow> distinct (outer xs)"
  by (auto simp: outer_def distinct_map)

lemma fhMap_rows:
  assumes db: "db_ok db" and v: "v \<in> chunk_versions P db c"
  shows "fhMap (chunk_relations P db c) (ve_id v) = once (map row_hash (outer (version_files db (ve_id v))))"
proof -
  let ?Q = "\<lambda>r. \<exists>w. rel_version r = Some w \<and> ve_id w = ve_id v"
  let ?row = "\<lambda>f v h. \<lparr>rel_chunk = c, rel_flavor = f, rel_version = v, rel_file = h, rel_user = look u_ID (users db) (ch_owner c)\<rparr>"
  let ?hs = "\<lambda>f v. map (?row f v) (outer (case v of None \<Rightarrow> [] | Some v \<Rightarrow> version_files db (ve_id v)))"
  let ?vs = "\<lambda>f. outer (case f of None \<Rightarrow> [] | Some f \<Rightarrow> flavor_versions db (fl_id f))"
  let ?fs = "outer (filter P (chunk_flavors db (ch_id c)))"
  obtain f where f: "f \<in> set (filter P (chunk_flavors db (ch_id c)))" "v \<in> set (flavor_versions db (fl_id f))"
    using v by (auto simp: chunk_versions_def)
  have df: "distinct ?fs" "distinct (?vs (Some f))" using db
    by (auto simp: db_ok_def pk_ok_def distinct_map chunk_flavors_def flavor_versions_def intro!: distinct_outer)
  have mem: "Some f \<in> set ?fs" "Some v \<in> set (?vs (Some f))" using f by (auto simp: outer_set)
  have v1: "filter ?Q (?hs g w) = (if w = Some v then ?hs g w else [])" if "w \<in> set (?vs g)" for g w
  proof (cases w)
    case (Some w')
    then have "w' \<in> set (versions db)" using that by (auto simp: outer_set flavor_versions_def split: option.splits)
    then show ?thesis using rows_unique(2) [OF db, of w' v] in_flavors(2) [OF f(2)] Some by (auto simp: filter_empty_conv)
  qed (auto simp: filter_empty_conv)
  have f1: "filter ?Q (concat (map (?hs g) (?vs g))) = []" if "g \<in> set ?fs" "g \<noteq> Some f" for g
  proof -
    have "Some v \<notin> set (?vs g)"
      using that f rows_unique(1) [OF db] by (auto simp: outer_set flavor_versions_def chunk_flavors_def split: option.splits)
    then have "filter ?Q (?hs g w) = []" if "w \<in> set (?vs g)" for w using v1 [OF that] that by auto
    then have "map (\<lambda>w. filter ?Q (?hs g w)) (?vs g) = map (\<lambda>_. []) (?vs g)" by (intro map_cong refl)
    then show ?thesis by (simp add: filter_concat o_def)
  qed
  have "filter ?Q (chunk_relations P db c) = filter ?Q (concat (map (?hs (Some f)) (?vs (Some f))))"
    unfolding chunk_relations_def by (rule filter_concat_one [OF df(1) mem(1) f1])
  also have "\<dots> = filter ?Q (?hs (Some f) (Some v))" 
    by (rule filter_concat_one [OF df(2) mem(2)]) (simp only: v1 if_False)
  also have "\<dots> = ?hs (Some f) (Some v)" using v1 [OF mem(2)] by simp
  finally show ?thesis unfolding fhMap_def fhMap_fold by (simp add: once_def o_def)
qed

lemma vals_order:
  assumes "map_order ord" "finite (dom m)" "\<And>k x. m k = Some x \<Longrightarrow> key x = k"
  shows "distinct (map key (vals_in (ord m) m))" "set (vals_in (ord m) m) = ran m"
proof -
  have o: "distinct (ord m)" "set (ord m) = dom m" using assms(1,2) by (auto simp: map_order_def)
  then show "distinct (map key (vals_in (ord m) m))" by (simp add: vals_in_keys assms(3))
  have "v \<in> set (vals_in (ord m) m) \<longleftrightarrow> v \<in> ran m" for v unfolding vals_in_mem o(2) ran_def by blast
  then show "set (vals_in (ord m) m) = ran m" by blast
qed

lemma mset_by_key:
  assumes "distinct (map key xs)" "distinct (map key ys)" "set xs = set ys"
  shows "mset xs = mset ys"
  using assms by (metis distinct_map set_eq_iff_mset_eq_distinct)

lemma version_tree_ID [simp]: "v_ID (version_tree db v) = ve_id v"
  by (simp add: version_tree_def version_domain_def)

lemma flavor_domain_sel [simp]: "f_ID (flavor_domain f) = fl_id f" "f_Versions (flavor_domain f) = []" "f_DeletedAt (flavor_domain f) = fl_deleted f"
  "(flavor_domain f)\<lparr>f_Versions := []\<rparr> = flavor_domain f"
  by (simp_all add: flavor_domain_def)

text \<open>The versions with their files, in the order of the map.\<close>

lemma collected_versions:
  assumes db: "db_ok db" and o: "orders_ok ord" and R_def: "R = chunk_relations P db c"
    and vm_def: "vm = (\<lambda>k. map_option (\<lambda>v. v\<lparr>v_FileHashes := sort_key h_Path (fhMap R k)\<rparr>) (versionMap R k))"
  shows "distinct (map v_ID (vals_in (ord_versions ord vm) vm))"
    and "set (vals_in (ord_versions ord vm) vm) = version_tree db ` chunk_versions P db c"
proof -
  have vm: "vm k = Some x \<longleftrightarrow> (\<exists>v \<in> chunk_versions P db c. ve_id v = k \<and> version_tree db v = x)" for k x
  proof -
    have "vm k = Some x \<longleftrightarrow> (\<exists>y. versionMap R k = Some y \<and> x = y\<lparr>v_FileHashes := sort_key h_Path (fhMap R k)\<rparr>)"
      by (auto simp: vm_def)
    also have "\<dots> \<longleftrightarrow> (\<exists>v \<in> chunk_versions P db c. ve_id v = k \<and> x = (version_domain v)\<lparr>v_FileHashes := sort_key h_Path (fhMap R k)\<rparr>)"
      unfolding R_def versionMap_rows(1) [OF db] by blast
    finally show ?thesis using fhMap_rows [OF db] unfolding R_def version_tree_def by metis
  qed
  have "dom vm \<subseteq> ve_id ` set (versions db)" using vm by (auto simp: chunk_versions_def flavor_versions_def)
  then have "finite (dom vm)" by (rule finite_subset) simp
  moreover have "v_ID x = k" if "vm k = Some x" for k x using that vm by auto
  ultimately have d: "distinct (map v_ID (vals_in (ord_versions ord vm) vm))" "set (vals_in (ord_versions ord vm) vm) = ran vm"
    using vals_order [of "ord_versions ord" vm v_ID] o by (simp_all add: orders_ok_def)
  show "distinct (map v_ID (vals_in (ord_versions ord vm) vm))" by (rule d(1))
  show "set (vals_in (ord_versions ord vm) vm) = version_tree db ` chunk_versions P db c"
    unfolding d(2) by (auto simp: ran_def vm)
qed

text \<open>The versions of one flavor among them.\<close>

lemma collected_flavor:
  assumes db: "db_ok db" and f: "f \<in> set (filter P (chunk_flavors db (ch_id c)))"
    and vs: "distinct (map v_ID vs)" "set vs = version_tree db ` chunk_versions P db c"
  shows "mset (filter (\<lambda>v. versionToFlavorMap (chunk_relations P db c) (v_ID v) = Some (fl_id f)) vs) =
    mset (map (version_tree db) (flavor_versions db (fl_id f)))"
proof (rule mset_by_key)
  let ?tf = "versionToFlavorMap (chunk_relations P db c)"
  show "distinct (map v_ID (filter (\<lambda>v. ?tf (v_ID v) = Some (fl_id f)) vs))" using vs(1) by (rule distinct_map_filter)
  show "distinct (map v_ID (map (version_tree db) (flavor_versions db (fl_id f))))"
    using db by (simp add: o_def db_ok_def pk_ok_def flavor_versions_def distinct_map_filter)
  have tf: "?tf (ve_id v) = Some (fl_id f) \<longleftrightarrow> v \<in> set (flavor_versions db (fl_id f))" if "v \<in> chunk_versions P db c" for v
    using that rows_unique(2) [OF db] unfolding versionMap_rows(2) [OF db] chunk_versions_def flavor_versions_def by fastforce
  have "set (flavor_versions db (fl_id f)) \<subseteq> chunk_versions P db c" using f by (auto simp: chunk_versions_def)
  then show "set (filter (\<lambda>v. ?tf (v_ID v) = Some (fl_id f)) vs) = set (map (version_tree db) (flavor_versions db (fl_id f)))"
    using vs(2) tf by auto
qed

text \<open>The flavors with their versions, in the order of the map.\<close>

lemma collected_flavors:
  assumes db: "db_ok db" and o: "orders_ok ord" and vs: "distinct (map v_ID vs)" "set vs = version_tree db ` chunk_versions P db c"
    and R_def: "R = chunk_relations P db c"
    and fm_def: "fm = (\<lambda>k. map_option (\<lambda>f. f\<lparr>f_Versions := latest_first v_CreatedAt (f_Versions f)\<rparr>)
      (fold (add_version (versionToFlavorMap R)) vs (flavorMap R) k))"
    and fs_def: "fs = vals_in (ord_flavors ord fm) fm"
  shows "mset (map (\<lambda>f. f\<lparr>f_Versions := []\<rparr>) fs) = mset (map flavor_domain (filter P (chunk_flavors db (ch_id c))))"
    and "f \<in> set fs \<Longrightarrow> newest v_CreatedAt (f_Versions f) \<and> mset (f_Versions f) = mset (map (version_tree db) (flavor_versions db (f_ID f)))"
proof -
  let ?fls = "filter P (chunk_flavors db (ch_id c))" and ?tf = "versionToFlavorMap R"
  let ?tree = "\<lambda>f. (flavor_domain f)\<lparr>f_Versions := latest_first v_CreatedAt (filter (\<lambda>v. ?tf (v_ID v) = Some (fl_id f)) vs)\<rparr>"
  have "\<forall>v \<in> set vs. ?tf (v_ID v) \<in> Some ` dom (flavorMap R)"
  proof
    fix v assume "v \<in> set vs"
    then obtain w where w: "w \<in> chunk_versions P db c" "v_ID v = ve_id w" unfolding vs(2) by auto
    then have "?tf (v_ID v) = Some (ve_flavor w)" unfolding R_def versionMap_rows(2) [OF db] by metis
    moreover obtain f where "f \<in> set ?fls" "ve_flavor w = fl_id f" using w(1) unfolding chunk_versions_def flavor_versions_def by fastforce
    then have "flavorMap R (ve_flavor w) = Some (flavor_domain f)" unfolding R_def flavorMap_rows [OF db] by metis
    ultimately show "?tf (v_ID v) \<in> Some ` dom (flavorMap R)" by auto
  qed
  from add_versions [OF this] have fm: "fm k = map_option (\<lambda>f. f\<lparr>f_Versions := latest_first v_CreatedAt (f_Versions f @
      filter (\<lambda>v. ?tf (v_ID v) = Some k) vs)\<rparr>) (flavorMap R k)" for k
    by (simp add: fm_def option.map_comp o_def)
  have fm': "fm k = Some x \<longleftrightarrow> (\<exists>f \<in> set ?fls. fl_id f = k \<and> ?tree f = x)" for k x
  proof -
    have "fm k = Some x \<longleftrightarrow> (\<exists>y. flavorMap R k = Some y \<and> y\<lparr>f_Versions := latest_first v_CreatedAt (f_Versions y @
      filter (\<lambda>v. ?tf (v_ID v) = Some k) vs)\<rparr> = x)" unfolding fm map_option_eq_Some by blast
    also have "\<dots> \<longleftrightarrow> (\<exists>f \<in> set ?fls. fl_id f = k \<and> (flavor_domain f)\<lparr>f_Versions := latest_first v_CreatedAt (f_Versions (flavor_domain f) @
      filter (\<lambda>v. ?tf (v_ID v) = Some k) vs)\<rparr> = x)" unfolding R_def flavorMap_rows [OF db] by blast
    finally show ?thesis by (simp cong: conj_cong)
  qed
  have "dom fm \<subseteq> fl_id ` set ?fls" using fm' by (auto simp del: set_filter)
  then have "finite (dom fm)" by (rule finite_subset) simp
  moreover have "f_ID x = k" if "fm k = Some x" for k x using that fm' by auto
  ultimately have d: "distinct (map f_ID fs)" "set fs = ran fm"
    using vals_order [of "ord_flavors ord" fm f_ID] o by (simp_all add: orders_ok_def fs_def)
  have ran: "set fs = ?tree ` set ?fls" unfolding d(2) by (auto simp: ran_def fm' simp del: set_filter)
  show "mset (map (\<lambda>f. f\<lparr>f_Versions := []\<rparr>) fs) = mset (map flavor_domain ?fls)"
  proof (rule mset_by_key [of f_ID])
    show "distinct (map f_ID (map (\<lambda>f. f\<lparr>f_Versions := []\<rparr>) fs))" using d(1) by (simp add: o_def)
    show "distinct (map f_ID (map flavor_domain ?fls))"
      using db by (simp add: o_def db_ok_def pk_ok_def chunk_flavors_def distinct_map_filter)
    show "set (map (\<lambda>f. f\<lparr>f_Versions := []\<rparr>) fs) = set (map flavor_domain ?fls)"
      by (simp add: ran image_image del: set_filter)
  qed
  assume "f \<in> set fs"
  then obtain g where "g \<in> set ?fls" "f = ?tree g" unfolding ran by blast
  then show "newest v_CreatedAt (f_Versions f) \<and> mset (f_Versions f) = mset (map (version_tree db) (flavor_versions db (f_ID f)))"
    using collected_flavor [OF db _ vs] by (simp add: newest_latest_first R_def del: set_filter)
qed

lemma relations_cols: "r \<in> set (chunk_relations P db c) \<Longrightarrow> rel_chunk r = c \<and> rel_user r = look u_ID (users db) (ch_owner c)"
  unfolding relations_set by auto

lemma relations_ne: "chunk_relations P db c \<noteq> []"
proof -
  obtain f where f: "f \<in> set (outer (filter P (chunk_flavors db (ch_id c))))" using outer_ex by blast
  obtain v where v: "v \<in> set (outer (case f of None \<Rightarrow> [] | Some f \<Rightarrow> flavor_versions db (fl_id f)))" using outer_ex by blast
  obtain h where h: "h \<in> set (outer (case v of None \<Rightarrow> [] | Some v \<Rightarrow> version_files db (ve_id v)))" using outer_ex by blast
  have "\<exists>r. r \<in> set (chunk_relations P db c)" unfolding relations_set using f v h by blast
  then show ?thesis by auto
qed

lemma collect_tree:
  assumes db: "db_ok db" and o: "orders_ok ord" and u: "look u_ID (users db) (ch_owner c) = Some u"
  obtains ch where "collectChunks ord (chunk_relations P db c) = Inr ch" "chunk_tree P db c ch"
proof -
  let ?R = "chunk_relations P db c"
  let ?vm = "\<lambda>k. map_option (\<lambda>v. v\<lparr>v_FileHashes := sort_key h_Path (fhMap ?R k)\<rparr>) (versionMap ?R k)"
  let ?vs = "vals_in (ord_versions ord ?vm) ?vm"
  let ?fm = "\<lambda>k. map_option (\<lambda>f. f\<lparr>f_Versions := latest_first v_CreatedAt (f_Versions f)\<rparr>)
      (fold (add_version (versionToFlavorMap ?R)) ?vs (flavorMap ?R) k)"
  let ?fs = "vals_in (ord_flavors ord ?fm) ?fm"
  note vs = collected_versions [OF db o refl refl, of P c]
  note fs = collected_flavors [OF db o vs refl refl refl]
  obtain r rs where R: "?R = r # rs" "rel_chunk r = c" "rel_user r = Some u"
    using u relations_ne [of P db c] relations_cols [of _ P db c] by (metis list.exhaust list.set_intros(1))
  show thesis
  proof (rule that)
    show "collectChunks ord ?R = Inr \<lparr>c_ID = ch_id c, c_Name = ch_name c, c_Description = ch_description c, c_Tags = ch_tags c,
        c_Flavors = latest_first f_CreatedAt ?fs, c_Owner = u, c_CreatedAt = ch_created c, c_UpdatedAt = ch_updated c,
        c_ThumbnailHash = (case ch_thumbnail c of None \<Rightarrow> [] | Some h \<Rightarrow> h), c_DeletedAt = ch_deleted c\<rparr>"
      unfolding collectChunks_def Let_def R(1) list.case R(2,3) option.case ..
    show "chunk_tree P db c \<lparr>c_ID = ch_id c, c_Name = ch_name c, c_Description = ch_description c, c_Tags = ch_tags c,
        c_Flavors = latest_first f_CreatedAt ?fs, c_Owner = u, c_CreatedAt = ch_created c, c_UpdatedAt = ch_updated c,
        c_ThumbnailHash = (case ch_thumbnail c of None \<Rightarrow> [] | Some h \<Rightarrow> h), c_DeletedAt = ch_deleted c\<rparr>"
      using fs u by (simp add: chunk_tree_def newest_latest_first)
  qed
qed

subsection \<open>Rows grouped by a key\<close>

lemma first_seen_block:
  "\<forall>r \<in> set xs. key r = k \<Longrightarrow> xs \<noteq> [] \<Longrightarrow> k \<notin> set ks \<Longrightarrow>
     fold (\<lambda>r ks. if key r \<in> set ks then ks else ks @ [key r]) xs ks = ks @ [k]"
proof (induction xs arbitrary: ks rule: rev_induct)
  case (snoc x xs)
  then show ?case by (cases "xs = []") auto
qed simp

lemma grouped:
  assumes "distinct ids" "\<And>k. k \<in> set ids \<Longrightarrow> R k \<noteq> [] \<and> (\<forall>r \<in> set (R k). key r = k)"
  shows "first_seen key (concat (map R ids)) = ids" "k \<in> set ids \<Longrightarrow> filter (\<lambda>r. key r = k) (concat (map R ids)) = R k"
proof -
  have "fold (\<lambda>r ks. if key r \<in> set ks then ks else ks @ [key r]) (concat (map R is)) ks = ks @ is"
    if "distinct (ks @ is)" "set is \<subseteq> set ids" for "is" ks
    using that
  proof (induction "is" arbitrary: ks)
    case (Cons i "is")
    then have "fold (\<lambda>r ks. if key r \<in> set ks then ks else ks @ [key r]) (R i) ks = ks @ [i]"
      using assms(2) [of i] by (intro first_seen_block) auto
    then show ?case using Cons.IH [of "ks @ [i]"] Cons.prems by simp
  qed simp
  from this [of "[]" ids] show "first_seen key (concat (map R ids)) = ids" using assms(1) by (simp add: first_seen_def)
  assume k: "k \<in> set ids"
  have "filter (\<lambda>r. key r = k) (R k') = []" if "k' \<in> set ids" "k' \<noteq> k" for k' using assms(2) [OF that(1)] that(2) by auto
  with assms(1) k have "filter (\<lambda>r. key r = k) (concat (map R ids)) = filter (\<lambda>r. key r = k) (R k)" by (rule filter_concat_one)
  also have "\<dots> = R k" using assms(2) [OF k] by simp
  finally show "filter (\<lambda>r. key r = k) (concat (map R ids)) = R k" .
qed

lemma those_ok_Inr: "\<forall>x \<in> set xs. \<exists>y. h x = Inr y \<Longrightarrow> those_ok (map h xs) = Inr (map (\<lambda>x. projr (h x)) xs)"
  by (induction xs) auto

lemma look_filter_one: "distinct (map key rows) \<Longrightarrow> look key rows k = Some r \<Longrightarrow> filter (\<lambda>r. key r = k) rows = [r]"
  by (induction rows) (auto simp: look_def filter_empty_conv image_iff split: if_splits)

lemma page_ids_set: "set (page_ids limit afterID ks) \<subseteq> set ks" "distinct ks \<Longrightarrow> distinct (page_ids limit afterID ks)"
  by (auto simp: page_ids_def dest: in_set_takeD)

lemma look_Some_ex: "k \<in> key ` set rows \<Longrightarrow> \<exists>r. look key rows k = Some r"
  by (auto simp: look_has [unfolded has_def])

lemma list_chunks:
  assumes db: "db_ok db" and o: "orders_ok ord"
  shows "repo_ListChunks ord limit afterID db = Inr (map (page_chunk ord db) (page_ids limit afterID (live_chunks db)))"
    and "k \<in> set (live_chunks db) \<Longrightarrow> \<exists>c. look ch_id (chunks db) k = Some c \<and> ch_id c = k \<and> chunk_tree live db c (page_chunk ord db k)"
proof -
  let ?ids = "page_ids limit afterID (live_chunks db)"
  let ?R = "\<lambda>k. concat (map (chunk_relations live db) (filter (\<lambda>c. ch_id c = k) (chunks db)))"
  have pk: "distinct (map ch_id (chunks db))" using db by (simp add: db_ok_def pk_ok_def)
  have d: "distinct ?ids" unfolding live_chunks_def by (rule page_ids_set(2), rule distinct_map_filter [OF pk])
  have row: "\<exists>c u. look ch_id (chunks db) k = Some c \<and> ?R k = chunk_relations live db c \<and> ch_id c = k \<and>
      look u_ID (users db) (ch_owner c) = Some u" if "k \<in> set (live_chunks db)" for k
  proof -
    have "k \<in> ch_id ` set (chunks db)" using that by (auto simp: live_chunks_def)
    then obtain c where c: "look ch_id (chunks db) k = Some c" using look_Some_ex by metis
    moreover have "\<exists>u. look u_ID (users db) (ch_owner c) = Some u"
      using db_okD(7) [OF db] look_Some [OF c] unfolding look_has by blast
    ultimately show ?thesis using look_filter_one [OF pk c] look_Some [OF c] by auto
  qed
  have g: "?R k \<noteq> [] \<and> (\<forall>r \<in> set (?R k). (ch_id \<circ> rel_chunk) r = k)" if k: "k \<in> set ?ids" for k
  proof -
    obtain c where c: "?R k = chunk_relations live db c" "ch_id c = k" using row k page_ids_set(1) by blast
    show ?thesis unfolding c(1) using relations_ne [of live db c] relations_cols [of _ live db c] c(2) by simp
  qed
  have tree: "\<exists>ch. collectChunks ord (?R k) = Inr ch \<and> (\<exists>c. look ch_id (chunks db) k = Some c \<and> ch_id c = k \<and> chunk_tree live db c ch)"
    if "k \<in> set (live_chunks db)" for k
    using row [OF that] collect_tree [OF db o] by metis
  show "\<exists>c. look ch_id (chunks db) k = Some c \<and> ch_id c = k \<and> chunk_tree live db c (page_chunk ord db k)" if "k \<in> set (live_chunks db)"
    using tree [OF that] unfolding page_chunk_def by (metis sum.sel(2))
  have G: "first_seen (ch_id \<circ> rel_chunk) (concat (map ?R ?ids)) = ?ids" using d g by (rule grouped(1))
  have "filter (\<lambda>r. (ch_id \<circ> rel_chunk) r = k) (concat (map ?R ?ids)) = ?R k" if "k \<in> set ?ids" for k
    using d g that by (rule grouped(2))
  then have "map (\<lambda>k. collectChunks ord (filter (\<lambda>r. ch_id (rel_chunk r) = k) (concat (map ?R ?ids)))) ?ids = map (\<lambda>k. collectChunks ord (?R k)) ?ids"
    by (intro map_cong refl) simp
  then have "repo_ListChunks ord limit afterID db = those_ok (map (\<lambda>k. collectChunks ord (?R k)) ?ids)"
    unfolding repo_ListChunks_def Let_def G by (rule arg_cong)
  also have "\<dots> = Inr (map (page_chunk ord db) ?ids)" unfolding page_chunk_def
    using tree page_ids_set(1) [of limit afterID "live_chunks db"] by (intro those_ok_Inr) blast
  finally show "repo_ListChunks ord limit afterID db = Inr (map (page_chunk ord db) ?ids)" .
qed

lemma getChunk_tree:
  assumes "db_ok db" "orders_ok ord"
  shows "look ch_id (chunks db) k = None \<Longrightarrow> getChunkByID ord k db = Inl ErrChunkNotFound"
    and "look ch_id (chunks db) k = Some c \<Longrightarrow> \<exists>ch. getChunkByID ord k db = Inr ch \<and> chunk_tree (\<lambda>_. True) db c ch"
proof -
  show "look ch_id (chunks db) k = None \<Longrightarrow> getChunkByID ord k db = Inl ErrChunkNotFound" by (simp add: getChunkByID_def)
  assume c: "look ch_id (chunks db) k = Some c"
  then obtain u where "look u_ID (users db) (ch_owner c) = Some u" using db_okD(7) [OF assms(1)] look_Some [OF c] unfolding look_has by blast
  from collect_tree [OF assms this] c show "\<exists>ch. getChunkByID ord k db = Inr ch \<and> chunk_tree (\<lambda>_. True) db c ch"
    unfolding getChunkByID_def by (metis option.simps(5))
qed

lemma getChunk_Inr:
  assumes "db_ok db" "orders_ok ord" "getChunkByID ord k db = Inr ch"
  obtains c where "look ch_id (chunks db) k = Some c" "ch_id c = k" "chunk_tree (\<lambda>_. True) db c ch"
proof (cases "look ch_id (chunks db) k")
  case None
  then show ?thesis using getChunk_tree(1) [OF assms(1,2)] assms(3) by simp
next
  case (Some c)
  then show ?thesis using getChunk_tree(2) [OF assms(1,2) Some] assms(3) look_Some [OF Some] that by auto
qed

text \<open>The flavors a chunk is read with are those of its rows.\<close>

lemma tree_flavor_ids:
  assumes "chunk_tree P db c ch"
  shows "f_ID ` set (c_Flavors ch) = fl_id ` set (filter P (chunk_flavors db (ch_id c)))"
    and "c_Flavors ch = [] \<longleftrightarrow> filter P (chunk_flavors db (ch_id c)) = []"
proof -
  have m: "mset (map (\<lambda>f. f\<lparr>f_Versions := []\<rparr>) (c_Flavors ch)) = mset (map flavor_domain (filter P (chunk_flavors db (ch_id c))))"
    using assms by (simp add: chunk_tree_def)
  from arg_cong [OF this, of "\<lambda>m. f_ID ` set_mset m"]
  show "f_ID ` set (c_Flavors ch) = fl_id ` set (filter P (chunk_flavors db (ch_id c)))" by (simp add: image_image)
  from arg_cong [OF m, of size] show "c_Flavors ch = [] \<longleftrightarrow> filter P (chunk_flavors db (ch_id c)) = []"
    by (metis length_0_conv length_map size_mset)
qed

section \<open>Properties\<close>

text \<open>
  C15. Reading a chunk gives it as it is stored: \<^verbatim>\<open>collectChunks\<close> makes of the rows of the joins the chunk
  with all its flavors, the latest first, each with all its versions, the latest first, and these with
  their files by path, whatever order Go ranges over its maps in. Without the row it is not found.
\<close>

theorem chunk_read:
  assumes "db_ok db" "orders_ok ord"
  shows "case look ch_id (chunks db) k of
      None \<Rightarrow> getChunkByID ord k db = Inl ErrChunkNotFound
    | Some c \<Rightarrow> \<exists>ch. getChunkByID ord k db = Inr ch \<and> chunk_tree (\<lambda>_. True) db c ch"
  using getChunk_tree [OF assms] by (simp split: option.split)

theorem chunk_read_witness:
  "\<exists>ch. getChunkByID sample_orders ''c'' sample_cp = Inr ch \<and> chunk_tree (\<lambda>_. True) sample_cp sample_chunk ch"
  using chunk_read [OF sample_cp_ok sample_orders_ok, of "''c''"] by (simp add: sample_cp_look)

end
