(* ===== verification/Pagination.thy ===== *)
theory Pagination
  imports Chunk_Repo
begin

text \<open>
  Lists by pages: \<^verbatim>\<open>controlplane/pagination\<close> and what the servers of chunks and of instances do with it. The
  repositories promise what a page of the database is; the locale has that contract, and that following the
  tokens gives everything once is shown from it for both.
\<close>

section \<open>Sizes and tokens\<close>

definition DefaultPageSize :: nat where
  "DefaultPageSize = 10"

definition MaxPageSize :: nat where
  "MaxPageSize = 100"

definition ResolvePageSize :: "u32 \<Rightarrow> nat" where
  "ResolvePageSize pageSize = (if pageSize = 0 then DefaultPageSize else unat pageSize)"

text \<open>Parsing a token is a parameter: whether a text is a UUID of version 7.\<close>

definition DecodePageToken :: "(string \<Rightarrow> bool) \<Rightarrow> string \<Rightarrow> string option option" where
  "DecodePageToken uuid7 pageToken =
     (if pageToken = [] then Some None else if uuid7 pageToken then Some (Some pageToken) else None)"

definition EncodePageToken :: "string \<Rightarrow> string" where
  "EncodePageToken lastID = lastID"

section \<open>One page and all pages\<close>

text \<open>The method of a server that lists, over the method of its service and the identifier of an item.\<close>

definition list_page ::
  "(nat \<Rightarrow> string option \<Rightarrow> cp_error + 'a list) \<Rightarrow> ('a \<Rightarrow> string) \<Rightarrow> ('a \<Rightarrow> 'm) \<Rightarrow> (string \<Rightarrow> bool) \<Rightarrow> u32 \<Rightarrow> string \<Rightarrow>
   cp_error + 'm list \<times> string" where
  "list_page fetch key toTransport uuid7 psize token =
     (if unat psize > MaxPageSize then Inl ErrInvalidPageSize
      else let pageSize = ResolvePageSize psize in
        case DecodePageToken uuid7 token of
          None \<Rightarrow> Inl ErrInvalidPageToken
        | Some afterID \<Rightarrow>
            (case fetch (pageSize + 1) afterID of
               Inl e \<Rightarrow> Inl e
             | Inr items \<Rightarrow>
                 if length items > pageSize
                 then Inr (map toTransport (take pageSize items), EncodePageToken (key (last (take pageSize items))))
                 else Inr (map toTransport items, [])))"

text \<open>A client that asks for page after page; fuel bounds the requests.\<close>

fun all_pages :: "nat \<Rightarrow> (string \<Rightarrow> cp_error + 'm list \<times> string) \<Rightarrow> string \<Rightarrow> 'm list option" where
  "all_pages 0 page token = None"
| "all_pages (Suc n) page token =
     (case page token of
        Inl _ \<Rightarrow> None
      | Inr (items, next_token) \<Rightarrow>
          if next_token = [] then Some items else map_option ((@) items) (all_pages n page next_token))"

section \<open>The contract of a repository\<close>

locale page_source =
  fixes ok :: "'db \<Rightarrow> bool"
    and fetch :: "'db \<Rightarrow> nat \<Rightarrow> string option \<Rightarrow> cp_error + 'a list"
    and key :: "'a \<Rightarrow> string"
    and keys :: "'db \<Rightarrow> string list"
    and item :: "'db \<Rightarrow> string \<Rightarrow> 'a"
  assumes fetch_page: "ok db \<Longrightarrow> fetch db n afterID = Inr (map (item db) (page_ids n afterID (keys db)))"
    and key_item: "ok db \<Longrightarrow> k \<in> set (keys db) \<Longrightarrow> key (item db k) = k"
    and keys_distinct: "ok db \<Longrightarrow> distinct (keys db)"
begin

lemma page_after:
  assumes "sort (keys db) = xs @ ys" "ok db"
  shows "page_ids n (if xs = [] then None else Some (last xs)) (keys db) = take n ys"
proof -
  have s: "sorted (xs @ ys)" "distinct (xs @ ys)" using assms(1) keys_distinct [OF assms(2)] by (metis sorted_sort, metis distinct_sort)
  have "filter (\<lambda>k. last xs < k) (xs @ ys) = ys" if "xs \<noteq> []"
  proof (cases xs rule: rev_cases)
    case (snoc zs z)
    have "\<forall>x \<in> set zs. \<not> z < x" "\<forall>y \<in> set ys. z \<le> y" "z \<notin> set ys" using s by (auto simp: snoc sorted_append not_less)
    then have "filter (\<lambda>k. z < k) zs = []" "filter (\<lambda>k. z < k) ys = ys"
      by (auto simp: filter_empty_conv filter_id_conv order_less_le)
    then show ?thesis by (simp add: snoc)
  qed (use that in simp)
  then show ?thesis using assms(1) by (auto simp: page_ids_def filter_sort [symmetric] simp del: filter_append)
qed

lemma pages_from:
  assumes o: "ok db" and u: "\<forall>k \<in> set (keys db). k \<noteq> [] \<and> uuid7 k" and sz: "unat psize \<le> MaxPageSize"
    and ids: "sort (keys db) = xs @ ys" and n: "length ys < n"
  shows "all_pages n (list_page (fetch db) key enc uuid7 psize) (if xs = [] then [] else last xs) = Some (map (enc \<circ> item db) ys)"
  using ids n
proof (induction n arbitrary: xs ys)
  case (Suc n)
  let ?p = "ResolvePageSize psize"
  have p: "0 < ?p" by (auto simp: ResolvePageSize_def DefaultPageSize_def unat_gt_0)
  have elems: "k \<in> set (keys db)" if "k \<in> set (xs @ ys)" for k using that Suc.prems(1) by (metis set_sort)
  have tok: "DecodePageToken uuid7 (if xs = [] then [] else last xs) = Some (if xs = [] then None else Some (last xs))"
    using elems u by (auto simp: DecodePageToken_def)
  have page: "list_page (fetch db) key enc uuid7 psize (if xs = [] then [] else last xs) =
      (if ?p < length ys then Inr (map (enc \<circ> item db) (take ?p ys), key (last (map (item db) (take ?p ys))))
       else Inr (map (enc \<circ> item db) ys, []))"
    using sz by (simp add: list_page_def Let_def tok fetch_page [OF o] page_after [OF Suc.prems(1) o] EncodePageToken_def min_def take_map)
  show ?case
  proof (cases "?p < length ys")
    case True
    let ?a = "take ?p ys" and ?b = "drop ?p ys"
    have a: "?a \<noteq> []" using p True by auto
    then have "last ?a \<in> set ys" by (metis in_set_takeD last_in_set)
    then have ne: "last ?a \<noteq> []" "key (last (map (item db) ?a)) = last ?a" using elems u a by (simp_all add: last_map key_item [OF o])
    have "all_pages n (list_page (fetch db) key enc uuid7 psize) (if xs @ ?a = [] then [] else last (xs @ ?a)) = Some (map (enc \<circ> item db) ?b)"
      using Suc.prems p True by (intro Suc.IH) auto
    then show ?thesis using a ne True page by (simp flip: map_append)
  next
    case False
    then show ?thesis using page by simp
  qed
qed simp

lemma pages_all:
  assumes "ok db" "\<forall>k \<in> set (keys db). k \<noteq> [] \<and> uuid7 k" "unat psize \<le> MaxPageSize" "length (keys db) < n"
  shows "all_pages n (list_page (fetch db) key enc uuid7 psize) [] = Some (map (enc \<circ> item db) (sort (keys db)))"
  using pages_from [of db uuid7 psize "[]" "sort (keys db)" n] assms by simp

end

section \<open>Chunks\<close>

definition srv_ListChunks :: "orders \<Rightarrow> (string \<Rightarrow> bool) \<Rightarrow> u32 \<Rightarrow> string \<Rightarrow> cp_db \<Rightarrow> cp_error + ChunkMsg list \<times> string" where
  "srv_ListChunks ord uuid7 psize token db = list_page (\<lambda>n a. repo_ListChunks ord n a db) c_ID ChunkToTransport uuid7 psize token"

interpretation chunk_pages: page_source "\<lambda>(ord, db). orders_ok ord \<and> db_ok db" "\<lambda>(ord, db) n a. repo_ListChunks ord n a db" c_ID
  "\<lambda>(ord, db). live_chunks db" "\<lambda>(ord, db). page_chunk ord db"
proof
  fix x n a k assume "case x of (ord, db) \<Rightarrow> orders_ok ord \<and> db_ok db"
  then obtain ord db where x: "x = (ord, db)" "orders_ok ord" "db_ok db" by (cases x) auto
  show "(case x of (ord, db) \<Rightarrow> \<lambda>n a. repo_ListChunks ord n a db) n a =
      Inr (map ((case x of (ord, db) \<Rightarrow> page_chunk ord db)) (page_ids n a (case x of (ord, db) \<Rightarrow> live_chunks db)))"
    using list_chunks(1) x by simp
  show "distinct (case x of (ord, db) \<Rightarrow> live_chunks db)"
    using x by (simp add: live_chunks_def db_ok_def pk_ok_def distinct_map_filter)
  assume "k \<in> set (case x of (ord, db) \<Rightarrow> live_chunks db)"
  then obtain c where "ch_id c = k" "chunk_tree live db c (page_chunk ord db k)" using list_chunks(2) x by fastforce
  then show "c_ID ((case x of (ord, db) \<Rightarrow> page_chunk ord db) k) = k" using x by (simp add: chunk_tree_def)
qed

section \<open>Properties\<close>

text \<open>
  C28. Listing chunks page by page gives every chunk that is not deleted exactly once, in the order of the
  identifiers, with any allowed page size, and each with its flavors that are not deleted; then the token is
  empty. The number of requests is at most the number of chunks and one.
\<close>

theorem chunk_pages_complete:
  assumes "db_ok db" "orders_ok ord" "\<forall>k \<in> set (live_chunks db). k \<noteq> [] \<and> uuid7 k" "unat psize \<le> MaxPageSize" "length (live_chunks db) < n"
  shows "\<exists>chs. all_pages n (\<lambda>token. srv_ListChunks ord uuid7 psize token db) [] = Some (map ChunkToTransport chs) \<and>
    map c_ID chs = sort (live_chunks db) \<and> (\<forall>ch \<in> set chs. \<exists>c \<in> set (chunks db). chunk_tree live db c ch)"
proof (intro exI conjI)
  let ?chs = "map (page_chunk ord db) (sort (live_chunks db))"
  show "all_pages n (\<lambda>token. srv_ListChunks ord uuid7 psize token db) [] = Some (map ChunkToTransport ?chs)"
    using chunk_pages.pages_all [of "(ord, db)" uuid7 psize n ChunkToTransport] assms by (simp add: srv_ListChunks_def [abs_def])
  have t: "\<exists>c. c \<in> set (chunks db) \<and> ch_id c = k \<and> chunk_tree live db c (page_chunk ord db k)" if "k \<in> set (live_chunks db)" for k
    using list_chunks(2) [OF assms(1,2) that] look_Some by metis
  then have "c_ID (page_chunk ord db k) = k" if "k \<in> set (live_chunks db)" for k using that unfolding chunk_tree_def by metis
  then show "map c_ID ?chs = sort (live_chunks db)" unfolding map_map by (intro map_idI) simp
  show "\<forall>ch \<in> set ?chs. \<exists>c \<in> set (chunks db). chunk_tree live db c ch" using t by auto
qed

theorem chunk_pages_complete_witness:
  "\<exists>chs. all_pages 2 (\<lambda>token. srv_ListChunks sample_orders (\<lambda>k. length k = 1) 1 token sample_cp) [] = Some (map ChunkToTransport chs) \<and>
     map c_ID chs = [''c'']"
  using chunk_pages_complete [OF sample_cp_ok sample_orders_ok, of "\<lambda>k. length k = 1" 1 2]
  by (auto simp: live_chunks_def sample_cp_def sample_chunk_def MaxPageSize_def)

end
