(* ===== verification/Control_Plane.thy ===== *)
theory Control_Plane
  imports Pagination
begin

text \<open>
  The instances in the control plane: the table and its queries (\<^verbatim>\<open>postgres/instance.go\<close>, \<^verbatim>\<open>postgres/node.go\<close>), the
  instance service and its server (\<^verbatim>\<open>controlplane/instance\<close>). The reports of a node are two batches, each a
  transaction of its own, that may fail: \<open>faults\<close> says how. Whether a text is a UUID is a parameter.
\<close>

section \<open>Rows with what they refer to\<close>

record instance_join =
  jn_version :: version_row
  jn_chunk :: chunk_row
  jn_flavor :: flavor_row
  jn_node :: node_row
  jn_user :: User
  jn_instance :: instance_row

definition join_instance :: "cp_db \<Rightarrow> instance_row \<Rightarrow> instance_join option" where
  "join_instance db r = do {
     v \<leftarrow> look ve_id (versions db) (row_version r);
     f \<leftarrow> look fl_id (flavors db) (ve_flavor v);
     c \<leftarrow> look ch_id (chunks db) (fl_chunk f);
     n \<leftarrow> look nd_id (nodes db) (row_node r);
     u \<leftarrow> look u_ID (users db) (row_owner r);
     Some \<lparr>jn_version = v, jn_chunk = c, jn_flavor = f, jn_node = n, jn_user = u, jn_instance = r\<rparr>}"

definition join_flavor :: "instance_join \<Rightarrow> Flavor" where
  "join_flavor j = (flavor_domain (jn_flavor j))\<lparr>f_DeletedAt := None\<rparr>"

text \<open>What the three methods that read instances have in common: neither flavor nor port.\<close>

definition join_domain :: "instance_join \<Rightarrow> DomainInstance" where
  "join_domain j =
     (let r = jn_instance j; c = jn_chunk j in
      \<lparr>i_ID = row_id r,
       i_Chunk = \<lparr>c_ID = ch_id c, c_Name = ch_name c, c_Description = ch_description c, c_Tags = ch_tags c, c_Flavors = [],
         c_Owner = zero_user, c_CreatedAt = ch_created c, c_UpdatedAt = ch_updated c, c_ThumbnailHash = [], c_DeletedAt = None\<rparr>,
       i_FlavorVersion = (version_domain (jn_version j))\<lparr>v_PresignedURLExpiryDate := None, v_PresignedURL := None\<rparr>,
       i_Flavor = zero_flavor, i_Address = nd_address (jn_node j), i_State = row_state r, i_Port = None,
       i_Owner = (jn_user j)\<lparr>u_Email := []\<rparr>, i_CreatedAt = row_created r, i_UpdatedAt = row_updated r,
       i_OrderedBy = row_orderedBy r\<rparr>)"

definition join_port :: "instance_join \<Rightarrow> u16 option" where
  "join_port j = map_option ucast (row_port (jn_instance j))"

definition row_of :: "cp_db \<Rightarrow> string \<rightharpoonup> instance_row" where
  "row_of db = look row_id (instances db)"

definition instance_count :: "cp_db \<Rightarrow> string \<Rightarrow> nat" where
  "instance_count db n = length (filter (\<lambda>r. row_node r = n) (instances db))"

section \<open>Queries\<close>

text \<open>
  What \<^verbatim>\<open>BestNode\<close> can choose: a node with a free slot and as few instances as any such, at random among
  these, or none if no slot is free.
\<close>

definition best_node :: "cp_db \<Rightarrow> string option \<Rightarrow> bool" where
  "best_node db pick \<longleftrightarrow>
     (let free = filter (\<lambda>m. instance_count db (nd_id m) < nd_slots m) (nodes db) in
      case pick of
        None \<Rightarrow> free = []
      | Some n \<Rightarrow> list_ex (\<lambda>m. nd_id m = n) free \<and> list_all (\<lambda>m. instance_count db n \<le> instance_count db (nd_id m)) free)"

definition BestNode :: "string option \<Rightarrow> cp_db \<Rightarrow> cp_error + string" where
  "BestNode pick db =
     (case pick of
        None \<Rightarrow> Inl ErrNoSlotsAvailable
      | Some n \<Rightarrow> if list_ex (\<lambda>m. nd_id m = n \<and> nd_endpoint m) (nodes db) then Inr n else Inl ErrNodeEndpoint)"

definition GetInstance_rows :: "string \<Rightarrow> cp_db \<Rightarrow> instance_join list" where
  "GetInstance_rows k db = List.map_filter (join_instance db) (filter (\<lambda>r. row_id r = k) (instances db))"

text \<open>
  An instance from all rows with its identifier, one for each flavor joined; a later row with the flavor of the
  version wins.
\<close>

definition rows_instance :: "instance_join list \<Rightarrow> DomainInstance" where
  "rows_instance rows =
     (let i = join_domain (hd rows) in
      i\<lparr>i_Flavor := fold (\<lambda>j f. if fl_id (jn_flavor j) = ve_flavor (jn_version j) then join_flavor j else f) rows zero_flavor,
        i_Chunk := (i_Chunk i)\<lparr>c_Flavors := sort_key f_CreatedAt (map join_flavor rows)\<rparr>\<rparr>)"

definition getInstanceByID :: "string \<Rightarrow> cp_db \<Rightarrow> cp_error + DomainInstance" where
  "getInstanceByID k db =
     (case GetInstance_rows k db of
        [] \<Rightarrow> Inl ErrInstanceNotFound
      | row # rows \<Rightarrow> Inr ((rows_instance (row # rows))\<lparr>i_Port := join_port row\<rparr>))"

definition CreateInstance :: "DomainInstance \<Rightarrow> string \<Rightarrow> cp_db \<Rightarrow> (cp_error + DomainInstance) \<times> cp_db" where
  "CreateInstance ins nodeID db =
     (case insert_instance \<lparr>row_id = i_ID ins, row_version = v_ID (i_FlavorVersion ins), row_node = nodeID, row_port = None,
         row_state = i_State ins, row_created = i_CreatedAt ins, row_updated = i_UpdatedAt ins, row_owner = u_ID (i_Owner ins),
         row_orderedBy = i_OrderedBy ins\<rparr> db of
        None \<Rightarrow> (Inl ErrDatabase, db)
      | Some db' \<Rightarrow> (case getInstanceByID (i_ID ins) db' of Inl e \<Rightarrow> (Inl e, db) | Inr i \<Rightarrow> (Inr i, db')))"

definition repo_ListInstances :: "nat \<Rightarrow> string option \<Rightarrow> cp_db \<Rightarrow> cp_error + DomainInstance list" where
  "repo_ListInstances limit afterID db =
     (let rows = concat (map (\<lambda>k. GetInstance_rows k db) (page_ids limit afterID (map row_id (instances db))))
      in Inr (map (\<lambda>k. rows_instance (filter (\<lambda>j. row_id (jn_instance j) = k) rows)) (first_seen (row_id \<circ> jn_instance) rows)))"

definition GetInstancesByNodeID :: "string \<Rightarrow> cp_db \<Rightarrow> DomainInstance list" where
  "GetInstancesByNodeID nodeID db =
     map (\<lambda>j. (join_domain j)\<lparr>i_Flavor := join_flavor j, i_Port := join_port j\<rparr>)
       (List.map_filter (join_instance db) (filter (\<lambda>r. row_node r = nodeID) (instances db)))"

subsection \<open>Reports\<close>

datatype db_stmt = UpdateStmt string string u32 | DeleteStmt string

fun exec_stmt :: "nat \<Rightarrow> db_stmt \<Rightarrow> instance_row list \<Rightarrow> instance_row list" where
  "exec_stmt now (UpdateStmt k st p) rows =
     map (\<lambda>r. if row_id r = k then r\<lparr>row_state := st, row_port := Some p, row_updated := now\<rparr> else r) rows"
| "exec_stmt now (DeleteStmt k) rows = filter (\<lambda>r. row_id r \<noteq> k) rows"

text \<open>The column for the state only takes the six names, that of the identifier a UUID.\<close>

fun stmt_ok :: "(string \<Rightarrow> bool) \<Rightarrow> db_stmt \<Rightarrow> bool" where
  "stmt_ok uuid (UpdateStmt k st _) = (uuid k \<and> known_state st)"
| "stmt_ok uuid (DeleteStmt k) = uuid k"

text \<open>A batch is one transaction: it may also fail with nothing done, or be done and its answer be lost.\<close>

datatype batch_fault = NoFault | RolledBack | ReplyLost

definition run_batch :: "(string \<Rightarrow> bool) \<Rightarrow> nat \<Rightarrow> batch_fault \<Rightarrow> db_stmt list \<Rightarrow> instance_row list \<Rightarrow> bool \<times> instance_row list" where
  "run_batch uuid now fault ss rows =
     (if fault = RolledBack \<or> \<not> list_all (stmt_ok uuid) ss then (False, rows) else (fault = NoFault, fold (exec_stmt now) ss rows))"

definition to_update :: "StatusReport list \<Rightarrow> db_stmt list" where
  "to_update reports =
     map (\<lambda>r. UpdateStmt (r_InstanceID r) (r_State r) (ucast (r_Port r))) (filter (\<lambda>r. r_State r \<noteq> ''DELETED'') reports)"

definition to_remove :: "StatusReport list \<Rightarrow> db_stmt list" where
  "to_remove reports = map (\<lambda>r. DeleteStmt (r_InstanceID r)) (filter (\<lambda>r. r_State r = ''DELETED'') reports)"

definition ApplyStatusReports ::
  "(string \<Rightarrow> bool) \<Rightarrow> nat \<Rightarrow> batch_fault \<times> batch_fault \<Rightarrow> StatusReport list \<Rightarrow> cp_db \<Rightarrow> bool \<times> cp_db" where
  "ApplyStatusReports uuid now faults reports db =
     (if to_remove reports = [] \<and> to_update reports = [] then (True, db)
      else case run_batch uuid now (fst faults) (to_update reports) (instances db) of
          (False, rows) \<Rightarrow> (False, db\<lparr>instances := rows\<rparr>)
        | (True, rows) \<Rightarrow>
            if to_remove reports = [] then (True, db\<lparr>instances := rows\<rparr>)
            else apsnd (\<lambda>rows. db\<lparr>instances := rows\<rparr>) (run_batch uuid now (snd faults) (to_remove reports) rows))"

definition no_faults :: "batch_fault \<times> batch_fault" where
  "no_faults = (NoFault, NoFault)"

section \<open>The service and its server\<close>

definition svc_DiscoverInstances :: "string \<Rightarrow> cp_db \<Rightarrow> DomainInstance list" where
  "svc_DiscoverInstances nodeID db = sort_key i_ID (GetInstancesByNodeID nodeID db)"

definition srv_DiscoverInstances :: "string \<Rightarrow> cp_db \<Rightarrow> cp_error + Instance list" where
  "srv_DiscoverInstances nodeKey db =
     (if nodeKey = [] then Inl ErrNodeKeyMissing else Inr (map InstanceToTransport (svc_DiscoverInstances nodeKey db)))"

definition srv_ReceiveReports ::
  "(string \<Rightarrow> bool) \<Rightarrow> nat \<Rightarrow> batch_fault \<times> batch_fault \<Rightarrow> InstanceStatusReport list \<Rightarrow> cp_db \<Rightarrow> bool \<times> cp_db" where
  "srv_ReceiveReports uuid now faults reports db = ApplyStatusReports uuid now faults (map StatusReportToDomain reports) db"

definition srv_GetInstance :: "string \<Rightarrow> cp_db \<Rightarrow> cp_error + Instance" where
  "srv_GetInstance k db = map_sum id InstanceToTransport (getInstanceByID k db)"

definition srv_ListInstances :: "(string \<Rightarrow> bool) \<Rightarrow> u32 \<Rightarrow> string \<Rightarrow> cp_db \<Rightarrow> cp_error + Instance list \<times> string" where
  "srv_ListInstances uuid7 psize token db = list_page (\<lambda>n a. repo_ListInstances n a db) i_ID InstanceToTransport uuid7 psize token"

text \<open>
  \<^verbatim>\<open>RunFlavorVersion\<close> after the choice of a node: the flavor must not be deleted and have the version. The identifier
  and the time are arguments.
\<close>

definition run_on :: "string \<Rightarrow> string \<Rightarrow> nat \<Rightarrow> string \<Rightarrow> string \<Rightarrow> string \<Rightarrow> cp_db \<Rightarrow> (cp_error + DomainInstance) \<times> cp_db" where
  "run_on node k now flavorVersionID ownerID orderedBy db =
     (case FlavorIDByFlavorVersionID flavorVersionID db of
        Inl e \<Rightarrow> (Inl e, db)
      | Inr flavorID \<Rightarrow>
          (case FlavorByID flavorID db of
             Inl e \<Rightarrow> (Inl e, db)
           | Inr flavor \<Rightarrow>
               if f_DeletedAt flavor \<noteq> None then (Inl ErrNotFound, db)
               else
                 (case find (\<lambda>version. v_ID version = flavorVersionID) (f_Versions flavor) of
                    None \<Rightarrow> (Inl ErrNotFound, db)
                  | Some version \<Rightarrow>
                      CreateInstance
                        \<lparr>i_ID = k,
                         i_Chunk = \<lparr>c_ID = [], c_Name = [], c_Description = [], c_Tags = [], c_Flavors = [], c_Owner = zero_user,
                           c_CreatedAt = 0, c_UpdatedAt = 0, c_ThumbnailHash = [], c_DeletedAt = None\<rparr>,
                         i_FlavorVersion = version, i_Flavor = zero_flavor, i_Address = [], i_State = ''PENDING'', i_Port = None,
                         i_Owner = zero_user\<lparr>u_ID := ownerID\<rparr>, i_CreatedAt = now, i_UpdatedAt = now, i_OrderedBy = orderedBy\<rparr>
                        node db)))"

definition svc_RunFlavorVersion ::
  "string option \<Rightarrow> string \<Rightarrow> nat \<Rightarrow> string \<Rightarrow> string \<Rightarrow> string \<Rightarrow> cp_db \<Rightarrow> (cp_error + DomainInstance) \<times> cp_db" where
  "svc_RunFlavorVersion pick k now flavorVersionID ownerID orderedBy db =
     (case BestNode pick db of
        Inl e \<Rightarrow> (Inl e, db)
      | Inr node \<Rightarrow> run_on node k now flavorVersionID ownerID orderedBy db)"

definition srv_RunFlavorVersion ::
  "string option \<Rightarrow> string \<Rightarrow> nat \<Rightarrow> string \<Rightarrow> string \<Rightarrow> string \<Rightarrow> cp_db \<Rightarrow> (cp_error + Instance) \<times> cp_db" where
  "srv_RunFlavorVersion pick k now flavorVersionID userID orderedBy db =
     apfst (map_sum id InstanceToTransport) (svc_RunFlavorVersion pick k now flavorVersionID userID orderedBy db)"

subsection \<open>Requests at the same time\<close>

text \<open>
  \<^verbatim>\<open>RunFlavorVersion\<close> chooses a node in one query and inserts in another, so requests overlap: a request is
  the node it chose, under a number; it may also end without an instance. Reports of nodes and calls that leave
  nodes and instances alone come in between.
\<close>

record placement =
  p_db :: cp_db
  p_chosen :: "nat \<rightharpoonup> string"

inductive place_step :: "placement \<Rightarrow> placement \<Rightarrow> bool" where
  choose: "p_chosen s q = None \<Longrightarrow> best_node (p_db s) (Some n) \<Longrightarrow> place_step s (s\<lparr>p_chosen := (p_chosen s)(q \<mapsto> n)\<rparr>)"
| insert: "p_chosen s q = Some n \<Longrightarrow> run_on n k now v u by_whom (p_db s) = (Inr ins, db) \<Longrightarrow>
    place_step s (s\<lparr>p_db := db, p_chosen := (p_chosen s)(q := None)\<rparr>)"
| give_up: "p_chosen s q = Some n \<Longrightarrow> place_step s (s\<lparr>p_chosen := (p_chosen s)(q := None)\<rparr>)"
| report: "ApplyStatusReports uuid now faults rs (p_db s) = (b, db) \<Longrightarrow> place_step s (s\<lparr>p_db := db\<rparr>)"
| other: "nodes db = nodes (p_db s) \<Longrightarrow> instances db = instances (p_db s) \<Longrightarrow> place_step s (s\<lparr>p_db := db\<rparr>)"

text \<open>Sequences of steps with at most \<open>m\<close> requests at a time.\<close>

inductive place_steps :: "nat \<Rightarrow> placement \<Rightarrow> placement \<Rightarrow> bool" for m where
  none: "place_steps m s s"
| more: "place_steps m s s' \<Longrightarrow> place_step s' s'' \<Longrightarrow> card (dom (p_chosen s'')) \<le> m \<Longrightarrow> place_steps m s s''"

text \<open>The small database with instances on its node.\<close>

definition sample_row :: "string \<Rightarrow> string \<Rightarrow> instance_row" where
  "sample_row st k = \<lparr>row_id = k, row_version = ''v'', row_node = ''node'', row_port = None, row_state = st, row_created = 1,
     row_updated = 1, row_owner = ''u'', row_orderedBy = ''o''\<rparr>"

definition sample_placed :: "string \<Rightarrow> string list \<Rightarrow> cp_db" where
  "sample_placed st ks = sample_cp\<lparr>instances := map (sample_row st) ks\<rparr>"

section \<open>Lemmas\<close>

subsection \<open>Reports\<close>

lemma ids_exec_update [simp]: "map row_id (exec_stmt now (UpdateStmt k st p) rows) = map row_id rows"
  by (induction rows) auto

lemma look_exec_update:
  "look row_id (exec_stmt now (UpdateStmt k' st p) rows) k =
     map_option (\<lambda>r. if k = k' then r\<lparr>row_state := st, row_port := Some p, row_updated := now\<rparr> else r) (look row_id rows k)"
  by (simp add: look_map)

lemma look_exec_delete: "look row_id (exec_stmt now (DeleteStmt k') rows) k = (if k = k' then None else look row_id rows k)"
  by (simp add: look_filter)

text \<open>What the columns of a foreign key are is kept, and no rows are made.\<close>

definition rows_within :: "instance_row list \<Rightarrow> instance_row list \<Rightarrow> bool" where
  "rows_within rows' rows \<longleftrightarrow> (distinct (map row_id rows) \<longrightarrow> distinct (map row_id rows')) \<and>
     (\<forall>n. length (filter (\<lambda>r. row_node r = n) rows') \<le> length (filter (\<lambda>r. row_node r = n) rows)) \<and>
     (\<forall>r' \<in> set rows'. \<exists>r \<in> set rows. row_id r' = row_id r \<and> row_version r' = row_version r \<and> row_node r' = row_node r \<and> row_owner r' = row_owner r)"

lemma rows_within_refl: "rows_within rows rows"
  by (auto simp: rows_within_def)

lemma rows_within_trans: "rows_within c b \<Longrightarrow> rows_within b a \<Longrightarrow> rows_within c a"
  unfolding rows_within_def by (intro conjI allI ballI impI) (blast, meson order_trans, (elim conjE, (drule (1) bspec, elim bexE)+, force))

lemma exec_within: "rows_within (exec_stmt now s rows) rows"
proof (cases s)
  case (UpdateStmt k st p)
  have "length (filter (\<lambda>r. row_node r = n) (exec_stmt now s rows)) = length (filter (\<lambda>r. row_node r = n) rows)" for n
    unfolding UpdateStmt by (induction rows) auto
  then show ?thesis unfolding rows_within_def UpdateStmt ids_exec_update by auto
next
  case (DeleteStmt k)
  have "length (filter (\<lambda>r. row_node r = n) (filter (\<lambda>r. row_id r \<noteq> k) rows)) \<le> length (filter (\<lambda>r. row_node r = n) rows)" for n
    by (induction rows) auto
  then show ?thesis by (simp add: DeleteStmt rows_within_def distinct_map_filter) blast
qed

lemma fold_exec_within: "rows_within (fold (exec_stmt now) ss rows) rows"
proof (induction ss arbitrary: rows)
  case (Cons s ss)
  then show ?case using rows_within_trans exec_within by (simp del: exec_stmt.simps) blast
qed (simp add: rows_within_refl)

lemma run_batch_within: "run_batch uuid now fault ss rows = (b, rows') \<Longrightarrow> rows_within rows' rows"
  by (auto simp: run_batch_def fold_exec_within rows_within_refl split: if_splits)

lemma Apply_within:
  assumes "ApplyStatusReports uuid now faults rs db = (b, db')"
  shows "\<exists>rows. db' = db\<lparr>instances := rows\<rparr> \<and> rows_within rows (instances db)"
proof -
  obtain b1 rows1 where 1: "run_batch uuid now (fst faults) (to_update rs) (instances db) = (b1, rows1)" by (rule prod.exhaust)
  obtain b2 rows2 where 2: "run_batch uuid now (snd faults) (to_remove rs) rows1 = (b2, rows2)" by (rule prod.exhaust)
  have w: "rows_within rows1 (instances db)" "rows_within rows2 (instances db)"
    using run_batch_within [OF 1] run_batch_within [OF 2] rows_within_trans by blast+
  have "db' = db\<lparr>instances := instances db\<rparr> \<or> db' = db\<lparr>instances := rows1\<rparr> \<or> db' = db\<lparr>instances := rows2\<rparr>"
    using assms 1 2 by (auto simp: ApplyStatusReports_def split: if_splits bool.splits)
  then show ?thesis using w rows_within_refl by blast
qed

lemma Apply_keeps:
  assumes "ApplyStatusReports uuid now faults rs db = (b, db')"
  shows "db_ok db \<Longrightarrow> db_ok db'" "nodes db' = nodes db" "instance_count db' n \<le> instance_count db n"
    "\<forall>r' \<in> set (instances db'). \<exists>r \<in> set (instances db). row_id r' = row_id r"
proof -
  obtain rows where db': "db' = db\<lparr>instances := rows\<rparr>" and w: "rows_within rows (instances db)" using Apply_within [OF assms] by blast
  show "nodes db' = nodes db" "instance_count db' n \<le> instance_count db n"
    "\<forall>r' \<in> set (instances db'). \<exists>r \<in> set (instances db). row_id r' = row_id r"
    using w unfolding db' instance_count_def rows_within_def by auto
  assume ok: "db_ok db"
  have "\<forall>r' \<in> set rows. has ve_id (versions db) (row_version r') \<and> has nd_id (nodes db) (row_node r') \<and> has u_ID (users db) (row_owner r')"
    using w db_okD(1-3) [OF ok] unfolding rows_within_def by metis
  then show "db_ok db'" using ok w by (simp add: db' db_ok_defs rows_within_def)
qed

lemma fold_updates:
  assumes "distinct (map r_InstanceID us)"
  shows "u \<in> set us \<Longrightarrow> look row_id
      (fold (exec_stmt now) (map (\<lambda>r. UpdateStmt (r_InstanceID r) (r_State r) (ucast (r_Port r))) us) rows) (r_InstanceID u) =
      map_option (\<lambda>r. r\<lparr>row_state := r_State u, row_port := Some (ucast (r_Port u)), row_updated := now\<rparr>) (look row_id rows (r_InstanceID u))"
    and "k \<notin> r_InstanceID ` set us \<Longrightarrow> look row_id
      (fold (exec_stmt now) (map (\<lambda>r. UpdateStmt (r_InstanceID r) (r_State r) (ucast (r_Port r))) us) rows) k = look row_id rows k"
proof -
  show other: "k \<notin> r_InstanceID ` set us \<Longrightarrow> look row_id
      (fold (exec_stmt now) (map (\<lambda>r. UpdateStmt (r_InstanceID r) (r_State r) (ucast (r_Port r))) us) rows) k = look row_id rows k"
    for k us rows by (induction us arbitrary: rows) (auto simp: look_exec_update option.map_ident simp del: exec_stmt.simps)
  show "u \<in> set us \<Longrightarrow> look row_id
      (fold (exec_stmt now) (map (\<lambda>r. UpdateStmt (r_InstanceID r) (r_State r) (ucast (r_Port r))) us) rows) (r_InstanceID u) =
      map_option (\<lambda>r. r\<lparr>row_state := r_State u, row_port := Some (ucast (r_Port u)), row_updated := now\<rparr>) (look row_id rows (r_InstanceID u))"
    using assms
  proof (induction us arbitrary: rows)
    case (Cons a us)
    then show ?case using other [of "r_InstanceID a" us]
      by (cases "u = a") (auto simp: look_exec_update image_iff option.map_ident simp del: exec_stmt.simps)
  qed simp
qed

lemma fold_deletes:
  "look row_id (fold (exec_stmt now) (map (\<lambda>r. DeleteStmt (r_InstanceID r)) ds) rows) k =
     (if k \<in> r_InstanceID ` set ds then None else look row_id rows k)"
  by (induction ds arbitrary: rows) (auto simp: look_exec_delete simp del: exec_stmt.simps)

text \<open>What reports do to the rows, without faults.\<close>

lemma Apply_rows:
  assumes "distinct (map r_InstanceID rs)" "\<forall>r \<in> set rs. known_state (r_State r) \<and> uuid (r_InstanceID r)"
  obtains db' where "ApplyStatusReports uuid now no_faults rs db = (True, db')"
    "\<And>r. r \<in> set rs \<Longrightarrow> row_of db' (r_InstanceID r) = (if r_State r = ''DELETED'' then None
       else map_option (\<lambda>x. x\<lparr>row_state := r_State r, row_port := Some (ucast (r_Port r)), row_updated := now\<rparr>) (row_of db (r_InstanceID r)))"
    "\<And>k. k \<notin> r_InstanceID ` set rs \<Longrightarrow> row_of db' k = row_of db k"
proof -
  let ?us = "filter (\<lambda>r. r_State r \<noteq> ''DELETED'') rs" and ?ds = "filter (\<lambda>r. r_State r = ''DELETED'') rs"
  let ?db = "db\<lparr>instances := fold (exec_stmt now) (to_remove rs) (fold (exec_stmt now) (to_update rs) (instances db))\<rparr>"
  have d: "distinct (map r_InstanceID ?us)" using assms(1) by (rule distinct_map_filter)
  have "list_all (stmt_ok uuid) (to_update rs)" "list_all (stmt_ok uuid) (to_remove rs)"
    using assms(2) by (auto simp: to_update_def to_remove_def list_all_iff)
  then have A: "ApplyStatusReports uuid now no_faults rs db = (True, ?db)"
    by (simp add: ApplyStatusReports_def run_batch_def no_faults_def)
  have same: "r = r'" if "r \<in> set rs" "r' \<in> set rs" "r_InstanceID r = r_InstanceID r'" for r r'
    using assms(1) that by (auto simp: distinct_map inj_on_def)
  show thesis
  proof (rule that [OF A])
    fix r assume r: "r \<in> set rs"
    have "r_InstanceID r \<in> r_InstanceID ` set ?ds \<longleftrightarrow> r_State r = ''DELETED''" using same r by force
    then show "row_of ?db (r_InstanceID r) = (if r_State r = ''DELETED'' then None
       else map_option (\<lambda>x. x\<lparr>row_state := r_State r, row_port := Some (ucast (r_Port r)), row_updated := now\<rparr>) (row_of db (r_InstanceID r)))"
      using fold_updates(1) [OF d, of r now "instances db"] r by (simp add: row_of_def to_update_def to_remove_def fold_deletes)
  next
    fix k assume k: "k \<notin> r_InstanceID ` set rs"
    then have "k \<notin> r_InstanceID ` set ?ds" "k \<notin> r_InstanceID ` set ?us" by auto
    then show "row_of ?db k = row_of db k"
      using fold_updates(2) [OF d, of k now "instances db"] by (simp add: row_of_def to_update_def to_remove_def fold_deletes)
  qed
qed

subsection \<open>Joins\<close>

lemma has_look: "has key rows k \<Longrightarrow> \<exists>r. look key rows k = Some r"
  by (auto simp: look_has)

lemma join_ok:
  assumes db: "db_ok db" and r: "r \<in> set (instances db)"
  obtains j where "join_instance db r = Some j" "jn_instance j = r" "look ve_id (versions db) (row_version r) = Some (jn_version j)"
    "look fl_id (flavors db) (ve_flavor (jn_version j)) = Some (jn_flavor j)" "fl_id (jn_flavor j) = ve_flavor (jn_version j)"
proof -
  obtain v where v: "look ve_id (versions db) (row_version r) = Some v" using has_look [OF db_okD(1) [OF db r]] by blast
  then have "v \<in> set (versions db)" using look_Some by metis
  then obtain f where f: "look fl_id (flavors db) (ve_flavor v) = Some f" using has_look [OF db_okD(4) [OF db]] by blast
  then have f': "f \<in> set (flavors db)" "fl_id f = ve_flavor v" using look_Some by metis+
  then obtain c where "look ch_id (chunks db) (fl_chunk f) = Some c" using has_look [OF db_okD(6) [OF db]] by blast
  moreover obtain n where "look nd_id (nodes db) (row_node r) = Some n" using has_look [OF db_okD(2) [OF db r]] by blast
  moreover obtain u where "look u_ID (users db) (row_owner r) = Some u" using has_look [OF db_okD(3) [OF db r]] by blast
  ultimately show thesis using v f f' by (intro that) (auto simp: join_instance_def)
qed

lemma row_of_Some: "row_of db k = Some r \<Longrightarrow> r \<in> set (instances db) \<and> row_id r = k"
  by (simp add: row_of_def look_Some)

lemma rows_one:
  assumes db: "db_ok db" and r: "row_of db k = Some r"
  obtains j where "GetInstance_rows k db = [j]" "jn_instance j = r" "look ve_id (versions db) (row_version r) = Some (jn_version j)"
    "fl_id (jn_flavor j) = ve_flavor (jn_version j)" "join_instance db r = Some j"
proof -
  obtain j where j: "join_instance db r = Some j" "jn_instance j = r" "look ve_id (versions db) (row_version r) = Some (jn_version j)"
    "fl_id (jn_flavor j) = ve_flavor (jn_version j)"
    using join_ok [OF db] row_of_Some [OF r] by metis
  have "filter (\<lambda>r. row_id r = k) (instances db) = [r]"
    using r unfolding row_of_def by (rule look_filter_one [OF db_ok_pk(4) [OF db]])
  then show thesis using j by (intro that [of j]) (simp_all add: GetInstance_rows_def List.map_filter_simps)
qed

lemma rows_instance_sel: "i_ID (rows_instance (j # js)) = row_id (jn_instance j)" "i_State (rows_instance (j # js)) = row_state (jn_instance j)"
  "i_FlavorVersion (rows_instance (j # js)) = (version_domain (jn_version j))\<lparr>v_PresignedURLExpiryDate := None, v_PresignedURL := None\<rparr>"
  "i_Port (rows_instance (j # js)) = None"
  by (simp_all add: rows_instance_def join_domain_def Let_def)

lemma row_of_in: "k \<in> set (map row_id (instances db)) \<Longrightarrow> \<exists>r. row_of db k = Some r"
  unfolding row_of_def by (rule look_Some_ex) simp

lemma list_instances:
  assumes db: "db_ok db"
  shows "repo_ListInstances n a db = Inr (map (\<lambda>k. rows_instance (GetInstance_rows k db)) (page_ids n a (map row_id (instances db))))"
proof -
  let ?ids = "page_ids n a (map row_id (instances db))" and ?R = "\<lambda>k. GetInstance_rows k db"
  have d: "distinct ?ids" by (rule page_ids_set(2) [OF db_ok_pk(4) [OF db]])
  have g: "?R k \<noteq> [] \<and> (\<forall>j \<in> set (?R k). (row_id \<circ> jn_instance) j = k)" if k: "k \<in> set ?ids" for k
  proof -
    have "k \<in> set (map row_id (instances db))" using k page_ids_set(1) by blast
    then obtain r where r: "row_of db k = Some r" using row_of_in by blast
    then obtain j where "?R k = [j]" "jn_instance j = r" using rows_one [OF db] by metis
    then show ?thesis using row_of_Some [OF r] by simp
  qed
  have G: "first_seen (row_id \<circ> jn_instance) (concat (map ?R ?ids)) = ?ids" using d g by (rule grouped(1))
  have "filter (\<lambda>j. (row_id \<circ> jn_instance) j = k) (concat (map ?R ?ids)) = ?R k" if "k \<in> set ?ids" for k
    using d g that by (rule grouped(2))
  then have "map (\<lambda>k. rows_instance (filter (\<lambda>j. row_id (jn_instance j) = k) (concat (map ?R ?ids)))) ?ids = map (\<lambda>k. rows_instance (?R k)) ?ids"
    unfolding comp_apply by (intro map_cong refl arg_cong [of _ _ rows_instance]) simp_all
  then show ?thesis unfolding repo_ListInstances_def Let_def G by simp
qed

interpretation ins_pages: page_source db_ok "\<lambda>db n a. repo_ListInstances n a db" i_ID "\<lambda>db. map row_id (instances db)"
  "\<lambda>db k. rows_instance (GetInstance_rows k db)"
proof
  fix db n a k assume db: "db_ok db"
  show "repo_ListInstances n a db = Inr (map (\<lambda>k. rows_instance (GetInstance_rows k db)) (page_ids n a (map row_id (instances db))))"
    by (rule list_instances [OF db])
  show "distinct (map row_id (instances db))" by (rule db_ok_pk(4) [OF db])
  assume "k \<in> set (map row_id (instances db))"
  then obtain r where r: "row_of db k = Some r" using row_of_in by blast
  then obtain j where "GetInstance_rows k db = [j]" "jn_instance j = r" using rows_one [OF db] by metis
  then show "i_ID (rows_instance (GetInstance_rows k db)) = k" using row_of_Some [OF r] by (simp add: rows_instance_sel)
qed

text \<open>What a page shows of an instance, next to what asking for it gives.\<close>

lemma listed_instance:
  assumes db: "db_ok db" and k: "k \<in> set (map row_id (instances db))"
  shows "\<exists>j. srv_GetInstance k db = Inr j \<and> Id j = k \<and> InstanceToTransport (rows_instance (GetInstance_rows k db)) = j\<lparr>InsPort := 0\<rparr>"
proof -
  obtain r where r: "row_of db k = Some r" using row_of_in [OF k] by blast
  then obtain j where j: "GetInstance_rows k db = [j]" "jn_instance j = r" using rows_one [OF db] by metis
  then show ?thesis using row_of_Some [OF r]
    by (simp add: srv_GetInstance_def getInstanceByID_def InstanceToTransport_def Let_def rows_instance_sel)
qed

subsection \<open>What a node is told\<close>

lemma joined_rows:
  assumes db: "db_ok db"
  shows "set rs \<subseteq> set (instances db) \<Longrightarrow> map jn_instance (List.map_filter (join_instance db) rs) = rs"
proof (induction rs)
  case (Cons r rs)
  obtain j where "join_instance db r = Some j" "jn_instance j = r" using join_ok [OF db] Cons.prems by (metis list.set_intros(1) subsetD)
  then show ?case using Cons by (simp add: List.map_filter_simps)
qed (simp add: List.map_filter_simps)

lemma discovered:
  assumes "db_ok db" "n \<noteq> []"
  obtains inss where "srv_DiscoverInstances n db = Inr inss" "distinct (map Id inss)"
    "\<And>k row. row_of db k = Some row \<Longrightarrow> row_node row = n \<Longrightarrow> known_state (row_state row) \<Longrightarrow>
      \<exists>ins \<in> set inss. Id ins = k \<and> InstanceState_value (row_state row) = Some (State ins)"
    "\<forall>k \<in> Id ` set inss. row_of db k \<noteq> None"
proof -
  let ?ds = "svc_DiscoverInstances n db" and ?rows = "filter (\<lambda>r. row_node r = n) (instances db)"
  let ?js = "List.map_filter (join_instance db) ?rows"
  have id: "Id (InstanceToTransport d) = i_ID d" for d by (simp add: InstanceToTransport_def Let_def)
  have js: "map jn_instance ?js = ?rows" by (rule joined_rows [OF assms(1)]) auto
  have s: "set ?ds = (\<lambda>j. (join_domain j)\<lparr>i_Flavor := join_flavor j, i_Port := join_port j\<rparr>) ` set ?js"
    by (simp add: svc_DiscoverInstances_def GetInstancesByNodeID_def)
  have "map i_ID (GetInstancesByNodeID n db) = map row_id (map jn_instance ?js)"
    by (simp add: GetInstancesByNodeID_def join_domain_def Let_def)
  then have ids: "map i_ID (GetInstancesByNodeID n db) = map row_id ?rows" unfolding js .
  have "distinct (map i_ID (GetInstancesByNodeID n db))" unfolding ids by (rule distinct_map_filter [OF db_ok_pk(4) [OF assms(1)]])
  then have d: "distinct (map Id (map InstanceToTransport ?ds))"
    by (simp add: o_def id svc_DiscoverInstances_def distinct_map)
  show thesis
  proof (rule that [of "map InstanceToTransport ?ds"])
    show "srv_DiscoverInstances n db = Inr (map InstanceToTransport ?ds)" using assms(2) by (simp add: srv_DiscoverInstances_def)
    fix k row assume r: "row_of db k = Some row" "row_node row = n" "known_state (row_state row)"
    then have "row \<in> set (map jn_instance ?js)" unfolding js using row_of_Some by auto
    then obtain j where j: "j \<in> set ?js" "jn_instance j = row" by auto
    let ?d = "(join_domain j)\<lparr>i_Flavor := join_flavor j, i_Port := join_port j\<rparr>"
    have "InstanceToTransport ?d \<in> set (map InstanceToTransport ?ds)" using s j(1) by simp
    moreover have "Id (InstanceToTransport ?d) = k \<and> InstanceState_value (row_state row) = Some (State (InstanceToTransport ?d))"
      using r row_of_Some [OF r(1)] j(2) by (auto simp: InstanceToTransport_def join_domain_def known_state_def Let_def)
    ultimately show "\<exists>ins \<in> set (map InstanceToTransport ?ds). Id ins = k \<and> InstanceState_value (row_state row) = Some (State ins)"
      by blast
  next
    show "\<forall>k \<in> Id ` set (map InstanceToTransport ?ds). row_of db k \<noteq> None"
    proof
      fix k assume "k \<in> Id ` set (map InstanceToTransport ?ds)"
      then have "k \<in> set (map i_ID (GetInstancesByNodeID n db))" by (auto simp: id svc_DiscoverInstances_def)
      then have "k \<in> set (map row_id (instances db))" unfolding ids by auto
      then show "row_of db k \<noteq> None" using row_of_in by fastforce
    qed
  qed (rule d)
qed

subsection \<open>Running a version\<close>

definition new_row :: "string \<Rightarrow> string \<Rightarrow> string \<Rightarrow> nat \<Rightarrow> string \<Rightarrow> string \<Rightarrow> instance_row" where
  "new_row k v n now u by_whom = \<lparr>row_id = k, row_version = v, row_node = n, row_port = None, row_state = ''PENDING'', row_created = now,
     row_updated = now, row_owner = u, row_orderedBy = by_whom\<rparr>"

lemma find_key: "find (\<lambda>x. key x = k) xs = Some y \<Longrightarrow> key y = k"
  by (auto simp: find_Some_iff)

lemma run_on_result:
  assumes "run_on n k now v u by_whom db = (res, db')"
  shows "(\<exists>e. res = Inl e \<and> db' = db) \<or>
    (\<exists>i. res = Inr i \<and> insert_instance (new_row k v n now u by_whom) db = Some db' \<and> getInstanceByID k db' = Inr i)"
proof -
  consider (err) e where "run_on n k now v u by_whom db = (Inl e, db)"
  | (go) ins where "run_on n k now v u by_whom db = CreateInstance ins n db" "i_ID ins = k" "v_ID (i_FlavorVersion ins) = v"
      "i_State ins = ''PENDING''" "i_CreatedAt ins = now" "i_UpdatedAt ins = now" "u_ID (i_Owner ins) = u" "i_OrderedBy ins = by_whom"
  proof (cases "FlavorIDByFlavorVersionID v db")
    case (Inr f)
    show ?thesis
    proof (cases "FlavorByID f db")
      case Inr': (Inr fl)
      show ?thesis
      proof (cases "find (\<lambda>version. v_ID version = v) (f_Versions fl)")
        case (Some w)
        show ?thesis
        proof (cases "f_DeletedAt fl")
          case None
          then show ?thesis using find_key [OF Some] by (intro that(2)) (simp add: run_on_def Inr Inr' Some, simp_all)
        qed (use Inr Inr' in \<open>auto simp: run_on_def intro: that(1)\<close>)
      qed (use Inr Inr' in \<open>auto simp: run_on_def intro: that(1)\<close>)
    qed (use Inr in \<open>auto simp: run_on_def intro: that(1)\<close>)
  qed (auto simp: run_on_def intro: that(1))
  then show ?thesis
  proof cases
    case err
    then show ?thesis using assms by auto
  next
    case (go ins)
    have "CreateInstance ins n db = (res, db')" using assms go(1) by simp
    then have c: "(case insert_instance (new_row k v n now u by_whom) db of None \<Rightarrow> (Inl ErrDatabase, db)
      | Some db' \<Rightarrow> (case getInstanceByID k db' of Inl e \<Rightarrow> (Inl e, db) | Inr i \<Rightarrow> (Inr i, db'))) = (res, db')"
      unfolding CreateInstance_def go(2-8) new_row_def .
    show ?thesis
    proof (cases "insert_instance (new_row k v n now u by_whom) db")
      case None
      then show ?thesis using c by auto
    next
      case (Some db1)
      then show ?thesis using c by (cases "getInstanceByID k db1"; simp; metis)
    qed
  qed
qed

lemma run_on_counts:
  assumes "run_on n k now v u by_whom db = (Inr i, db')"
  shows "nodes db' = nodes db" "instance_count db' m = instance_count db m + (if m = n then 1 else 0)" "db_ok db \<Longrightarrow> db_ok db'"
    "row_of db' = (row_of db)(k \<mapsto> new_row k v n now u by_whom)"
proof -
  have i: "insert_instance (new_row k v n now u by_whom) db = Some db'" using run_on_result [OF assms] by auto
  then have db': "db' = db\<lparr>instances := instances db @ [new_row k v n now u by_whom]\<rparr>" "\<not> has row_id (instances db) k"
    by (auto simp: insert_Some new_row_def)
  show "nodes db' = nodes db" "instance_count db' m = instance_count db m + (if m = n then 1 else 0)"
    by (auto simp: db'(1) instance_count_def new_row_def)
  show "db_ok db \<Longrightarrow> db_ok db'" using insert_ok(4) [OF _ i] .
  have "row_of db' k' = ((row_of db)(k \<mapsto> new_row k v n now u by_whom)) k'" for k'
    using db'(2) by (auto simp: db'(1) row_of_def look_append look_has new_row_def split: option.split)
  then show "row_of db' = (row_of db)(k \<mapsto> new_row k v n now u by_whom)" by blast
qed

lemma FlavorByID_versions:
  assumes "look fl_id (flavors db) f = Some fr" "v \<in> set (versions db)" "ve_flavor v = f"
  obtains fl where "FlavorByID f db = Inr fl" "f_DeletedAt fl = fl_deleted fr" "\<exists>w \<in> set (f_Versions fl). v_ID w = ve_id v"
proof -
  have "v \<in> set (flavor_versions db f)" using assms(2,3) by (simp add: flavor_versions_def)
  then show thesis using assms(1) by (intro that) (auto simp: FlavorByID_def Let_def version_domain_def)
qed

text \<open>Which requests give an instance.\<close>

definition can_run :: "cp_db \<Rightarrow> string option \<Rightarrow> string \<Rightarrow> string \<Rightarrow> bool" where
  "can_run db pick v u \<longleftrightarrow> (\<exists>n. BestNode pick db = Inr n) \<and> has u_ID (users db) u \<and>
     (case look ve_id (versions db) v of None \<Rightarrow> False
      | Some vr \<Rightarrow> (case look fl_id (flavors db) (ve_flavor vr) of None \<Rightarrow> False | Some f \<Rightarrow> fl_deleted f = None))"

lemma run_on_runs:
  assumes db: "db_ok db" and k: "\<not> has row_id (instances db) k" and n: "has nd_id (nodes db) n"
  shows "(\<exists>i db'. run_on n k now v u by_whom db = (Inr i, db')) \<longleftrightarrow>
    (\<exists>vr f. look ve_id (versions db) v = Some vr \<and> look fl_id (flavors db) (ve_flavor vr) = Some f \<and> fl_deleted f = None) \<and> has u_ID (users db) u"
proof (cases "look ve_id (versions db) v")
  case None
  then show ?thesis by (simp add: run_on_def FlavorIDByFlavorVersionID_def)
next
  case (Some vr)
  then have vr: "vr \<in> set (versions db)" "ve_id vr = v" using look_Some by metis+
  obtain f where f: "look fl_id (flavors db) (ve_flavor vr) = Some f" using has_look [OF db_okD(4) [OF db vr(1)]] by blast
  obtain fl where fl: "FlavorByID (ve_flavor vr) db = Inr fl" "f_DeletedAt fl = fl_deleted f" "\<exists>w \<in> set (f_Versions fl). v_ID w = v"
    using FlavorByID_versions [OF f vr(1) refl] vr(2) by metis
  obtain w where w: "find (\<lambda>x. v_ID x = v) (f_Versions fl) = Some w" "v_ID w = v"
    using fl(3) by (metis (mono_tags, lifting) find_None_iff find_Some_iff option.exhaust)
  show ?thesis
  proof (cases "fl_deleted f = None \<and> has u_ID (users db) u")
    case False
    then show ?thesis using Some f fl w n k vr
      by (auto simp: run_on_def FlavorIDByFlavorVersionID_def CreateInstance_def insert_instance_def zero_user_def)
  next
    case True
    let ?r = "new_row k v n now u by_whom" and ?db = "db\<lparr>instances := instances db @ [new_row k v n now u by_whom]\<rparr>"
    have i: "insert_instance ?r db = Some ?db" using True k n vr unfolding insert_Some by (auto simp: new_row_def has_iff)
    have "row_of ?db k = Some ?r" using k by (simp add: row_of_def look_append look_has new_row_def)
    then obtain j where "GetInstance_rows k ?db = [j]" using rows_one [OF insert_ok(4) [OF db i]] by metis
    then have "\<exists>x. getInstanceByID k ?db = Inr x" by (simp add: getInstanceByID_def)
    then show ?thesis using Some f fl w True i
      by (auto simp: run_on_def FlavorIDByFlavorVersionID_def CreateInstance_def zero_user_def new_row_def split: sum.splits)
  qed
qed

lemma best_node_slots:
  assumes "best_node db (Some n)" "distinct (map nd_id (nodes db))" "m \<in> set (nodes db)" "nd_id m = n"
  shows "instance_count db n < nd_slots m"
proof -
  obtain m' where "m' \<in> set (nodes db)" "nd_id m' = n" "instance_count db n < nd_slots m'"
    using assms(1) by (auto simp: best_node_def Let_def list_ex_iff)
  moreover have "m' = m" using calculation assms(2-4) by (auto simp: distinct_map inj_on_def)
  ultimately show ?thesis by simp
qed

subsection \<open>Placing instances\<close>

definition pending :: "placement \<Rightarrow> string \<Rightarrow> nat" where
  "pending s n = card {q. p_chosen s q = Some n}"

definition placed_within :: "nat \<Rightarrow> placement \<Rightarrow> bool" where
  "placed_within m s \<longleftrightarrow> finite (dom (p_chosen s)) \<and> (\<forall>n \<in> set (nodes (p_db s)).
     instance_count (p_db s) (nd_id n) + pending s (nd_id n) \<le> nd_slots n + (m - 1))"

lemma pending_upd:
  assumes "finite (dom (p_chosen s))"
  shows "p_chosen s q = None \<Longrightarrow> pending (s\<lparr>p_chosen := (p_chosen s)(q \<mapsto> m)\<rparr>) n = pending s n + (if n = m then 1 else 0)"
    and "p_chosen s q = Some m \<Longrightarrow> pending (s\<lparr>p_chosen := (p_chosen s)(q := None)\<rparr>) n = pending s n - (if n = m then 1 else 0)"
proof -
  have fin: "finite {x. p_chosen s x = Some n}" using assms by (rule rev_finite_subset) auto
  assume "p_chosen s q = None"
  then have "{x. ((p_chosen s)(q \<mapsto> m)) x = Some n} = (if n = m then insert q {x. p_chosen s x = Some n} else {x. p_chosen s x = Some n})"
    "q \<notin> {x. p_chosen s x = Some n}" by auto
  then show "pending (s\<lparr>p_chosen := (p_chosen s)(q \<mapsto> m)\<rparr>) n = pending s n + (if n = m then 1 else 0)"
    using fin by (cases "n = m") (simp_all add: pending_def)
next
  assume "p_chosen s q = Some m"
  then have "{x. ((p_chosen s)(q := None)) x = Some n} = {x. p_chosen s x = Some n} - (if n = m then {q} else {})"
    "n = m \<Longrightarrow> q \<in> {x. p_chosen s x = Some n}" by auto
  then show "pending (s\<lparr>p_chosen := (p_chosen s)(q := None)\<rparr>) n = pending s n - (if n = m then 1 else 0)"
    by (auto simp: pending_def card_Diff_singleton)
qed

lemma pending_le: "finite (dom (p_chosen s)) \<Longrightarrow> pending s n \<le> card (dom (p_chosen s))"
  unfolding pending_def by (rule card_mono) auto

lemma pending_pos: "finite (dom (p_chosen s)) \<Longrightarrow> p_chosen s q = Some n \<Longrightarrow> 0 < pending s n"
  unfolding pending_def by (rule card_gt_0_iff [THEN iffD2]) (auto intro: rev_finite_subset)

lemma place_step_nodes: "place_step s s' \<Longrightarrow> nodes (p_db s') = nodes (p_db s)"
  by (erule place_step.cases) (auto simp: run_on_counts Apply_keeps(2))

lemma placed_mono:
  assumes "placed_within m s" "finite (dom (p_chosen s'))" "nodes (p_db s') = nodes (p_db s)"
    "\<And>i. instance_count (p_db s') i + pending s' i \<le> instance_count (p_db s) i + pending s i"
  shows "placed_within m s'"
  using assms(1,2) order_trans [OF assms(4)] unfolding placed_within_def assms(3) by simp

lemma place_step_within:
  assumes "place_step s s'" "placed_within m s" "card (dom (p_chosen s')) \<le> m" "distinct (map nd_id (nodes (p_db s)))"
  shows "placed_within m s'"
  using assms(1)
proof cases
  case (choose q n)
  have f: "finite (dom (p_chosen s))" using assms(2) by (simp add: placed_within_def)
  show ?thesis unfolding placed_within_def
  proof (intro conjI ballI)
    show "finite (dom (p_chosen s'))" using f choose by simp
    fix k assume k: "k \<in> set (nodes (p_db s'))"
    show "instance_count (p_db s') (nd_id k) + pending s' (nd_id k) \<le> nd_slots k + (m - 1)"
    proof (cases "nd_id k = n")
      case True
      then have "instance_count (p_db s) n < nd_slots k" using best_node_slots [OF choose(3) assms(4)] k choose(1) by simp
      moreover have "pending s' n \<le> m" using pending_le [of s' n] f choose assms(3) by simp
      ultimately show ?thesis using choose True by simp
    next
      case False
      then show ?thesis using assms(2) k choose pending_upd(1) [OF f choose(2), of n "nd_id k"] by (simp add: placed_within_def)
    qed
  qed
next
  case (insert q n k now v u by_whom ins db)
  have f: "finite (dom (p_chosen s))" using assms(2) by (simp add: placed_within_def)
  have "instance_count (p_db s') i + pending s' i = instance_count (p_db s) i + pending s i" for i
    using insert(1) run_on_counts(2) [OF insert(3), of i] pending_upd(2) [OF f insert(2), of i] pending_pos [OF f insert(2)]
    by (auto simp: pending_def)
  then show ?thesis using insert(1) f run_on_counts(1) [OF insert(3)] by (intro placed_mono [OF assms(2)]) auto
next
  case (give_up q n)
  have f: "finite (dom (p_chosen s))" using assms(2) by (simp add: placed_within_def)
  have "pending s' i \<le> pending s i" for i using give_up(1) pending_upd(2) [OF f give_up(2), of i] by simp
  then show ?thesis using give_up(1) f by (intro placed_mono [OF assms(2)]) auto
next
  case (report uuid now faults rs b db)
  then show ?thesis using assms(2) Apply_keeps(2,3) [OF report(2)]
    by (intro placed_mono [OF assms(2)]) (auto simp: pending_def placed_within_def)
next
  case (other db)
  then show ?thesis using assms(2) by (simp add: placed_within_def pending_def instance_count_def)
qed

lemma place_steps_within:
  "place_steps m s s' \<Longrightarrow> placed_within m s \<Longrightarrow> distinct (map nd_id (nodes (p_db s))) \<Longrightarrow> placed_within m s' \<and> nodes (p_db s') = nodes (p_db s)"
proof (induction rule: place_steps.induct)
  case (more s s' s'')
  then show ?case using place_step_within place_step_nodes by metis
qed simp

lemma place_step_conv:
  "f q = None \<Longrightarrow> best_node db (Some n) \<Longrightarrow> place_step \<lparr>p_db = db, p_chosen = f\<rparr> \<lparr>p_db = db, p_chosen = f(q \<mapsto> n)\<rparr>"
  "f q = Some n \<Longrightarrow> run_on n k now v u by_whom db = (Inr ins, db') \<Longrightarrow>
    place_step \<lparr>p_db = db, p_chosen = f\<rparr> \<lparr>p_db = db', p_chosen = f(q := None)\<rparr>"
  using place_step.choose [of "\<lparr>p_db = db, p_chosen = f\<rparr>" q n] place_step.insert [of "\<lparr>p_db = db, p_chosen = f\<rparr>" q n k now v u by_whom ins db']
  by simp_all

lemma sample_placed_ok: "distinct ks \<Longrightarrow> db_ok (sample_placed st ks)"
  by (auto simp: sample_placed_def sample_row_def o_def db_ok_defs sample_cp_def sample_chunk_def sample_flavor_def sample_version_def)

lemma sample_placed_sel [simp]: "instances (sample_placed st ks) = map (sample_row st) ks" "nodes (sample_placed st ks) = nodes sample_cp"
  "map row_id (map (sample_row st) ks) = ks" "instance_count (sample_placed st ks) ''node'' = length ks"
  by (simp_all add: sample_placed_def o_def sample_row_def instance_count_def)

lemma sample_best: "length ks < 1 \<Longrightarrow> best_node (sample_placed st ks) (Some ''node'')"
  by (simp add: best_node_def Let_def sample_placed_def sample_cp_def instance_count_def)

text \<open>Two requests put two instances on one slot.\<close>

lemma sample_run:
  assumes "k \<notin> set ks" "distinct ks"
  shows "\<exists>i. run_on ''node'' k 1 ''v'' ''u'' ''o'' (sample_placed ''PENDING'' ks) = (Inr i, sample_placed ''PENDING'' (ks @ [k]))"
proof -
  let ?db = "sample_placed ''PENDING'' ks"
  have "\<exists>i db'. run_on ''node'' k 1 ''v'' ''u'' ''o'' ?db = (Inr i, db')"
  proof (subst run_on_runs)
    show "db_ok ?db" using assms(2) by (rule sample_placed_ok)
    show "\<not> has row_id (instances ?db) k" using assms(1) by (auto simp: has_iff sample_row_def)
  qed (simp_all add: sample_placed_def sample_cp_def sample_version_def sample_flavor_def)
  then obtain i db' where r: "run_on ''node'' k 1 ''v'' ''u'' ''o'' ?db = (Inr i, db')" by blast
  then have "insert_instance (new_row k ''v'' ''node'' 1 ''u'' ''o'') ?db = Some db'" using run_on_result by force
  then have "db' = sample_placed ''PENDING'' (ks @ [k])" by (simp add: insert_Some sample_placed_def new_row_def sample_row_def)
  with r show ?thesis by blast
qed

section \<open>Properties\<close>



text \<open>
  C29. Listing page by page gives every instance exactly once, in the order of the identifiers, with any
  allowed page size: a client that follows the tokens gets all of the table and then an empty token. The
  number of requests is at most the number of instances and one. Each is what asking for it gives except
  that its port is always missing.
\<close>

theorem pages_complete:
  assumes "db_ok db" "\<forall>k \<in> set (map row_id (instances db)). k \<noteq> [] \<and> uuid7 k" "unat psize \<le> MaxPageSize"
    and "length (instances db) < n"
  shows "\<exists>is. all_pages n (\<lambda>token. srv_ListInstances uuid7 psize token db) [] = Some is \<and> map Id is = sort (map row_id (instances db)) \<and>
    (\<forall>i \<in> set is. \<exists>j. srv_GetInstance (Id i) db = Inr j \<and> i = j\<lparr>InsPort := 0\<rparr>)"
proof (intro exI conjI)
  let ?f = "\<lambda>k. InstanceToTransport (rows_instance (GetInstance_rows k db))" and ?ids = "sort (map row_id (instances db))"
  show "all_pages n (\<lambda>token. srv_ListInstances uuid7 psize token db) [] = Some (map ?f ?ids)"
    using ins_pages.pages_all [of db uuid7 psize n InstanceToTransport] assms by (simp add: srv_ListInstances_def [abs_def] o_def)
  have l: "\<exists>j. srv_GetInstance k db = Inr j \<and> Id j = k \<and> ?f k = j\<lparr>InsPort := 0\<rparr>" if "k \<in> set ?ids" for k
    using listed_instance [OF assms(1)] that by simp
  have "Id (?f k) = k" if "k \<in> set ?ids" for k using l [OF that] by auto
  then show "map Id (map ?f ?ids) = ?ids" unfolding map_map by (intro map_idI) simp
  show "\<forall>i \<in> set (map ?f ?ids). \<exists>j. srv_GetInstance (Id i) db = Inr j \<and> i = j\<lparr>InsPort := 0\<rparr>" using l by fastforce
qed

theorem pages_complete_witness:
  "\<exists>is. all_pages 4 (\<lambda>token. srv_ListInstances (\<lambda>k. length k = 2) 1 token (sample_placed ''PENDING'' [''i3'', ''i1'', ''i2''])) [] = Some is \<and>
     map Id is = sort [''i3'', ''i1'', ''i2'']"
  using pages_complete [OF sample_placed_ok, of "[''i3'', ''i1'', ''i2'']" "''PENDING''" "\<lambda>k. length k = 2" 1 4]
  by (auto simp: MaxPageSize_def sample_row_def)

text \<open>
  C30. A node gets at most its slots and one instance less than there are requests at a time, with reports
  and requests in any order: choosing a node and inserting the instance are two queries, so only a single
  request at a time keeps to the slots. The bound is tight: two requests put two instances on one slot.
\<close>

theorem slots_bounded:
  assumes "place_steps m s s'" "dom (p_chosen s) = {}" "n \<in> set (nodes (p_db s))" "distinct (map nd_id (nodes (p_db s)))"
    and "\<And>n. n \<in> set (nodes (p_db s)) \<Longrightarrow> instance_count (p_db s) (nd_id n) \<le> nd_slots n"
  shows "instance_count (p_db s') (nd_id n) \<le> nd_slots n + (m - 1)"
proof -
  have "placed_within m s" using assms(2,5) by (auto simp: placed_within_def pending_def intro: trans_le_add1)
  from place_steps_within [OF assms(1) this assms(4)] assms(3) show ?thesis
    unfolding placed_within_def by (metis add_leD1)
qed

theorem slots_bounded_witness:
  "\<exists>s'. place_steps 2 \<lparr>p_db = sample_cp, p_chosen = Map.empty\<rparr> s' \<and> instance_count (p_db s') ''node'' = 2 \<and>
     instance_count (p_db s') ''node'' \<le> 1 + (2 - 1)"
proof -
  let ?s = "\<lparr>p_db = sample_cp, p_chosen = Map.empty\<rparr>" and ?db = "sample_placed ''PENDING''"
  have s: "sample_cp = ?db []" by (simp add: sample_placed_def sample_cp_def)
  have b: "best_node sample_cp (Some ''node'')" using sample_best [of "[]" "''PENDING''"] s by simp
  obtain i1 i2 where c: "run_on ''node'' ''i1'' 1 ''v'' ''u'' ''o'' sample_cp = (Inr i1, ?db [''i1''])"
    "run_on ''node'' ''i2'' 1 ''v'' ''u'' ''o'' (?db [''i1'']) = (Inr i2, ?db [''i1'', ''i2''])"
    using sample_run [of "''i1''" "[]"] sample_run [of "''i2''" "[''i1'']"] s by auto
  let ?f = "(Map.empty :: nat \<rightharpoonup> string)(0 \<mapsto> ''node'')"
  have d: "dom (?f(1 \<mapsto> ''node'')) = {0, 1}" "?f(1 \<mapsto> ''node'', 1 := None) = ?f" "?f(0 := None) = Map.empty" by auto
  have 1: "place_steps 2 ?s \<lparr>p_db = sample_cp, p_chosen = ?f\<rparr>"
    by (rule place_steps.more [OF place_steps.none]) (simp_all add: place_step_conv(1) b)
  have 2: "place_steps 2 ?s \<lparr>p_db = sample_cp, p_chosen = ?f(1 \<mapsto> ''node'')\<rparr>"
    by (rule place_steps.more [OF 1]) (use d(1) in \<open>simp_all add: place_step_conv(1) b\<close>)
  have 3: "place_steps 2 ?s \<lparr>p_db = ?db [''i1''], p_chosen = ?f\<rparr>"
    by (rule place_steps.more [OF 2]) (use place_step_conv(2) [OF _ c(1), of "?f(1 \<mapsto> ''node'')" 1] d(2) in simp_all)
  have 4: "place_steps 2 ?s \<lparr>p_db = ?db [''i1'', ''i2''], p_chosen = Map.empty\<rparr>"
    by (rule place_steps.more [OF 3]) (use place_step_conv(2) [OF _ c(2), of ?f 0] d(3) in simp_all)
  have "instance_count (?db [''i1'', ''i2'']) ''node'' \<le> 1 + (2 - 1)"
    using slots_bounded [OF 4] by (auto simp: sample_cp_def instance_count_def)
  then show ?thesis using 4 by (intro exI [of _ "\<lparr>p_db = ?db [''i1'', ''i2''], p_chosen = Map.empty\<rparr>"]) simp
qed

end
