(* ===== verification/Cluster.thy ===== *)
theory Cluster
  imports Control_Plane Workload_Pods
begin

text \<open>
  A node and the control plane together: the sync of the reconciler against the instance table, through the
  two RPCs \<^verbatim>\<open>DiscoverInstances\<close> and \<^verbatim>\<open>ReceiveInstanceStatusReports\<close>. The world of the reconciler is that of
  the workload service and the database of the control plane.
\<close>

section \<open>The control plane as a service of the node\<close>

definition node_services ::
  "('s, 'w) services \<Rightarrow> (string \<Rightarrow> bool) \<Rightarrow> nat \<Rightarrow> batch_fault \<times> batch_fault \<Rightarrow> ('s, 'w \<times> cp_db) services" where
  "node_services V uuid now faults =
     \<lparr>RunWorkload = (\<lambda>wl n s (w, db). apsnd (\<lambda>w. (w, db)) (RunWorkload V wl n s w)),
      RemoveWorkload = (\<lambda>k s (w, db). apsnd (\<lambda>w. (w, db)) (RemoveWorkload V k s w)),
      GetWorkloadHealth = (\<lambda>k (w, db). apsnd (\<lambda>w. (w, db)) (GetWorkloadHealth V k w)),
      DiscoverInstances = (\<lambda>n (w, db). (case srv_DiscoverInstances n db of Inl _ \<Rightarrow> None | Inr inss \<Rightarrow> Some inss, w, db)),
      ReceiveReports = (\<lambda>rs (w, db). apsnd (\<lambda>db. (w, db)) (srv_ReceiveReports uuid now faults rs db))\<rparr>"

lemma node_services_sel:
  "RemoveWorkload (node_services V uuid now faults) k s (w, db) = apsnd (\<lambda>w. (w, db)) (RemoveWorkload V k s w)"
  "DiscoverInstances (node_services V uuid now faults) n (w, db) =
     (case srv_DiscoverInstances n db of Inl _ \<Rightarrow> None | Inr inss \<Rightarrow> Some inss, w, db)"
  "ReceiveReports (node_services V uuid now faults) rs (w, db) = apsnd (\<lambda>db. (w, db)) (srv_ReceiveReports uuid now faults rs db)"
  by (simp_all add: node_services_def)

lemma node_services_db:
  "snd (snd (RunWorkload (node_services V uuid now faults) wl n s x)) = snd x"
  "snd (snd (RemoveWorkload (node_services V uuid now faults) k s x)) = snd x"
  "snd (snd (GetWorkloadHealth (node_services V uuid now faults) k x)) = snd x"
  by (cases x; simp add: node_services_def)+

text \<open>Syncs one after the other, at the given times.\<close>

fun syncs ::
  "reconcilerConfig \<Rightarrow> 's store_ops \<Rightarrow> (int \<Rightarrow> 'r \<Rightarrow> int \<times> 'r) \<Rightarrow> (nat \<Rightarrow> ('s, 'w \<times> cp_db) services) \<Rightarrow>
   ((string \<rightharpoonup> (WorkloadStatus option \<times> CheckpointStatus option)) \<Rightarrow> string list) \<Rightarrow> nat list \<Rightarrow>
   ('s, 'r, 'w \<times> cp_db) reconciler \<Rightarrow> ('s, 'r, 'w \<times> cp_db) reconciler option" where
  "syncs cfg S IntN V order [] r = Some r"
| "syncs cfg S IntN V order (now # nows) r = Option.bind (tick cfg S IntN (V now) order order r) (syncs cfg S IntN V order nows)"

text \<open>The identifiers of the statuses and of the rows are UUIDs.\<close>

definition ids_ok ::
  "(string \<Rightarrow> bool) \<Rightarrow> ('s \<Rightarrow> string \<Rightarrow> WorkloadStatus option) \<Rightarrow> ('s, 'r, 'w \<times> cp_db) reconciler \<Rightarrow> bool" where
  "ids_ok uuid wl r \<longleftrightarrow> (\<forall>k. wl (store r) k \<noteq> None \<longrightarrow> uuid k) \<and> (\<forall>row \<in> set (instances (snd (world r))). uuid (row_id row))"

text \<open>A node with one instance placed on it.\<close>

definition sample_node :: "string \<Rightarrow> (MemStore, int list, nat \<times> cp_db) reconciler" where
  "sample_node st = \<lparr>store = store sample_rec, portAlloc = portAlloc sample_rec, rand = rand sample_rec,
     attempts = attempts sample_rec, world = (0, sample_placed st [''i''])\<rparr>"

section \<open>What a handler leaves alone\<close>

context reconciler_env
begin

text \<open>
  What one reconciliation keeps: statuses of other instances, statuses of checkpoints, and any part \<open>f\<close> of the
  world the service calls keep.
\<close>

definition keeps :: "('w \<Rightarrow> 'x) \<Rightarrow> string \<Rightarrow> ('s, 'r, 'w) reconciler \<Rightarrow> ('s, 'r, 'w) reconciler \<Rightarrow> bool" where
  "keeps f k r r' \<longleftrightarrow> ok (store r') \<and> cp (store r') = cp (store r) \<and> (\<forall>i. i \<noteq> k \<longrightarrow> wl (store r') i = wl (store r) i) \<and>
     (\<forall>i. i \<noteq> k \<longrightarrow> attempts r' i = attempts r i) \<and> f (world r') = f (world r)"

definition services_keep :: "('w \<Rightarrow> 'x) \<Rightarrow> ('s, 'w) services \<Rightarrow> bool" where
  "services_keep f V \<longleftrightarrow> (\<forall>wl n s w. f (snd (RunWorkload V wl n s w)) = f w) \<and> (\<forall>k s w. f (snd (RemoveWorkload V k s w)) = f w) \<and>
     (\<forall>k w. f (snd (GetWorkloadHealth V k w)) = f w)"

lemma services_keepD:
  "services_keep f V \<Longrightarrow> RunWorkload V wl' n s w = (e, w') \<Longrightarrow> f w' = f w"
  "services_keep f V \<Longrightarrow> RemoveWorkload V k s w = (e, w') \<Longrightarrow> f w' = f w"
  "services_keep f V \<Longrightarrow> GetWorkloadHealth V k w = (h, w') \<Longrightarrow> f w' = f w"
  unfolding services_keep_def by (metis snd_conv)+

lemma keeps_refl: "ok (store r) \<Longrightarrow> keeps f k r r"
  by (simp add: keeps_def)

lemma keeps_trans [trans]: "keeps f k r r1 \<Longrightarrow> keeps f k r1 r2 \<Longrightarrow> keeps f k r r2"
  by (simp add: keeps_def)

lemma keeps_world [simp]: "keeps f k r (r'\<lparr>world := w\<rparr>) \<longleftrightarrow> ok (store r') \<and> cp (store r') = cp (store r) \<and>
    (\<forall>i. i \<noteq> k \<longrightarrow> wl (store r') i = wl (store r) i) \<and> (\<forall>i. i \<noteq> k \<longrightarrow> attempts r' i = attempts r i) \<and> f w = f (world r)"
  by (simp add: keeps_def)

lemma upd_frame:
  assumes "ok s" "upd_wl S k w s = Some s'"
  shows "ok s' \<and> cp s' = cp s \<and> (\<forall>i. i \<noteq> k \<longrightarrow> wl s' i = wl s i)"
  using assms upd_wl_ok [of s k w] upd_panic(1) [of s k w] by (cases "cp s k") auto

lemma keeps_set: "ok (store r) \<Longrightarrow> set_state S k x r = Some r' \<Longrightarrow> keeps f k r r'"
  "ok (store r) \<Longrightarrow> set_port S k p r = Some r' \<Longrightarrow> keeps f k r r'"
  using upd_frame by (auto simp: set_state_def set_port_def keeps_def)

lemma keeps_okD: "keeps f k r r' \<Longrightarrow> ok (store r')"
  by (simp add: keeps_def)

lemma run_keeps:
  assumes "services_keep f V" "ok (store r)" "run_and_record cfg S V ins p n r = Some (e, r')"
  shows "keeps f (Id ins) r r'"
proof -
  obtain x w where R: "RunWorkload V (instance_workload cfg ins p) n (store r) (world r) = (x, w)" by (rule prod.exhaust)
  note w = services_keepD(1) [OF assms(1) R]
  show ?thesis
  proof (cases x)
    case None
    then have "set_state S (Id ins) WorkloadStateRunning (r\<lparr>world := w\<rparr>) = Some r'"
      using assms(3) R by (auto simp: run_and_record_def bind_eq_Some_conv)
    from keeps_set(1) [OF _ this, of f] show ?thesis using assms(2) w by (simp add: keeps_def)
  next
    case (Some y)
    then show ?thesis using assms R w services_keepD(2) [OF assms(1)]
      by (auto simp: run_and_record_def Let_def keeps_def split: prod.splits)
  qed
qed

lemma creation_keeps:
  assumes V: "services_keep f V" and r: "ok (store r)" and h: "handleInstanceCreation cfg S IntN V ins r = Some (e, r')"
  shows "keeps f (Id ins) r r'"
proof -
  let ?k = "Id ins"
  consider (max) "set_state S ?k WorkloadStateCreationFailed r = Some r'" | (skip) "r' = r"
  | (go) r1 where "set_state S ?k WorkloadStateCreating r = Some r1"
      "(case Allocate IntN (portAlloc r1) (rand r1) of
         (Inl IntNPanic, _) \<Rightarrow> None
       | (Inl ErrMaxPortTriesReached, a, g) \<Rightarrow> Some (Some ErrAllocatePort, r1\<lparr>portAlloc := a, rand := g\<rparr>)
       | (Inr port, a, g) \<Rightarrow> Option.bind (set_port S ?k port (r1\<lparr>portAlloc := a, rand := g\<rparr>))
           (run_and_record cfg S V ins port (attempts r ?k + 1))) = Some (e, r')"
    using h by (auto simp: handleInstanceCreation_def Let_def bind_eq_Some_conv split: if_splits)
  then show ?thesis
  proof cases
    case max
    then show ?thesis by (rule keeps_set(1) [OF r])
  next
    case skip
    then show ?thesis using keeps_refl r by simp
  next
    case (go r1)
    have 1: "keeps f ?k r r1" by (rule keeps_set(1) [OF r go(1)])
    obtain res a g where A: "Allocate IntN (portAlloc r1) (rand r1) = (res, a, g)" by (metis prod_cases3)
    show ?thesis
    proof (cases res)
      case (Inl x)
      then show ?thesis using go(2) A 1 by (cases x) (auto simp: keeps_def)
    next
      case (Inr port)
      with go(2) A obtain r2 where r2: "set_port S ?k port (r1\<lparr>portAlloc := a, rand := g\<rparr>) = Some r2"
        "run_and_record cfg S V ins port (attempts r ?k + 1) r2 = Some (e, r')" by (auto simp: bind_eq_Some_conv)
      have "keeps f ?k (r1\<lparr>portAlloc := a, rand := g\<rparr>) r2" using keeps_okD [OF 1] by (intro keeps_set(2) [OF _ r2(1)]) simp
      then have 2: "keeps f ?k r1 r2" by (simp add: keeps_def)
      from 1 2 run_keeps [OF V keeps_okD [OF 2] r2(2)] show ?thesis using keeps_trans by blast
    qed
  qed
qed

lemma remove_keeps:
  assumes V: "services_keep f V" and r: "ok (store r)" and h: "remove_and_record S V k r = Some (e, r')"
  shows "keeps f k r r'"
proof -
  obtain x w where R: "RemoveWorkload V k (store r) (world r) = (x, w)" by (rule prod.exhaust)
  note w = services_keepD(2) [OF V R]
  have "keeps f k r r'" if "set_state S k WorkloadStateDeleted (r\<lparr>world := w\<rparr>) = Some r'"
    using keeps_set(1) [OF _ that, of f] r w by (simp add: keeps_def)
  then show ?thesis using h R w r
    by (auto simp: remove_and_record_def bind_eq_Some_conv keeps_def split: option.splits if_splits)
qed

lemma reconcile_keeps:
  assumes V: "services_keep f V" and r: "ok (store r)" and h: "reconcile cfg S IntN V ins r = Some r'"
  shows "keeps f (Id ins) r r'"
proof (cases "State ins = PENDING \<or> State ins = CREATING")
  case True
  then obtain e r1 where c: "handleInstanceCreation cfg S IntN V ins r = Some (e, r1)"
    and r': "r' = (if e = None \<or> e = Some ErrMaxAttemptsReached then r1
        else r1\<lparr>attempts := (attempts r1)(Id ins := attempts r1 (Id ins) + 1)\<rparr>)"
    using h unfolding reconcile_creation [OF True] map_option_eq_Some by auto
  show ?thesis using creation_keeps [OF V r c] by (auto simp: r' keeps_def)
next
  case False
  have st: "keeps f k r r''" if "set_state S k x (r\<lparr>world := w\<rparr>) = Some r''" "f w = f (world r)" for k x w r''
    using keeps_set(1) [OF _ that(1), of f] r that(2) by (simp add: keeps_def)
  have rm: "keeps f k r r''" if "remove_and_record S V k (r\<lparr>world := w\<rparr>) = Some (e, r'')" "f w = f (world r)" for k w e r''
    using remove_keeps [OF V _ that(1)] r that(2) by (simp add: keeps_def)
  have same: "keeps f (Id ins) r (r\<lparr>world := w\<rparr>)" if "f w = f (world r)" for w using r that by simp
  show ?thesis using h False keeps_refl [OF r] remove_keeps [OF V r] services_keepD(2,3) [OF V]
    by (auto simp: reconcile_def Let_def handleInstanceDeleting_def handleInstanceRunning_def
        intro: rm st same split: if_splits prod.splits sum.splits option.splits simp del: keeps_world)
qed

text \<open>A reconciliation panics only where the key is that of a checkpoint.\<close>

lemma set_state_total: "ok (store r) \<Longrightarrow> cp (store r) k = None \<Longrightarrow> \<exists>r'. set_state S k x r = Some r'"
  using set_state_ok by metis

lemma remove_total:
  assumes "ok (store r)" "cp (store r) k = None"
  shows "\<exists>x. remove_and_record S V k r = Some x"
proof -
  obtain e w where R: "RemoveWorkload V k (store r) (world r) = (e, w)" by (rule prod.exhaust)
  obtain r' where "set_state S k WorkloadStateDeleted (r\<lparr>world := w\<rparr>) = Some r'"
    using set_state_total [of "r\<lparr>world := w\<rparr>" k] assms by auto
  then show ?thesis using R by (simp add: remove_and_record_def split: option.splits)
qed

lemma creation_total:
  assumes r: "rec_ok ok r" and c: "cp (store r) (Id ins) = None"
  shows "\<exists>x. handleInstanceCreation cfg S IntN V ins r = Some x"
proof (cases "attempts r (Id ins) < 5 \<and> due (wl (store r) (Id ins))")
  case True
  then have "attempts r (Id ins) < 5" "due (wl (store r) (Id ins))" by simp_all
  with r c show ?thesis by (cases rule: creation_cases [where cfg = cfg and V = V]) blast+
next
  case False
  have "(case get S (Id ins) (store r) of Some (Some w, _) \<Rightarrow> WState w \<noteq> WorkloadStateCreating | _ \<Rightarrow> False) =
      (\<not> due (wl (store r) (Id ins)))"
    using r by (simp add: get_parts rec_ok_def due_def split: option.split)
  then show ?thesis using False set_state_total [of r "Id ins" WorkloadStateCreationFailed] r c
    by (auto simp: handleInstanceCreation_def Let_def rec_ok_def)
qed

lemma reconcile_total:
  assumes r: "rec_ok ok r" and c: "cp (store r) (Id ins) = None"
  shows "\<exists>r'. reconcile cfg S IntN V ins r = Some r'"
proof (cases "State ins = PENDING \<or> State ins = CREATING")
  case True
  then show ?thesis using creation_total [OF r c, of cfg V] by (auto simp: reconcile_creation)
next
  case False
  have o: "ok (store r)" using r by (simp add: rec_ok_def)
  have w: "remove_and_record S V (Id ins) (r\<lparr>world := w\<rparr>) \<noteq> None" "set_state S (Id ins) x (r\<lparr>world := w\<rparr>) \<noteq> None" for w x
    using remove_total [of "r\<lparr>world := w\<rparr>" "Id ins" V] set_state_total [of "r\<lparr>world := w\<rparr>" "Id ins" x] o c by auto
  have "reconcile cfg S IntN V ins r \<noteq> None" using False w w(1) [of "world r"]
    by (simp add: reconcile_def Let_def handleInstanceDeleting_def handleInstanceRunning_def
        split: prod.splits sum.splits option.splits del: not_None_eq)
  then show ?thesis by blast
qed

text \<open>All instances of a sync.\<close>

lemma reconcile_all_result:
  assumes "services_keep f V" "rec_ok ok r" "\<forall>k. cp (store r) k = None"
  obtains r' where "reconcile_all cfg S IntN V inss r = Some r'" "rec_ok ok r'" "\<forall>k. cp (store r') k = None"
    "f (world r') = f (world r)"
    "\<And>k. k \<notin> Id ` set inss \<Longrightarrow> wl (store r') k = wl (store r) k \<and> attempts r' k = attempts r k"
  using assms(2,3)
proof (induction inss arbitrary: r thesis)
  case (Cons ins inss)
  obtain r1 where r1: "reconcile cfg S IntN V ins r = Some r1" using reconcile_total Cons.prems(2,3) by metis
  have k: "keeps f (Id ins) r r1" using reconcile_keeps [OF assms(1) _ r1] Cons.prems(2) by (simp add: rec_ok_def)
  have "rec_ok ok r1" using reconcile_inv [OF Cons.prems(2) r1] by (simp add: rec_step_ok_def)
  moreover have "\<forall>k. cp (store r1) k = None" using k Cons.prems(3) by (simp add: keeps_def)
  ultimately obtain r' where r': "reconcile_all cfg S IntN V inss r1 = Some r'" "rec_ok ok r'" "\<forall>k. cp (store r') k = None"
    "f (world r') = f (world r1)" "\<And>k. k \<notin> Id ` set inss \<Longrightarrow> wl (store r') k = wl (store r1) k \<and> attempts r' k = attempts r1 k"
    using Cons.IH by blast
  show ?case using r' r1 k by (intro Cons.prems(1) [of r']) (simp_all add: keeps_def)
qed simp

lemma reconcile_all_append:
  "reconcile_all cfg S IntN V (xs @ ys) r = Option.bind (reconcile_all cfg S IntN V xs r) (reconcile_all cfg S IntN V ys)"
proof (induction xs arbitrary: r)
  case (Cons x xs)
  then show ?case by (cases "reconcile cfg S IntN V x r") simp_all
qed simp

text \<open>The turn of one of them: what it starts from and what it leaves is what the sync has of it.\<close>

lemma reconcile_all_at:
  assumes V: "services_keep f V" and r: "rec_ok ok r" "\<forall>k. cp (store r) k = None"
    and d: "distinct (map Id inss)" "ins \<in> set inss" and all: "reconcile_all cfg S IntN V inss r = Some r'"
  obtains ra rb where "rec_ok ok ra" "\<forall>k. cp (store ra) k = None" "wl (store ra) (Id ins) = wl (store r) (Id ins)"
    "attempts ra (Id ins) = attempts r (Id ins)" "reconcile cfg S IntN V ins ra = Some rb"
    "wl (store r') (Id ins) = wl (store rb) (Id ins)" "attempts r' (Id ins) = attempts rb (Id ins)"
proof -
  obtain xs ys where inss: "inss = xs @ ins # ys" using d(2) by (meson split_list)
  have n: "Id ins \<notin> Id ` set xs" "Id ins \<notin> Id ` set ys" using d(1) by (auto simp: inss)
  obtain ra where ra: "reconcile_all cfg S IntN V xs r = Some ra" "rec_ok ok ra" "\<forall>k. cp (store ra) k = None"
    "\<And>k. k \<notin> Id ` set xs \<Longrightarrow> wl (store ra) k = wl (store r) k \<and> attempts ra k = attempts r k"
    using reconcile_all_result [OF V r, of cfg xs] by metis
  obtain rb where rb: "reconcile cfg S IntN V ins ra = Some rb" using reconcile_total ra(2,3) by metis
  have k: "keeps f (Id ins) ra rb" "rec_ok ok rb" using reconcile_keeps [OF V _ rb] reconcile_inv [OF ra(2) rb] ra(2)
    by (simp_all add: rec_ok_def rec_step_ok_def)
  then have "\<forall>k. cp (store rb) k = None" using ra(3) by (simp add: keeps_def)
  then obtain rc where "reconcile_all cfg S IntN V ys rb = Some rc"
    "\<And>k. k \<notin> Id ` set ys \<Longrightarrow> wl (store rc) k = wl (store rb) k \<and> attempts rc k = attempts rb k"
    using reconcile_all_result [OF V k(2), of cfg ys] by metis
  moreover from this have "rc = r'" using all ra rb by (simp add: inss reconcile_all_append)
  ultimately show thesis using that [of ra rb] ra rb n by blast
qed

end

section \<open>One sync\<close>

lemma report_decoded:
  "StatusReportToDomain (workload_report k st) =
     \<lparr>r_InstanceID = k, r_State = if known_state (WState st) then WState st else ''PENDING'', r_Port = WPort st\<rparr>"
  by (auto simp: StatusReportToDomain_def workload_report_def known_state_def dest: InstanceState_String_value split: option.split)

lemma known_states: "known_state (if known_state x then x else ''PENDING'')"
  by (simp add: known_state_def InstanceState_value_def)

text \<open>What the table has of an instance after its status was reported.\<close>

definition reported_row :: "nat \<Rightarrow> WorkloadStatus option \<Rightarrow> instance_row option \<Rightarrow> instance_row option" where
  "reported_row now st row =
     (case st of
        None \<Rightarrow> row
      | Some st \<Rightarrow>
          if WState st = WorkloadStateDeleted then None
          else map_option (\<lambda>x. x\<lparr>row_state := if known_state (WState st) then WState st else ''PENDING'',
            row_port := Some (ucast (WPort st)), row_updated := now\<rparr>) row)"

lemma receive_rows:
  assumes "set rs = {workload_report k st | k st. m k = Some st}" "distinct (map InstanceId rs)"
    and "\<forall>k. m k \<noteq> None \<longrightarrow> uuid k"
  obtains db' where "srv_ReceiveReports uuid now no_faults rs db = (True, db')" "\<forall>k. row_of db' k = reported_row now (m k) (row_of db k)"
proof -
  have i: "r_InstanceID (StatusReportToDomain r) = InstanceId r" for r by (simp add: StatusReportToDomain_def)
  have "distinct (map r_InstanceID (map StatusReportToDomain rs))" using assms(2) by (simp add: o_def i)
  moreover have "\<forall>r \<in> set (map StatusReportToDomain rs). known_state (r_State r) \<and> uuid (r_InstanceID r)"
    using assms(1,3) by (auto simp: report_decoded known_states)
  ultimately obtain db' where A: "ApplyStatusReports uuid now no_faults (map StatusReportToDomain rs) db = (True, db')"
    and u: "\<And>r. r \<in> set (map StatusReportToDomain rs) \<Longrightarrow> row_of db' (r_InstanceID r) = (if r_State r = ''DELETED'' then None
       else map_option (\<lambda>x. x\<lparr>row_state := r_State r, row_port := Some (ucast (r_Port r)), row_updated := now\<rparr>) (row_of db (r_InstanceID r)))"
    and k: "\<And>k. k \<notin> r_InstanceID ` set (map StatusReportToDomain rs) \<Longrightarrow> row_of db' k = row_of db k"
    by (rule Apply_rows) blast
  have "row_of db' k = reported_row now (m k) (row_of db k)" for k
  proof (cases "m k")
    case None
    then have "k \<notin> r_InstanceID ` set (map StatusReportToDomain rs)" using assms(1) by (auto simp: report_decoded)
    then show ?thesis using k None by (simp add: reported_row_def)
  next
    case (Some st)
    then have "StatusReportToDomain (workload_report k st) \<in> set (map StatusReportToDomain rs)" using assms(1) by auto
    moreover have "(if known_state (WState st) then WState st else ''PENDING'') = ''DELETED'' \<longleftrightarrow> WState st = WorkloadStateDeleted"
      by (auto simp: WorkloadStateDeleted_def known_state_def InstanceState_value_def)
    ultimately show ?thesis using u [of "StatusReportToDomain (workload_report k st)"] Some
      by (simp add: report_decoded reported_row_def)
  qed
  with A show thesis by (intro that [of db']) (simp_all add: srv_ReceiveReports_def)
qed

text \<open>A deletion that is not for a UUID makes the second batch fail; the first changes no identifiers.\<close>

lemma ids_fold_update: "map row_id (fold (exec_stmt now) (to_update rs) rows) = map row_id rows"
proof -
  have "map row_id (fold (exec_stmt now) (map (\<lambda>r. UpdateStmt (r_InstanceID r) (r_State r) (ucast (r_Port r))) us) rows) = map row_id rows" for us
    by (induction us arbitrary: rows) (simp_all del: exec_stmt.simps)
  then show ?thesis by (simp add: to_update_def)
qed

lemma reports_blocked:
  assumes "DeleteStmt bad \<in> set (to_remove rs)" "\<not> uuid bad"
  shows "\<exists>rows. ApplyStatusReports uuid now faults rs db = (False, db\<lparr>instances := rows\<rparr>) \<and> map row_id rows = map row_id (instances db)"
proof -
  obtain b rows where u: "run_batch uuid now (fst faults) (to_update rs) (instances db) = (b, rows)" by (rule prod.exhaust)
  then have ids: "map row_id rows = map row_id (instances db)" by (auto simp: run_batch_def ids_fold_update split: if_splits)
  have "\<not> list_all (stmt_ok uuid) (to_remove rs)" using assms by (auto simp: list_all_iff intro!: bexI [of _ "DeleteStmt bad"])
  then have "run_batch uuid now (snd faults) (to_remove rs) rows = (False, rows)" by (simp add: run_batch_def)
  then have "ApplyStatusReports uuid now faults rs db = (False, db\<lparr>instances := rows\<rparr>)"
    using u assms(1) by (cases b) (auto simp: ApplyStatusReports_def)
  then show ?thesis using ids by blast
qed

context reconciler_env
begin

lemma node_services_keep: "services_keep snd (node_services V uuid now faults)"
  by (simp add: services_keep_def node_services_db)

text \<open>A sync without faults, as a whole and for one instance of the node.\<close>

lemma sync_result:
  assumes "map_order order1" "map_order order2" "rec_ok ok r" "\<forall>k. cp (store r) k = None" "db_ok (snd (world r))" "NodeID cfg \<noteq> []"
    and u: "ids_ok uuid wl r"
    and inss: "srv_DiscoverInstances (NodeID cfg) (snd (world r)) = Inr inss" "\<forall>k \<in> Id ` set inss. row_of (snd (world r)) k \<noteq> None"
  obtains r1 r' where "reconcile_all cfg S IntN (node_services V uuid now no_faults) inss r = Some r1"
    "tick cfg S IntN (node_services V uuid now no_faults) order1 order2 r = Some r'"
    "rec_ok ok r'" "\<forall>k. cp (store r') k = None" "db_ok (snd (world r'))" "ids_ok uuid wl r'" "attempts r' = attempts r1"
    "\<forall>k. row_of (snd (world r')) k = reported_row now (wl (store r1) k) (row_of (snd (world r)) k)"
    "wl (store r') = (\<lambda>k. if \<exists>st. wl (store r1) k = Some st \<and> WState st \<in> {WorkloadStateDeleted, WorkloadStateCreationFailed}
      then None else wl (store r1) k)"
proof -
  let ?V = "node_services V uuid now no_faults" and ?db = "snd (world r)"
  have D: "DiscoverInstances ?V (NodeID cfg) (world r) = (Some inss, world r)"
    using node_services_sel(2) [of V uuid now no_faults "NodeID cfg" "fst (world r)" ?db] inss(1) by simp
  obtain r1 where r1: "reconcile_all cfg S IntN ?V inss r = Some r1" "\<forall>k. cp (store r1) k = None" "snd (world r1) = ?db"
    "\<And>k. k \<notin> Id ` set inss \<Longrightarrow> wl (store r1) k = wl (store r) k"
    using reconcile_all_result [OF node_services_keep assms(3,4)] by metis
  have uk: "uuid k" if "wl (store r1) k \<noteq> None" for k
  proof (cases "k \<in> Id ` set inss")
    case True
    then obtain row where "row_of ?db k = Some row" using inss(2) by blast
    then show ?thesis using u row_of_Some unfolding ids_ok_def by metis
  next
    case False
    then show ?thesis using that r1(4) u by (simp add: ids_ok_def)
  qed
  have R: "reconcile_all cfg S IntN ?V inss (r\<lparr>world := world r\<rparr>) = Some r1" using r1(1) by simp
  from assms(1-3) D R obtain rs r' where rs: "set rs = {workload_report k st | k st. wl (store r1) k = Some st}"
      "distinct (map InstanceId rs)"
    and t: "tick cfg S IntN ?V order1 order2 r = Some r'" "ok (store r')" "world r' = snd (ReceiveReports ?V rs (world r1))"
      "rec_ok ok r'" "attempts r' = attempts r1" "\<forall>k. cp (store r1) k = None \<longrightarrow> cp (store r') k = None"
      "wl (store r') = (\<lambda>k. if fst (ReceiveReports ?V rs (world r1)) \<and>
        (\<exists>st. wl (store r1) k = Some st \<and> WState st \<in> {WorkloadStateDeleted, WorkloadStateCreationFailed})
      then None else wl (store r1) k)"
    by (rule tick_result) (rule that; assumption)
  have "\<forall>k. wl (store r1) k \<noteq> None \<longrightarrow> uuid k" using uk by blast
  with rs obtain db' where db': "srv_ReceiveReports uuid now no_faults rs ?db = (True, db')"
    "\<forall>k. row_of db' k = reported_row now (wl (store r1) k) (row_of ?db k)"
    by (rule receive_rows [where db = ?db and now = now and uuid = uuid]) (rule that; assumption)
  note keep = Apply_keeps [OF db'(1) [unfolded srv_ReceiveReports_def]]
  have w: "ReceiveReports ?V rs (world r1) = (True, fst (world r1), db')"
    using node_services_sel(3) [of V uuid now no_faults rs "fst (world r1)" ?db] r1(3) db'(1) by (metis apsnd_conv prod.collapse)
  then have "ids_ok uuid wl r'" using uk keep(4) u t(3,7) unfolding ids_ok_def by (auto split: if_splits)
  then show thesis using t r1 db'(2) keep(1) [OF assms(5)] w by (intro that [OF r1(1) t(1)]) simp_all
qed

lemma sync_at:
  assumes "map_order order1" "map_order order2" "rec_ok ok r" "\<forall>k. cp (store r) k = None" "db_ok (snd (world r))" "NodeID cfg \<noteq> []"
    and u: "ids_ok uuid wl r"
    and row: "row_of (snd (world r)) k = Some row" "row_node row = NodeID cfg" "InstanceState_value (row_state row) = Some x"
  obtains ins ra rb r' where "Id ins = k" "State ins = x" "rec_ok ok ra" "\<forall>k. cp (store ra) k = None"
    "wl (store ra) k = wl (store r) k" "attempts ra k = attempts r k"
    "reconcile cfg S IntN (node_services V uuid now no_faults) ins ra = Some rb"
    "tick cfg S IntN (node_services V uuid now no_faults) order1 order2 r = Some r'"
    "rec_ok ok r'" "\<forall>k. cp (store r') k = None" "db_ok (snd (world r'))" "ids_ok uuid wl r'" "attempts r' k = attempts rb k"
    "row_of (snd (world r')) k = reported_row now (wl (store rb) k) (Some row)"
    "wl (store r') k = (if \<exists>st. wl (store rb) k = Some st \<and> WState st \<in> {WorkloadStateDeleted, WorkloadStateCreationFailed}
      then None else wl (store rb) k)"
proof -
  let ?V = "node_services V uuid now no_faults"
  obtain inss where i: "srv_DiscoverInstances (NodeID cfg) (snd (world r)) = Inr inss" "distinct (map Id inss)"
    "\<exists>ins \<in> set inss. Id ins = k \<and> InstanceState_value (row_state row) = Some (State ins)"
    "\<forall>k \<in> Id ` set inss. row_of (snd (world r)) k \<noteq> None"
    using discovered [OF assms(5,6)] row known_state_def by (metis option.distinct(1))
  then obtain ins where ins: "ins \<in> set inss" "Id ins = k" "State ins = x" using row(3) by auto
  from assms(1-7) i(1,4) obtain r1 r' where r1: "reconcile_all cfg S IntN ?V inss r = Some r1"
    and r': "tick cfg S IntN ?V order1 order2 r = Some r'"
      "rec_ok ok r'" "\<forall>k. cp (store r') k = None" "db_ok (snd (world r'))" "ids_ok uuid wl r'" "attempts r' = attempts r1"
      "\<forall>k. row_of (snd (world r')) k = reported_row now (wl (store r1) k) (row_of (snd (world r)) k)"
      "wl (store r') = (\<lambda>k. if \<exists>st. wl (store r1) k = Some st \<and> WState st \<in> {WorkloadStateDeleted, WorkloadStateCreationFailed}
        then None else wl (store r1) k)"
    by (rule sync_result [where V = V and now = now]) (rule that; assumption)
  obtain ra rb where ra: "rec_ok ok ra" "\<forall>k. cp (store ra) k = None" "wl (store ra) (Id ins) = wl (store r) (Id ins)"
    "attempts ra (Id ins) = attempts r (Id ins)" "reconcile cfg S IntN ?V ins ra = Some rb"
    and rb: "wl (store r1) (Id ins) = wl (store rb) (Id ins)" "attempts r1 (Id ins) = attempts rb (Id ins)"
    by (rule reconcile_all_at [OF node_services_keep assms(3,4) i(2) ins(1) r1])
  show thesis using ra ins r'(1-7) row(1)
    by (intro that [of ins ra rb r']) (simp_all only: r'(8) rb [unfolded ins(2)] simp_thms)
qed

text \<open>Removal: the state of the row asks for it and the call reports no error, or that there was nothing.\<close>

lemma sync_removes:
  assumes "map_order order1" "map_order order2" "rec_ok ok r" "\<forall>k. cp (store r) k = None" "db_ok (snd (world r))" "NodeID cfg \<noteq> []"
    and "ids_ok uuid wl r" "row_of (snd (world r)) k = Some row" "row_node row = NodeID cfg"
    and st: "row_state row = ''DELETING'' \<or> row_state row = ''CREATION_FAILED''"
    and rm: "\<And>s w. fst (RemoveWorkload V k s w) = None \<or> row_state row = ''DELETING'' \<and> fst (RemoveWorkload V k s w) = Some NotFound"
  obtains r' where "tick cfg S IntN (node_services V uuid now no_faults) order1 order2 r = Some r'" "row_of (snd (world r')) k = None"
    "wl (store r') k = None"
proof -
  let ?V = "node_services V uuid now no_faults"
  obtain x where x: "InstanceState_value (row_state row) = Some x" "x = DELETING \<or> x = CREATION_FAILED"
    "x = DELETING \<longleftrightarrow> row_state row = ''DELETING''"
    using st by (auto simp: InstanceState_value_def)
  from assms(1-9) x(1) show thesis
  proof (rule sync_at [where V = V and now = now])
    fix ins ra rb r'
    assume i: "Id ins = k" "State ins = x" "rec_ok ok ra" "\<forall>k. cp (store ra) k = None" "reconcile cfg S IntN ?V ins ra = Some rb"
      and t: "tick cfg S IntN ?V order1 order2 r = Some r'"
        "row_of (snd (world r')) k = reported_row now (wl (store rb) k) (Some row)"
        "wl (store r') k = (if \<exists>st. wl (store rb) k = Some st \<and> WState st \<in> {WorkloadStateDeleted, WorkloadStateCreationFailed}
          then None else wl (store rb) k)"
    obtain e w where R: "RemoveWorkload ?V k (store ra) (world ra) = (e, w)" by (rule prod.exhaust)
    have e: "e = None \<or> x = DELETING \<and> e = Some NotFound"
      using rm [of "store ra" "fst (world ra)"] R x(3) node_services_sel(1) [of V uuid now no_faults k "store ra" "fst (world ra)" "snd (world ra)"]
      by (metis fst_apsnd fst_conv prod.collapse)
    have "set_state S k WorkloadStateDeleted (ra\<lparr>world := w\<rparr>) = Some rb"
      using i R e x(2) by (auto simp: reconcile_def handleInstanceDeleting_def remove_and_record_def bind_eq_Some_conv isNotFound_def)
    then have "\<exists>st. wl (store rb) k = Some st \<and> WState st = WorkloadStateDeleted"
      using i(3,4) set_state_ok [of "ra\<lparr>world := w\<rparr>" k WorkloadStateDeleted] by (fastforce simp: rec_ok_def merged_set wl_states)
    then show thesis using t by (intro that [of r']) (auto simp: reported_row_def)
  qed
qed

text \<open>
  A node and the control plane between two syncs, with an instance that is placed on the node, is in the
  given state there, and was tried \<open>n\<close> times.
\<close>

definition waiting :: "(string \<Rightarrow> bool) \<Rightarrow> reconcilerConfig \<Rightarrow> string \<Rightarrow> nat \<Rightarrow> string set \<Rightarrow> ('s, 'r, 'w \<times> cp_db) reconciler \<Rightarrow> bool" where
  "waiting uuid cfg k n sts r \<longleftrightarrow> rec_ok ok r \<and> (\<forall>k. cp (store r) k = None) \<and> db_ok (snd (world r)) \<and> ids_ok uuid wl r \<and> attempts r k = n \<and> due (wl (store r) k) \<and>
     (\<exists>row. row_of (snd (world r)) k = Some row \<and> row_node row = NodeID cfg \<and> row_state row \<in> sts)"

lemma sync_fails:
  assumes o: "map_order order" "NodeID cfg \<noteq> []" and r: "waiting uuid cfg k n {''PENDING'', ''CREATING''} r"
    and V: "\<And>wl' n s x. ID wl' = k \<Longrightarrow> fst (RunWorkload V wl' n s x) \<noteq> None"
  shows "\<exists>r'. tick cfg S IntN (node_services V uuid now no_faults) order order r = Some r' \<and>
    (if n < 5 then waiting uuid cfg k (Suc n) {''CREATING''} r' else waiting uuid cfg k n {''CREATION_FAILED''} r')"
proof -
  let ?V = "node_services V uuid now no_faults"
  obtain row where row: "row_of (snd (world r)) k = Some row" "row_node row = NodeID cfg" "row_state row \<in> {''PENDING'', ''CREATING''}"
    and w: "rec_ok ok r" "\<forall>k. cp (store r) k = None" "db_ok (snd (world r))" "ids_ok uuid wl r" "attempts r k = n" "due (wl (store r) k)"
    using r by (auto simp: waiting_def)
  obtain x where x: "InstanceState_value (row_state row) = Some x" "x = PENDING \<or> x = CREATING"
    using row(3) by (auto simp: InstanceState_value_def)
  from o(1) o(1) w(1-3) o(2) w(4) row(1,2) x(1) show ?thesis
  proof (rule sync_at [where V = V and now = now])
    fix ins ra rb r'
    assume i: "Id ins = k" "State ins = x" "rec_ok ok ra" "\<forall>k. cp (store ra) k = None" "wl (store ra) k = wl (store r) k"
        "attempts ra k = attempts r k" "reconcile cfg S IntN ?V ins ra = Some rb"
      and t: "tick cfg S IntN ?V order order r = Some r'" "rec_ok ok r'" "\<forall>k. cp (store r') k = None" "db_ok (snd (world r'))"
        "ids_ok uuid wl r'" "attempts r' k = attempts rb k" "row_of (snd (world r')) k = reported_row now (wl (store rb) k) (Some row)"
        "wl (store r') k = (if \<exists>st. wl (store rb) k = Some st \<and> WState st \<in> {WorkloadStateDeleted, WorkloadStateCreationFailed}
          then None else wl (store rb) k)"
    have ins: "State ins = PENDING \<or> State ins = CREATING" using i(2) x(2) by simp
    have V': "fst (RunWorkload ?V (instance_workload cfg ins p) n s y) \<noteq> None" for p n s y
      using V [of "instance_workload cfg ins p"] i(1) by (cases y) (auto simp: node_services_def instance_workload_def Let_def)
    show ?thesis
    proof (cases "n < 5")
      case True
      have c: "cp (store ra) (Id ins) = None" and n: "attempts ra (Id ins) < 5" and d: "due (wl (store ra) (Id ins))"
        using i True w by simp_all
      have "wl (store rb) k \<noteq> None \<and> due (wl (store rb) k) \<and> attempts rb k = Suc n"
        using reconcile_fails [OF i(3) c n d ins V'] i w(5) by auto
      then have "\<exists>st. wl (store rb) k = Some st \<and> WState st = WorkloadStateCreating" "attempts rb k = Suc n" by (auto simp: due_def)
      then show ?thesis using t row True
        by (auto simp: waiting_def reported_row_def due_def wl_states known_state_def InstanceState_value_def)
    next
      case False
      have "\<exists>s st. reconcile_all cfg S IntN ?V (replicate (Suc 0) ins) ra = Some (ra\<lparr>store := s\<rparr>) \<and>
          wl s (Id ins) = Some st \<and> WState st = WorkloadStateCreationFailed"
        using i(1,3,4,6) w(5) False by (intro reconcile_given_up ins) simp_all
      then have "\<exists>st. wl (store rb) k = Some st \<and> WState st = WorkloadStateCreationFailed" "attempts rb k = n" using i w(5) by auto
      then show ?thesis using t row False
        by (auto simp: waiting_def reported_row_def due_def wl_states known_state_def InstanceState_value_def)
    qed
  qed
qed

text \<open>
  A status of a deleted workload under a name that is no UUID: no row goes, whatever the faults, and the status stays.
\<close>

definition blocked :: "(string \<Rightarrow> bool) \<Rightarrow> string \<Rightarrow> ('s, 'r, 'w \<times> cp_db) reconciler \<Rightarrow> bool" where
  "blocked uuid bad r \<longleftrightarrow> rec_ok ok r \<and> (\<forall>k. cp (store r) k = None) \<and> db_ok (snd (world r)) \<and> \<not> uuid bad \<and>
     (\<forall>row \<in> set (instances (snd (world r))). uuid (row_id row)) \<and> (\<exists>st. wl (store r) bad = Some st \<and> WState st = WorkloadStateDeleted)"

lemma sync_blocked:
  assumes "map_order order1" "map_order order2" "NodeID cfg \<noteq> []" and b: "blocked uuid bad r"
  obtains r' where "tick cfg S IntN (node_services V uuid now faults) order1 order2 r = Some r'" "blocked uuid bad r'"
    "map row_id (instances (snd (world r'))) = map row_id (instances (snd (world r)))"
proof -
  let ?V = "node_services V uuid now faults" and ?db = "snd (world r)"
  have r: "rec_ok ok r" "\<forall>k. cp (store r) k = None" "db_ok ?db" "\<not> uuid bad" "\<forall>row \<in> set (instances ?db). uuid (row_id row)"
    using b by (simp_all add: blocked_def)
  obtain st where st: "wl (store r) bad = Some st" "WState st = WorkloadStateDeleted" using b by (auto simp: blocked_def)
  obtain inss where i: "srv_DiscoverInstances (NodeID cfg) ?db = Inr inss" "\<forall>k \<in> Id ` set inss. row_of ?db k \<noteq> None"
    by (rule discovered [OF r(3) assms(3)]) blast
  have D: "DiscoverInstances ?V (NodeID cfg) (world r) = (Some inss, world r)"
    using node_services_sel(2) [of V uuid now faults "NodeID cfg" "fst (world r)" ?db] i(1) by simp
  obtain r1 where r1: "reconcile_all cfg S IntN ?V inss r = Some r1" "\<forall>k. cp (store r1) k = None" "snd (world r1) = ?db"
    "\<And>k. k \<notin> Id ` set inss \<Longrightarrow> wl (store r1) k = wl (store r) k"
    using reconcile_all_result [OF node_services_keep r(1,2)] by metis
  have "bad \<notin> Id ` set inss" using i(2) r(4,5) row_of_Some by (metis option.exhaust)
  then have bad: "wl (store r1) bad = Some st" using r1(4) st by simp
  have R: "reconcile_all cfg S IntN ?V inss (r\<lparr>world := world r\<rparr>) = Some r1" using r1(1) by simp
  from assms(1,2) r(1) D R obtain rs r' where rs: "set rs = {workload_report k st | k st. wl (store r1) k = Some st}"
    and t: "tick cfg S IntN ?V order1 order2 r = Some r'" "world r' = snd (ReceiveReports ?V rs (world r1))"
      "rec_ok ok r'" "\<forall>k. cp (store r1) k = None \<longrightarrow> cp (store r') k = None"
      "wl (store r') = (\<lambda>k. if fst (ReceiveReports ?V rs (world r1)) \<and>
        (\<exists>st. wl (store r1) k = Some st \<and> WState st \<in> {WorkloadStateDeleted, WorkloadStateCreationFailed})
      then None else wl (store r1) k)"
    by (rule tick_result) (rule that; assumption)
  have "workload_report bad st \<in> set rs" using rs bad by auto
  moreover have "StatusReportToDomain (workload_report bad st) = \<lparr>r_InstanceID = bad, r_State = ''DELETED'', r_Port = WPort st\<rparr>"
    using st(2) by (simp add: report_decoded wl_states known_state_def InstanceState_value_def)
  ultimately have "\<lparr>r_InstanceID = bad, r_State = ''DELETED'', r_Port = WPort st\<rparr> \<in> set (map StatusReportToDomain rs)"
    by (metis image_eqI image_set)
  then have del: "DeleteStmt bad \<in> set (to_remove (map StatusReportToDomain rs))"
    unfolding to_remove_def set_map set_filter by (intro image_eqI [where x = "\<lparr>r_InstanceID = bad, r_State = ''DELETED'', r_Port = WPort st\<rparr>"]) simp_all
  obtain rows where A: "srv_ReceiveReports uuid now faults rs ?db = (False, ?db\<lparr>instances := rows\<rparr>)"
    "map row_id rows = map row_id (instances ?db)"
    using reports_blocked [where uuid = uuid, OF del r(4)] unfolding srv_ReceiveReports_def by metis
  have w: "ReceiveReports ?V rs (world r1) = (False, fst (world r1), ?db\<lparr>instances := rows\<rparr>)"
    using node_services_sel(3) [of V uuid now faults rs "fst (world r1)" ?db] r1(3) A(1) by (metis apsnd_conv prod.collapse)
  have "db_ok (?db\<lparr>instances := rows\<rparr>)" using Apply_keeps(1) [OF A(1) [unfolded srv_ReceiveReports_def] r(3)] .
  moreover have "\<forall>row \<in> set rows. uuid (row_id row)" using r(5) A(2) by (metis (no_types, lifting) imageE imageI image_set)
  ultimately have "blocked uuid bad r'" using t(2-5) w r1(2) r(4) bad st(2) by (auto simp: blocked_def)
  then show thesis using that [OF t(1)] w t(2) A(2) by simp
qed

lemma stopped_status:
  assumes "ok s" "\<forall>k. cp s k = None" "upd_wl S k \<lparr>WState = WorkloadStateDeleted, WPort = 0\<rparr> s = Some s'"
  shows "ok s' \<and> cp s' = cp s \<and> (\<exists>st. wl s' k = Some st \<and> WState st = WorkloadStateDeleted)"
  using assms upd_wl_ok [of s k "\<lparr>WState = WorkloadStateDeleted, WPort = 0\<rparr>"] by (auto simp: merged_set wl_states)

lemma syncs_blocked:
  assumes "map_order order" "NodeID cfg \<noteq> []"
  shows "blocked uuid bad r \<Longrightarrow> \<exists>r'. syncs cfg S IntN (\<lambda>now. node_services V uuid now (faults now)) order nows r = Some r' \<and>
    map row_id (instances (snd (world r'))) = map row_id (instances (snd (world r))) \<and> blocked uuid bad r'"
proof (induction nows arbitrary: r)
  case (Cons now nows)
  from assms(1,1,2) Cons.prems obtain r1 where r1: "tick cfg S IntN (node_services V uuid now (faults now)) order order r = Some r1"
    "blocked uuid bad r1" "map row_id (instances (snd (world r1))) = map row_id (instances (snd (world r)))"
    by (rule sync_blocked)
  then show ?case using Cons.IH [OF r1(2)] by simp
qed simp

lemma syncs_fail:
  assumes o: "map_order order" "NodeID cfg \<noteq> []" and V: "\<And>wl' n s x. ID wl' = k \<Longrightarrow> fst (RunWorkload V wl' n s x) \<noteq> None"
  shows "waiting uuid cfg k n {''PENDING'', ''CREATING''} r \<Longrightarrow> length nows + n = 6 \<Longrightarrow> nows \<noteq> [] \<Longrightarrow>
    \<exists>r'. syncs cfg S IntN (\<lambda>now. node_services V uuid now no_faults) order nows r = Some r' \<and> waiting uuid cfg k 5 {''CREATION_FAILED''} r'"
proof (induction nows arbitrary: n r)
  case (Cons now nows)
  note f = sync_fails [OF o Cons.prems(1) V, of now]
  show ?case
  proof (cases nows)
    case Nil
    then show ?thesis using Cons.prems(2) f by auto
  next
    case (Cons now' nows')
    then obtain r1 where r1: "tick cfg S IntN (node_services V uuid now no_faults) order order r = Some r1" "waiting uuid cfg k (Suc n) {''CREATING''} r1"
      using Cons.prems(2) f by auto
    then have "waiting uuid cfg k (Suc n) {''PENDING'', ''CREATING''} r1" by (auto simp: waiting_def)
    from Cons.IH [OF this] Cons.prems(2) Cons r1(1) show ?thesis by simp
  qed
qed simp

end

lemma syncs_append:
  "syncs cfg S IntN V order (xs @ ys) r = Option.bind (syncs cfg S IntN V order xs r) (syncs cfg S IntN V order ys)"
proof (induction xs arbitrary: r)
  case (Cons x xs)
  then show ?case by (cases "tick cfg S IntN (V x) order order r") simp_all
qed simp

lemma sample_node_simps:
  "rec_ok store_ok (sample_node st)" "cp_val (store (sample_node st)) k = None" "wl_val (store (sample_node st)) k = None"
  "db_ok (snd (world (sample_node st)))" "NodeID sample_cfg = ''node''" "attempts (sample_node st) k = 0"
  "\<exists>row. row_of (snd (world (sample_node st))) ''i'' = Some row \<and> row_node row = ''node'' \<and> row_state row = st"
  "ids_ok (\<lambda>k. k = ''i'') wl_val (sample_node st)"
  using sample_rec_simps(1)
  by (simp_all add: sample_node_def rec_ok_def sample_placed_ok sample_cfg_def row_of_def ids_ok_def sample_row_def)

section \<open>Properties\<close>



text \<open>
  C20. An instance that is to be deleted, or whose creation failed, is gone after one sync without faults if the
  workload service removes its workload: from the table and from the node's store. For one to be deleted
  it is enough that there was no workload.
\<close>

theorem sync_deletes:
  assumes "reconciler_env S ok wl cp IntN" "map_order order1" "map_order order2" "rec_ok ok r" "\<forall>k. cp (store r) k = None"
    and "db_ok (snd (world r))" "NodeID cfg \<noteq> []" "ids_ok uuid wl r" "row_of (snd (world r)) k = Some row" "row_node row = NodeID cfg"
    and "row_state row = ''DELETING'' \<or> row_state row = ''CREATION_FAILED''"
    and "\<And>s w. fst (RemoveWorkload V k s w) = None \<or> row_state row = ''DELETING'' \<and> fst (RemoveWorkload V k s w) = Some NotFound"
  shows "\<exists>r'. tick cfg S IntN (node_services V uuid now no_faults) order1 order2 r = Some r' \<and> row_of (snd (world r')) k = None \<and>
    wl (store r') k = None"
  by (rule reconciler_env.sync_removes [OF assms]) blast+

theorem sync_deletes_witness:
  "\<exists>r'. tick sample_cfg mem_ops list_rand (node_services (sample_services True []) (\<lambda>k. k = ''i'') 2 no_faults) sample_order sample_order
      (sample_node ''DELETING'') = Some r' \<and> row_of (snd (world r')) ''i'' = None"
proof -
  obtain row where row: "row_of (snd (world (sample_node ''DELETING''))) ''i'' = Some row" "row_node row = ''node''" "row_state row = ''DELETING''"
    using sample_node_simps(7) by blast
  have "fst (RemoveWorkload (sample_services True []) ''i'' s w) = None" for s w by (simp add: sample_services_def)
  then show ?thesis
    using sync_deletes [OF mem_rec.reconciler_env_axioms sample_order_ok sample_order_ok sample_node_simps(1) _ sample_node_simps(4) _
        sample_node_simps(8) row(1), of sample_cfg "sample_services True []" 2] row(2,3)
    by (auto simp: sample_node_simps)
qed

text \<open>
  C5. An instance whose workload never starts does not stay: with syncs without faults and a workload service
  that cleans up, it is gone after seven of them, five failing attempts, the one that gives up and the one that removes it.
\<close>

theorem failing_instance_removed:
  assumes "reconciler_env S ok wl cp IntN" "map_order order" "rec_ok ok r" "\<forall>k. cp (store r) k = None"
    and "db_ok (snd (world r))" "NodeID cfg \<noteq> []" "ids_ok uuid wl r" "row_of (snd (world r)) k = Some row" "row_node row = NodeID cfg"
    and "row_state row = ''PENDING''" "wl (store r) k = None" "attempts r k = 0" "length nows = 7"
    and V: "\<And>wl' n s x. ID wl' = k \<Longrightarrow> fst (RunWorkload V wl' n s x) \<noteq> None" "\<And>s w. fst (RemoveWorkload V k s w) = None"
  shows "\<exists>r'. syncs cfg S IntN (\<lambda>now. node_services V uuid now no_faults) order nows r = Some r' \<and>
    row_of (snd (world r')) k = None \<and> wl (store r') k = None"
proof -
  let ?V = "\<lambda>now. node_services V uuid now no_faults"
  obtain xs t where nows: "nows = xs @ [t]" "length xs = 6" using assms(13) by (cases nows rule: rev_cases) auto
  then have "xs \<noteq> []" by auto
  have w: "reconciler_env.waiting ok wl cp uuid cfg k 0 {''PENDING'', ''CREATING''} r"
    unfolding reconciler_env.waiting_def [OF assms(1)] using assms(3-12) by (simp add: due_def)
  from reconciler_env.syncs_fail [OF assms(1,2,6) V(1) w _ \<open>xs \<noteq> []\<close>] obtain r6 where
    r6: "syncs cfg S IntN ?V order xs r = Some r6" "reconciler_env.waiting ok wl cp uuid cfg k 5 {''CREATION_FAILED''} r6"
    using nows(2) by auto
  from r6(2) obtain row6 where "rec_ok ok r6" "\<forall>k. cp (store r6) k = None" "db_ok (snd (world r6))" "ids_ok uuid wl r6"
    "row_of (snd (world r6)) k = Some row6" "row_node row6 = NodeID cfg" "row_state row6 = ''CREATION_FAILED''"
    unfolding reconciler_env.waiting_def [OF assms(1)] by auto
  then obtain r7 where r7: "tick cfg S IntN (?V t) order order r6 = Some r7" "row_of (snd (world r7)) k = None" "wl (store r7) k = None"
    using reconciler_env.sync_removes [OF assms(1,2,2) _ _ _ assms(6)] V(2) by metis
  have "syncs cfg S IntN ?V order nows r = Some r7" using r6(1) r7(1) by (simp add: nows(1) syncs_append)
  with r7 show ?thesis by blast
qed

theorem failing_instance_removed_witness:
  "\<exists>r'. syncs sample_cfg mem_ops list_rand (\<lambda>now. node_services (sample_services False []) (\<lambda>k. k = ''i'') now no_faults) sample_order
      [2, 3, 4, 5, 6, 7, 8] (sample_node ''PENDING'') = Some r' \<and> row_of (snd (world r')) ''i'' = None"
proof -
  obtain row where row: "row_of (snd (world (sample_node ''PENDING''))) ''i'' = Some row" "row_node row = ''node''" "row_state row = ''PENDING''"
    using sample_node_simps(7) by blast
  have "fst (RunWorkload (sample_services False []) wl' n s x) \<noteq> None" "fst (RemoveWorkload (sample_services False []) ''i'' s w) = None"
    for wl' n s x w by (simp_all add: sample_services_def)
  then show ?thesis
    using failing_instance_removed [OF mem_rec.reconciler_env_axioms sample_order_ok sample_node_simps(1) _ sample_node_simps(4) _
        sample_node_simps(8) row(1), of sample_cfg "[2, 3, 4, 5, 6, 7, 8]" "sample_services False []"] row(2,3)
    by (auto simp: sample_node_simps simp del: syncs.simps)
qed



end
