(* ===== verification/Chunk_Service.thy ===== *)
theory Chunk_Service
  imports Pagination
begin

text \<open>
  The service for chunks and flavors: \<^verbatim>\<open>controlplane/chunk\<close> over the repositories, \<^verbatim>\<open>controlplane/authz\<close> and
  \<^verbatim>\<open>controlplane/blob\<close>. The actor is what the context of a request has; new identifiers, the time and the orders in
  which Go ranges over maps are arguments. The client of the object store, the decoder of images, the hash of
  contents and the Merkle tree are code of libraries: a record of functions over a world. Metrics, tracing and
  the texts around errors are left out.
\<close>

section \<open>Access\<close>

datatype ResourceType = ResourceTypeChunk | ResourceTypeFlavor | ResourceTypeFlavorVersion

record ResourceDef =
  rd_ID :: string
  rd_Type :: ResourceType

record OwnershipRule =
  rule_Resource :: ResourceDef
  rule_ActorID :: string

type_synonym accessRules = "OwnershipRule option"

definition ChunkResourceDef :: "string \<Rightarrow> ResourceDef" where
  "ChunkResourceDef k = \<lparr>rd_ID = k, rd_Type = ResourceTypeChunk\<rparr>"

definition FlavorResourceDef :: "string \<Rightarrow> ResourceDef" where
  "FlavorResourceDef k = \<lparr>rd_ID = k, rd_Type = ResourceTypeFlavor\<rparr>"

definition FlavorVersionResourceDef :: "string \<Rightarrow> ResourceDef" where
  "FlavorVersionResourceDef k = \<lparr>rd_ID = k, rd_Type = ResourceTypeFlavorVersion\<rparr>"

definition WithOwnershipRule :: "string \<Rightarrow> ResourceDef \<Rightarrow> accessRules \<Rightarrow> accessRules" where
  "WithOwnershipRule actorID res rules = Some \<lparr>rule_Resource = res, rule_ActorID = actorID\<rparr>"

definition evalOwnership :: "OwnershipRule \<Rightarrow> cp_db \<Rightarrow> cp_error + unit" where
  "evalOwnership rule db =
     (let k = rd_ID (rule_Resource rule);
          owner = (case rd_Type (rule_Resource rule) of
              ResourceTypeChunk \<Rightarrow> ChunkOwner k db
            | ResourceTypeFlavor \<Rightarrow> FlavorOwner k db
            | ResourceTypeFlavorVersion \<Rightarrow> FlavorVersionOwner k db)
      in if rule_ActorID rule \<noteq> u_ID owner then Inl ErrPermissionDenied else Inr ())"

definition AccessAuthorized :: "(accessRules \<Rightarrow> accessRules) list \<Rightarrow> cp_db \<Rightarrow> cp_error + unit" where
  "AccessAuthorized opts db = (case fold (\<lambda>opt. opt) opts None of None \<Rightarrow> Inr () | Some rule \<Rightarrow> evalOwnership rule db)"

section \<open>The object store\<close>

text \<open>The calls of the client: an object exists, is read, is written; a link with its date.\<close>

record 'w s3_api =
  HeadObject :: "string \<Rightarrow> 'w \<Rightarrow> bool option \<times> 'w"
  GetObject :: "string \<Rightarrow> 'w \<Rightarrow> string option \<times> 'w"
  UploadObject :: "string \<Rightarrow> string \<Rightarrow> 'w \<Rightarrow> bool \<times> 'w"
  PresignPutObject :: "string \<Rightarrow> string \<Rightarrow> int \<Rightarrow> nat \<Rightarrow> 'w \<Rightarrow> (string \<times> nat) option \<times> 'w"

definition CASKeyPrefix :: string where
  "CASKeyPrefix = ''explorer/blobs/cas''"

definition ChangeSetKey :: "string \<Rightarrow> string" where
  "ChangeSetKey versionID = ''explorer/blobs/'' @ versionID @ ''/changeset.tar.gz''"

definition ObjectExists :: "'w s3_api \<Rightarrow> string \<Rightarrow> 'w \<Rightarrow> (cp_error + bool) \<times> 'w" where
  "ObjectExists S key w = (case HeadObject S key w of (None, w) \<Rightarrow> (Inl ErrObjectStore, w) | (Some b, w) \<Rightarrow> (Inr b, w))"

definition WriteTo :: "'w s3_api \<Rightarrow> string \<Rightarrow> 'w \<Rightarrow> (cp_error + string) \<times> 'w" where
  "WriteTo S key w = (case GetObject S key w of (None, w) \<Rightarrow> (Inl ErrObjectStore, w) | (Some bytes, w) \<Rightarrow> (Inr bytes, w))"

definition PresignURL :: "'w s3_api \<Rightarrow> string \<Rightarrow> string \<Rightarrow> nat \<Rightarrow> u64 \<Rightarrow> 'w \<Rightarrow> (cp_error + string \<times> nat) \<times> 'w" where
  "PresignURL S key contentHash expiry contentLength w =
     (case PresignPutObject S key contentHash (sint contentLength) expiry w of
        (None, w) \<Rightarrow> (Inl ErrObjectStore, w)
      | (Some (url, date), w) \<Rightarrow> (Inr (url, date + expiry), w))"

text \<open>Objects come with their contents; the key has the hash of these.\<close>

fun PutBlob :: "'w s3_api \<Rightarrow> (string \<Rightarrow> string) \<Rightarrow> string \<Rightarrow> string list \<Rightarrow> 'w \<Rightarrow> (cp_error + unit) \<times> 'w" where
  "PutBlob S hash keyPrefix [] w = (Inr (), w)"
| "PutBlob S hash keyPrefix (bytes # objects) w =
     (let key = keyPrefix @ ''/'' @ hash bytes in
      case ObjectExists S key w of
        (Inl e, w) \<Rightarrow> (Inl e, w)
      | (Inr True, w) \<Rightarrow> PutBlob S hash keyPrefix objects w
      | (Inr False, w) \<Rightarrow>
          (case UploadObject S key bytes w of
             (False, w) \<Rightarrow> (Inl ErrObjectStore, w)
           | (True, w) \<Rightarrow> PutBlob S hash keyPrefix objects w))"

section \<open>The service\<close>

record chunk_cfg =
  cfg_Registry :: string
  PresignedURLExpiry :: nat
  ThumbnailMaxSizeKB :: int
  ChangesetTarballMaxSizeBytes :: u64

text \<open>What the service is made of, with the code of libraries: the size of an image, or whether its format is unknown; the
  root of the tree over hashes.\<close>

record 'w chunk_svc =
  s3Store :: "'w s3_api"
  DecodeConfig :: "string \<Rightarrow> bool + int \<times> int"
  xxh3_hex :: "string \<Rightarrow> string"
  merkle_root :: "string list \<Rightarrow> string option"
  svc_cfg :: chunk_cfg

text \<open>The error of a step is the error of the method; queries leave the database alone.\<close>

definition ask :: "('st \<Rightarrow> 'e + 'a) \<Rightarrow> 'st \<Rightarrow> ('e + 'a) \<times> 'st" where
  "ask q st = (q st, st)"

definition fail_if :: "bool \<Rightarrow> 'e \<Rightarrow> 'st \<Rightarrow> ('e + unit) \<times> 'st" where
  "fail_if b e = (if b then efail e else ereturn ())"

definition exec :: "(cp_db \<Rightarrow> cp_db) \<Rightarrow> cp_db \<Rightarrow> (cp_error + unit) \<times> cp_db" where
  "exec g db = (Inr (), g db)"

definition on_db :: "(cp_db \<Rightarrow> ('e + 'a) \<times> cp_db) \<Rightarrow> 'w \<times> cp_db \<Rightarrow> ('e + 'a) \<times> 'w \<times> cp_db" where
  "on_db m st = (case m (snd st) of (r, db) \<Rightarrow> (r, fst st, db))"

definition on_world :: "('w \<Rightarrow> ('e + 'a) \<times> 'w) \<Rightarrow> 'w \<times> cp_db \<Rightarrow> ('e + 'a) \<times> 'w \<times> cp_db" where
  "on_world m st = (case m (fst st) of (r, w) \<Rightarrow> (r, w, snd st))"

definition access :: "string option \<Rightarrow> ResourceDef \<Rightarrow> cp_db \<Rightarrow> (cp_error + string) \<times> cp_db" where
  "access actor res = (case actor of None \<Rightarrow> efail ErrNoActor
     | Some actorID \<Rightarrow> ebind (ask (AccessAuthorized [WithOwnershipRule actorID res])) (\<lambda>_. ereturn actorID))"

subsection \<open>Chunks\<close>

definition MaxChunkTags :: nat where "MaxChunkTags = 4"
definition MaxChunkNameChars :: nat where "MaxChunkNameChars = 50"
definition MaxChunkDescriptionChars :: nat where "MaxChunkDescriptionChars = 100"
definition MaxChunkThumbnailDimensions :: int where "MaxChunkThumbnailDimensions = 512"

text \<open>The texts of a request are UTF-8: a rune is a byte that continues none.\<close>

definition RuneCount :: "string \<Rightarrow> nat" where
  "RuneCount s = length (filter (\<lambda>c. (of_char c :: nat) div 64 \<noteq> 2) s)"

definition validateChunkFields :: "Chunk \<Rightarrow> cp_error + unit" where
  "validateChunkFields chunk =
     (if length (c_Tags chunk) > MaxChunkTags then Inl ErrTooManyTags
      else if RuneCount (c_Name chunk) > MaxChunkNameChars then Inl ErrNameTooLong
      else if RuneCount (c_Description chunk) > MaxChunkDescriptionChars then Inl ErrDescriptionTooLong
      else Inr ())"

definition svc_CreateChunk :: "orders \<Rightarrow> string option \<Rightarrow> string \<Rightarrow> nat \<Rightarrow> Chunk \<Rightarrow> cp_db \<Rightarrow> (cp_error + Chunk) \<times> cp_db" where
  "svc_CreateChunk ord actor k now chunk =
     ebind (ask (\<lambda>_. validateChunkFields chunk)) (\<lambda>_.
     case actor of None \<Rightarrow> efail ErrNoActor
     | Some actorID \<Rightarrow> repo_CreateChunk ord k now (chunk\<lparr>c_Owner := (c_Owner chunk)\<lparr>u_ID := actorID\<rparr>\<rparr>))"

definition svc_GetChunk :: "orders \<Rightarrow> string \<Rightarrow> cp_db \<Rightarrow> cp_error + Chunk" where
  "svc_GetChunk ord k db =
     (case getChunkByID ord k db of
        Inl e \<Rightarrow> Inl e
      | Inr c \<Rightarrow> if c_DeletedAt c \<noteq> None then Inl ErrChunkNotFound
                 else Inr (c\<lparr>c_Flavors := filter (\<lambda>f. f_DeletedAt f = None) (c_Flavors c)\<rparr>))"

text \<open>What a request sets of a chunk; no tags and an empty list of tags are the same on the wire.\<close>

definition set_fields :: "Chunk \<Rightarrow> Chunk \<Rightarrow> Chunk" where
  "set_fields new old = old
     \<lparr>c_Name := if c_Name new \<noteq> [] then c_Name new else c_Name old,
      c_Description := if c_Description new \<noteq> [] then c_Description new else c_Description old,
      c_Tags := if c_Tags new \<noteq> [] then c_Tags new else c_Tags old\<rparr>"

definition svc_UpdateChunk :: "orders \<Rightarrow> string option \<Rightarrow> nat \<Rightarrow> Chunk \<Rightarrow> cp_db \<Rightarrow> (cp_error + Chunk) \<times> cp_db" where
  "svc_UpdateChunk ord actor now new =
     ebind (ask (\<lambda>_. validateChunkFields new)) (\<lambda>_.
     ebind (ask (getChunkByID ord (c_ID new))) (\<lambda>old.
     ebind (fail_if (c_DeletedAt old \<noteq> None) ErrChunkNotFound) (\<lambda>_.
     ebind (access actor (ChunkResourceDef (c_ID old))) (\<lambda>_.
     repo_UpdateChunk ord now (set_fields new old)))))"

definition svc_UpdateThumbnail :: "'w chunk_svc \<Rightarrow> orders \<Rightarrow> string option \<Rightarrow> string \<Rightarrow> string \<Rightarrow> 'w \<times> cp_db \<Rightarrow> (cp_error + unit) \<times> 'w \<times> cp_db" where
  "svc_UpdateThumbnail E ord actor chunkID imgData =
     ebind (on_db (access actor (ChunkResourceDef chunkID))) (\<lambda>_.
     ebind (on_db (ask (getChunkByID ord chunkID))) (\<lambda>c.
     ebind (fail_if (c_DeletedAt c \<noteq> None) ErrChunkNotFound) (\<lambda>_.
     case DecodeConfig E imgData of
       Inl unknown \<Rightarrow> efail (if unknown then ErrInvalidThumbnailFormat else ErrImage)
     | Inr (width, height) \<Rightarrow>
         ebind (fail_if (width \<noteq> MaxChunkThumbnailDimensions \<and> height \<noteq> MaxChunkThumbnailDimensions) ErrInvalidThumbnailDimensions) (\<lambda>_.
         ebind (fail_if (int (length imgData) div 1000 > ThumbnailMaxSizeKB (svc_cfg E)) ErrInvalidThumbnailSize) (\<lambda>_.
         ebind (on_db (exec (repo_UpdateThumbnail chunkID (xxh3_hex E imgData)))) (\<lambda>_.
         on_world (PutBlob (s3Store E) (xxh3_hex E) CASKeyPrefix [imgData])))))))"

definition svc_DeleteChunk :: "orders \<Rightarrow> string option \<Rightarrow> nat \<Rightarrow> string \<Rightarrow> cp_db \<Rightarrow> (cp_error + unit) \<times> cp_db" where
  "svc_DeleteChunk ord actor now k =
     ebind (access actor (ChunkResourceDef k)) (\<lambda>_.
     ebind (ask (getChunkByID ord k)) (\<lambda>c.
     if c_DeletedAt c \<noteq> None then ereturn () else MarkChunkAndFlavorsDeleted ord now k))"

subsection \<open>Flavors\<close>

definition svc_CreateFlavor :: "string option \<Rightarrow> string \<Rightarrow> nat \<Rightarrow> string \<Rightarrow> string \<Rightarrow> cp_db \<Rightarrow> (cp_error + Flavor) \<times> cp_db" where
  "svc_CreateFlavor actor k now chunkID name =
     ebind (access actor (ChunkResourceDef chunkID)) (\<lambda>_.
     ebind (ask (\<lambda>db. Inr (FlavorNameExists chunkID name db))) (\<lambda>exists.
     if exists then efail ErrFlavorNameExists else repo_CreateFlavor k now chunkID name))"

definition svc_DeleteFlavor :: "string option \<Rightarrow> nat \<Rightarrow> string \<Rightarrow> cp_db \<Rightarrow> (cp_error + unit) \<times> cp_db" where
  "svc_DeleteFlavor actor now k =
     ebind (access actor (FlavorResourceDef k)) (\<lambda>_.
     ebind (ask (FlavorByID k)) (\<lambda>f.
     if f_DeletedAt f \<noteq> None then ereturn () else exec (MarkFlavorDeleted now k)))"

definition svc_GetFlavor :: "string option \<Rightarrow> string \<Rightarrow> cp_db \<Rightarrow> cp_error + Flavor" where
  "svc_GetFlavor actor k db =
     (if actor = None then Inl ErrNoActor
      else case FlavorByID k db of
          Inl e \<Rightarrow> Inl e
        | Inr f \<Rightarrow> if f_DeletedAt f \<noteq> None then Inl ErrNotFound else Inr f)"

subsection \<open>Versions\<close>

text \<open>The tree is built over the hashes of the contents, in the order of the list.\<close>

definition HashTree :: "'w chunk_svc \<Rightarrow> Hash list \<Rightarrow> cp_error + string" where
  "HashTree E hs = (case merkle_root E (map h_Hash hs) of None \<Rightarrow> Inl ErrHashTree | Some root \<Rightarrow> Inr root)"

text \<open>A path that is not one of a file below the server's directory.\<close>

definition invalid_path :: "string \<Rightarrow> bool" where
  "invalid_path cleanPath \<longleftrightarrow> cleanPath = ''.'' \<or> IsAbs cleanPath \<or> cleanPath = ''..'' \<or> HasPrefix cleanPath ''../''"

definition cleanFileHashPaths :: "Hash list \<Rightarrow> cp_error + Hash list" where
  "cleanFileHashPaths hs =
     (let invalidPaths = map (\<lambda>(i, h). \<lparr>iv_Field = ''version.file_hashes['' @ Itoa i @ ''].path'', iv_Path = h_Path h\<rparr>)
        (filter (\<lambda>(i, h). invalid_path (Clean (h_Path h))) (zip [0..<length hs] hs))
      in if invalidPaths \<noteq> [] then Inl (InvalidPath invalidPaths)
         else Inr (map (\<lambda>h. h\<lparr>h_Path := Clean (h_Path h)\<rparr>) hs))"

record FlavorVersionDiff =
  Added :: "Hash list"
  Removed :: "Hash list"
  Changed :: "Hash list"

text \<open>The differences to the previous version, and the files of the new one.\<close>

definition version_diff :: "((string \<rightharpoonup> Hash) \<Rightarrow> string list) \<Rightarrow> Hash list \<Rightarrow> Hash list \<Rightarrow> FlavorVersionDiff \<times> Hash list" where
  "version_diff order prevs uploads =
     (let prevMap = map_by h_Path prevs;
          uploadedMap = map_by h_Path uploads;
          olds = vals_in (order prevMap) prevMap;
          unchanged = List.map_filter (\<lambda>prev. case uploadedMap (h_Path prev) of
            Some u \<Rightarrow> if h_Hash u = h_Hash prev then Some u else None | None \<Rightarrow> None) olds;
          changed = List.map_filter (\<lambda>prev. case uploadedMap (h_Path prev) of
            Some u \<Rightarrow> if h_Hash u = h_Hash prev then None else Some u | None \<Rightarrow> None) olds;
          removed = filter (\<lambda>prev. uploadedMap (h_Path prev) = None) olds;
          added = filter (\<lambda>u. prevMap (h_Path u) = None) (vals_in (order uploadedMap) uploadedMap);
          changes = sort_key h_Path (sort_key h_Path changed @ sort_key h_Path added)
      in (\<lparr>Added = sort_key h_Path added, Removed = sort_key h_Path removed, Changed = sort_key h_Path changed\<rparr>,
          sort_key h_Path (changes @ sort_key h_Path unchanged)))"

definition svc_CreateFlavorVersion ::
  "'w chunk_svc \<Rightarrow> ((string \<rightharpoonup> Hash) \<Rightarrow> string list) \<Rightarrow> string option \<Rightarrow> string \<Rightarrow> nat \<Rightarrow> string \<Rightarrow> FlavorVersion \<Rightarrow>
   cp_db \<Rightarrow> (cp_error + FlavorVersion \<times> FlavorVersionDiff) \<times> cp_db" where
  "svc_CreateFlavorVersion E order actor k now flavorID version =
     ebind (access actor (FlavorResourceDef flavorID)) (\<lambda>_.
     ebind (ask (FlavorByID flavorID)) (\<lambda>f.
     ebind (fail_if (f_DeletedAt f \<noteq> None) ErrNotFound) (\<lambda>_.
     ebind (ask (\<lambda>db. Inr (FlavorVersionExists flavorID (v_Version version) db))) (\<lambda>exists.
     ebind (fail_if exists ErrFlavorVersionExists) (\<lambda>_.
     ebind (ask (\<lambda>db. Inr (GetMinecraftVersionByVersion (v_MinecraftVersion version) db))) (\<lambda>mc.
     ebind (fail_if (mc = None) ErrMinecraftVersionNotSupported) (\<lambda>_.
     ebind (ask (\<lambda>_. cleanFileHashPaths (v_FileHashes version))) (\<lambda>uploads.
     ebind (ask (\<lambda>db. Inr (LatestFlavorVersion flavorID db))) (\<lambda>prevVersion.
     ebind (ask (\<lambda>_. HashTree E uploads)) (\<lambda>root.
     ebind (fail_if (root \<noteq> v_Hash version) ErrHashMismatch) (\<lambda>_.
     let (diff, hs) = version_diff order (v_FileHashes prevVersion) uploads in
     ebind (repo_CreateFlavorVersion k now flavorID (version\<lparr>v_FileHashes := hs\<rparr>) (v_ID prevVersion)) (\<lambda>created.
     ereturn (created, diff)))))))))))))"

definition svc_BuildFlavorVersion :: "'w chunk_svc \<Rightarrow> string option \<Rightarrow> string \<Rightarrow> 'w \<times> cp_db \<Rightarrow> (cp_error + unit) \<times> 'w \<times> cp_db" where
  "svc_BuildFlavorVersion E actor versionID =
     ebind (on_db (access actor (FlavorVersionResourceDef versionID))) (\<lambda>_.
     ebind (on_db (ask (FlavorIDByFlavorVersionID versionID))) (\<lambda>flavorID.
     ebind (on_db (ask (FlavorByID flavorID))) (\<lambda>f.
     ebind (fail_if (f_DeletedAt f \<noteq> None) ErrNotFound) (\<lambda>_.
     ebind (on_db (ask (FlavorVersionByID versionID))) (\<lambda>version.
     ebind
       (if v_FilesUploaded version then ereturn ()
        else ebind (on_world (ObjectExists (s3Store E) (ChangeSetKey versionID))) (\<lambda>exists.
          ebind (fail_if (\<not> exists) ErrFlavorFilesNotUploaded) (\<lambda>_.
          on_db (exec (MarkFlavorVersionFilesUploaded versionID))))) (\<lambda>_.
     if v_BuildStatus version \<in> {''CHECKPOINT_BUILD'', ''IMAGE_BUILD'', ''COMPLETED''} then ereturn ()
     else if v_BuildStatus version = ''CHECKPOINT_BUILD_FAILED''
     then on_db (exec (InsertJob versionID ''CHECKPOINT_BUILD''
       (CreateCheckpoint versionID (cfg_Registry (svc_cfg E) @ ''/'' @ versionID @ '':base''))))
     else
       ebind (on_db (ask (\<lambda>db. case GetMinecraftVersionByVersion (v_MinecraftVersion version) db of
         None \<Rightarrow> Inl ErrDatabase | Some imageURL \<Rightarrow> Inr imageURL))) (\<lambda>imageURL.
       on_db (exec (InsertJob versionID ''IMAGE_BUILD'' (CreateImage versionID imageURL (cfg_Registry (svc_cfg E))))))))))))"

definition upload_link :: "'w chunk_svc \<Rightarrow> string \<Rightarrow> string \<Rightarrow> u64 \<Rightarrow> 'w \<times> cp_db \<Rightarrow> (cp_error + string) \<times> 'w \<times> cp_db" where
  "upload_link E versionID tarballHash tarballSizeBytes =
     ebind (on_world (PresignURL (s3Store E) (ChangeSetKey versionID) tarballHash (PresignedURLExpiry (svc_cfg E)) tarballSizeBytes))
       (\<lambda>(url, expiryDate). ebind (on_db (exec (UpdateFlavorVersionPresignedURLData versionID expiryDate url))) (\<lambda>_. ereturn url))"

definition svc_GetUploadURL ::
  "'w chunk_svc \<Rightarrow> string option \<Rightarrow> nat \<Rightarrow> string \<Rightarrow> string \<Rightarrow> u64 \<Rightarrow> 'w \<times> cp_db \<Rightarrow> (cp_error + string) \<times> 'w \<times> cp_db" where
  "svc_GetUploadURL E actor now versionID tarballHash tarballSizeBytes =
     ebind (on_db (access actor (FlavorVersionResourceDef versionID))) (\<lambda>_.
     ebind (fail_if (tarballSizeBytes > ChangesetTarballMaxSizeBytes (svc_cfg E)) ErrChangeSetTarballTooBig) (\<lambda>_.
     ebind (on_db (ask (FlavorVersionByID versionID))) (\<lambda>ver.
     ebind (fail_if (v_FilesUploaded ver) ErrFlavorFilesUploaded) (\<lambda>_.
     case v_PresignedURLExpiryDate ver of
       Some date \<Rightarrow> if now < date then (case v_PresignedURL ver of None \<Rightarrow> efail ErrNilPointer | Some url \<Rightarrow> ereturn url)
         else upload_link E versionID tarballHash tarballSizeBytes
     | None \<Rightarrow> upload_link E versionID tarballHash tarballSizeBytes))))"

section \<open>Lemmas\<close>

text \<open>A path of a file below a directory, written without detours.\<close>

definition confined :: "string \<Rightarrow> bool" where
  "confined p \<longleftrightarrow> (\<exists>q. names q \<and> q \<noteq> [] \<and> p = join_with (CHR ''/'') q)"

lemma valid_confined:
  assumes "\<not> invalid_path (Clean p)"
  shows "confined (Clean p)"
proof (cases "p = [] \<or> hd p = CHR ''/''")
  case True
  then show ?thesis using assms by (auto simp: invalid_path_def Clean_def Let_def IsAbs_def HasPrefix_def)
next
  case False
  then have p: "p \<noteq> []" "hd p \<noteq> CHR ''/''" by auto
  obtain q where q: "resolve (split_on (CHR ''/'') p) [] = Some q" "q \<noteq> []"
    using Clean_relative [OF p] assms by (cases "resolve (split_on (CHR ''/'') p) []") (auto simp: invalid_path_def escapes_def)
  then have "names q" using resolve_names split_on_segs by (metis names_simps(1))
  then show ?thesis using Clean_relative(2) [OF p q] q(2) by (auto simp: confined_def)
qed

lemma cleaned:
  assumes "cleanFileHashPaths hs = Inr cs"
  shows "cs = map (\<lambda>h. h\<lparr>h_Path := Clean (h_Path h)\<rparr>) hs" "\<forall>h \<in> set cs. confined (h_Path h)"
proof -
  have n: "filter (\<lambda>(i, h). invalid_path (Clean (h_Path h))) (zip [0..<length hs] hs) = []" and
    cs: "cs = map (\<lambda>h. h\<lparr>h_Path := Clean (h_Path h)\<rparr>) hs"
    using assms by (auto simp: cleanFileHashPaths_def Let_def split: if_splits)
  have "\<not> invalid_path (Clean (h_Path h))" if "h \<in> set hs" for h
  proof -
    from that obtain i where "i < length hs" "h = hs ! i" by (auto simp: in_set_conv_nth)
    then have "(i, h) \<in> set (zip [0..<length hs] hs)" by (force simp: in_set_zip intro: exI [of _ i])
    then show ?thesis using n by (auto simp: filter_empty_conv)
  qed
  then show "cs = map (\<lambda>h. h\<lparr>h_Path := Clean (h_Path h)\<rparr>) hs" "\<forall>h \<in> set cs. confined (h_Path h)"
    using valid_confined by (auto simp: cs)
qed

subsection \<open>Differences\<close>


lemma map_by_self: "map_by key xs k = Some x \<Longrightarrow> map_by key xs (key x) = Some x"
  using map_by_key by metis

lemma map_by_ran: "x \<in> ran (map_by key xs) \<longleftrightarrow> map_by key xs (key x) = Some x"
  unfolding ran_def using map_by_key by fastforce

lemma map_by_set: "distinct (map key ys) \<Longrightarrow> set ys = ran (map_by key xs) \<Longrightarrow> map_by key ys = map_by key xs"
proof (rule ext)
  fix k assume d: "distinct (map key ys)" and s: "set ys = ran (map_by key xs)"
  show "map_by key ys k = map_by key xs k"
  proof (cases "map_by key xs k")
    case None
    then have "k \<notin> key ` set ys" unfolding s by (auto simp: map_by_ran)
    then show ?thesis using None dom_map_by [of key ys] by (metis domIff)
  next
    case (Some x)
    then have x: "x \<in> set ys" "key x = k" using map_by_key [OF Some] by (auto simp: s map_by_ran)
    then show ?thesis using map_by_distinct [OF d x(1)] Some by simp
  qed
qed

lemma same_key:
  assumes "\<And>i x. P i = Some x \<Longrightarrow> key x = i" "\<And>i x. U i = Some x \<Longrightarrow> key x = i"
  shows "(\<exists>p. P (key p) = Some p \<and> U (key p) = Some y \<and> Q p) \<longleftrightarrow> U (key y) = Some y \<and> (\<exists>p. P (key y) = Some p \<and> Q p)"
  using assms by metis

text \<open>The lists of a difference, over the two maps.\<close>

lemma diff_lists:
  assumes o: "map_order order" and d: "version_diff order prevs uploads = (d, hs)"
    and P: "P = map_by h_Path prevs" and U: "U = map_by h_Path uploads"
  shows "set (Added d) = {u. U (h_Path u) = Some u \<and> P (h_Path u) = None}"
    and "set (Changed d) = {u. U (h_Path u) = Some u \<and> (\<exists>p. P (h_Path u) = Some p \<and> h_Hash p \<noteq> h_Hash u)}"
    and "set (Removed d) = {p. P (h_Path p) = Some p \<and> U (h_Path p) = None}"
    and "set hs = ran U" "distinct (map h_Path hs)" "sorted (map h_Path hs)" "distinct (map h_Path (Changed d @ Added d))"
proof -
  let ?olds = "vals_in (order P) P" and ?news = "vals_in (order U) U"
  have f: "finite (dom P)" "finite (dom U)" by (simp_all add: P U)
  have k: "P i = Some x \<Longrightarrow> h_Path x = i" "U i = Some x \<Longrightarrow> h_Path x = i" for i x by (auto simp: P U dest: map_by_key)
  have P': "distinct (map h_Path ?olds)" "set ?olds = ran P" and U': "distinct (map h_Path ?news)" "set ?news = ran U"
    using vals_order [OF o f(1), of h_Path] vals_order [OF o f(2), of h_Path] k by blast+
  let ?same = "\<lambda>b prev. case U (h_Path prev) of Some u \<Rightarrow> if (h_Hash u = h_Hash prev) = b then Some u else None | None \<Rightarrow> None"
  have eq: "(\<lambda>prev. case U (h_Path prev) of Some u \<Rightarrow> if h_Hash u = h_Hash prev then Some u else None | None \<Rightarrow> None) = ?same True"
    "(\<lambda>prev. case U (h_Path prev) of Some u \<Rightarrow> if h_Hash u = h_Hash prev then None else Some u | None \<Rightarrow> None) = ?same False"
    by (auto split: option.split)
  let ?un = "List.map_filter (?same True) ?olds" and ?ch = "List.map_filter (?same False) ?olds"
  let ?ad = "filter (\<lambda>u. P (h_Path u) = None) ?news"
  have d': "Added d = sort_key h_Path ?ad" "Changed d = sort_key h_Path ?ch"
    "Removed d = sort_key h_Path (filter (\<lambda>p. U (h_Path p) = None) ?olds)"
    "hs = sort_key h_Path (sort_key h_Path (sort_key h_Path ?ch @ sort_key h_Path ?ad) @ sort_key h_Path ?un)"
    using d unfolding version_diff_def Let_def P [symmetric] U [symmetric] eq by auto
  have ran: "x \<in> ran P \<longleftrightarrow> P (h_Path x) = Some x" "x \<in> ran U \<longleftrightarrow> U (h_Path x) = Some x" for x by (simp_all add: P U map_by_ran)
  have mf: "y \<in> set (List.map_filter (?same b) ?olds) \<longleftrightarrow>
      U (h_Path y) = Some y \<and> (\<exists>p. P (h_Path y) = Some p \<and> (h_Hash y = h_Hash p) = b)" for y b
  proof -
    have "?same b p = Some y \<longleftrightarrow> U (h_Path p) = Some y \<and> (h_Hash y = h_Hash p) = b" for p :: Hash by (auto split: option.split)
    then have "y \<in> set (List.map_filter (?same b) ?olds) \<longleftrightarrow>
        (\<exists>p. P (h_Path p) = Some p \<and> U (h_Path p) = Some y \<and> (h_Hash y = h_Hash p) = b)"
      unfolding set_map_filter P'(2) Bex_def ran(1) mem_Collect_eq by (simp only:)
    also have "\<dots> \<longleftrightarrow> U (h_Path y) = Some y \<and> (\<exists>p. P (h_Path y) = Some p \<and> (h_Hash y = h_Hash p) = b)"
      by (rule same_key; fact k)
    finally show ?thesis .
  qed
  show a: "set (Added d) = {u. U (h_Path u) = Some u \<and> P (h_Path u) = None}" using U'(2) ran(2) by (auto simp: d')
  show c: "set (Changed d) = {u. U (h_Path u) = Some u \<and> (\<exists>p. P (h_Path u) = Some p \<and> h_Hash p \<noteq> h_Hash u)}"
    using mf [of _ False] by (auto simp: d')
  show "set (Removed d) = {p. P (h_Path p) = Some p \<and> U (h_Path p) = None}" using P'(2) ran(1) by (auto simp: d')
  have dis: "distinct (map h_Path (List.map_filter (?same b) ?olds))" for b
    by (rule map_filter_key [OF _ P'(1)]) (auto split: option.splits if_splits dest: k(2))
  have "distinct (map h_Path ?ad)" using U'(1) by (simp add: distinct_map_filter)
  moreover have "h_Path ` set ?ch \<inter> h_Path ` set ?ad = {}" "h_Path ` set ?un \<inter> h_Path ` set ?ad = {}" using mf by auto
  moreover have "h_Path ` set ?un \<inter> h_Path ` set ?ch = {}" using mf [of _ True] mf [of _ False] by (auto simp: image_iff)
  ultimately show "distinct (map h_Path (Changed d @ Added d))" "distinct (map h_Path hs)"
    using dis [of True] dis [of False] by (auto simp: d' distinct_map inj_on_Un)
  show "sorted (map h_Path hs)" by (simp add: d')
  show "set hs = ran U" using mf [of _ True] mf [of _ False] a ran(2) by (auto simp: d')
qed

lemma diff_applies:
  assumes o: "map_order order" and d: "version_diff order prevs uploads = (d, hs)"
    and P: "P = map_by h_Path prevs" and U: "U = map_by h_Path uploads"
  shows "map_by h_Path hs = U" and "P |` (- h_Path ` set (Removed d)) ++ map_by h_Path (Changed d @ Added d) = U"
    and "u \<in> set (Changed d @ Added d) \<Longrightarrow> P (h_Path u) \<noteq> Some u" and "set hs \<subseteq> set uploads"
proof -
  note D = diff_lists [OF assms]
  show "map_by h_Path hs = U" unfolding U by (rule map_by_set [OF D(5)]) (simp add: D(4) U)
  show "u \<in> set (Changed d @ Added d) \<Longrightarrow> P (h_Path u) \<noteq> Some u" using D(1,2) by auto
  show "set hs \<subseteq> set uploads" unfolding D(4) by (auto simp: U ran_def dest: map_by_key)
  have k: "P i = Some x \<Longrightarrow> h_Path x = i" "U i = Some x \<Longrightarrow> h_Path x = i" for i x by (auto simp: P U dest: map_by_key)
  let ?new = "map_by h_Path (Changed d @ Added d)"
  have new: "?new i = Some u \<longleftrightarrow> u \<in> set (Changed d @ Added d) \<and> h_Path u = i" for i u
    using map_by_distinct [OF D(7)] map_by_key [of h_Path "Changed d @ Added d"] by metis
  show "P |` (- h_Path ` set (Removed d)) ++ ?new = U"
  proof (rule ext)
    fix i
    show "(P |` (- h_Path ` set (Removed d)) ++ ?new) i = U i"
    proof (cases "?new i")
      case (Some u)
      then have "U i = Some u" unfolding new using D(1,2) by auto
      then show ?thesis using Some by (simp add: map_add_def)
    next
      case None
      then have n: "\<not> (u \<in> set (Changed d @ Added d) \<and> h_Path u = i)" for u unfolding new [symmetric] by simp
      show ?thesis
      proof (cases "U i")
        case (Some u)
        then obtain p where p: "P i = Some p" "h_Hash p = h_Hash u" using n [of u] k(2) [OF Some] D(1,2) by auto
        then have "p = u" using k(1) [OF p(1)] k(2) [OF Some] by simp
        moreover have "i \<notin> h_Path ` set (Removed d)" using Some D(3) by auto
        ultimately show ?thesis using None Some p(1) by (simp add: map_add_def)
      next
        case Uno: None
        then have "P i = None \<or> i \<in> h_Path ` set (Removed d)" using D(3) k(1) by (cases "P i") (auto simp: image_iff)
        then show ?thesis using None Uno by (auto simp: map_add_def restrict_map_def)
      qed
    qed
  qed
qed

end
