(* ===== verification/Chunk_Server.thy ===== *)
theory Chunk_Server
  imports Chunk_Service
begin

text \<open>
  The server for chunks, \<^verbatim>\<open>chunk/server.go\<close>: its requests and responses, and one function that serves them. What a
  request may choose freely, new identifiers, the time and the orders of maps, is the record of the call. The
  properties are about what any request can change.
\<close>

section \<open>Requests\<close>

datatype chunk_request =
    CreateChunkRequest string string "string list"
  | GetChunkRequest string
  | UpdateChunkRequest string string string "string list"
  | CreateFlavorRequest string string
  | CreateFlavorVersionRequest string string string string "Hash list" u32 u32
  | BuildFlavorVersionRequest string
  | GetUploadURLRequest string string u64
  | GetSupportedMinecraftVersionsRequest
  | UploadThumbnailRequest string string
  | DeleteFlavorRequest string
  | DeleteChunkRequest string
  | GetFlavorRequest string

datatype chunk_response =
    ChunkResponse ChunkMsg
  | FlavorResponse FlavorMsg
  | FlavorVersionResponse FlavorVersionMsg "Hash list" "Hash list" "Hash list"
  | UploadURLResponse string
  | VersionsResponse "string list"
  | EmptyResponse

record call =
  new_id :: string
  call_time :: nat
  call_orders :: orders
  hash_order :: "(string \<rightharpoonup> Hash) \<Rightarrow> string list"

definition reply :: "('a \<Rightarrow> chunk_response) \<Rightarrow> ('st \<Rightarrow> (cp_error + 'a) \<times> 'st) \<Rightarrow> 'st \<Rightarrow> (cp_error + chunk_response) \<times> 'st" where
  "reply f m = ebind m (\<lambda>x. ereturn (f x))"

definition zero_chunk :: Chunk where
  "zero_chunk = \<lparr>c_ID = [], c_Name = [], c_Description = [], c_Tags = [], c_Flavors = [], c_Owner = zero_user, c_CreatedAt = 0,
     c_UpdatedAt = 0, c_ThumbnailHash = [], c_DeletedAt = None\<rparr>"

definition srv_CreateChunk :: "call \<Rightarrow> string option \<Rightarrow> string \<Rightarrow> string \<Rightarrow> string list \<Rightarrow> cp_db \<Rightarrow> (cp_error + chunk_response) \<times> cp_db" where
  "srv_CreateChunk cl actor name description tags =
     reply (\<lambda>c. ChunkResponse (ChunkToTransport c)) (svc_CreateChunk (call_orders cl) actor (new_id cl) (call_time cl)
       (zero_chunk\<lparr>c_Name := name, c_Description := description, c_Tags := tags\<rparr>))"

definition srv_GetChunk :: "call \<Rightarrow> string \<Rightarrow> cp_db \<Rightarrow> (cp_error + chunk_response) \<times> cp_db" where
  "srv_GetChunk cl k = reply (\<lambda>c. ChunkResponse (ChunkToTransport c)) (ask (svc_GetChunk (call_orders cl) k))"

definition srv_UpdateChunk ::
  "call \<Rightarrow> string option \<Rightarrow> string \<Rightarrow> string \<Rightarrow> string \<Rightarrow> string list \<Rightarrow> cp_db \<Rightarrow> (cp_error + chunk_response) \<times> cp_db" where
  "srv_UpdateChunk cl actor k name description tags =
     reply (\<lambda>c. ChunkResponse (ChunkToTransport c)) (svc_UpdateChunk (call_orders cl) actor (call_time cl)
       (zero_chunk\<lparr>c_ID := k, c_Name := name, c_Description := description, c_Tags := tags\<rparr>))"

definition srv_CreateFlavor :: "call \<Rightarrow> string option \<Rightarrow> string \<Rightarrow> string \<Rightarrow> cp_db \<Rightarrow> (cp_error + chunk_response) \<times> cp_db" where
  "srv_CreateFlavor cl actor chunkID name =
     reply (\<lambda>f. FlavorResponse (FlavorToTransport f)) (svc_CreateFlavor actor (new_id cl) (call_time cl) chunkID name)"

definition srv_CreateFlavorVersion ::
  "'w chunk_svc \<Rightarrow> call \<Rightarrow> string option \<Rightarrow> string \<Rightarrow> string \<Rightarrow> string \<Rightarrow> string \<Rightarrow> Hash list \<Rightarrow> u32 \<Rightarrow> u32 \<Rightarrow>
   cp_db \<Rightarrow> (cp_error + chunk_response) \<times> cp_db" where
  "srv_CreateFlavorVersion E cl actor flavorID version mc hash hs minPlayers maxPlayers =
     reply (\<lambda>(v, d). FlavorVersionResponse (FlavorVersionToTransport v) (Changed d) (Removed d) (Added d))
       (svc_CreateFlavorVersion E (hash_order cl) actor (new_id cl) (call_time cl) flavorID
         (zero_version\<lparr>v_Version := version, v_MinecraftVersion := mc, v_Hash := hash, v_FileHashes := hs,
           v_MinPlayers := minPlayers, v_MaxPlayers := maxPlayers\<rparr>))"

definition srv_BuildFlavorVersion :: "'w chunk_svc \<Rightarrow> string option \<Rightarrow> string \<Rightarrow> 'w \<times> cp_db \<Rightarrow> (cp_error + chunk_response) \<times> 'w \<times> cp_db" where
  "srv_BuildFlavorVersion E actor k = reply (\<lambda>_. EmptyResponse) (svc_BuildFlavorVersion E actor k)"

definition srv_GetUploadURL ::
  "'w chunk_svc \<Rightarrow> call \<Rightarrow> string option \<Rightarrow> string \<Rightarrow> string \<Rightarrow> u64 \<Rightarrow> 'w \<times> cp_db \<Rightarrow> (cp_error + chunk_response) \<times> 'w \<times> cp_db" where
  "srv_GetUploadURL E cl actor k tarballHash tarballSize = reply UploadURLResponse (svc_GetUploadURL E actor (call_time cl) k tarballHash tarballSize)"

definition srv_GetSupportedMinecraftVersions :: "cp_db \<Rightarrow> (cp_error + chunk_response) \<times> cp_db" where
  "srv_GetSupportedMinecraftVersions = reply VersionsResponse (ask (\<lambda>db. Inr (SupportedMinecraftVersions db)))"

definition srv_UploadThumbnail ::
  "'w chunk_svc \<Rightarrow> call \<Rightarrow> string option \<Rightarrow> string \<Rightarrow> string \<Rightarrow> 'w \<times> cp_db \<Rightarrow> (cp_error + chunk_response) \<times> 'w \<times> cp_db" where
  "srv_UploadThumbnail E cl actor k imgData = reply (\<lambda>_. EmptyResponse) (svc_UpdateThumbnail E (call_orders cl) actor k imgData)"

definition srv_DeleteFlavor :: "call \<Rightarrow> string option \<Rightarrow> string \<Rightarrow> cp_db \<Rightarrow> (cp_error + chunk_response) \<times> cp_db" where
  "srv_DeleteFlavor cl actor k = reply (\<lambda>_. EmptyResponse) (svc_DeleteFlavor actor (call_time cl) k)"

definition srv_DeleteChunk :: "call \<Rightarrow> string option \<Rightarrow> string \<Rightarrow> cp_db \<Rightarrow> (cp_error + chunk_response) \<times> cp_db" where
  "srv_DeleteChunk cl actor k = reply (\<lambda>_. EmptyResponse) (svc_DeleteChunk (call_orders cl) actor (call_time cl) k)"

definition srv_GetFlavor :: "string option \<Rightarrow> string \<Rightarrow> cp_db \<Rightarrow> (cp_error + chunk_response) \<times> cp_db" where
  "srv_GetFlavor actor k = reply (\<lambda>f. FlavorResponse (FlavorToTransport f)) (ask (svc_GetFlavor actor k))"

fun serve :: "'w chunk_svc \<Rightarrow> call \<Rightarrow> string option \<Rightarrow> chunk_request \<Rightarrow> 'w \<times> cp_db \<Rightarrow> (cp_error + chunk_response) \<times> 'w \<times> cp_db" where
  "serve E cl actor (CreateChunkRequest name description tags) = on_db (srv_CreateChunk cl actor name description tags)"
| "serve E cl actor (GetChunkRequest k) = on_db (srv_GetChunk cl k)"
| "serve E cl actor (UpdateChunkRequest k name description tags) = on_db (srv_UpdateChunk cl actor k name description tags)"
| "serve E cl actor (CreateFlavorRequest chunkID name) = on_db (srv_CreateFlavor cl actor chunkID name)"
| "serve E cl actor (CreateFlavorVersionRequest flavorID version mc hash hs minPlayers maxPlayers) =
     on_db (srv_CreateFlavorVersion E cl actor flavorID version mc hash hs minPlayers maxPlayers)"
| "serve E cl actor (BuildFlavorVersionRequest k) = srv_BuildFlavorVersion E actor k"
| "serve E cl actor (GetUploadURLRequest k tarballHash tarballSize) = srv_GetUploadURL E cl actor k tarballHash tarballSize"
| "serve E cl actor GetSupportedMinecraftVersionsRequest = on_db srv_GetSupportedMinecraftVersions"
| "serve E cl actor (UploadThumbnailRequest k imgData) = srv_UploadThumbnail E cl actor k imgData"
| "serve E cl actor (DeleteFlavorRequest k) = on_db (srv_DeleteFlavor cl actor k)"
| "serve E cl actor (DeleteChunkRequest k) = on_db (srv_DeleteChunk cl actor k)"
| "serve E cl actor (GetFlavorRequest k) = on_db (srv_GetFlavor actor k)"

text \<open>Requests one after the other.\<close>

fun serve_all :: "'w chunk_svc \<Rightarrow> (call \<times> string option \<times> chunk_request) list \<Rightarrow> 'w \<times> cp_db \<Rightarrow> 'w \<times> cp_db" where
  "serve_all E [] st = st"
| "serve_all E ((cl, actor, req) # reqs) st = serve_all E reqs (snd (serve E cl actor req st))"

section \<open>What a chunk has in the database\<close>

definition chunk_versions_rows :: "cp_db \<Rightarrow> string \<Rightarrow> version_row list" where
  "chunk_versions_rows db k = filter (\<lambda>v. has fl_id (chunk_flavors db k) (ve_flavor v)) (versions db)"

definition chunk_rows :: "cp_db \<Rightarrow> string \<Rightarrow> chunk_row list \<times> flavor_row list \<times> version_row list \<times> file_row list" where
  "chunk_rows db k =
     (filter (\<lambda>c. ch_id c = k) (chunks db), chunk_flavors db k, chunk_versions_rows db k,
      filter (\<lambda>h. has ve_id (chunk_versions_rows db k) (fi_version h)) (files db))"

text \<open>A change to the one chunk: every other has what it had, and so have the other tables but the jobs; paths of new files are confined.\<close>

definition only_chunk :: "string \<Rightarrow> cp_db \<Rightarrow> cp_db \<Rightarrow> bool" where
  "only_chunk k0 db db' \<longleftrightarrow> db_ok db' \<and> (\<forall>k. k \<noteq> k0 \<longrightarrow> chunk_rows db' k = chunk_rows db k) \<and>
     nodes db' = nodes db \<and> users db' = users db \<and> instances db' = instances db \<and> mc_versions db' = mc_versions db \<and>
     chunk_archive db' = chunk_archive db \<and> flavor_archive db' = flavor_archive db \<and> version_archive db' = version_archive db \<and>
     (\<forall>h \<in> set (files db'). h \<in> set (files db) \<or> confined (fi_path h))"

section \<open>Lemmas\<close>

lemma only_refl: "db_ok db \<Longrightarrow> only_chunk k db db"
  by (simp add: only_chunk_def)

lemma only_trans: "only_chunk k a b \<Longrightarrow> only_chunk k b c \<Longrightarrow> only_chunk k a c"
  by (simp add: only_chunk_def) blast

lemma jobs_rest [simp]: "db_ok (db\<lparr>jobs := js\<rparr>) = db_ok db" "chunk_rows (db\<lparr>jobs := js\<rparr>) k = chunk_rows db k"
  by (simp_all add: db_ok_defs chunk_rows_def chunk_flavors_def chunk_versions_rows_def)

lemma only_jobs: "only_chunk k db db' \<Longrightarrow> only_chunk k db (db'\<lparr>jobs := js\<rparr>)"
  by (simp add: only_chunk_def)


lemmas rows_defs = chunk_rows_def chunk_flavors_def chunk_versions_rows_def

lemma only_insert:
  assumes db: "db_ok db"
  shows "insert_chunk c db = Some db' \<Longrightarrow> only_chunk (ch_id c) db db'" "insert_flavor f db = Some db' \<Longrightarrow> only_chunk (fl_chunk f) db db'"
    "insert_version v hs db = Some db' \<Longrightarrow> look fl_id (flavors db) (ve_flavor v) = Some f' \<Longrightarrow> \<forall>h \<in> set hs. confined (h_Path h) \<Longrightarrow>
      only_chunk (fl_chunk f') db db'"
proof -
  assume i: "insert_chunk c db = Some db'"
  show "only_chunk (ch_id c) db db'" using insert_ok(1) [OF db i] i by (auto simp: insert_Some only_chunk_def rows_defs)
next
  assume i: "insert_flavor f db = Some db'"
  show "only_chunk (fl_chunk f) db db'" using insert_ok(2) [OF db i] i by (auto simp: insert_Some only_chunk_def rows_defs)
next
  assume i: "insert_version v hs db = Some db'" and f': "look fl_id (flavors db) (ve_flavor v) = Some f'"
    and hs: "\<forall>h \<in> set hs. confined (h_Path h)"
  have n: "\<not> has fl_id (chunk_flavors db k) (ve_flavor v)" if "k \<noteq> fl_chunk f'" for k
    using look_in [OF db_ok_pk(2) [OF db]] f' that by (fastforce simp: has_iff chunk_flavors_def)
  moreover have "\<not> has ve_id (chunk_versions_rows db k) (ve_id v)" for k using i by (auto simp: insert_Some has_iff chunk_versions_rows_def)
  ultimately have "chunk_rows db' k = chunk_rows db k" if "k \<noteq> fl_chunk f'" for k
  proof -
    have c: "chunks db' = chunks db" "flavors db' = flavors db" "versions db' = versions db @ [v]"
      "files db' = files db @ map (\<lambda>h. \<lparr>fi_version = ve_id v, fi_hash = h_Hash h, fi_path = h_Path h\<rparr>) hs"
      using i by (simp_all add: insert_Some)
    have "chunk_flavors db' k = chunk_flavors db k" by (simp add: chunk_flavors_def c)
    moreover have "chunk_versions_rows db' k = chunk_versions_rows db k"
      using n [OF that] calculation by (simp add: chunk_versions_rows_def c)
    ultimately show ?thesis using \<open>\<And>k. \<not> has ve_id (chunk_versions_rows db k) (ve_id v)\<close>
      by (simp add: chunk_rows_def c filter_map o_def)
  qed
  then show "only_chunk (fl_chunk f') db db'" using insert_ok(3) [OF db i] i hs by (auto simp: insert_Some only_chunk_def)
qed

lemma filter_updated: "(\<And>r. P (g r) = P r) \<Longrightarrow> \<forall>r \<in> set rows. Q r \<longrightarrow> \<not> P r \<Longrightarrow>
    filter P (map (\<lambda>r. if Q r then g r else r) rows) = filter P rows"
  by (induction rows) auto

lemma only_update:
  assumes db: "db_ok db"
  shows "(\<And>c. ch_id (g c) = ch_id c \<and> ch_owner (g c) = ch_owner c) \<Longrightarrow> only_chunk k (db) (update_chunk k g db)"
  "(\<And>f. fl_id (g' f) = fl_id f \<and> fl_chunk (g' f) = fl_chunk f) \<Longrightarrow> \<forall>f \<in> set (flavors db). fl_id f = i \<longrightarrow> fl_chunk f = k \<Longrightarrow>
    only_chunk k db (update_flavor i g' db)"
  "(\<And>v. ve_id (g'' v) = ve_id v \<and> ve_flavor (g'' v) = ve_flavor v \<and> ve_version (g'' v) = ve_version v \<and> ve_mc (g'' v) = ve_mc v) \<Longrightarrow>
    \<forall>v \<in> set (versions db). ve_id v = i \<longrightarrow> (\<forall>f \<in> set (flavors db). fl_id f = ve_flavor v \<longrightarrow> fl_chunk f = k) \<Longrightarrow>
    only_chunk k db (update_version i g'' db)"
proof -
  assume g: "\<And>c. ch_id (g c) = ch_id c \<and> ch_owner (g c) = ch_owner c"
  have "filter (\<lambda>c. ch_id c = k') (map (\<lambda>c. if ch_id c = k then g c else c) (chunks db)) = filter (\<lambda>c. ch_id c = k') (chunks db)" if "k' \<noteq> k" for k'
    using g that by (intro filter_updated) auto
  then show "only_chunk k (db) (update_chunk k g db)"
    using update_ok(1) [OF db g] by (simp add: only_chunk_def rows_defs update_chunk_def)
next
  assume g: "\<And>f. fl_id (g' f) = fl_id f \<and> fl_chunk (g' f) = fl_chunk f" and i: "\<forall>f \<in> set (flavors db). fl_id f = i \<longrightarrow> fl_chunk f = k"
  have "chunk_flavors (update_flavor i g' db) k' = chunk_flavors db k'" if "k' \<noteq> k" for k'
    unfolding chunk_flavors_def update_flavor_def using g i that by (simp, intro filter_updated) auto
  then show "only_chunk k db (update_flavor i g' db)"
    using update_ok(2) [OF db g] by (simp add: only_chunk_def chunk_rows_def chunk_versions_rows_def) (simp add: update_flavor_def)
next
  assume g: "\<And>v. ve_id (g'' v) = ve_id v \<and> ve_flavor (g'' v) = ve_flavor v \<and> ve_version (g'' v) = ve_version v \<and> ve_mc (g'' v) = ve_mc v"
    and i: "\<forall>v \<in> set (versions db). ve_id v = i \<longrightarrow> (\<forall>f \<in> set (flavors db). fl_id f = ve_flavor v \<longrightarrow> fl_chunk f = k)"
  have f: "chunk_flavors (update_version i g'' db) k' = chunk_flavors db k'" for k' by (simp add: chunk_flavors_def update_version_def)
  have "chunk_versions_rows (update_version i g'' db) k' = chunk_versions_rows db k'" if "k' \<noteq> k" for k'
    unfolding chunk_versions_rows_def f using g i that
    by (simp add: update_version_def, intro filter_updated) (auto simp: has_iff chunk_flavors_def)
  then show "only_chunk k db (update_version i g'' db)"
    using update_ok(3) [OF db g] f by (simp add: only_chunk_def chunk_rows_def) (simp add: update_version_def)
qed

subsection \<open>What holds after a method\<close>

definition wp :: "('st \<Rightarrow> ('e + 'a) \<times> 'st) \<Rightarrow> ('e + 'a \<Rightarrow> 'st \<Rightarrow> bool) \<Rightarrow> 'st \<Rightarrow> bool" where
  "wp m Q st \<longleftrightarrow> Q (fst (m st)) (snd (m st))"

lemma wp_steps [simp]:
  "wp (ebind m f) Q st \<longleftrightarrow> wp m (\<lambda>r st. case r of Inl e \<Rightarrow> Q (Inl e) st | Inr x \<Rightarrow> wp (f x) Q st) st"
  "wp (ereturn x) Q st \<longleftrightarrow> Q (Inr x) st" "wp (efail e) Q st \<longleftrightarrow> Q (Inl e) st" "wp (ask q) Q st \<longleftrightarrow> Q (q st) st"
  "wp (fail_if b e) Q1 st \<longleftrightarrow> (if b then Q1 (Inl e) st else Q1 (Inr ()) st)" "wp (exec g) Q' db \<longleftrightarrow> Q' (Inr ()) (g db)"
  "wp (reply h m) Q2 st \<longleftrightarrow> wp m (\<lambda>r st. case r of Inl e \<Rightarrow> Q2 (Inl e) st | Inr x \<Rightarrow> Q2 (Inr (h x)) st) st"
  by (auto simp: wp_def ebind_def ereturn_def efail_def ask_def fail_if_def exec_def reply_def split: prod.split sum.split)

lemma wp_lifts [simp]:
  "wp (on_db m) Q st \<longleftrightarrow> wp m (\<lambda>r db. Q r (fst st, db)) (snd st)" "wp (on_world m') Q st \<longleftrightarrow> wp m' (\<lambda>r w. Q r (w, snd st)) (fst st)"
  by (auto simp: wp_def on_db_def on_world_def split: prod.split)

lemma case_sum_same [simp]: "(case r of Inl e \<Rightarrow> P | Inr x \<Rightarrow> P) = P"
  by (cases r) simp_all

lemma wp_True [simp]: "wp m (\<lambda>r st. True) st"
  by (simp add: wp_def)

text \<open>Who may write: the chunk under the identifier, if there is one, is the actor's.\<close>

definition owned :: "string \<Rightarrow> cp_db \<Rightarrow> string \<Rightarrow> bool" where
  "owned a db k \<longleftrightarrow> (\<forall>c \<in> set (chunks db). ch_id c = k \<longrightarrow> ch_owner c = a)"

fun granted :: "string \<Rightarrow> ResourceType \<Rightarrow> string \<Rightarrow> cp_db \<Rightarrow> bool" where
  "granted a ResourceTypeChunk k db = owned a db k"
| "granted a ResourceTypeFlavor k db = (\<forall>f \<in> set (flavors db). fl_id f = k \<longrightarrow> owned a db (fl_chunk f))"
| "granted a ResourceTypeFlavorVersion k db =
     (\<forall>v \<in> set (versions db). ve_id v = k \<longrightarrow> (\<forall>f \<in> set (flavors db). fl_id f = ve_flavor v \<longrightarrow> owned a db (fl_chunk f)))"

lemma owner_granted:
  assumes db: "db_ok db"
  shows "granted (u_ID (ChunkOwner k db)) ResourceTypeChunk k db" "granted (u_ID (FlavorOwner k db)) ResourceTypeFlavor k db"
    "granted (u_ID (FlavorVersionOwner k db)) ResourceTypeFlavorVersion k db"
proof -
  note pk = db_ok_pk [OF db]
  have c: "\<exists>u. look ch_id (chunks db) (ch_id c) = Some c \<and> look u_ID (users db) (ch_owner c) = Some u \<and> u_ID u = ch_owner c"
    if "c \<in> set (chunks db)" for c
    using db_okD(7) [OF db that] look_in [OF pk(1) that] unfolding look_has by (metis look_Some option.exhaust)
  show "granted (u_ID (ChunkOwner k db)) ResourceTypeChunk k db" using c by (fastforce simp: owned_def ChunkOwner_def getOwner_def)
  show "granted (u_ID (FlavorOwner k db)) ResourceTypeFlavor k db"
    using c look_in [OF pk(2)] by (fastforce simp: owned_def FlavorOwner_def getOwner_def)
  show "granted (u_ID (FlavorVersionOwner k db)) ResourceTypeFlavorVersion k db"
  proof (simp, intro ballI impI)
    fix v f assume v: "v \<in> set (versions db)" "ve_id v = k" and f: "f \<in> set (flavors db)" "fl_id f = ve_flavor v"
    show "owned (u_ID (FlavorVersionOwner k db)) db (fl_chunk f)"
      using c look_in [OF pk(2) f(1)] look_in [OF pk(3) v(1)] v(2) f(2) by (fastforce simp: owned_def FlavorVersionOwner_def getOwner_def)
  qed
qed

lemma wp_access:
  assumes "db_ok db" "\<And>e. Q (Inl e) db" "\<And>a. actor = Some a \<Longrightarrow> granted a (rd_Type res) (rd_ID res) db \<Longrightarrow> Q (Inr a) db"
  shows "wp (access actor res) Q db"
proof (cases actor)
  case (Some a)
  have "granted a (rd_Type res) (rd_ID res) db" if "AccessAuthorized [WithOwnershipRule a res] db = Inr ()"
    using that owner_granted [OF assms(1), of "rd_ID res"]
    by (cases "rd_Type res") (simp_all add: AccessAuthorized_def WithOwnershipRule_def evalOwnership_def split: if_splits)
  then show ?thesis using Some assms(2,3) by (simp add: access_def split: sum.split)
qed (use assms in \<open>simp add: access_def\<close>)

definition owners_kept :: "string option \<Rightarrow> cp_db \<Rightarrow> cp_db \<Rightarrow> bool" where
  "owners_kept actor db db' \<longleftrightarrow> db_ok db' \<and>
     (\<forall>c \<in> set (chunks db). actor \<noteq> Some (ch_owner c) \<longrightarrow> chunk_rows db' (ch_id c) = chunk_rows db (ch_id c)) \<and>
     nodes db' = nodes db \<and> users db' = users db \<and> instances db' = instances db \<and> mc_versions db' = mc_versions db \<and>
     chunk_archive db' = chunk_archive db \<and> flavor_archive db' = flavor_archive db \<and> version_archive db' = version_archive db \<and>
     (\<forall>h \<in> set (files db'). h \<in> set (files db) \<or> confined (fi_path h))"

lemma only_kept: "only_chunk k db db' \<Longrightarrow> owned a db k \<Longrightarrow> owners_kept (Some a) db db'"
  by (auto simp: only_chunk_def owners_kept_def owned_def)

lemma kept_refl [simp]: "owners_kept actor db db \<longleftrightarrow> db_ok db"
  by (simp add: owners_kept_def)

subsection \<open>Every method keeps what others own\<close>

lemma owned_new: "\<not> has ch_id (chunks db) k \<Longrightarrow> owned a db k"
  by (auto simp: owned_def has_iff)

lemma insert_chunk_kept: "db_ok db \<Longrightarrow> insert_chunk c db = Some db' \<Longrightarrow> owners_kept (Some a) db db'"
  by (rule only_kept [OF only_insert(1)]) (auto simp: insert_Some intro: owned_new)

lemma CreateChunk_kept:
  assumes "db_ok db"
  shows "wp (svc_CreateChunk ord actor k now c) (\<lambda>_. owners_kept actor db) db"
proof -
  have "wp (repo_CreateChunk ord k now (c\<lparr>c_Owner := (c_Owner c)\<lparr>u_ID := a\<rparr>\<rparr>)) (\<lambda>_. owners_kept (Some a) db) db" for a
    unfolding wp_def repo_CreateChunk_def using assms
    by (auto split: option.split sum.split intro: insert_chunk_kept)
  then show ?thesis using assms by (simp add: svc_CreateChunk_def split: sum.split option.split)
qed

lemma update_chunk_kept:
  assumes "db_ok db" "owned a db k" "\<And>c. ch_id (g c) = ch_id c \<and> ch_owner (g c) = ch_owner c"
  shows "owners_kept (Some a) db (update_chunk k g db)"
  using only_update(1) [OF assms(1,3)] assms(2) by (rule only_kept)

lemma UpdateChunk_kept:
  assumes db: "db_ok db" and o: "orders_ok ord"
  shows "wp (svc_UpdateChunk ord actor now c) (\<lambda>_. owners_kept actor db) db"
proof -
  have "wp (repo_UpdateChunk ord now (set_fields c old)) (\<lambda>_. owners_kept (Some a) db) db" if "owned a db (c_ID old)" for a old
  proof -
    have "owners_kept (Some a) db (update_chunk (c_ID old) (\<lambda>r. r\<lparr>ch_name := n, ch_description := d, ch_tags := t, ch_updated := now\<rparr>) db)" for n d t
      by (rule update_chunk_kept [OF db that]) simp
    moreover have "c_ID (set_fields c old) = c_ID old" by (simp add: set_fields_def)
    ultimately show ?thesis unfolding wp_def repo_UpdateChunk_def Let_def using db by (simp split: sum.split)
  qed
  then have "wp (access actor (ChunkResourceDef (c_ID old))) (\<lambda>r st. case r of Inl e \<Rightarrow> owners_kept actor db st
      | Inr x \<Rightarrow> wp (repo_UpdateChunk ord now (set_fields c old)) (\<lambda>_. owners_kept actor db) st) db" for old
    by (intro wp_access [OF db]) (simp_all add: db ChunkResourceDef_def)
  then show ?thesis unfolding svc_UpdateChunk_def wp_steps
    using db by (cases "validateChunkFields c"; cases "getChunkByID ord (c_ID c) db") simp_all
qed

lemma CreateFlavor_kept:
  assumes db: "db_ok db"
  shows "wp (svc_CreateFlavor actor k now c name) (\<lambda>_. owners_kept actor db) db"
  unfolding svc_CreateFlavor_def wp_steps
  by (rule wp_access [OF db]) (auto simp: db wp_def repo_CreateFlavor_def ChunkResourceDef_def efail_def
      dest!: only_insert(2) [OF db] intro: only_kept split: option.split)

lemma FlavorByID_Inr: "FlavorByID k db = Inr f \<longleftrightarrow> (\<exists>r. look fl_id (flavors db) k = Some r \<and>
    f = (flavor_domain r)\<lparr>f_Versions := latest_first v_CreatedAt (map (\<lambda>v. (version_domain v)\<lparr>v_PresignedURLExpiryDate :=
      ve_expiry (hd (flavor_versions db k)), v_PresignedURL := ve_url (hd (flavor_versions db k))\<rparr>) (flavor_versions db k))\<rparr>)"
  by (auto simp: FlavorByID_def Let_def split: option.split)

lemma MarkFlavor_only:
  "db_ok db \<Longrightarrow> \<forall>f \<in> set (flavors db). fl_id f = i \<longrightarrow> fl_chunk f = k \<Longrightarrow> only_chunk k db (MarkFlavorDeleted now i db)"
  unfolding MarkFlavorDeleted_def by (rule only_update(2)) simp_all

lemma DeleteFlavor_kept:
  assumes db: "db_ok db"
  shows "wp (svc_DeleteFlavor actor now k) (\<lambda>_. owners_kept actor db) db"
proof -
  have "owners_kept (Some a) db (MarkFlavorDeleted now k db)"
    if f: "look fl_id (flavors db) k = Some f" and g: "granted a ResourceTypeFlavor k db" for a f
  proof (rule only_kept)
    show "only_chunk (fl_chunk f) db (MarkFlavorDeleted now k db)"
      using look_in [OF db_ok_pk(2) [OF db]] f by (intro MarkFlavor_only [OF db]) fastforce
    show "owned a db (fl_chunk f)" using g look_Some [OF f] by simp
  qed
  then show ?thesis unfolding svc_DeleteFlavor_def wp_steps
    by (intro wp_access [OF db]) (auto simp: db FlavorResourceDef_def FlavorByID_Inr split: sum.split)
qed

lemma MarkFlavors_only:
  "db_ok db \<Longrightarrow> \<forall>f \<in> set (flavors db). fl_id f \<in> f_ID ` set fs \<longrightarrow> fl_chunk f = k \<Longrightarrow>
     only_chunk k db (fold (\<lambda>f. MarkFlavorDeleted now (f_ID f)) fs db)"
proof (induction fs arbitrary: db)
  case (Cons f fs)
  have 1: "only_chunk k db (MarkFlavorDeleted now (f_ID f) db)" using Cons.prems by (intro MarkFlavor_only) auto
  have "only_chunk k (MarkFlavorDeleted now (f_ID f) db) (fold (\<lambda>f. MarkFlavorDeleted now (f_ID f)) fs (MarkFlavorDeleted now (f_ID f) db))"
    using 1 Cons.prems(2) by (intro Cons.IH) (auto simp: only_chunk_def MarkFlavorDeleted_def update_flavor_def split: if_splits)
  then show ?case using only_trans [OF 1] by simp
qed (simp add: only_refl)

lemma DeleteChunk_kept:
  assumes db: "db_ok db" and o: "orders_ok ord"
  shows "wp (svc_DeleteChunk ord actor now k) (\<lambda>_. owners_kept actor db) db"
proof -
  let ?db1 = "update_chunk k (\<lambda>r. r\<lparr>ch_deleted := Some now\<rparr>) db"
  have "only_chunk k db (fold (\<lambda>f. MarkFlavorDeleted now (f_ID f)) (c_Flavors ch) ?db1)" if g: "getChunkByID ord k db = Inr ch" for ch
  proof -
    obtain c where c: "ch_id c = k" "chunk_tree (\<lambda>_. True) db c ch" by (rule getChunk_Inr [OF db o g])
    have 1: "only_chunk k db ?db1" by (rule only_update(1) [OF db]) simp
    have "\<forall>f \<in> set (flavors ?db1). fl_id f \<in> f_ID ` set (c_Flavors ch) \<longrightarrow> fl_chunk f = k"
      using tree_flavor_ids(1) [OF c(2)] c(1) rows_unique(1) [OF db] by (auto simp: update_chunk_def chunk_flavors_def)
    then have "only_chunk k ?db1 (fold (\<lambda>f. MarkFlavorDeleted now (f_ID f)) (c_Flavors ch) ?db1)"
      using 1 by (intro MarkFlavors_only) (simp_all add: only_chunk_def)
    then show ?thesis using only_trans [OF 1] by blast
  qed
  then show ?thesis unfolding svc_DeleteChunk_def wp_steps
    by (intro wp_access [OF db]) (auto simp: db ChunkResourceDef_def MarkChunkAndFlavorsDeleted_def wp_def ereturn_def split: sum.split intro: only_kept)
qed

lemma repo_version_kept:
  assumes db: "db_ok db" and f: "look fl_id (flavors db) flavorID = Some f" and g: "granted a ResourceTypeFlavor flavorID db"
    and hs: "\<forall>h \<in> set (v_FileHashes v). confined (h_Path h)"
  shows "wp (repo_CreateFlavorVersion k now flavorID v prev) (\<lambda>_. owners_kept (Some a) db) db"
proof -
  have "owned a db (fl_chunk f)" using g look_Some [OF f] by simp
  then have "owners_kept (Some a) db db'" if "insert_version r (v_FileHashes v) db = Some db'" "ve_flavor r = flavorID" for r db'
    using only_insert(3) [OF db that(1) _ hs] f that(2) only_kept by blast
  then show ?thesis unfolding wp_def repo_CreateFlavorVersion_def using db by (simp split: option.split)
qed

lemma CreateFlavorVersion_kept:
  assumes db: "db_ok db" and o: "map_order order"
  shows "wp (svc_CreateFlavorVersion E order actor k now flavorID v) (\<lambda>_. owners_kept actor db) db"
proof -
  have "owners_kept (Some a) db (snd (repo_CreateFlavorVersion k now flavorID (v\<lparr>v_FileHashes := snd (version_diff order prevs uploads)\<rparr>) prev db))"
    if "look fl_id (flavors db) flavorID = Some f" "\<forall>f \<in> set (flavors db). fl_id f = flavorID \<longrightarrow> owned a db (fl_chunk f)"
      "cleanFileHashPaths hs = Inr uploads" for a f prev prevs hs uploads
  proof -
    have "set (snd (version_diff order prevs uploads)) \<subseteq> set uploads" by (rule diff_applies(4) [OF o prod.collapse [symmetric] refl refl])
    then have "\<forall>h \<in> set (snd (version_diff order prevs uploads)). confined (h_Path h)" using cleaned(2) [OF that(3)] by blast
    then show ?thesis using repo_version_kept [OF db that(1)] that(2) by (simp add: wp_def)
  qed
  then show ?thesis unfolding svc_CreateFlavorVersion_def wp_steps
    by (intro wp_access [OF db])
      (auto simp: db FlavorResourceDef_def FlavorByID_Inr Let_def case_prod_beta wp_def [of "repo_CreateFlavorVersion _ _ _ _ _"] split: sum.split)
qed

lemma update_version_kept:
  assumes db: "db_ok db" and g: "granted a ResourceTypeFlavorVersion k db"
    and u: "\<And>v. ve_id (u v) = ve_id v \<and> ve_flavor (u v) = ve_flavor v \<and> ve_version (u v) = ve_version v \<and> ve_mc (u v) = ve_mc v"
  shows "owners_kept (Some a) db (update_version k u db)"
proof (cases "look ve_id (versions db) k")
  case None
  then have "update_version k u db = db" unfolding update_version_def by (simp add: look_def find_None_iff map_idI)
  then show ?thesis using db by simp
next
  case (Some v)
  then obtain f where f: "f \<in> set (flavors db)" "fl_id f = ve_flavor v"
    using look_Some [OF Some] db_okD(4) [OF db] by (auto simp: has_iff)
  have "owned a db (fl_chunk f)" using g look_Some [OF Some] f by auto
  moreover have "only_chunk (fl_chunk f) db (update_version k u db)"
    using look_in [OF db_ok_pk(3) [OF db]] Some f rows_unique(1) [OF db] by (intro only_update(3) [OF db u]) fastforce+
  ultimately show ?thesis using only_kept by blast
qed

lemma kept_trans:
  assumes "owners_kept actor a b" "owners_kept actor b c"
  shows "owners_kept actor a c"
proof -
  have "chunk_rows c (ch_id r) = chunk_rows a (ch_id r)" if r: "r \<in> set (chunks a)" "actor \<noteq> Some (ch_owner r)" for r
  proof -
    have 1: "chunk_rows b (ch_id r) = chunk_rows a (ch_id r)" using assms(1) r by (simp add: owners_kept_def)
    then have "r \<in> set (filter (\<lambda>c. ch_id c = ch_id r) (chunks b))" using r(1) by (simp add: chunk_rows_def)
    then show ?thesis using assms(2) r(2) 1 by (simp add: owners_kept_def)
  qed
  moreover have "\<forall>h \<in> set (files c). h \<in> set (files a) \<or> confined (fi_path h)" using assms unfolding owners_kept_def by blast
  ultimately show ?thesis using assms by (simp add: owners_kept_def)
qed

lemma kept_jobs: "owners_kept actor db db' \<Longrightarrow> owners_kept actor db (db'\<lparr>jobs := js\<rparr>)"
  by (simp add: owners_kept_def)

lemma build_steps_kept:
  assumes db: "db_ok db" and g: "granted a ResourceTypeFlavorVersion k db"
  shows "owners_kept (Some a) db (InsertJob k st j db)" "owners_kept (Some a) db (MarkFlavorVersionFilesUploaded k db)"
    "owners_kept (Some a) db (InsertJob k st j (MarkFlavorVersionFilesUploaded k db))"
    "owners_kept (Some a) db (UpdateFlavorVersionPresignedURLData k date url db)"
proof -
  have i: "owners_kept (Some a) db (InsertJob k st j db)" if "db_ok db" "granted a ResourceTypeFlavorVersion k db" for db
    unfolding InsertJob_def UpdateFlavorVersionBuildStatus_def by (intro kept_jobs update_version_kept that) simp
  then show "owners_kept (Some a) db (InsertJob k st j db)" using db g by blast
  show m: "owners_kept (Some a) db (MarkFlavorVersionFilesUploaded k db)"
    unfolding MarkFlavorVersionFilesUploaded_def by (rule update_version_kept [OF db g]) simp
  show "owners_kept (Some a) db (UpdateFlavorVersionPresignedURLData k date url db)"
    unfolding UpdateFlavorVersionPresignedURLData_def by (rule update_version_kept [OF db g]) simp
  have "granted a ResourceTypeFlavorVersion k (MarkFlavorVersionFilesUploaded k db)"
    using g by (simp add: MarkFlavorVersionFilesUploaded_def update_version_def owned_def ball_Un) blast
  then show "owners_kept (Some a) db (InsertJob k st j (MarkFlavorVersionFilesUploaded k db))"
    by (intro kept_trans [OF m] i) (use m in \<open>simp_all add: owners_kept_def\<close>)
qed

lemma BuildFlavorVersion_kept:
  assumes db: "db_ok (snd st0)"
  shows "wp (svc_BuildFlavorVersion E actor k) (\<lambda>_ st. owners_kept actor (snd st0) (snd st)) st0"
  unfolding svc_BuildFlavorVersion_def wp_steps wp_lifts
  using build_steps_kept [OF db]
  by (intro wp_access [OF db]) (simp_all add: db FlavorVersionResourceDef_def split: sum.split option.split)

lemma GetUploadURL_kept:
  assumes db: "db_ok (snd st0)"
  shows "wp (svc_GetUploadURL E actor now k h n) (\<lambda>_ st. owners_kept actor (snd st0) (snd st)) st0"
  unfolding svc_GetUploadURL_def upload_link_def wp_steps wp_lifts
  using build_steps_kept(4) [OF db]
  by (intro wp_access [OF db]) (simp_all add: db FlavorVersionResourceDef_def case_prod_beta split: sum.split option.split)

lemma UpdateThumbnail_kept:
  assumes db: "db_ok (snd st0)" and o: "orders_ok ord"
  shows "wp (svc_UpdateThumbnail E ord actor k bytes) (\<lambda>_ st. owners_kept actor (snd st0) (snd st)) st0"
proof -
  have "owners_kept (Some a) (snd st0) (repo_UpdateThumbnail k h (snd st0))" if "owned a (snd st0) k" for a h
    unfolding repo_UpdateThumbnail_def by (rule update_chunk_kept [OF db that]) simp
  then show ?thesis unfolding svc_UpdateThumbnail_def wp_steps wp_lifts
    by (intro wp_access [OF db]) (simp_all add: db ChunkResourceDef_def split: sum.split prod.split)
qed

definition call_ok :: "call \<Rightarrow> bool" where
  "call_ok cl \<longleftrightarrow> orders_ok (call_orders cl) \<and> map_order (hash_order cl)"

lemma serve_kept:
  assumes db: "db_ok (snd st)" and "call_ok cl"
  shows "wp (serve E cl actor req) (\<lambda>_ st'. owners_kept actor (snd st) (snd st')) st"
proof -
  have o: "orders_ok (call_orders cl)" "map_order (hash_order cl)" using assms(2) by (simp_all add: call_ok_def)
  show ?thesis
    using CreateChunk_kept [OF db] UpdateChunk_kept [OF db o(1)] CreateFlavor_kept [OF db] DeleteFlavor_kept [OF db] DeleteChunk_kept [OF db o(1)]
      CreateFlavorVersion_kept [OF db o(2)] BuildFlavorVersion_kept [OF db] GetUploadURL_kept [OF db] UpdateThumbnail_kept [OF db o(1)]
    by (cases req) (simp_all add: srv_CreateChunk_def srv_GetChunk_def srv_UpdateChunk_def srv_CreateFlavor_def srv_CreateFlavorVersion_def
        srv_BuildFlavorVersion_def srv_GetUploadURL_def srv_GetSupportedMinecraftVersions_def srv_UploadThumbnail_def srv_DeleteFlavor_def
        srv_DeleteChunk_def srv_GetFlavor_def db)
qed

lemma serve_all_kept:
  assumes "db_ok (snd st)" "\<forall>(cl, actor, req) \<in> set reqs. call_ok cl \<and> actor \<noteq> Some u"
  shows "db_ok (snd (serve_all E reqs st)) \<and>
    (\<forall>c \<in> set (chunks (snd st)). ch_owner c = u \<longrightarrow> chunk_rows (snd (serve_all E reqs st)) (ch_id c) = chunk_rows (snd st) (ch_id c)) \<and>
    instances (snd (serve_all E reqs st)) = instances (snd st) \<and>
    (\<forall>h \<in> set (files (snd (serve_all E reqs st))). h \<in> set (files (snd st)) \<or> confined (fi_path h))"
  using assms
proof (induction reqs arbitrary: st)
  case (Cons x reqs)
  obtain cl actor req where x: "x = (cl, actor, req)" by (cases x)
  let ?st = "snd (serve E cl actor req st)"
  have k: "owners_kept actor (snd st) (snd ?st)" and a: "actor \<noteq> Some u"
    using serve_kept [OF Cons.prems(1), of cl E actor req] Cons.prems(2) by (auto simp: x wp_def)
  have c: "chunk_rows (snd ?st) (ch_id c) = chunk_rows (snd st) (ch_id c) \<and> c \<in> set (chunks (snd ?st))"
    if "c \<in> set (chunks (snd st))" "ch_owner c = u" for c
  proof -
    have 1: "chunk_rows (snd ?st) (ch_id c) = chunk_rows (snd st) (ch_id c)" using k a that by (simp add: owners_kept_def)
    then have "c \<in> set (filter (\<lambda>r. ch_id r = ch_id c) (chunks (snd ?st)))" using that(1) by (simp add: chunk_rows_def)
    then show ?thesis using 1 by simp
  qed
  have ih: "db_ok (snd (serve_all E reqs ?st)) \<and>
    (\<forall>c \<in> set (chunks (snd ?st)). ch_owner c = u \<longrightarrow> chunk_rows (snd (serve_all E reqs ?st)) (ch_id c) = chunk_rows (snd ?st) (ch_id c)) \<and>
    instances (snd (serve_all E reqs ?st)) = instances (snd ?st) \<and>
    (\<forall>h \<in> set (files (snd (serve_all E reqs ?st))). h \<in> set (files (snd ?st)) \<or> confined (fi_path h))"
    using k Cons.prems(2) by (intro Cons.IH) (auto simp: x owners_kept_def)
  show ?case unfolding x serve_all.simps
  proof (intro conjI)
    show "instances (snd (serve_all E reqs ?st)) = instances (snd st)" using ih k by (simp add: owners_kept_def)
    show "\<forall>h \<in> set (files (snd (serve_all E reqs ?st))). h \<in> set (files (snd st)) \<or> confined (fi_path h)"
      using ih k unfolding owners_kept_def by blast
  qed (use ih c in auto)
qed simp

text \<open>The row of a new version.\<close>

definition fresh_version :: "string \<Rightarrow> string \<Rightarrow> nat \<Rightarrow> FlavorVersion \<Rightarrow> string \<Rightarrow> version_row" where
  "fresh_version k flavorID now v prev =
     \<lparr>ve_id = k, ve_flavor = flavorID, ve_hash = v_Hash v, ve_status = ''PENDING'', ve_version = v_Version v,
      ve_uploaded = False, ve_prev = (if prev \<noteq> [] then Some prev else None), ve_created = now, ve_expiry = None, ve_url = None,
      ve_mc = v_MinecraftVersion v, ve_min = v_MinPlayers v, ve_max = v_MaxPlayers v\<rparr>"

lemma repo_version:
  "repo_CreateFlavorVersion k now flavorID v prev db =
     (case insert_version (fresh_version k flavorID now v prev) (v_FileHashes v) db of
        None \<Rightarrow> (Inl ErrDatabase, db) | Some db' \<Rightarrow> (Inr (v\<lparr>v_ID := k, v_CreatedAt := now\<rparr>), db'))"
  by (simp add: repo_CreateFlavorVersion_def fresh_version_def)

definition version_made ::
  "'w chunk_svc \<Rightarrow> ((string \<rightharpoonup> Hash) \<Rightarrow> string list) \<Rightarrow> string option \<Rightarrow> string \<Rightarrow> nat \<Rightarrow> string \<Rightarrow> FlavorVersion \<Rightarrow> cp_db \<Rightarrow>
   FlavorVersion \<Rightarrow> FlavorVersionDiff \<Rightarrow> cp_db \<Rightarrow> bool" where
  "version_made E order actor k now flavorID version db v d db' \<longleftrightarrow>
     (\<exists>a f uploads hs. actor = Some a \<and> granted a ResourceTypeFlavor flavorID db \<and> look fl_id (flavors db) flavorID = Some f \<and>
        fl_deleted f = None \<and> \<not> FlavorVersionExists flavorID (v_Version version) db \<and>
        cleanFileHashPaths (v_FileHashes version) = Inr uploads \<and> merkle_root E (map h_Hash uploads) = Some (v_Hash version) \<and>
        version_diff order (v_FileHashes (LatestFlavorVersion flavorID db)) uploads = (d, hs) \<and> v_ID v = k \<and>
        insert_version (fresh_version k flavorID now version (v_ID (LatestFlavorVersion flavorID db))) hs db = Some db')"

lemma version_result:
  assumes db: "db_ok db"
  shows "wp (svc_CreateFlavorVersion E order actor k now flavorID version)
    (\<lambda>r db'. case r of Inl _ \<Rightarrow> db' = db | Inr (v, d) \<Rightarrow> version_made E order actor k now flavorID version db v d db') db"
proof -
  have fv: "fresh_version k flavorID now (version\<lparr>v_FileHashes := hs\<rparr>) prev = fresh_version k flavorID now version prev" for hs prev
    by (simp add: fresh_version_def)
  show ?thesis unfolding svc_CreateFlavorVersion_def wp_steps
    by (rule wp_access [OF db])
      (auto simp: FlavorResourceDef_def FlavorByID_Inr HashTree_def repo_version fv version_made_def wp_def [of "repo_CreateFlavorVersion _ _ _ _ _"]
        split: sum.split option.split prod.split)
qed

text \<open>What was inserted is what is read.\<close>

lemma inserted_version:
  assumes "db_ok db" "insert_version v hs db = Some db'"
  shows "look ve_id (versions db') (ve_id v) = Some v" "map hash_domain (version_files db' (ve_id v)) = hs"
proof -
  have n: "look ve_id (versions db) (ve_id v) = None" using assms(2) by (simp add: insert_Some look_has)
  then show "look ve_id (versions db') (ve_id v) = Some v" using assms(2) by (auto simp: insert_Some look_append)
  have "fi_version h \<noteq> ve_id v" if "h \<in> set (files db)" for h
    using db_okD(8) [OF assms(1) that] n by (auto simp: look_has)
  then have "filter (\<lambda>h. fi_version h = ve_id v) (files db) = []" by (simp add: filter_empty_conv)
  moreover have "files db' = files db @ map (\<lambda>h. \<lparr>fi_version = ve_id v, fi_hash = h_Hash h, fi_path = h_Path h\<rparr>) hs"
    using assms(2) by (simp add: insert_Some)
  ultimately show "map hash_domain (version_files db' (ve_id v)) = hs"
    by (simp add: version_files_def filter_map o_def hash_domain_def map_idI)
qed

section \<open>A small service\<close>

text \<open>An object store in memory.\<close>

definition mem_s3 :: "(string \<rightharpoonup> string) s3_api" where
  "mem_s3 = \<lparr>HeadObject = \<lambda>key w. (Some (w key \<noteq> None), w), GetObject = \<lambda>key w. (w key, w),
     UploadObject = \<lambda>key bytes w. (True, w(key \<mapsto> bytes)), PresignPutObject = \<lambda>key h n expiry w. (Some (''url'', 1), w)\<rparr>"

definition sample_svc :: "(string \<rightharpoonup> string) chunk_svc" where
  "sample_svc = \<lparr>s3Store = mem_s3, DecodeConfig = \<lambda>_. Inr (512, 512), xxh3_hex = \<lambda>bytes. bytes,
     merkle_root = \<lambda>hs. if hs = [] then None else Some (concat hs),
     svc_cfg = \<lparr>cfg_Registry = ''r'', PresignedURLExpiry = 60, ThumbnailMaxSizeKB = 100, ChangesetTarballMaxSizeBytes = 1000\<rparr>\<rparr>"

definition sample_call :: call where
  "sample_call = \<lparr>new_id = ''w'', call_time = 5, call_orders = sample_orders, hash_order = sample_order\<rparr>"

lemma sample_call_ok: "call_ok sample_call"
  by (simp add: call_ok_def sample_call_def sample_orders_ok sample_order_ok)

section \<open>Properties\<close>

text \<open>
  C3. Only its owner changes a chunk: whatever requests others send, in any order, the chunk, its flavors,
  their versions and their files stay in the database as they were, and the constraints of the database hold.
\<close>

theorem others_leave_chunk:
  assumes "db_ok db" "\<forall>(cl, actor, req) \<in> set reqs. call_ok cl \<and> actor \<noteq> Some u" "c \<in> set (chunks db)" "ch_owner c = u"
    and "serve_all E reqs (w, db) = (w', db')"
  shows "chunk_rows db' (ch_id c) = chunk_rows db (ch_id c) \<and> db_ok db' \<and> instances db' = instances db"
  using serve_all_kept [of "(w, db)" reqs u E] assms by simp

theorem others_leave_chunk_witness:
  "chunk_rows (snd (serve_all sample_svc [(sample_call, Some ''x'', DeleteChunkRequest ''c''),
      (sample_call, None, CreateFlavorRequest ''c'' ''own'')] (Map.empty, sample_cp))) ''c'' = chunk_rows sample_cp ''c''"
  using others_leave_chunk [OF sample_cp_ok, of "[(sample_call, Some ''x'', DeleteChunkRequest ''c''),
      (sample_call, None, CreateFlavorRequest ''c'' ''own'')]" "''u''" sample_chunk sample_svc Map.empty]
  by (simp add: sample_call_ok sample_cp_def sample_chunk_def) (metis prod.collapse)

text \<open>
  C23. Whatever requests come, the path of every file in the database names a file below the directory of the server,
  if that holds at the start: none is absolute, none goes up, none is a detour.
\<close>

theorem stored_paths_confined:
  assumes "db_ok db" "\<forall>(cl, actor, req) \<in> set reqs. call_ok cl" "\<forall>h \<in> set (files db). confined (fi_path h)"
    and "serve_all E reqs (w, db) = (w', db')" "h \<in> set (files db')"
  shows "confined (fi_path h)"
proof -
  obtain u where u: "\<forall>(cl, actor, req) \<in> set reqs. actor \<noteq> Some u"
    using ex_new_if_finite [of "(\<lambda>x. the (fst (snd x))) ` set reqs"] by (force simp: infinite_UNIV_listI)
  then have "\<forall>(cl, actor, req) \<in> set reqs. call_ok cl \<and> actor \<noteq> Some u" using assms(2) by fastforce
  then show ?thesis using serve_all_kept [of "(w, db)" reqs u E] assms by auto
qed

theorem stored_paths_confined_witness:
  "list_all (\<lambda>h. confined (fi_path h)) (files (snd (serve_all sample_svc
     [(sample_call, Some ''u'', CreateFlavorVersionRequest ''fl'' ''v2'' ''1.21'' ''h3'' [\<lparr>h_Path = ''x/../y'', h_Hash = ''h3''\<rparr>] 1 8)]
     (Map.empty, sample_cp))))"
proof -
  have "is_name ''a''" "is_name ''b''" by (simp_all add: is_name_def)
  then have "confined ''a''" "confined ''b''" unfolding confined_def by (metis join_with.simps(2) names_simps(1,2) list.distinct(1))+
  then have "\<forall>h \<in> set (files sample_cp). confined (fi_path h)" by (simp add: sample_cp_def)
  from stored_paths_confined [OF sample_cp_ok _ this, of "[(sample_call, Some ''u'',
      CreateFlavorVersionRequest ''fl'' ''v2'' ''1.21'' ''h3'' [\<lparr>h_Path = ''x/../y'', h_Hash = ''h3''\<rparr>] 1 8)]" sample_svc Map.empty]
  show ?thesis by (simp add: sample_call_ok list_all_iff del: serve.simps) (metis prod.collapse)
qed


lemma sample_created:
  "\<exists>resp db'. serve sample_svc sample_call (Some ''u'') (CreateFlavorVersionRequest ''fl'' ''v2'' ''1.21'' ''h3'' [\<lparr>h_Path = ''./y'', h_Hash = ''h3''\<rparr>] 1 8)
     (Map.empty, sample_cp) = (Inr resp, Map.empty, db')"
proof -
  have "cleanFileHashPaths [\<lparr>h_Path = ''./y'', h_Hash = ''h3''\<rparr>] = Inr [\<lparr>h_Path = ''y'', h_Hash = ''h3''\<rparr>]"
    by (simp add: cleanFileHashPaths_def invalid_path_def Clean_def IsAbs_def HasPrefix_def)
  moreover have "access (Some ''u'') (FlavorResourceDef ''fl'') sample_cp = (Inr ''u'', sample_cp)"
    by (simp add: access_def ebind_def ask_def ereturn_def AccessAuthorized_def WithOwnershipRule_def FlavorResourceDef_def evalOwnership_def
        FlavorOwner_def getOwner_def sample_cp_def sample_chunk_def sample_flavor_def)
  moreover obtain f where "FlavorByID ''fl'' sample_cp = Inr f" "f_DeletedAt f = None"
    using that by (auto simp: FlavorByID_Inr sample_cp_look) (simp add: sample_flavor_def)
  moreover have "\<not> FlavorVersionExists ''fl'' ''v2'' sample_cp" "GetMinecraftVersionByVersion ''1.21'' sample_cp = Some ''image''"
    by (simp_all add: FlavorVersionExists_def GetMinecraftVersionByVersion_def sample_cp_def sample_version_def)
  moreover have "fst (repo_CreateFlavorVersion ''w'' 5 ''fl'' v prev sample_cp) = Inr (v\<lparr>v_ID := ''w'', v_CreatedAt := 5\<rparr>)"
    if "v_Version v = ''v2''" "v_MinecraftVersion v = ''1.21''" for v prev
    using that by (simp add: repo_CreateFlavorVersion_def insert_version_def sample_cp_def sample_flavor_def sample_version_def)
  ultimately show ?thesis
    by (simp add: srv_CreateFlavorVersion_def svc_CreateFlavorVersion_def on_db_def reply_def ebind_def ask_def fail_if_def ereturn_def HashTree_def
        case_prod_beta sample_svc_def sample_call_def)
qed


end
