(* ===== verification/Archive.thy ===== *)
theory Archive
  imports Chunk_Server
begin

text \<open>
  The job that archives, \<^verbatim>\<open>worker/archive.go\<close>: over all deleted flavors, in the order Go ranges over the map, it moves to
  the archive the versions that neither have instances nor are being built, then the flavor if no version is left,
  then its chunk if no flavor is left. Shown is what exactly is gone from the tables afterwards.
\<close>

section \<open>The job\<close>

definition CountInstancesByFlavorVersionID :: "string \<Rightarrow> cp_db \<Rightarrow> nat" where
  "CountInstancesByFlavorVersionID k db = length (filter (\<lambda>i. row_version i = k) (instances db))"

definition built :: "string set" where
  "built = {''CHECKPOINT_BUILD_FAILED'', ''IMAGE_BUILD_FAILED'', ''COMPLETED'', ''PENDING''}"

text \<open>The error of a step that fails is logged, and the job goes on with the next.\<close>

definition or_same :: "cp_db \<Rightarrow> cp_db option \<Rightarrow> (cp_error + unit) \<times> cp_db" where
  "or_same db res = (case res of None \<Rightarrow> (Inl ErrDatabase, db) | Some db' \<Rightarrow> (Inr (), db'))"

definition tryArchiveFlavorVersion :: "string \<Rightarrow> FlavorVersion \<Rightarrow> cp_db \<Rightarrow> (cp_error + unit) \<times> cp_db" where
  "tryArchiveFlavorVersion flavorID version db =
     (if CountInstancesByFlavorVersionID (v_ID version) db > 0 then (Inr (), db)
      else if v_BuildStatus version \<notin> built then (Inr (), db)
      else or_same db (ArchiveFlavorVersion flavorID version db))"

definition tryArchiveFlavor :: "string \<Rightarrow> string \<Rightarrow> cp_db \<Rightarrow> (cp_error + unit) \<times> cp_db" where
  "tryArchiveFlavor chunkID flavorID db =
     (case FlavorByID flavorID db of
        Inl e \<Rightarrow> (Inl e, db)
      | Inr f \<Rightarrow>
          let db1 = fold (\<lambda>version db. snd (tryArchiveFlavorVersion flavorID version db)) (f_Versions f) db in
          case FlavorByID flavorID db1 of
            Inl e \<Rightarrow> (Inl e, db1)
          | Inr updated \<Rightarrow> if f_Versions updated \<noteq> [] then (Inr (), db1) else or_same db1 (ArchiveFlavor chunkID f db1))"

definition archive_flavor :: "orders \<Rightarrow> (string \<rightharpoonup> string) \<Rightarrow> string \<Rightarrow> cp_db \<Rightarrow> cp_db" where
  "archive_flavor ord chunk_of flavorID db =
     (let chunkID = the (chunk_of flavorID) in
      case tryArchiveFlavor chunkID flavorID db of
        (Inl e, db) \<Rightarrow> db
      | (Inr _, db) \<Rightarrow>
          (case getChunkByID ord chunkID db of
             Inl e \<Rightarrow> db
           | Inr c \<Rightarrow> if c_Flavors c \<noteq> [] then db else snd (or_same db (ArchiveChunk c db))))"

definition archive_Work :: "orders \<Rightarrow> ((string \<rightharpoonup> string) \<Rightarrow> string list) \<Rightarrow> cp_db \<Rightarrow> cp_db" where
  "archive_Work ord order db =
     (let flavorIDToChunkIDs = AllDeletedFlavors db
      in fold (archive_flavor ord flavorIDToChunkIDs) (order flavorIDToChunkIDs) db)"

section \<open>What is to be archived\<close>

definition idle :: "cp_db \<Rightarrow> version_row \<Rightarrow> bool" where
  "idle db v \<longleftrightarrow> \<not> has row_version (instances db) (ve_id v) \<and> ve_status v \<in> built"

text \<open>The flavors among \<open>D\<close> that have only idle versions, and the chunks that have only such flavors, and at least one.\<close>

definition done_flavor :: "cp_db \<Rightarrow> string set \<Rightarrow> string \<Rightarrow> bool" where
  "done_flavor db D k \<longleftrightarrow> k \<in> D \<and> (\<forall>v \<in> set (flavor_versions db k). idle db v)"

definition done_chunk :: "cp_db \<Rightarrow> string set \<Rightarrow> string \<Rightarrow> bool" where
  "done_chunk db D k \<longleftrightarrow> chunk_flavors db k \<noteq> [] \<and> (\<forall>f \<in> set (chunk_flavors db k). done_flavor db D (fl_id f))"

definition done_version :: "cp_db \<Rightarrow> string set \<Rightarrow> version_row \<Rightarrow> bool" where
  "done_version db D v \<longleftrightarrow> ve_flavor v \<in> D \<and> idle db v"

text \<open>An entry of the archive for a version; the hashes of its files are not in it.\<close>

definition archived_version :: "version_row \<Rightarrow> string \<times> string \<times> FlavorVersion \<Rightarrow> bool" where
  "archived_version v x \<longleftrightarrow> (\<exists>d. x = (ve_id v, ve_flavor v, d) \<and> v_ID d = ve_id v \<and> v_Version d = ve_version v \<and> v_Hash d = ve_hash v \<and>
     v_BuildStatus d = ve_status v \<and> v_FileHashes d = [])"

text \<open>The tables after the flavors \<open>D\<close> were handled, and the chunks of those in \<open>C\<close>.\<close>

definition archived :: "cp_db \<Rightarrow> string set \<Rightarrow> string set \<Rightarrow> cp_db \<Rightarrow> bool" where
  "archived db D C db' \<longleftrightarrow> db_ok db' \<and> nodes db' = nodes db \<and> users db' = users db \<and> instances db' = instances db \<and>
     versions db' = filter (\<lambda>v. \<not> done_version db D v) (versions db) \<and>
     flavors db' = filter (\<lambda>f. \<not> done_flavor db D (fl_id f)) (flavors db) \<and>
     chunks db' = filter (\<lambda>c. \<not> done_chunk db C (ch_id c)) (chunks db) \<and>
     files db' = filter (\<lambda>h. has ve_id (versions db') (fi_version h)) (files db) \<and>
     set (version_archive db) \<subseteq> set (version_archive db') \<and>
     (\<forall>v \<in> set (versions db). done_version db D v \<longrightarrow> (\<exists>x \<in> set (version_archive db'). archived_version v x)) \<and>
     fst ` set (version_archive db') = fst ` set (version_archive db) \<union> ve_id ` {v \<in> set (versions db). done_version db D v} \<and>
     fst ` set (flavor_archive db') = fst ` set (flavor_archive db) \<union> fl_id ` {f \<in> set (flavors db). done_flavor db D (fl_id f)} \<and>
     fst ` set (chunk_archive db') = fst ` set (chunk_archive db) \<union> ch_id ` {c \<in> set (chunks db). done_chunk db C (ch_id c)}"

definition deleted_flavors :: "cp_db \<Rightarrow> string set" where
  "deleted_flavors db = fl_id ` set (filter (\<lambda>f. fl_deleted f \<noteq> None) (flavors db))"

text \<open>What is in the tables is not in the archive.\<close>

definition not_archived :: "cp_db \<Rightarrow> bool" where
  "not_archived db \<longleftrightarrow> (\<forall>v \<in> set (versions db). \<not> has fst (version_archive db) (ve_id v)) \<and>
     (\<forall>f \<in> set (flavors db). \<not> has fst (flavor_archive db) (fl_id f)) \<and> (\<forall>c \<in> set (chunks db). \<not> has fst (chunk_archive db) (ch_id c))"

text \<open>The versions a flavor is read with.\<close>

definition read_version :: "cp_db \<Rightarrow> string \<Rightarrow> version_row \<Rightarrow> FlavorVersion" where
  "read_version db k v = (version_domain v)\<lparr>v_PresignedURLExpiryDate := ve_expiry (hd (flavor_versions db k)),
     v_PresignedURL := ve_url (hd (flavor_versions db k))\<rparr>"

section \<open>A small database with a deleted flavor\<close>

definition sample_deleted :: cp_db where
  "sample_deleted = sample_cp\<lparr>flavors := [sample_flavor\<lparr>fl_deleted := Some 5\<rparr>],
     versions := [sample_version\<lparr>ve_status := ''COMPLETED''\<rparr>, sample_version\<lparr>ve_id := ''w'', ve_version := ''2'', ve_status := ''IMAGE_BUILD''\<rparr>]\<rparr>"

section \<open>Lemmas\<close>

text \<open>The versions of one flavor: those that are idle go.\<close>

lemma fold_versions:
  assumes "db_ok db" "distinct (map v_ID vs)" "\<forall>v \<in> set vs. \<not> has fst (version_archive db) (v_ID v)"
  defines "gone \<equiv> filter (\<lambda>v. \<not> has row_version (instances db) (v_ID v) \<and> v_BuildStatus v \<in> built) vs"
  shows "fold (\<lambda>version db. snd (tryArchiveFlavorVersion k version db)) vs db =
    db\<lparr>versions := filter (\<lambda>v. ve_id v \<notin> v_ID ` set gone) (versions db), files := filter (\<lambda>h. fi_version h \<notin> v_ID ` set gone) (files db),
      version_archive := version_archive db @ map (\<lambda>v. (v_ID v, k, v)) gone\<rparr>"
  using assms(2,3) unfolding gone_def
proof (induction vs arbitrary: db)
  case (Cons v vs)
  have c: "CountInstancesByFlavorVersionID (v_ID v) db > 0 \<longleftrightarrow> has row_version (instances db) (v_ID v)"
    by (auto simp: CountInstancesByFlavorVersionID_def filter_empty_conv has_iff)
  show ?case
  proof (cases "\<not> has row_version (instances db) (v_ID v) \<and> v_BuildStatus v \<in> built")
    case True
    let ?db = "db\<lparr>versions := filter (\<lambda>r. ve_id r \<noteq> v_ID v) (versions db), files := filter (\<lambda>h. fi_version h \<noteq> v_ID v) (files db),
      version_archive := version_archive db @ [(v_ID v, k, v)]\<rparr>"
    have "snd (tryArchiveFlavorVersion k v db) = ?db" using True c Cons.prems(2)
      by (simp add: tryArchiveFlavorVersion_def ArchiveFlavorVersion_def delete_version_def or_same_def)
    moreover have "\<forall>w \<in> set vs. \<not> has fst (version_archive ?db) (v_ID w)" using Cons.prems by auto
    ultimately show ?thesis using Cons.IH [of ?db] Cons.prems(1) True by (simp add: conj_commute)
  next
    case False
    then have "snd (tryArchiveFlavorVersion k v db) = db" using c by (auto simp: tryArchiveFlavorVersion_def)
    then show ?thesis using Cons.IH [of db] Cons.prems False by auto
  qed
qed simp

lemma archive_ok:
  assumes "db_ok db"
  shows "ArchiveFlavorVersion k v db = Some db' \<Longrightarrow> db_ok db'" "ArchiveFlavor k f db = Some db' \<Longrightarrow> db_ok db'"
    "ArchiveChunk c db = Some db' \<Longrightarrow> db_ok db'"
proof -
  have "db_ok (db\<lparr>version_archive := version_archive db @ [(i, x)]\<rparr>)" if "\<not> has fst (version_archive db) i" for i x
    using assms that by (auto simp: db_ok_defs has_def)
  then show "ArchiveFlavorVersion k v db = Some db' \<Longrightarrow> db_ok db'"
    unfolding ArchiveFlavorVersion_def using delete_ok(1) by (metis option.distinct(1))
  have "db_ok (db\<lparr>flavor_archive := flavor_archive db @ [(i, x)]\<rparr>)" if "\<not> has fst (flavor_archive db) i" for i x
    using assms that by (auto simp: db_ok_defs has_def)
  then show "ArchiveFlavor k f db = Some db' \<Longrightarrow> db_ok db'"
    unfolding ArchiveFlavor_def using delete_ok(2) by (metis option.distinct(1))
  have "db_ok (db\<lparr>chunk_archive := chunk_archive db @ [(i, x)]\<rparr>)" if "\<not> has fst (chunk_archive db) i" for i x
    using assms that by (auto simp: db_ok_defs has_def)
  then show "ArchiveChunk c db = Some db' \<Longrightarrow> db_ok db'"
    unfolding ArchiveChunk_def using delete_ok(3) by (metis option.distinct(1))
qed

lemma fold_versions_ok: "db_ok db \<Longrightarrow> db_ok (fold (\<lambda>version db. snd (tryArchiveFlavorVersion k version db)) vs db)"
proof (induction vs arbitrary: db)
  case (Cons v vs)
  have "db_ok (snd (tryArchiveFlavorVersion k v db))"
    using Cons.prems archive_ok(1) [OF Cons.prems] by (auto simp: tryArchiveFlavorVersion_def or_same_def split: option.split)
  then show ?case using Cons.IH by simp
qed simp

lemma read_version_sel [simp]: "v_ID (read_version db k v) = ve_id v" "v_BuildStatus (read_version db k v) = ve_status v"
  "v_Version (read_version db k v) = ve_version v" "v_Hash (read_version db k v) = ve_hash v" "v_FileHashes (read_version db k v) = []"
  by (simp_all add: read_version_def version_domain_def)

lemma read_flavor:
  assumes "db_ok db" "f \<in> set (flavors db)" "fl_id f = k"
  obtains F where "FlavorByID k db = Inr F" "f_ID F = k" "set (f_Versions F) = read_version db k ` set (flavor_versions db k)"
    "distinct (map v_ID (f_Versions F))"
proof -
  have l: "look fl_id (flavors db) k = Some f" using look_in [OF db_ok_pk(2) [OF assms(1)] assms(2)] assms(3) by simp
  let ?F = "(flavor_domain f)\<lparr>f_Versions := latest_first v_CreatedAt (map (read_version db k) (flavor_versions db k))\<rparr>"
  have "distinct (map ve_id (flavor_versions db k))" using db_ok_pk(3) [OF assms(1)] by (simp add: flavor_versions_def distinct_map_filter)
  then have "distinct (map v_ID (map (read_version db k) (flavor_versions db k)))" by (simp add: o_def)
  then have "distinct (map v_ID (f_Versions ?F))"
    using mset_eq_imp_distinct_iff [of "map v_ID (f_Versions ?F)" "map v_ID (map (read_version db k) (flavor_versions db k))"]
    by (simp add: image_mset.compositionality)
  then show thesis using assms(3) l by (intro that [of ?F]) (simp_all add: FlavorByID_Inr read_version_def [abs_def])
qed

lemma done_insert:
  "i \<notin> D \<Longrightarrow> done_version db (insert i D) v \<longleftrightarrow> done_version db D v \<or> ve_flavor v = i \<and> idle db v"
  "done_flavor db (insert i D) k \<longleftrightarrow> done_flavor db D k \<or> k = i \<and> (\<forall>v \<in> set (flavor_versions db i). idle db v)"
  by (auto simp: done_version_def done_flavor_def)

lemma archived_fresh:
  assumes "db_ok db" "not_archived db" "archived db D C db1" "w \<in> set (versions db)" "ve_flavor w \<notin> D"
  shows "ve_id w \<notin> fst ` set (version_archive db1)"
proof -
  have "fst ` set (version_archive db1) = fst ` set (version_archive db) \<union> ve_id ` {v \<in> set (versions db). done_version db D v}"
    using assms(3) by (simp add: archived_def)
  moreover have "ve_id w \<notin> fst ` set (version_archive db)" using assms(2,4) by (simp add: not_archived_def has_def)
  moreover have "ve_id w \<notin> ve_id ` {v \<in> set (versions db). done_version db D v}"
    using rows_unique(2) [OF assms(1)] assms(4,5) by (auto simp: done_version_def)
  ultimately show ?thesis by simp
qed

lemma fold_archived:
  assumes db: "db_ok db" "not_archived db" and a: "archived db D C db1" and f: "f \<in> set (flavors db)" "fl_id f = i" "i \<notin> D"
    and F: "FlavorByID i db1 = Inr F"
  obtains gone where "set gone = read_version db1 i ` {v \<in> set (flavor_versions db i). idle db v}"
    "fold (\<lambda>version db. snd (tryArchiveFlavorVersion i version db)) (f_Versions F) db1 =
      db1\<lparr>versions := filter (\<lambda>v. ve_id v \<notin> v_ID ` set gone) (versions db1), files := filter (\<lambda>h. fi_version h \<notin> v_ID ` set gone) (files db1),
        version_archive := version_archive db1 @ map (\<lambda>v. (v_ID v, i, v)) gone\<rparr>"
proof -
  have ok1: "db_ok db1" using a by (simp add: archived_def)
  have f1: "f \<in> set (flavors db1)" using a f by (auto simp: archived_def done_flavor_def)
  obtain F' where F': "FlavorByID i db1 = Inr F'" "set (f_Versions F') = read_version db1 i ` set (flavor_versions db1 i)"
    "distinct (map v_ID (f_Versions F'))" using read_flavor [OF ok1 f1 f(2)] by metis
  have [simp]: "F' = F" using F F'(1) by simp
  have vs: "flavor_versions db1 i = flavor_versions db i"
    using a f(3) by (auto simp: archived_def flavor_versions_def done_version_def intro: filter_cong)
  have ins: "instances db1 = instances db" using a by (simp add: archived_def)
  let ?g = "filter (\<lambda>v. \<not> has row_version (instances db1) (v_ID v) \<and> v_BuildStatus v \<in> built) (f_Versions F)"
  have "set ?g = read_version db1 i ` {v \<in> set (flavor_versions db i). idle db v}" using F'(2) by (auto simp: vs idle_def ins)
  moreover have "\<forall>v \<in> set (f_Versions F). \<not> has fst (version_archive db1) (v_ID v)"
  proof -
    have "ve_id w \<notin> fst ` set (version_archive db1)" if "w \<in> set (flavor_versions db i)" for w
      using archived_fresh [OF db a] in_flavors(2,3) [OF that] f(3) by blast
    then show ?thesis using F'(2) by (simp add: vs has_def)
  qed
  ultimately show thesis using that fold_versions [OF ok1 F'(3) [simplified], of i] by blast
qed

lemma archived_versions:
  assumes db: "db_ok db" "not_archived db" and a: "archived db D C db1" and f: "f \<in> set (flavors db)" "fl_id f = i" "i \<notin> D"
    and F: "FlavorByID i db1 = Inr F"
    and db2: "db2 = fold (\<lambda>version db. snd (tryArchiveFlavorVersion i version db)) (f_Versions F) db1"
  shows "versions db2 = filter (\<lambda>v. \<not> done_version db (insert i D) v) (versions db)"
    "files db2 = filter (\<lambda>h. has ve_id (versions db2) (fi_version h)) (files db)"
    "set (version_archive db) \<subseteq> set (version_archive db2)"
    "\<forall>v \<in> set (versions db). done_version db (insert i D) v \<longrightarrow> (\<exists>x \<in> set (version_archive db2). archived_version v x)"
    "fst ` set (version_archive db2) = fst ` set (version_archive db) \<union> ve_id ` {v \<in> set (versions db). done_version db (insert i D) v}"
    "\<exists>x y z. db2 = db1\<lparr>versions := x, files := y, version_archive := z\<rparr>"
proof -
  let ?vs = "flavor_versions db i"
  obtain gone where g: "set gone = read_version db1 i ` {v \<in> set ?vs. idle db v}"
    and e: "db2 = db1\<lparr>versions := filter (\<lambda>v. ve_id v \<notin> v_ID ` set gone) (versions db1), files := filter (\<lambda>h. fi_version h \<notin> v_ID ` set gone) (files db1),
      version_archive := version_archive db1 @ map (\<lambda>v. (v_ID v, i, v)) gone\<rparr>"
    using fold_archived [OF db a f F] unfolding db2 by blast
  then have gid: "v_ID ` set gone = ve_id ` {v \<in> set ?vs. idle db v}" by (simp add: image_image)
  show "\<exists>x y z. db2 = db1\<lparr>versions := x, files := y, version_archive := z\<rparr>" using e by blast
  have in_g: "ve_id v \<in> v_ID ` set gone \<longleftrightarrow> ve_flavor v = i \<and> idle db v" if "v \<in> set (versions db)" for v
    unfolding gid using that rows_unique(2) [OF db(1)] by (auto simp: flavor_versions_def)
  show v2: "versions db2 = filter (\<lambda>v. \<not> done_version db (insert i D) v) (versions db)"
    using a in_g done_insert(1) [OF f(3), of db] by (auto simp: e archived_def intro!: filter_cong)
  have "has ve_id (versions db1) k \<and> k \<notin> v_ID ` set gone \<longleftrightarrow> has ve_id (versions db2) k" for k
    using has_filter [of ve_id "\<lambda>v. ve_id v \<notin> v_ID ` set gone" "versions db1"] by (auto simp: e has_iff)
  then show "files db2 = filter (\<lambda>h. has ve_id (versions db2) (fi_version h)) (files db)" using a by (auto simp: e archived_def)
  show "set (version_archive db) \<subseteq> set (version_archive db2)" using a by (auto simp: e archived_def)
  have new: "fst ` set (version_archive db2) = fst ` set (version_archive db1) \<union> ve_id ` {v \<in> set ?vs. idle db v}"
    using gid by (simp add: e image_Un image_image)
  show "fst ` set (version_archive db2) = fst ` set (version_archive db) \<union> ve_id ` {v \<in> set (versions db). done_version db (insert i D) v}"
    unfolding new using a done_insert(1) [OF f(3), of db] by (auto simp: archived_def flavor_versions_def)
  have "\<exists>x \<in> set (version_archive db2). archived_version v x" if v: "v \<in> set (versions db)" "done_version db (insert i D) v" for v
  proof (cases "done_version db D v")
    case False
    then have "read_version db1 i v \<in> set gone" "ve_flavor v = i" using v done_insert(1) [OF f(3)] unfolding g by (auto simp: flavor_versions_def)
    then have "(ve_id v, i, read_version db1 i v) \<in> set (version_archive db2)" "archived_version v (ve_id v, i, read_version db1 i v)"
      unfolding e by (simp_all add: archived_version_def image_iff)
    then show ?thesis by blast
  qed (use a v(1) in \<open>auto simp: archived_def e\<close>)
  then show "\<forall>v \<in> set (versions db). done_version db (insert i D) v \<longrightarrow> (\<exists>x \<in> set (version_archive db2). archived_version v x)" by blast
qed

text \<open>One flavor.\<close>

lemma archived_flavor:
  assumes db: "db_ok db" "not_archived db" and a: "archived db D C db1" and f: "f \<in> set (flavors db)" "fl_id f = i" "i \<notin> D"
  obtains db2 where "tryArchiveFlavor k i db1 = (Inr (), db2)" "archived db (insert i D) C db2"
proof -
  have ok1: "db_ok db1" and fl1: "flavors db1 = filter (\<lambda>f. \<not> done_flavor db D (fl_id f)) (flavors db)" using a by (simp_all add: archived_def)
  have f1: "f \<in> set (flavors db1)" using f by (auto simp: fl1 done_flavor_def)
  obtain F where F: "FlavorByID i db1 = Inr F" "f_ID F = i" using read_flavor [OF ok1 f1 f(2)] by metis
  define db2 where "db2 = fold (\<lambda>version db. snd (tryArchiveFlavorVersion i version db)) (f_Versions F) db1"
  note V = archived_versions [OF db a f F(1) db2_def]
  have ok2: "db_ok db2" unfolding db2_def by (rule fold_versions_ok [OF ok1])
  have rest: "nodes db2 = nodes db" "users db2 = users db" "instances db2 = instances db" "flavors db2 = flavors db1" "chunks db2 = chunks db1"
    "flavor_archive db2 = flavor_archive db1" "chunk_archive db2 = chunk_archive db1" using V(6) a by (auto simp: archived_def)
  have vs2: "flavor_versions db2 i = filter (\<lambda>v. \<not> idle db v) (flavor_versions db i)"
    unfolding flavor_versions_def V(1) filter_filter using f(3) by (auto simp: done_version_def intro!: filter_cong)
  obtain U where U: "FlavorByID i db2 = Inr U" "set (f_Versions U) = read_version db2 i ` set (flavor_versions db2 i)"
    using read_flavor [OF ok2 _ f(2)] f1 rest(4) by metis
  have tr: "tryArchiveFlavor k i db1 = (if f_Versions U \<noteq> [] then (Inr (), db2) else or_same db2 (ArchiveFlavor k F db2))"
    using F(1) U(1) by (simp add: tryArchiveFlavor_def Let_def db2_def [symmetric])
  have all: "f_Versions U = [] \<longleftrightarrow> (\<forall>v \<in> set (flavor_versions db i). idle db v)"
    using arg_cong [OF U(2), of "\<lambda>A. A = {}"] unfolding vs2 by auto
  show thesis
  proof (cases "f_Versions U = []")
    case False
    then have "done_flavor db (insert i D) x \<longleftrightarrow> done_flavor db D x" for x using all unfolding done_insert(2) by blast
    then have "archived db (insert i D) C db2" using a V(1-5) ok2 rest fl1 by (simp add: archived_def)
    then show thesis using that tr False by simp
  next
    case True
    then have d: "done_flavor db (insert i D) x \<longleftrightarrow> done_flavor db D x \<or> x = i" for x using all unfolding done_insert(2) by blast
    have n: "\<not> has fst (flavor_archive db2) i"
      using a db(2) f by (auto simp: rest archived_def not_archived_def has_def done_flavor_def)
    have no: "filter (\<lambda>v. ve_flavor v = i) (versions db2) = []" using vs2 True all by (auto simp: flavor_versions_def filter_empty_conv)
    let ?db3 = "db2\<lparr>flavor_archive := flavor_archive db2 @ [(i, k, F)], flavors := filter (\<lambda>f. fl_id f \<noteq> i) (flavors db2)\<rparr>"
    have "filter (\<lambda>v. ve_flavor v \<noteq> i) (versions db2) = versions db2" using no by (simp add: filter_empty_conv filter_id_conv)
    then have A: "ArchiveFlavor k F db2 = Some ?db3" using n no F(2) by (simp add: ArchiveFlavor_def delete_flavor_def list_ex_iff)
    have "filter (\<lambda>f. fl_id f \<noteq> i) (flavors db2) = filter (\<lambda>f. \<not> done_flavor db (insert i D) (fl_id f)) (flavors db)"
      by (auto simp: rest fl1 d intro!: filter_cong)
    moreover have "fst ` set (flavor_archive ?db3) = fst ` set (flavor_archive db) \<union> fl_id ` {f \<in> set (flavors db). done_flavor db (insert i D) (fl_id f)}"
      using a f(1,2) by (auto simp: rest archived_def d)
    ultimately have "archived db (insert i D) C ?db3" using a V(1-5) archive_ok(2) [OF ok2 A] rest by (simp add: archived_def)
    then show thesis using that tr True A by (simp add: or_same_def)
  qed
qed

text \<open>The chunk of a flavor that was handled.\<close>

lemma archived_chunk:
  assumes db: "db_ok db" "not_archived db" "orders_ok ord" and a: "archived db (insert i D) D db2"
    and f: "f \<in> set (flavors db)" "fl_id f = i" "fl_chunk f = k" "i \<notin> D"
  obtains c where "getChunkByID ord k db2 = Inr c"
    "archived db (insert i D) (insert i D) (if c_Flavors c \<noteq> [] then db2 else snd (or_same db2 (ArchiveChunk c db2)))"
proof -
  have ok2: "db_ok db2" and ch2: "chunks db2 = filter (\<lambda>c. \<not> done_chunk db D (ch_id c)) (chunks db)"
    and fl2: "flavors db2 = filter (\<lambda>f. \<not> done_flavor db (insert i D) (fl_id f)) (flavors db)" using a by (simp_all add: archived_def)
  have fk: "f \<in> set (chunk_flavors db k)" using f by (simp add: chunk_flavors_def)
  have nk: "\<not> done_chunk db D k" using fk f(2,4) by (auto simp: done_chunk_def done_flavor_def)
  have dk: "done_chunk db (insert i D) x \<longleftrightarrow> (if x = k then chunk_flavors db2 k = [] else done_chunk db D x)" for x
  proof (cases "x = k")
    case True
    then show ?thesis using fk by (auto simp: done_chunk_def chunk_flavors_def fl2 filter_empty_conv)
  next
    case False
    then have "fl_id g \<noteq> i" if "g \<in> set (chunk_flavors db x)" for g
      using that rows_unique(1) [OF db(1) f(1), of g] f(2,3) unfolding chunk_flavors_def by fastforce
    then have "done_flavor db (insert i D) (fl_id g) \<longleftrightarrow> done_flavor db D (fl_id g)" if "g \<in> set (chunk_flavors db x)" for g
      using that by (simp add: done_flavor_def)
    then show ?thesis using False by (simp add: done_chunk_def cong: ball_cong)
  qed
  obtain r0 where r0: "r0 \<in> set (chunks db)" "ch_id r0 = k" using db(1) f(1,3) by (auto simp: db_ok_defs has_def)
  then have "k \<in> ch_id ` set (chunks db2)" using nk by (auto simp: ch2)
  then obtain r where r: "look ch_id (chunks db2) k = Some r" using look_Some_ex by metis
  obtain c where c: "getChunkByID ord k db2 = Inr c" "chunk_tree (\<lambda>_. True) db2 r c" using getChunk_tree(2) [OF ok2 db(3) r] by blast
  have rk: "ch_id r = k" using look_Some [OF r] by simp
  then have ck: "c_ID c = k" using c(2) by (simp add: chunk_tree_def)
  have e: "c_Flavors c = [] \<longleftrightarrow> chunk_flavors db2 k = []" using tree_flavor_ids(2) [OF c(2)] rk by simp
  show thesis
  proof (cases "c_Flavors c = []")
    case False
    then have "done_chunk db (insert i D) x \<longleftrightarrow> done_chunk db D x" for x using nk e dk by simp
    then show thesis using that c(1) a False by (simp add: archived_def)
  next
    case True
    then have d: "done_chunk db (insert i D) x \<longleftrightarrow> done_chunk db D x \<or> x = k" for x using e dk by simp
    have n: "\<not> has fst (chunk_archive db2) k" using a db(2) r0 nk by (auto simp: archived_def not_archived_def has_def)
    let ?db3 = "db2\<lparr>chunk_archive := chunk_archive db2 @ [(k, c)], chunks := filter (\<lambda>c. ch_id c \<noteq> k) (chunks db2)\<rparr>"
    have "\<not> has fl_chunk (flavors db2) k" using True e by (auto simp: chunk_flavors_def filter_empty_conv has_def)
    then have A: "ArchiveChunk c db2 = Some ?db3" using n ck by (simp add: ArchiveChunk_def delete_chunk_def)
    have "filter (\<lambda>c. ch_id c \<noteq> k) (chunks db2) = filter (\<lambda>c. \<not> done_chunk db (insert i D) (ch_id c)) (chunks db)"
      by (auto simp: ch2 d intro!: filter_cong)
    moreover have "fst ` set (chunk_archive ?db3) = fst ` set (chunk_archive db) \<union> ch_id ` {c \<in> set (chunks db). done_chunk db (insert i D) (ch_id c)}"
      using a r0 by (auto simp: archived_def d)
    ultimately have "archived db (insert i D) (insert i D) ?db3" using a archive_ok(3) [OF ok2 A] by (simp add: archived_def)
    then show thesis using that c(1) True A by (simp add: or_same_def)
  qed
qed

lemma archive_flavor_step:
  assumes db: "db_ok db" "not_archived db" "orders_ok ord" and a: "archived db D D db1" and f: "f \<in> set (flavors db)" "i \<notin> D"
    and m: "m i = Some (fl_chunk f)" "fl_id f = i"
  shows "archived db (insert i D) (insert i D) (archive_flavor ord m i db1)"
proof -
  obtain db2 where 2: "tryArchiveFlavor (fl_chunk f) i db1 = (Inr (), db2)" "archived db (insert i D) D db2"
    by (rule archived_flavor [OF db(1,2) a f(1) m(2) f(2)])
  obtain c where "getChunkByID ord (fl_chunk f) db2 = Inr c"
    "archived db (insert i D) (insert i D) (if c_Flavors c \<noteq> [] then db2 else snd (or_same db2 (ArchiveChunk c db2)))"
    by (rule archived_chunk [OF db 2(2) f(1) m(2) refl f(2)])
  then show ?thesis using 2(1) m(1) by (simp add: archive_flavor_def Let_def)
qed

lemma fold_archive:
  assumes db: "db_ok db" "not_archived db" "orders_ok ord"
    and m: "\<And>i. i \<in> set ks \<Longrightarrow> \<exists>f \<in> set (flavors db). fl_id f = i \<and> m i = Some (fl_chunk f)"
  shows "archived db D D db1 \<Longrightarrow> distinct ks \<Longrightarrow> set ks \<inter> D = {} \<Longrightarrow> archived db (set ks \<union> D) (set ks \<union> D) (fold (archive_flavor ord m) ks db1)"
  using m
proof (induction ks arbitrary: D db1)
  case (Cons i ks)
  obtain f where "f \<in> set (flavors db)" "fl_id f = i" "m i = Some (fl_chunk f)" using Cons.prems(4) [of i] by auto
  then have "archived db (insert i D) (insert i D) (archive_flavor ord m i db1)"
    using archive_flavor_step [OF db Cons.prems(1)] Cons.prems(3) by simp
  then show ?case using Cons.IH [of "insert i D" "archive_flavor ord m i db1"] Cons.prems by simp
qed simp

lemma archived_start: "db_ok db \<Longrightarrow> archived db {} {} db"
  by (auto simp: archived_def done_version_def done_flavor_def done_chunk_def filter_empty_conv db_ok_defs intro!: filter_True [symmetric])

lemma deleted_map:
  assumes "db_ok db"
  shows "dom (AllDeletedFlavors db) = deleted_flavors db"
    and "i \<in> deleted_flavors db \<Longrightarrow> \<exists>f \<in> set (flavors db). fl_id f = i \<and> AllDeletedFlavors db i = Some (fl_chunk f)"
proof -
  let ?fs = "filter (\<lambda>f. fl_deleted f \<noteq> None) (flavors db)"
  have "dom (AllDeletedFlavors db) = dom (map_by fl_id ?fs)" by (auto simp: AllDeletedFlavors_def dom_def)
  then show d: "dom (AllDeletedFlavors db) = deleted_flavors db" by (simp add: dom_map_by deleted_flavors_def)
  assume "i \<in> deleted_flavors db"
  then have "i \<in> dom (AllDeletedFlavors db)" unfolding d .
  then obtain f where f: "map_by fl_id ?fs i = Some f" by (auto simp: AllDeletedFlavors_def)
  moreover have "f \<in> set (flavors db)" "fl_id f = i" using map_by_key [OF f] by simp_all
  ultimately show "\<exists>f \<in> set (flavors db). fl_id f = i \<and> AllDeletedFlavors db i = Some (fl_chunk f)"
    unfolding AllDeletedFlavors_def by (intro bexI [of _ f]) simp_all
qed

section \<open>Properties\<close>

text \<open>
  C27. What the archiving job leaves, whatever order Go ranges over the deleted flavors in: gone are exactly
  the versions of deleted flavors that no instance runs and whose build is not under way, the deleted
  flavors all of whose versions are such, and the chunks that had flavors and lost them all. What is
  gone is in the archive under its id, and nothing else was put there; an archived version lacks only the hashes
  of its files, whose rows are gone with it. Everything else stays as it was, and the constraints hold.
\<close>

theorem archive_exact:
  assumes "db_ok db" "not_archived db" "orders_ok ord" "map_order order"
  shows "archived db (deleted_flavors db) (deleted_flavors db) (archive_Work ord order db)"
proof -
  have "finite (dom (AllDeletedFlavors db))" unfolding deleted_map(1) [OF assms(1)] deleted_flavors_def by simp
  then have o: "distinct (order (AllDeletedFlavors db))" "set (order (AllDeletedFlavors db)) = deleted_flavors db"
    using assms(4) deleted_map(1) [OF assms(1)] by (simp_all add: map_order_def)
  show ?thesis using fold_archive [OF assms(1-3) _ archived_start [OF assms(1)] o(1)] deleted_map(2) [OF assms(1)] o(2)
    by (simp add: archive_Work_def Let_def)
qed

theorem archive_exact_witness:
  "archived sample_deleted {''fl''} {''fl''} (archive_Work sample_orders sample_order sample_deleted) \<and>
   map ve_id (versions (archive_Work sample_orders sample_order sample_deleted)) = [''w'']"
proof -
  have "db_ok sample_deleted" "not_archived sample_deleted" "deleted_flavors sample_deleted = {''fl''}"
    by (simp_all add: db_ok_defs not_archived_def deleted_flavors_def sample_deleted_def sample_cp_def sample_chunk_def sample_flavor_def sample_version_def)
  then have a: "archived sample_deleted {''fl''} {''fl''} (archive_Work sample_orders sample_order sample_deleted)"
    using archive_exact [OF _ _ sample_orders_ok sample_order_ok, of sample_deleted] by simp
  then show ?thesis
    by (simp add: archived_def) (simp add: done_version_def idle_def built_def has_def sample_deleted_def sample_cp_def sample_flavor_def sample_version_def)
qed

end
