(* ===== verification/Spec2Isabelle.thy ===== *)
theory Spec2Isabelle
  imports Dnat Snat Arp Tproxy_Trip Helper_Defs Sock Registry Cni Checkpoint_Service Workload_Pods Servermon Cluster Archive
begin

text \<open>
  \<^bold>\<open>Verification of the Explorer platform.\<close> The control plane (\<^verbatim>\<open>src/controlplane\<close>) keeps what instances are to
  run where; a node runs these Minecraft servers in pods. Three parts of the repository work together on it: the BPF datapath (\<^verbatim>\<open>src/internal/datapath\<close>) that translates and
  diverts packets, the network plugin \<^verbatim>\<open>netglue\<close> (\<^verbatim>\<open>src/cni\<close>) that wires a pod up and fills the maps the
  programs read, and the daemon \<^verbatim>\<open>platformd\<close> (\<^verbatim>\<open>src/platformd\<close>) that allocates host ports, starts and
  removes workloads as the control plane asks, and checkpoints containers.

  \<^bold>\<open>How the parts interact.\<close> The reconciler allocates a port, writes it to the status store and starts the
  workload; the plugin, called by the container runtime during the start, asks for that port and writes
  \<^verbatim>\<open>ptp_dnat_targets\<close>, \<^verbatim>\<open>net_data_map\<close> and \<^verbatim>\<open>veth_pair_map\<close>; a client packet for the port is then
  rewritten by \<^verbatim>\<open>dnat\<close> at the physical interface and redirected into the pod, the server's answer by
  \<^verbatim>\<open>snat\<close> at the pod's host interface, where \<^verbatim>\<open>arp\<close> answers address requests; outgoing connections of the
  pod are diverted to a proxy by \<^verbatim>\<open>ctr_peer_egress\<close>, the answers restored by \<^verbatim>\<open>host_peer_egress\<close>, and the
  proxy learns the original destination with \<^verbatim>\<open>getsockopt\<close>. Before a container is checkpointed, the programs
  of \<^verbatim>\<open>sock.c\<close> block and destroy its connections.

  \<^bold>\<open>Foundations.\<close>
  \<^item> \<open>Prelude\<close>: bytes, reading and writing at offsets, words in memory in either byte order.
  \<^item> \<open>Endian\<close>: the macros of \<^verbatim>\<open>bpf_endian.h\<close>; all variants write network order and undo each other.
  \<^item> \<open>Layout\<close>, \<open>Vmlinux\<close>, \<open>If_Ether\<close>: C struct layout computed from the declarations of \<^verbatim>\<open>vmlinux.h\<close>,
    \<^verbatim>\<open>types.h\<close> and \<^verbatim>\<open>if_ether.h\<close>; alignment, disjointness and the offsets the programs use.
  \<^item> \<open>Checksum\<close>: the Internet checksum as arithmetic modulo 65535 and its incremental update.
  \<^item> \<open>Helper_Defs\<close>: the 211 helper declarations of \<^verbatim>\<open>bpf_helper_defs.h\<close> against \<^verbatim>\<open>enum bpf_func_id\<close>.
  \<^item> \<open>Skb\<close>: packets, bounds-checked direct access (an access outside is None), and the locale \<open>skb_kernel\<close>
    with the documented behaviour of the four packet helpers, interpreted on an executable kernel.
  \<^item> \<open>Bpf_Maps\<close>: the documented behaviour of hash and LRU maps as locales, interpreted on lists.

  \<^bold>\<open>The datapath.\<close>
  \<^item> \<open>Frame\<close>, \<open>Net_Helpers\<close>: Ethernet, IP, TCP and UDP fields, and \<^verbatim>\<open>lib/net_helpers.h\<close>; what rewriting an
    address and a port does to packet and checksums.
  \<^item> \<open>Net_Data\<close>, \<open>Samples\<close>: the map values of \<^verbatim>\<open>lib/net_data.h\<close> with the bytes Go writes, sample packets.
  \<^item> \<open>Dnat\<close>, \<open>Snat\<close>, \<open>Arp\<close>, \<open>Tproxy\<close>: one definition per program (\<^verbatim>\<open>dnat.c\<close>, \<^verbatim>\<open>snat.c\<close>, \<^verbatim>\<open>arp.c\<close>,
    \<^verbatim>\<open>tproxy.c\<close>), from a context to a verdict and the packet afterwards. Shown: the translations and that no
    other byte changes, that no access is out of bounds, and what becomes of the checksums.
  \<^item> \<open>Tproxy_Trip\<close>: sequences of diverted packets and answers over the shared LRU map: the round trip, which
    keys collide, and that answers are never mixed up between different keys.
  \<^item> \<open>Sock\<close>: \<^verbatim>\<open>sock.c\<close> with \<^verbatim>\<open>sock_handler.go\<close>; exactly the right sockets are destroyed, and a step relation
    shows that a blocked container stays without connections.

  \<^bold>\<open>Maps and plugin.\<close>
  \<^item> \<open>Objects\<close>: the map operations of \<^verbatim>\<open>objects.go\<close> with Go's conversions and panics, over the locale
    \<open>datapath_maps\<close>.
  \<^item> \<open>Registry\<close>: the abstract registry of workloads that \<^verbatim>\<open>AddNetData\<close> and \<^verbatim>\<open>DelNetData\<close> refine.
  \<^item> \<open>Cni\<close>: \<^verbatim>\<open>ExecAdd\<close> and \<^verbatim>\<open>ExecDel\<close> of \<^verbatim>\<open>cni.go\<close> with the handler; everything outside the maps is a
    function from calls to replies, and the calls are recorded.

  \<^bold>\<open>The daemon.\<close>
  \<^item> \<open>Port_Allocator\<close>: \<^verbatim>\<open>port_allocator.go\<close> over a random source with the contract of \<^verbatim>\<open>rand.IntN\<close>.
  \<^item> \<open>Status_Store\<close>: \<^verbatim>\<open>platformd/status\<close> on an explicit heap, since statuses are shared by pointer, and the
    locale \<open>status_store\<close> of values its clients rely on.
  \<^item> \<open>Reconciler\<close>: \<^verbatim>\<open>reconciler.go\<close>, client of the two before.
  \<^item> \<open>Checkpoint_Service\<close>: a checkpoint job and garbage collection of \<^verbatim>\<open>checkpoint/service.go\<close>, client of
    port allocator, status store and \<open>Sock\<close>.
  \<^item> \<open>Workload_Service\<close>: the runtime client \<^verbatim>\<open>cri/service.go\<close>, the workload service and its RPC server
    (\<^verbatim>\<open>platformd/workload\<close>) over the container runtime, a parameter.
  \<^item> \<open>Workload_Pods\<close>: what service and reconciler do to the pods of the node, on any runtime with the contract
    \<open>container_runtime\<close>; the contract is interpreted on a runtime that is a list of pods.
  \<^item> \<open>Servermon\<close>: the two loops of \<^verbatim>\<open>servermon/monitor.go\<close> as a step relation over their interleavings.

  \<^bold>\<open>The control plane.\<close>
  \<^item> \<open>Go_Lib\<close>: error steps, strings, paths and maps of Go, with the lemmas on them.
  \<^item> \<open>Resources\<close>: domain types, messages and codecs (\<^verbatim>\<open>internal/resource\<close>, \<^verbatim>\<open>api\<close>).
  \<^item> \<open>Cp_Db\<close>: the tables of \<^verbatim>\<open>postgres/schema.sql\<close> with their keys and the statements of \<^verbatim>\<open>query.sql\<close>; every
    statement keeps the keys.
  \<^item> \<open>Chunk_Repo\<close>: the repositories of chunks, flavors, owners and the archive (\<^verbatim>\<open>postgres\<close>); what is made of the
    rows of a join is the chunk as it is stored.
  \<^item> \<open>Pagination\<close>: \<^verbatim>\<open>controlplane/pagination\<close> and the contract \<open>page_source\<close> of a repository that lists by pages,
    interpreted for chunks here and for instances in the next theory.
  \<^item> \<open>Control_Plane\<close>: the instance service, its server and repository (\<^verbatim>\<open>controlplane/instance\<close>,
    \<^verbatim>\<open>postgres/instance.go\<close>); what running a version does, and a step relation for overlapping requests that place
    instances.
  \<^item> \<open>Chunk_Service\<close>, \<open>Chunk_Server\<close>: access rules, object store, and the service and server for chunks and flavors
    (\<^verbatim>\<open>controlplane/authz\<close>, \<^verbatim>\<open>controlplane/blob\<close>, \<^verbatim>\<open>controlplane/chunk\<close>); only its owner changes a chunk, what a
    new version is, and that stored paths stay below the server's directory.
  \<^item> \<open>Archive\<close>: the job of \<^verbatim>\<open>worker/archive.go\<close>; what exactly it moves to the archive.
  \<^item> \<open>Cluster\<close>: reconciler and control plane together; after a sync they agree, failing instances go away, and one
    call to a node can keep the control plane from removing any.

  This theory puts plugin and programs together: a pod the plugin added is reachable, and the programs at
  its host interface do not disturb each other.

  \<^bold>\<open>Conventions.\<close> A panic of Go and an access out of bounds are the value None (in \<open>Objects\<close> and \<open>Cni\<close>
  an error of its own), errors are values of sum types with the text they are wrapped with, the nested
  texts behind it being left out. Byte order is a parameter of the programs. Loops are
  structurally recursive or have a termination proof (\<^verbatim>\<open>Allocate\<close> by its five tries, \<^verbatim>\<open>ReplaceAll\<close> by the rest of the
  text). Fuel bounds the requests of a client that lists by pages; one more than the number of instances is
  shown to be enough, for chunks as for instances. The database answers every statement, in one transaction at a
  time; identifiers in requests are taken to be of the form the columns have.

  \<^bold>\<open>Not modelled.\<close> Loading, attaching and pinning programs (calls into a library; the plugin model has them as
  calls that may fail), the container runtime behind its API, netlink and address management (parameters),
  and the interleaving of goroutines inside one handler: a handler that holds no lock for its
  whole run is taken to run to its end. The proxy configuration, users and image builds of the control
  plane, the command line tools, and the declarations of \<^verbatim>\<open>vmlinux.h\<close> no program uses are outside the
  development.
\<close>

section \<open>The host interface of a pod\<close>

text \<open>
  Programs at one attach point run in the order they were attached, until one returns something else than
  \<^verbatim>\<open>TC_ACT_UNSPEC\<close>, which is \<^verbatim>\<open>TCX_NEXT\<close>. \<^verbatim>\<open>AttachHostVethBPF\<close> attaches \<^verbatim>\<open>snat\<close> and then
  \<^verbatim>\<open>arp\<close> to the ingress of the host interface.
\<close>

fun tcx_run :: "(skb \<Rightarrow> (tc_verdict \<times> skb) option) list \<Rightarrow> skb \<Rightarrow> (tc_verdict \<times> skb) option" where
  "tcx_run [] s = Some (Act TC_ACT_UNSPEC, s)"
| "tcx_run (prog # progs) s =
     (case prog s of
        None \<Rightarrow> None
      | Some (v, s) \<Rightarrow> if v = Act TC_ACT_UNSPEC then tcx_run progs s else Some (v, s))"

definition host_veth_ingress ::
  "kernel \<Rightarrow> byte_order \<Rightarrow> (u8 \<rightharpoonup> ptp_snat_entry) \<Rightarrow> (u32 \<rightharpoonup> net_data) \<Rightarrow> skb \<Rightarrow> (tc_verdict \<times> skb) option" where
  "host_veth_ingress K bo cfg ndm = tcx_run [snat K bo cfg ndm, arp K bo]"

text \<open>A TCP packet of a client for a port of the host, and one of the server of a pod.\<close>

definition client_packet :: "byte_order \<Rightarrow> u16 \<Rightarrow> skb \<Rightarrow> bool" where
  "client_packet bo port s \<longleftrightarrow> wf_skb s \<and> ETH_HLEN \<le> headlen s \<and> protocol s = ucast (bpf_htons bo True ETH_P_IP) \<and>
     tcp_frame (pkt s) \<and> l4_dport (pkt s) = port"

definition server_packet :: "byte_order \<Rightarrow> u32 \<Rightarrow> skb \<Rightarrow> bool" where
  "server_packet bo a s \<longleftrightarrow> wf_skb s \<and> ETH_HLEN + sizeof struct_iphdr \<le> headlen s \<and>
     protocol s = ucast (bpf_htons bo True ETH_P_IP) \<and> tcp_frame (pkt s) \<and> l4_sport (pkt s) = MC_SERVER_PORT \<and> ip_src (pkt s) = a"

section \<open>Lemmas\<close>

lemma snat_decides:
  "protocol s = ucast (bpf_htons bo True ETH_P_IP) \<Longrightarrow> snat K bo cfg ndm s = Some (v, s') \<Longrightarrow> v \<noteq> Act TC_ACT_UNSPEC"
  by (auto simp: snat_def Let_def TC_ACT_UNSPEC_def TC_ACT_OK_def TC_ACT_SHOT_def split: if_splits option.splits Option.bind_splits)

lemma tcx_snat_first: "tcx_run [snat K bo cfg ndm, prog] s =
    (if protocol s = ucast (bpf_htons bo True ETH_P_IP) then snat K bo cfg ndm s else tcx_run [prog] s)"
proof (cases "protocol s = ucast (bpf_htons bo True ETH_P_IP)")
  case True
  obtain v s' where "snat K bo cfg ndm s = Some (v, s')" using snat_total [of K bo cfg ndm s] by auto
  with True snat_decides [OF True this] show ?thesis by simp
next
  case False
  then show ?thesis by (simp add: snat_other_protocol)
qed

lemma u8_index: "(ucast (ucast (i :: u32) :: u8) :: u32) = i \<longleftrightarrow> unat i < 256"
proof -
  have "unat (ucast (ucast i :: u8) :: u32) = unat i mod 256"
    by (simp add: unsigned_ucast_eq take_bit_eq_mod unat_mod_distrib)
  then show ?thesis by (metis mod_less mod_less_divisor word_unat_eq_iff zero_less_numeral)
qed

lemma mac6_length: "mac6 m = Some m' \<Longrightarrow> length m' = 6"
  by (auto simp: mac6_def split: if_splits)

context skb_kernel
begin

lemma client_packet_delivered:
  assumes "client_packet bo port s" "port \<noteq> 0" "m port = Some tgt" "length (tgt_mac_addr tgt) = 6"
  shows "\<exists>s'. dnat K bo m s = Some (RedirectPeer (ucast (tgt_iface_idx tgt)) 0, s') \<and> eth_dst (pkt s') = tgt_mac_addr tgt \<and>
    ip_dst (pkt s') = tgt_ip_addr tgt \<and> l4_dport (pkt s') = MC_SERVER_PORT"
proof -
  have len: "54 \<le> length (pkt s)" using tcp_frame_length assms(1) by (simp add: client_packet_def)
  obtain s1 s' where "s1 = s\<lparr>pkt := write_at 0 (tgt_mac_addr tgt) (pkt s)\<rparr>"
    "dnat K bo m s = Some (RedirectPeer (ucast (tgt_iface_idx tgt)) 0, s')"
    "nat_rewritten bo 50 30 (bpf_htonl bo False (tgt_ip_addr tgt)) 36 (bpf_htons bo True MC_SERVER_PORT) s1 s'"
    by (rule dnat_tcp [where m = m and tgt = tgt and s = s]) (use assms in \<open>auto simp: client_packet_def ETH_HLEN_def\<close>)
  then show ?thesis using len assms(4)
    by (auto simp: nat_rewritten_def ip_dst_def l4_dport_def eth_dst_def same_outside_field)
qed

lemma server_packet_translated:
  assumes "server_packet bo a s" "ndm a = Some nd" "cfg 0 = Some entry"
  shows "\<exists>s'. host_veth_ingress K bo cfg ndm s = Some (RedirectNeigh (ucast (snat_iface_idx entry)) 0, s') \<and>
    ip_src (pkt s') = snat_ip_addr entry \<and> l4_sport (pkt s') = host_port nd"
proof -
  obtain s' where "snat K bo cfg ndm s = Some (RedirectNeigh (ucast (snat_iface_idx entry)) 0, s')"
    "nat_rewritten bo 50 26 (bpf_htonl bo False (snat_ip_addr entry)) 34 (bpf_htons bo False (host_port nd)) s s'"
    by (rule snat_tcp [where cfg = cfg and ndm = ndm and s = s])
      (use assms in \<open>auto simp: server_packet_def ETH_HLEN_def\<close>)
  then show ?thesis using assms(1)
    by (simp add: host_veth_ingress_def tcx_snat_first nat_rewritten_def ip_src_def l4_sport_def server_packet_def)
qed

end

section \<open>Properties\<close>



text \<open>
  C37. The two programs at the ingress of a host interface do not get into each other's way: every IP packet
  gets the verdict of \<^verbatim>\<open>snat\<close> and every other packet the verdict of \<^verbatim>\<open>arp\<close>, and no packet, however
  short or fragmented in memory, makes either of them access memory outside its linear data.
\<close>

theorem host_veth_ingress_dispatch:
  "host_veth_ingress K bo cfg ndm s =
     (if protocol s = ucast (bpf_htons bo True ETH_P_IP) then snat K bo cfg ndm s else arp K bo s) \<and>
   host_veth_ingress K bo cfg ndm s \<noteq> None"
proof -
  have "tcx_run [arp K bo] s = arp K bo s" by (auto split: option.split)
  then show ?thesis using snat_total [of K bo cfg ndm s] arp_total [of K bo s]
    by (simp add: host_veth_ingress_def tcx_snat_first del: tcx_run.simps)
qed

end
